(* ===== verification/Prelude.thy ===== *)
theory Prelude
  imports Main "HOL-Library.Word" "HOL-Library.AList" "HOL-Library.Code_Target_Nat"
begin

text \<open>
  What the components share: the Go values the sources are written over (bytes, strings, UUIDs,
  instants, durations, maps), the interfaces several components implement (codecs, systems with an
  invariant), and the generic lemmas their proofs use.

  \<^item> A \<open>[]byte\<close> is a list of 8-bit words. A Go \<open>string\<close> is a sequence of bytes as well and is
    modelled by HOL's \<open>string\<close>, whose characters are bytes; \<open>string_of_bytes\<close> and
    \<open>bytes_of_string\<close> are the two conversions.
  \<^item> \<open>uuid.UUID\<close> is \<open>[16]byte\<close>: a type of byte lists of length 16.
  \<^item> A \<open>time.Time\<close> is the integer number of nanoseconds since Go's zero time, so \<open>IsZero\<close> is
    equality with 0; a \<open>time.Duration\<close> is an integer number of nanoseconds.
  \<^item> A Go map is an association list with distinct keys. The order of the list stands for the order
    in which a \<open>range\<close> statement visits the map, which Go leaves open: the theorems quantify over
    every such list.
\<close>

section \<open>Collections of facts\<close>

named_theorems go_map_simps \<open>lookups in updated Go maps\<close>
named_theorems handler_defs \<open>definitions of the handlers of a component\<close>

section \<open>Bytes and strings\<close>

type_synonym byte = "8 word"
type_synonym bytes = "byte list"

definition char_of_byte :: "byte \<Rightarrow> char" where
  "char_of_byte b = char_of (unat b)"

definition byte_of_char :: "char \<Rightarrow> byte" where
  "byte_of_char c = word_of_nat (of_char c)"

definition string_of_bytes :: "bytes \<Rightarrow> string" where
  "string_of_bytes = map char_of_byte"

definition bytes_of_string :: "string \<Rightarrow> bytes" where
  "bytes_of_string = map byte_of_char"

lemma unat_byte_less: "unat (b :: byte) < 256"
proof -
  have "unat b < 2 ^ LENGTH(8)" by (rule unsigned_less)
  then show ?thesis by simp
qed

lemma byte_of_char_of_byte [simp]: "byte_of_char (char_of_byte b) = b"
  using unat_byte_less [of b] by (simp add: byte_of_char_def char_of_byte_def)

lemma char_of_byte_of_char [simp]: "char_of_byte (byte_of_char c) = c"
proof -
  have "(of_char c :: nat) < 256"
    by simp
  then have "unat (word_of_nat (of_char c) :: byte) = of_char c"
    by (simp add: unat_of_nat)
  then show ?thesis
    by (simp add: byte_of_char_def char_of_byte_def)
qed

lemma bytes_of_string_of_bytes [simp]: "bytes_of_string (string_of_bytes bs) = bs"
  by (simp add: bytes_of_string_def string_of_bytes_def map_idI)

lemma string_of_bytes_of_string [simp]: "string_of_bytes (bytes_of_string s) = s"
  by (simp add: bytes_of_string_def string_of_bytes_def map_idI)

lemma length_bytes_of_string [simp]: "length (bytes_of_string s) = length s"
  by (simp add: bytes_of_string_def)

lemma length_string_of_bytes [simp]: "length (string_of_bytes bs) = length bs"
  by (simp add: string_of_bytes_def)

section \<open>UUIDs\<close>

text \<open>
  \<open>uuid_of_bytes\<close> is what \<open>copy(id[:], src)\<close> leaves in a zeroed UUID: the first 16 bytes of the
  source, the rest zero.
\<close>

typedef uuid = "{bs :: bytes. length bs = 16}" morphisms uuid_bytes Abs_uuid
  by (rule exI [of _ "replicate 16 0"]) simp

definition uuid_of_bytes :: "bytes \<Rightarrow> uuid" where
  "uuid_of_bytes bs = Abs_uuid (take 16 (bs @ replicate 16 0))"

definition uuid_Nil :: uuid where
  "uuid_Nil = uuid_of_bytes []"

lemma length_uuid_bytes [simp]: "length (uuid_bytes u) = 16"
  using uuid_bytes [of u] by simp

lemma uuid_bytes_of_bytes [simp]: "uuid_bytes (uuid_of_bytes bs) = take 16 (bs @ replicate 16 0)"
  by (simp add: uuid_of_bytes_def Abs_uuid_inverse)

lemma uuid_of_uuid_bytes [simp]: "uuid_of_bytes (uuid_bytes u) = u"
  by (simp add: uuid_bytes_inject [symmetric])

lemma uuid_of_bytes_eq_iff [simp]:
  "uuid_of_bytes as = uuid_of_bytes bs \<longleftrightarrow>
     take 16 (as @ replicate 16 0) = take 16 (bs @ replicate 16 0)"
  by (simp add: uuid_bytes_inject [symmetric])

declare uuid_bytes_inverse [code abstype]
declare uuid_bytes_of_bytes [code abstract]

instantiation uuid :: equal
begin

definition equal_uuid :: "uuid \<Rightarrow> uuid \<Rightarrow> bool" where
  "equal_uuid u v \<longleftrightarrow> uuid_bytes u = uuid_bytes v"

instance
  by standard (simp add: equal_uuid_def uuid_bytes_inject)

end

section \<open>Instants and durations\<close>

type_synonym gotime = int
type_synonym duration = int

abbreviation Second :: duration where
  "Second \<equiv> 1000000000"

abbreviation Minute :: duration where
  "Minute \<equiv> 60 * Second"

text \<open>\<open>t.Sub(u)\<close> saturates at the range of an \<open>int64\<close>.\<close>

definition time_Sub :: "gotime \<Rightarrow> gotime \<Rightarrow> duration" where
  "time_Sub t u = max (- (2 ^ 63)) (min (2 ^ 63 - 1) (t - u))"

definition time_IsZero :: "gotime \<Rightarrow> bool" where
  "time_IsZero t \<longleftrightarrow> t = 0"

lemma time_Sub_gt: "0 \<le> d \<Longrightarrow> d < 2 ^ 63 - 1 \<Longrightarrow> time_Sub t u > d \<longleftrightarrow> t - u > d"
  by (auto simp: time_Sub_def)

section \<open>Go maps\<close>

type_synonym ('k, 'v) gomap = "('k \<times> 'v) list"

abbreviation gomap_ok :: "('k, 'v) gomap \<Rightarrow> bool" where
  "gomap_ok m \<equiv> distinct (map fst m)"

abbreviation put :: "'k \<Rightarrow> 'v \<Rightarrow> ('k, 'v) gomap \<Rightarrow> ('k, 'v) gomap" where
  "put \<equiv> AList.update"

abbreviation del :: "'k \<Rightarrow> ('k, 'v) gomap \<Rightarrow> ('k, 'v) gomap" where
  "del \<equiv> AList.delete"

lemma get_put [go_map_simps]: "map_of (put k v m) k' = (if k' = k then Some v else map_of m k')"
  by (simp add: AList.update_conv')

lemma get_del [go_map_simps]: "map_of (del k m) k' = (if k' = k then None else map_of m k')"
  by (simp add: AList.delete_conv')

lemma put_ok [simp, intro]: "gomap_ok m \<Longrightarrow> gomap_ok (put k v m)"
  by (rule AList.distinct_update)

lemma del_ok [simp, intro]: "gomap_ok m \<Longrightarrow> gomap_ok (del k m)"
  by (rule AList.distinct_delete)

lemma filter_ok [simp, intro]: "gomap_ok m \<Longrightarrow> gomap_ok (filter P m)"
  by (rule distinct_map_filter)

lemma get_filter:
  "gomap_ok m \<Longrightarrow>
   map_of (filter P m) k = (case map_of m k of None \<Rightarrow> None | Some v \<Rightarrow> if P (k, v) then Some v else None)"
proof (induction m)
  case Nil
  then show ?case by simp
next
  case (Cons kv m)
  obtain a b where kv: "kv = (a, b)" by (cases kv)
  from Cons.prems kv have a: "a \<notin> fst ` set m" and ok: "gomap_ok m" by auto
  from a have "map_of (filter P m) a = None"
    by (auto simp: map_of_eq_None_iff)
  with a kv Cons.IH [OF ok] show ?case
    by (auto split: option.splits)
qed

lemma in_gomap_iff: "gomap_ok m \<Longrightarrow> (k, v) \<in> set m \<longleftrightarrow> map_of m k = Some v"
  by (simp add: map_of_eq_Some_iff)

lemma set_put_subset: "set (put k v m) \<subseteq> insert (k, v) (set m)"
  by (induction m) auto

lemma set_put_iff:
  assumes "gomap_ok m"
  shows "(k', v') \<in> set (put k v m) \<longleftrightarrow> (if k' = k then v' = v else (k', v') \<in> set m)"
  using in_gomap_iff [OF put_ok [OF assms], of k' v' k v] in_gomap_iff [OF assms, of k' v']
  by (auto simp only: get_put if_True if_False option.inject split: if_splits)

lemma set_del_iff: "(k', v') \<in> set (del k m) \<longleftrightarrow> k' \<noteq> k \<and> (k', v') \<in> set m"
  by (auto simp: AList.delete_eq)

lemma put_fresh: "k \<notin> fst ` set m \<Longrightarrow> put k v m = m @ [(k, v)]"
  by (induction m) auto

lemma length_put_new: "map_of m k = None \<Longrightarrow> length (put k v m) = Suc (length m)"
  by (simp add: map_of_eq_None_iff put_fresh)

lemma length_put_old: "map_of m k \<noteq> None \<Longrightarrow> length (put k v m) = length m"
  by (induction m) auto

lemma fold_del_filter:
  "fold (\<lambda>x. del (f x)) xs m = filter (\<lambda>(k, v). k \<notin> f ` set xs) m"
  by (induction xs arbitrary: m) (auto simp: AList.delete_eq intro!: filter_cong)

lemma get_fold_del:
  "map_of (fold (\<lambda>x. del (f x)) xs m) k = (if k \<in> f ` set xs then None else map_of m k)"
  by (induction xs arbitrary: m) (auto simp: go_map_simps)

lemma fold_del_ok: "gomap_ok m \<Longrightarrow> gomap_ok (fold (\<lambda>x. del (f x)) xs m)"
  by (induction xs arbitrary: m) auto

lemma length_del: "gomap_ok m \<Longrightarrow> map_of m k \<noteq> None \<Longrightarrow> Suc (length (del k m)) = length m"
proof (induction m)
  case Nil
  then show ?case by simp
next
  case (Cons kv m)
  then show ?case
    by (cases "fst kv = k") (auto simp: AList.delete_id split: if_splits)
qed

section \<open>Codecs\<close>

text \<open>
  A wire format: an encoder and a decoder that returns an error or a value. \<open>frame_codec\<close> promises
  that decoding inverts encoding; \<open>exact_codec\<close> promises in addition that a frame is accepted only
  if it is the encoding of what it decodes to, so that frames and values correspond one to one.
\<close>

locale frame_codec =
  fixes enc :: "'a \<Rightarrow> bytes"
    and dec :: "bytes \<Rightarrow> 'e + 'a"
  assumes dec_enc: "dec (enc a) = Inr a"
begin

lemma enc_inject: "enc a = enc b \<longleftrightarrow> a = b"
proof
  assume "enc a = enc b"
  then have "dec (enc a) = dec (enc b)" by simp
  then show "a = b" by (simp add: dec_enc)
qed simp

lemma encoded_accepted: "\<exists>a. dec (enc b) = Inr a"
  by (simp add: dec_enc)

end

locale exact_codec = frame_codec +
  assumes enc_dec: "dec f = Inr a \<Longrightarrow> enc a = f"
begin

lemma accepts_iff: "dec f = Inr a \<longleftrightarrow> f = enc a"
  using enc_dec dec_enc by auto

lemma accepted_range: "(\<exists>a. dec f = Inr a) \<longleftrightarrow> f \<in> range enc"
  by (auto simp: accepts_iff)

lemma decode_inject: "dec f = Inr a \<Longrightarrow> dec g = Inr a \<Longrightarrow> f = g"
  by (simp add: accepts_iff)

end

section \<open>Systems with an invariant\<close>

text \<open>
  A component with a state and a step per event. The locale asks for one-step preservation and
  gives the invariant in every state of every run.
\<close>

definition run :: "('s \<Rightarrow> 'e \<Rightarrow> 's) \<Rightarrow> 's \<Rightarrow> 'e list \<Rightarrow> 's" where
  "run step s es = foldl step s es"

lemma run_Nil [simp]: "run step s [] = s"
  by (simp add: run_def)

lemma run_Cons [simp]: "run step s (e # es) = run step (step s e) es"
  by (simp add: run_def)

lemma run_append: "run step s (es @ fs) = run step (run step s es) fs"
  by (simp add: run_def)

lemma run_snoc [simp]: "run step s (es @ [e]) = step (run step s es) e"
  by (simp add: run_append)

locale invariant_system =
  fixes init :: "'s \<Rightarrow> bool"
    and step :: "'s \<Rightarrow> 'e \<Rightarrow> 's"
    and inv :: "'s \<Rightarrow> bool"
  assumes inv_init: "init s \<Longrightarrow> inv s"
    and inv_step: "inv s \<Longrightarrow> inv (step s e)"
begin

lemma inv_run: "inv s \<Longrightarrow> inv (run step s es)"
  by (induction es arbitrary: s) (simp_all add: inv_step)

lemma inv_from_init: "init s \<Longrightarrow> inv (run step s es)"
  by (rule inv_run) (rule inv_init)

lemma inv_prefix: "init s \<Longrightarrow> inv (run step s (take n es))"
  by (rule inv_from_init)

end

end
