(* ===== verification/Domain.thy ===== *)
theory Domain
  imports Prelude
begin

text \<open>
  The entities of the control plane, \<open>backend/internal/domain\<close>. The Go enumerations are string types
  whose values also arrive from clients and from disk, so they stay strings here, with the source's
  constants. A nil-able pointer field is an option. The sentinel errors are the constructors of
  \<open>domain_error\<close>; \<open>ErrOther\<close> stands for an error that is none of them (a failing hash, a failing
  signature).
\<close>

section \<open>Errors\<close>

datatype domain_error =
    ErrNotFound | ErrAlreadyExists | ErrInvalidCredentials | ErrUnauthorized | ErrForbidden
  | ErrInvalidInput | ErrMFARequired | ErrInvalidMFACode | ErrTokenExpired | ErrTokenRevoked
  | ErrTokenInvalid | ErrInviteInvalid | ErrNetworkFull | ErrLastOwner | ErrNoRelayAvailable
  | ErrOther string

type_synonym 'a result = "domain_error + 'a"

section \<open>Users\<close>

type_synonym user_status = string

definition UserStatusActive :: user_status where
  "UserStatusActive = ''active''"

definition UserStatusDisabled :: user_status where
  "UserStatusDisabled = ''disabled''"

definition UserStatusPendingVerification :: user_status where
  "UserStatusPendingVerification = ''pending_verification''"

record user =
  uID :: uuid
  Email :: string
  PasswordHash :: string
  uDisplayName :: string
  uStatus :: user_status
  MFASecret :: string
  MFAEnabled :: bool
  OAuthProvider :: "string option"
  OAuthSubject :: "string option"
  EmailVerifiedAt :: "gotime option"
  uCreatedAt :: gotime
  uUpdatedAt :: gotime

record refresh_token =
  rtID :: uuid
  rtUserID :: uuid
  rtTokenHash :: string
  rtUserAgent :: string
  rtIPAddress :: string
  rtExpiresAt :: gotime
  RevokedAt :: "gotime option"
  rtCreatedAt :: gotime

record password_reset =
  prID :: uuid
  prUserID :: uuid
  prTokenHash :: string
  prExpiresAt :: gotime
  UsedAt :: "gotime option"
  prCreatedAt :: gotime

section \<open>Networks and members\<close>

type_synonym network_role = string

definition NetworkRoleOwner :: network_role where
  "NetworkRoleOwner = ''owner''"

definition NetworkRoleAdmin :: network_role where
  "NetworkRoleAdmin = ''admin''"

definition NetworkRoleMember :: network_role where
  "NetworkRoleMember = ''member''"

lemmas network_roles = NetworkRoleOwner_def NetworkRoleAdmin_def NetworkRoleMember_def

record network =
  nID :: uuid
  nName :: string
  nDescription :: string
  CIDR :: string
  CIDRv6 :: "string option"
  DNSServers :: "string list"
  OwnerID :: uuid
  InviteCode :: string
  InviteCodeExpiresAt :: "gotime option"
  InviteEnabled :: bool
  AllowBroadcast :: bool
  nCreatedAt :: gotime
  nUpdatedAt :: gotime
  MemberCount :: nat
  DeviceCount :: nat
  CallerRole :: network_role

record network_member =
  mID :: uuid
  mNetworkID :: uuid
  mUserID :: uuid
  Role :: network_role
  JoinedAt :: gotime
  mEmail :: string
  mDisplayName :: string

section \<open>Devices\<close>

type_synonym device_status = string
type_synonym device_os = string

definition DeviceStatusOnline :: device_status where
  "DeviceStatusOnline = ''online''"

definition DeviceStatusOffline :: device_status where
  "DeviceStatusOffline = ''offline''"

definition DeviceStatusUnknown :: device_status where
  "DeviceStatusUnknown = ''unknown''"

definition DeviceOSUnknown :: device_os where
  "DeviceOSUnknown = ''unknown''"

definition NormalizeDeviceOS :: "string \<Rightarrow> device_os" where
  "NormalizeDeviceOS s =
     (if s \<in> {''windows'', ''windows_server'', ''linux'', ''macos'', ''android'', ''ios''} then s
      else DeviceOSUnknown)"

record device =
  dID :: uuid
  dUserID :: uuid
  dNetworkID :: uuid
  dName :: string
  OS :: device_os
  OSVersion :: string
  PublicKey :: string
  VirtualIP :: string
  LastPublicIP :: "string option"
  LastPrivateIP :: "string option"
  dNATType :: "string option"
  dStatus :: device_status
  LastSeenAt :: "gotime option"
  LastHandshakeAt :: "gotime option"
  dBytesSent :: "64 word"
  dBytesReceived :: "64 word"
  AdvertisesExitNode :: bool
  dCreatedAt :: gotime
  dUpdatedAt :: gotime

section \<open>Relay servers\<close>

record relay_server =
  rsID :: uuid
  Region :: string
  Hostname :: string
  rsPublicKey :: string
  ControlPort :: int
  RelayPort :: int
  Capacity :: int
  CurrentLoad :: int
  rsStatus :: string
  LastHeartbeatAt :: "gotime option"
  rsCreatedAt :: gotime

section \<open>Logs\<close>

text \<open>The metadata the sources put into log rows are string-valued.\<close>

type_synonym metadata = "(string, string) gomap"
type_synonym connection_event_type = string

definition ConnEventP2PEstablished :: connection_event_type where
  "ConnEventP2PEstablished = ''p2p_established''"

definition ConnEventRelayFallback :: connection_event_type where
  "ConnEventRelayFallback = ''relay_fallback''"

record connection_log =
  clID :: uuid
  clNetworkID :: uuid
  clDeviceID :: uuid
  PeerDeviceID :: "uuid option"
  RelayServerID :: "uuid option"
  EventType :: connection_event_type
  LatencyMs :: "int option"
  clBytesSent :: "64 word"
  clBytesReceived :: "64 word"
  clMetadata :: metadata
  clCreatedAt :: gotime

datatype audit_action =
    AuditUserRegister | AuditUserLogin | AuditUserLoginFailed | AuditUserPasswordReset
  | AuditUserMFAEnabled | AuditUserMFADisabled | AuditPairingStarted | AuditPairingClaimed
  | AuditNetworkCreate | AuditNetworkUpdate | AuditNetworkDelete | AuditNetworkInviteCreated
  | AuditNetworkInviteRotated | AuditNetworkMemberJoined | AuditNetworkMemberRemoved
  | AuditNetworkMemberRoleChg | AuditDeviceRegistered | AuditDeviceRemoved | AuditDeviceKeyRotated

record audit_log =
  alID :: uuid
  ActorUserID :: "uuid option"
  alNetworkID :: "uuid option"
  Action :: audit_action
  TargetType :: "string option"
  TargetID :: "string option"
  alIPAddress :: "string option"
  alMetadata :: metadata
  alCreatedAt :: gotime

record error_log =
  elID :: uuid
  elService :: string
  elLevel :: string
  elMessage :: string
  elMetadata :: metadata
  elCreatedAt :: gotime

section \<open>Presence, events and rendezvous\<close>

record presence_endpoint =
  PublicIP :: string
  PublicPort :: "32 word"
  PrivateIP :: string
  PrivatePort :: "32 word"
  NATType :: string
  peUpdatedAt :: gotime

datatype peer_event_type = PeerEventJoined | PeerEventLeft | PeerEventEndpointChanged | PeerEventStatusChanged

record peer_event =
  evType :: peer_event_type
  evNetworkID :: uuid
  evDeviceID :: uuid

record ice_candidate =
  icIP :: string
  icPort :: "32 word"
  icProtocol :: string
  icType :: string
  icPriority :: "32 word"

section \<open>Zero values\<close>

text \<open>What a composite literal leaves in the fields it does not name.\<close>

definition user_zero :: user where
  "user_zero =
     \<lparr>uID = uuid_Nil, Email = [], PasswordHash = [], uDisplayName = [], uStatus = [], MFASecret = [],
      MFAEnabled = False, OAuthProvider = None, OAuthSubject = None, EmailVerifiedAt = None,
      uCreatedAt = 0, uUpdatedAt = 0\<rparr>"

definition network_zero :: network where
  "network_zero =
     \<lparr>nID = uuid_Nil, nName = [], nDescription = [], CIDR = [], CIDRv6 = None, DNSServers = [],
      OwnerID = uuid_Nil, InviteCode = [], InviteCodeExpiresAt = None, InviteEnabled = False,
      AllowBroadcast = False, nCreatedAt = 0, nUpdatedAt = 0, MemberCount = 0, DeviceCount = 0,
      CallerRole = []\<rparr>"

definition network_member_zero :: network_member where
  "network_member_zero =
     \<lparr>mID = uuid_Nil, mNetworkID = uuid_Nil, mUserID = uuid_Nil, Role = [], JoinedAt = 0,
      mEmail = [], mDisplayName = []\<rparr>"

definition device_zero :: device where
  "device_zero =
     \<lparr>dID = uuid_Nil, dUserID = uuid_Nil, dNetworkID = uuid_Nil, dName = [], OS = [], OSVersion = [],
      PublicKey = [], VirtualIP = [], LastPublicIP = None, LastPrivateIP = None, dNATType = None,
      dStatus = [], LastSeenAt = None, LastHandshakeAt = None, dBytesSent = 0, dBytesReceived = 0,
      AdvertisesExitNode = False, dCreatedAt = 0, dUpdatedAt = 0\<rparr>"

definition presence_endpoint_zero :: presence_endpoint where
  "presence_endpoint_zero =
     \<lparr>PublicIP = [], PublicPort = 0, PrivateIP = [], PrivatePort = 0, NATType = [], peUpdatedAt = 0\<rparr>"

lemmas zero_values =
  user_zero_def network_zero_def network_member_zero_def device_zero_def presence_endpoint_zero_def

text \<open>Concrete identifiers for the witnesses.\<close>

definition ex_id :: "byte \<Rightarrow> uuid" where
  "ex_id k = uuid_of_bytes [k]"

lemma ex_id_inject [simp]: "ex_id j = ex_id k \<longleftrightarrow> j = k"
  by (simp add: ex_id_def)

end
