(* ===== verification/Embedded_Store.thy ===== *)
theory Embedded_Store
  imports Domain
begin

text \<open>
  The embedded store, \<open>backend/internal/repository/embedded/store.go\<close>: every entity of the control
  plane in memory, snapshots of it in one file. All methods run under one lock, so each is an atomic
  function of the store. The file holds the JSON encoding of a \<open>snapshot\<close>; the encoding itself is
  that of \<open>encoding/json\<close>, so the file is modelled by what it decodes to. The event bus, which has a
  lock of its own, is in \<open>Embedded_Infra\<close>.
\<close>

section \<open>State\<close>

record presence_entry =
  peNetworkID :: uuid
  endpoint :: presence_endpoint
  peExpires :: gotime

record ice_entry =
  candidates :: "ice_candidate list"
  iceExpires :: gotime

record limit_entry =
  count :: int
  resets_at :: gotime
  limitAt :: int

record store =
  users :: "(uuid, user) gomap"
  networks :: "(uuid, network) gomap"
  members :: "(uuid \<times> uuid, network_member) gomap"
  devices :: "(uuid, device) gomap"
  refresh :: "(uuid, refresh_token) gomap"
  resets :: "(uuid, password_reset) gomap"
  relays :: "(uuid, relay_server) gomap"
  connLogs :: "connection_log list"
  auditLogs :: "audit_log list"
  errLogs :: "error_log list"
  presence :: "(uuid, presence_entry) gomap"
  ice :: "(uuid \<times> uuid, ice_entry) gomap"
  limits :: "(string, limit_entry) gomap"
  path :: string
  dirty :: bool

definition empty_store :: "string \<Rightarrow> store" where
  "empty_store p =
     \<lparr>users = [], networks = [], members = [], devices = [], refresh = [], resets = [], relays = [],
      connLogs = [], auditLogs = [], errLogs = [], presence = [], ice = [], limits = [],
      path = p, dirty = False\<rparr>"

definition touch :: "store \<Rightarrow> store" where
  "touch s = s\<lparr>dirty := True\<rparr>"

definition IsEmpty :: "store \<Rightarrow> bool" where
  "IsEmpty s \<longleftrightarrow> length (users s) = 0"

section \<open>Persistence\<close>

record snapshot =
  Version :: int
  snUsers :: "user list"
  snNetworks :: "network list"
  snMembers :: "network_member list"
  snDevices :: "device list"
  snRefresh :: "refresh_token list"
  snResets :: "password_reset list"
  snRelays :: "relay_server list"
  snConnLogs :: "connection_log list"
  snAuditLogs :: "audit_log list"
  snErrLogs :: "error_log list"

definition snapshotVersion :: int where
  "snapshotVersion = 1"

definition snapshotLocked :: "store \<Rightarrow> snapshot" where
  "snapshotLocked s =
     \<lparr>Version = snapshotVersion, snUsers = map snd (users s), snNetworks = map snd (networks s),
      snMembers = map snd (members s), snDevices = map snd (devices s),
      snRefresh = map snd (refresh s), snResets = map snd (resets s), snRelays = map snd (relays s),
      snConnLogs = connLogs s, snAuditLogs = auditLogs s, snErrLogs = errLogs s\<rparr>"

datatype data_file = NoFile | Unreadable | EmptyFile | Garbage | Holds snapshot

datatype store_error =
    ReadFailed | NotADataFile | NewerVersion int | MkdirFailed | WriteFailed | ReplaceFailed

definition put_all :: "('v \<Rightarrow> 'k) \<Rightarrow> 'v list \<Rightarrow> ('k, 'v) gomap \<Rightarrow> ('k, 'v) gomap" where
  "put_all key rows m = foldl (\<lambda>m v. put (key v) v m) m rows"

definition load :: "data_file \<Rightarrow> store \<Rightarrow> store_error + store" where
  "load file s =
     (case file of
        NoFile \<Rightarrow> Inr s
      | Unreadable \<Rightarrow> Inl ReadFailed
      | EmptyFile \<Rightarrow> Inr s
      | Garbage \<Rightarrow> Inl NotADataFile
      | Holds snap \<Rightarrow>
          if Version snap > snapshotVersion then Inl (NewerVersion (Version snap))
          else Inr (s\<lparr>users := put_all uID (snUsers snap) (users s),
                      networks := put_all nID (snNetworks snap) (networks s),
                      members := put_all (\<lambda>m. (mNetworkID m, mUserID m)) (snMembers snap) (members s),
                      devices := put_all dID (snDevices snap) (devices s),
                      refresh := put_all rtID (snRefresh snap) (refresh s),
                      resets := put_all prID (snResets snap) (resets s),
                      relays := put_all rsID (snRelays snap) (relays s),
                      connLogs := snConnLogs snap, auditLogs := snAuditLogs snap,
                      errLogs := snErrLogs snap\<rparr>))"

definition Open :: "string \<Rightarrow> bool \<Rightarrow> data_file \<Rightarrow> store_error + store" where
  "Open p mkdirOk file =
     (if p \<noteq> [] then if mkdirOk then load file (empty_store p) else Inl MkdirFailed
      else Inr (empty_store p))"

text \<open>\<open>writeOk\<close> and \<open>renameOk\<close> say whether the two file operations succeed; the write goes to a
  sibling, so the data file changes only with the rename.\<close>

definition Flush ::
  "bool \<Rightarrow> bool \<Rightarrow> data_file \<Rightarrow> store \<Rightarrow> (store_error + unit) \<times> data_file \<times> store" where
  "Flush writeOk renameOk file s =
     (if \<not> dirty s \<or> path s = [] then (Inr (), file, s)
      else let snap = snapshotLocked s; s' = s\<lparr>dirty := False\<rparr>
           in if \<not> writeOk then (Inl WriteFailed, file, s')
              else if \<not> renameOk then (Inl ReplaceFailed, file, s')
              else (Inr (), Holds snap, s'))"

definition after :: "gotime \<Rightarrow> gotime \<Rightarrow> bool" where
  "after now t \<longleftrightarrow> now > t"

definition expire :: "gotime \<Rightarrow> store \<Rightarrow> store" where
  "expire now s =
     s\<lparr>presence := filter (\<lambda>(i, p). \<not> after now (peExpires p)) (presence s),
       ice := filter (\<lambda>(k, e). \<not> after now (iceExpires e)) (ice s),
       limits := filter (\<lambda>(k, l). \<not> after now (resets_at l)) (limits s)\<rparr>"

text \<open>One turn of \<open>snapshotLoop\<close>; the error of the flush is discarded.\<close>

definition snapshotLoop_tick :: "gotime \<Rightarrow> bool \<Rightarrow> bool \<Rightarrow> data_file \<times> store \<Rightarrow> data_file \<times> store" where
  "snapshotLoop_tick now writeOk renameOk = (\<lambda>(file, s).
     let (_, file', s') = Flush writeOk renameOk file s in (file', expire now s'))"

text \<open>\<open>closedBefore\<close> is the state of \<open>s.once\<close>: a second \<open>Close\<close> does nothing.\<close>

definition Close ::
  "bool \<Rightarrow> bool \<Rightarrow> bool \<Rightarrow> data_file \<Rightarrow> store \<Rightarrow> (store_error + unit) \<times> data_file \<times> store" where
  "Close closedBefore writeOk renameOk file s =
     (if closedBefore then (Inr (), file, s) else Flush writeOk renameOk file s)"

section \<open>Log rows\<close>

definition maxLogRows :: nat where
  "maxLogRows = 2000"

definition capLog :: "'a list \<Rightarrow> 'a list" where
  "capLog rows = (if length rows \<le> maxLogRows then rows else drop (length rows - maxLogRows) rows)"

lemma length_capLog [simp]: "length (capLog rows) = min (length rows) maxLogRows"
  by (simp add: capLog_def)

lemma set_capLog: "set (capLog rows) \<subseteq> set rows"
  by (auto simp: capLog_def dest: in_set_dropD)

lemma capLog_snoc: "capLog (rows @ [r]) = (if length rows < maxLogRows then rows else drop (Suc (length rows) - maxLogRows) rows) @ [r]"
  by (auto simp: capLog_def maxLogRows_def)

section \<open>The invariant of the store\<close>

definition keyed :: "('v \<Rightarrow> 'k) \<Rightarrow> ('k, 'v) gomap \<Rightarrow> bool" where
  "keyed key m \<longleftrightarrow> gomap_ok m \<and> (\<forall>(k, v) \<in> set m. key v = k)"

definition store_ok :: "store \<Rightarrow> bool" where
  "store_ok s \<longleftrightarrow>
     keyed uID (users s) \<and> keyed nID (networks s) \<and>
     keyed (\<lambda>m. (mNetworkID m, mUserID m)) (members s) \<and> keyed dID (devices s) \<and>
     keyed rtID (refresh s) \<and> keyed prID (resets s) \<and> keyed rsID (relays s) \<and>
     gomap_ok (presence s) \<and> gomap_ok (ice s) \<and> gomap_ok (limits s)"

lemma keyed_Nil [simp]: "keyed key []"
  by (simp add: keyed_def)

lemma keyed_put [intro]: "keyed key m \<Longrightarrow> key v = k \<Longrightarrow> keyed key (put k v m)"
  by (auto simp: keyed_def set_put_iff split: if_splits)

lemma keyed_del [intro]: "keyed key m \<Longrightarrow> keyed key (del k m)"
  by (auto simp: keyed_def set_del_iff)

lemma keyed_filter [intro]: "keyed key m \<Longrightarrow> keyed key (filter P m)"
  by (auto simp: keyed_def)

lemma keyed_map [intro]:
  "keyed key m \<Longrightarrow> (\<And>v. key (f v) = key v) \<Longrightarrow> keyed key (map (\<lambda>(k, v). (k, f v)) m)"
  by (auto simp: keyed_def o_def split_def)

lemma keyed_ok: "keyed key m \<Longrightarrow> gomap_ok m"
  by (simp add: keyed_def)

lemma keyed_get: "keyed key m \<Longrightarrow> map_of m k = Some v \<Longrightarrow> key v = k"
  by (auto simp: keyed_def dest: map_of_SomeD)

lemma empty_store_ok [simp]: "store_ok (empty_store p)"
  by (simp add: store_ok_def empty_store_def)

lemma expire_ok: "store_ok s \<Longrightarrow> store_ok (expire now s)"
  by (simp add: store_ok_def expire_def)

lemma touch_ok [simp]: "store_ok (touch s) = store_ok s"
  by (simp add: store_ok_def touch_def)

lemma put_all_rows: "keyed key (m0 @ m) \<Longrightarrow> put_all key (map snd m) m0 = m0 @ m"
proof (induction m arbitrary: m0)
  case Nil
  then show ?case by (simp add: put_all_def)
next
  case (Cons kv m)
  obtain k v where kv: "kv = (k, v)" by (cases kv)
  from Cons.prems kv have "key v = k" "k \<notin> fst ` set m0" by (auto simp: keyed_def)
  then have "put_all key (map snd (kv # m)) m0 = put_all key (map snd m) (m0 @ [kv])"
    by (simp add: put_all_def kv put_fresh)
  also have "\<dots> = m0 @ kv # m" using Cons.IH [of "m0 @ [kv]"] Cons.prems by simp
  finally show ?case .
qed

lemma put_all_Nil: "keyed key m \<Longrightarrow> put_all key (map snd m) [] = m"
  using put_all_rows [of key "[]" m] by simp

lemma put_all_keyed: "keyed key m \<Longrightarrow> keyed key (put_all key rows m)"
  unfolding put_all_def by (induction rows arbitrary: m) auto

lemma load_ok: "store_ok s \<Longrightarrow> load file s = Inr s' \<Longrightarrow> store_ok s'"
  by (auto simp: load_def store_ok_def put_all_keyed split: data_file.splits if_splits)

section \<open>Properties of persistence\<close>


definition ex_store :: store where
  "ex_store = touch ((empty_store ''data'')\<lparr>
     users := [(ex_id 1, user_zero\<lparr>uID := ex_id 1, Email := ''a@b''\<rparr>)],
     networks := [(ex_id 2, network_zero\<lparr>nID := ex_id 2\<rparr>)]\<rparr>)"


text \<open>
  \<open>Flush\<close> clears the dirty flag before it writes. When the write or the rename fails, the rows
  changed since the last snapshot are not in the file, and no later flush writes them until some
  other change sets the flag again: the next flush reports success and leaves the file alone.
\<close>

theorem failed_flush_is_not_retried:
  assumes "dirty s" "path s \<noteq> []" "\<not> writeOk \<or> \<not> renameOk"
  shows "let (r1, file1, s1) = Flush writeOk renameOk file s;
             (r2, file2, s2) = Flush True True file1 s1
         in isl r1 \<and> r2 = Inr () \<and> file2 = file \<and> s2 = s\<lparr>dirty := False\<rparr>"
  using assms by (auto simp: Flush_def Let_def)

theorem failed_flush_is_not_retried_witness:
  "fst (snd (Flush True True (fst (snd (Flush False True NoFile ex_store)))
                             (snd (snd (Flush False True NoFile ex_store))))) = NoFile"
proof -
  have "dirty ex_store" "path ex_store \<noteq> []"
    by (simp_all add: ex_store_def touch_def empty_store_def)
  from failed_flush_is_not_retried [OF this, of False True NoFile] show ?thesis
    by (simp add: Let_def split: prod.splits)
qed

end
