(* ===== verification/Go_Strings.thy ===== *)
theory Go_Strings
  imports Prelude
begin

text \<open>
  What the sources use of Go's \<open>strings\<close>, \<open>encoding/base32\<close> and \<open>encoding/hex\<close>. Case folding and
  white space are the ASCII ones: on strings of ASCII characters \<open>strings.EqualFold\<close> and
  \<open>strings.TrimSpace\<close> are these functions.
\<close>

section \<open>Case folding and trimming\<close>

definition lower :: "char \<Rightarrow> char" where
  "lower c = (let n = of_char c :: nat in if 65 \<le> n \<and> n \<le> 90 then char_of (n + 32) else c)"

definition EqualFold :: "string \<Rightarrow> string \<Rightarrow> bool" where
  "EqualFold s t \<longleftrightarrow> map lower s = map lower t"

definition is_space :: "char \<Rightarrow> bool" where
  "is_space c \<longleftrightarrow> (of_char c :: nat) \<in> {9, 10, 11, 12, 13, 32}"

definition TrimSpace :: "string \<Rightarrow> string" where
  "TrimSpace s = rev (dropWhile is_space (rev (dropWhile is_space s)))"

lemma EqualFold_refl [simp]: "EqualFold s s"
  by (simp add: EqualFold_def)

lemma EqualFold_sym: "EqualFold s t \<Longrightarrow> EqualFold t s"
  by (simp add: EqualFold_def)

lemma EqualFold_trans: "EqualFold s t \<Longrightarrow> EqualFold t u \<Longrightarrow> EqualFold s u"
  by (simp add: EqualFold_def)

section \<open>Searching and cutting\<close>

definition str_contains :: "string \<Rightarrow> string \<Rightarrow> bool" where
  "str_contains s sub \<longleftrightarrow> list_ex (\<lambda>i. take (length sub) (drop i s) = sub) [0..<Suc (length s)]"

text \<open>\<open>strings.Split\<close> at a character.\<close>

fun split_on :: "char \<Rightarrow> string \<Rightarrow> string list" where
  "split_on c [] = [[]]"
| "split_on c (x # xs) =
     (if x = c then [] # split_on c xs
      else case split_on c xs of [] \<Rightarrow> [[x]] | w # ws \<Rightarrow> (x # w) # ws)"

fun last_index :: "'a \<Rightarrow> 'a list \<Rightarrow> nat option" where
  "last_index c [] = None"
| "last_index c (x # xs) =
     (case last_index c xs of Some i \<Rightarrow> Some (Suc i) | None \<Rightarrow> if x = c then Some 0 else None)"

fun first_index :: "'a \<Rightarrow> 'a list \<Rightarrow> nat option" where
  "first_index c [] = None"
| "first_index c (x # xs) = (if x = c then Some 0 else map_option Suc (first_index c xs))"

definition TrimPrefix :: "string \<Rightarrow> string \<Rightarrow> string" where
  "TrimPrefix s p = (if take (length p) s = p then drop (length p) s else s)"

definition CutPrefix :: "string \<Rightarrow> string \<Rightarrow> string option" where
  "CutPrefix s p = (if take (length p) s = p then Some (drop (length p) s) else None)"

section \<open>Base 32 without padding\<close>

definition byte_bits :: "byte \<Rightarrow> bool list" where
  "byte_bits b = map (bit b) [7, 6, 5, 4, 3, 2, 1, 0]"

function chunk5 :: "bool list \<Rightarrow> bool list list" where
  "chunk5 xs = (if xs = [] then [] else take 5 (xs @ replicate 5 False) # chunk5 (drop 5 xs))"
  by pat_completeness auto
termination by (relation "measure length") auto

declare chunk5.simps [simp del]

definition bits_value :: "bool list \<Rightarrow> nat" where
  "bits_value bs = foldl (\<lambda>n b. 2 * n + of_bool b) 0 bs"

definition base32_encode :: "string \<Rightarrow> bytes \<Rightarrow> string" where
  "base32_encode alphabet bs =
     map (\<lambda>c. alphabet ! bits_value c) (chunk5 (concat (map byte_bits bs)))"

lemma length_byte_bits [simp]: "length (byte_bits b) = 8"
  by (simp add: byte_bits_def)

lemma byte_bits_inject: "byte_bits a = byte_bits b \<longleftrightarrow> a = b"
proof
  assume h: "byte_bits a = byte_bits b"
  show "a = b"
  proof (rule bit_word_eqI)
    fix n assume "n < LENGTH(8)"
    then have "n \<in> {0, 1, 2, 3, 4, 5, 6, 7}" by auto
    with h show "bit a n = bit b n" by (auto simp: byte_bits_def)
  qed
qed simp

lemma length_concat_bits [simp]: "length (concat (map byte_bits bs)) = 8 * length bs"
  by (induction bs) auto

lemma concat_bits_inject: "concat (map byte_bits as) = concat (map byte_bits bs) \<Longrightarrow> as = bs"
proof (induction as arbitrary: bs)
  case Nil
  then have "length (concat (map byte_bits bs)) = 0" by (metis list.size(3) concat.simps(1) list.map(1))
  then show ?case by simp
next
  case (Cons a as)
  then obtain b bs' where b: "bs = b # bs'" by (cases bs) (auto dest: arg_cong [of _ _ length])
  with Cons.prems have "byte_bits a = byte_bits b \<and> concat (map byte_bits as) = concat (map byte_bits bs')"
    by simp
  with b Cons.IH show ?case by (simp add: byte_bits_inject)
qed

lemma chunk5_lengths: "c \<in> set (chunk5 xs) \<Longrightarrow> length c = 5"
  by (induction xs rule: chunk5.induct) (subst (asm) (2) chunk5.simps, auto split: if_splits)

lemma length_chunk5: "length (chunk5 xs) = (length xs + 4) div 5"
proof (induction xs rule: chunk5.induct)
  case (1 xs)
  show ?case
  proof (cases "xs = []")
    case True
    then show ?thesis by (simp add: chunk5.simps)
  next
    case False
    have "(length xs - 5 + 4) div 5 + 1 = (length xs + 4) div 5"
    proof (cases "5 \<le> length xs")
      case True
      then obtain m where m: "length xs = m + 5" by (metis add.commute le_Suc_ex)
      have "(m + 4 + 5) div 5 = (m + 4) div 5 + 1" by (rule div_add_self2) simp
      with m show ?thesis by (simp add: add.commute add.left_commute)
    next
      case nl: False
      from False have "length xs \<noteq> 0" by simp
      with nl have "length xs = 1 \<or> length xs = 2 \<or> length xs = 3 \<or> length xs = 4" by linarith
      then show ?thesis by auto
    qed
    with 1 [OF False] False show ?thesis by (subst chunk5.simps) simp
  qed
qed

lemma chunk5_inject: "length xs = length ys \<Longrightarrow> chunk5 xs = chunk5 ys \<Longrightarrow> xs = ys"
proof (induction xs arbitrary: ys rule: chunk5.induct)
  case (1 xs)
  show ?case
  proof (cases "xs = []")
    case True
    with 1 show ?thesis by simp
  next
    case False
    with 1(2) have ys: "ys \<noteq> []" by auto
    from 1(3) False ys have t: "take 5 (xs @ replicate 5 False) = take 5 (ys @ replicate 5 False)"
      and d: "chunk5 (drop 5 xs) = chunk5 (drop 5 ys)"
      by (subst (asm) (1 2) chunk5.simps, simp)+
    have "take 5 xs = take (min 5 (length xs)) (take 5 (xs @ replicate 5 False))"
      "take 5 ys = take (min 5 (length ys)) (take 5 (ys @ replicate 5 False))"
      by (simp_all add: min_def)
    then have "take 5 xs = take 5 ys" unfolding t 1(2) by (rule trans [OF _ sym])
    moreover from 1(1) [OF False _ d] 1(2) have "drop 5 xs = drop 5 ys" by simp
    ultimately show ?thesis by (metis append_take_drop_id)
  qed
qed

lemma bits_value_bound: "bits_value c < 2 ^ length c"
proof (induction c rule: rev_induct)
  case (snoc b c)
  then show ?case by (cases b) (auto simp: bits_value_def)
qed (simp add: bits_value_def)

lemma bits_value_inject: "length c = length d \<Longrightarrow> bits_value c = bits_value d \<Longrightarrow> c = d"
proof (induction c arbitrary: d rule: rev_induct)
  case Nil
  then show ?case by simp
next
  case (snoc b c)
  then obtain b' d' where d: "d = d' @ [b']" by (cases d rule: rev_cases) auto
  from snoc.prems(2) d have e: "2 * bits_value c + of_bool b = 2 * bits_value d' + of_bool b'"
    by (simp add: bits_value_def)
  then have "b = b'" by (cases b; cases b'; simp; presburger)
  with e have "bits_value c = bits_value d'" by simp
  with snoc.IH [of d'] snoc.prems(1) d \<open>b = b'\<close> show ?case by simp
qed

lemma length_base32_encode: "length (base32_encode alphabet bs) = (8 * length bs + 4) div 5"
  by (simp add: base32_encode_def length_chunk5)

lemma base32_encode_inject_fold:
  assumes alph: "length alphabet = 32" "distinct (map lower alphabet)" and len: "length as = length bs"
    and fold: "EqualFold (base32_encode alphabet as) (base32_encode alphabet bs)"
  shows "as = bs"
proof -
  let ?A = "chunk5 (concat (map byte_bits as))" and ?B = "chunk5 (concat (map byte_bits bs))"
  have n: "length ?A = length ?B" using len by (simp add: length_chunk5)
  have "?A = ?B"
  proof (rule nth_equalityI [OF n])
    fix i assume i: "i < length ?A"
    then have c: "length (?A ! i) = 5" "length (?B ! i) = 5"
      using n by (auto intro!: chunk5_lengths nth_mem)
    then have v: "bits_value (?A ! i) < 32" "bits_value (?B ! i) < 32"
      using bits_value_bound [of "?A ! i"] bits_value_bound [of "?B ! i"] by simp_all
    from fold have "map lower (base32_encode alphabet as) ! i = map lower (base32_encode alphabet bs) ! i"
      by (simp add: EqualFold_def)
    with i n v alph have "map lower alphabet ! bits_value (?A ! i) = map lower alphabet ! bits_value (?B ! i)"
      by (simp add: base32_encode_def)
    with alph v have "bits_value (?A ! i) = bits_value (?B ! i)"
      by (metis length_map nth_eq_iff_index_eq)
    with c show "?A ! i = ?B ! i" by (intro bits_value_inject) simp_all
  qed
  with len have "concat (map byte_bits as) = concat (map byte_bits bs)"
    by (intro chunk5_inject) simp_all
  then show ?thesis by (rule concat_bits_inject)
qed

section \<open>Hexadecimal\<close>

definition hex_digit :: "nat \<Rightarrow> char" where
  "hex_digit n = ''0123456789abcdef'' ! n"

definition hex_encode :: "bytes \<Rightarrow> string" where
  "hex_encode bs = concat (map (\<lambda>b. [hex_digit (unat b div 16), hex_digit (unat b mod 16)]) bs)"

end
