(* ===== verification/Embedded_Repos.thy ===== *)
theory Embedded_Repos
  imports Embedded_Store Go_Strings
begin

text \<open>
  The repositories of the embedded store, \<open>backend/internal/repository/embedded/repos.go\<close>: users,
  refresh tokens, password resets, networks, members and devices. An operation \<open>Op\<close> of the Go type
  \<open>xRepo\<close> is \<open>xRepo_Op\<close>; a method that changes the store returns the new one, and a \<open>Create\<close> returns the
  row as the caller's struct is left (with its ID and times filled in). \<open>uuid.New()\<close> and \<open>time.Now()\<close>
  are the arguments \<open>newID\<close> and \<open>now\<close>. \<open>sort.Slice\<close> orders by time and leaves the order of equal
  times open, as the order of the list it sorts already is.

  The locale \<open>keyed_repo\<close> states what the services rely on; every repository with a \<open>Create\<close> and a
  getter is an interpretation.
\<close>

section \<open>Rows\<close>

definition row_or_not_found :: "'v option \<Rightarrow> 'v result" where
  "row_or_not_found r = (case r of None \<Rightarrow> Inl ErrNotFound | Some v \<Rightarrow> Inr v)"

definition find_row :: "('v \<Rightarrow> bool) \<Rightarrow> ('k, 'v) gomap \<Rightarrow> 'v result" where
  "find_row P m = row_or_not_found (find P (map snd m))"

definition some_row :: "('v \<Rightarrow> bool) \<Rightarrow> ('k, 'v) gomap \<Rightarrow> bool" where
  "some_row P m \<longleftrightarrow> list_ex P (map snd m)"

definition count_rows :: "('k \<times> 'v \<Rightarrow> bool) \<Rightarrow> ('k, 'v) gomap \<Rightarrow> nat" where
  "count_rows P m = length (filter P m)"

section \<open>Users\<close>

definition userRepo_Create :: "uuid \<Rightarrow> gotime \<Rightarrow> user \<Rightarrow> store \<Rightarrow> user result \<times> store" where
  "userRepo_Create newID now u s =
     (if some_row (\<lambda>existing. EqualFold (Email existing) (Email u)) (users s) then (Inl ErrAlreadyExists, s)
      else let u = (if uID u = uuid_Nil then u\<lparr>uID := newID\<rparr> else u);
               u = u\<lparr>uCreatedAt := now, uUpdatedAt := now\<rparr>
           in (Inr u, touch (s\<lparr>users := put (uID u) u (users s)\<rparr>)))"

definition userRepo_GetByID :: "uuid \<Rightarrow> store \<Rightarrow> user result" where
  "userRepo_GetByID i s = row_or_not_found (map_of (users s) i)"

definition userRepo_GetByEmail :: "string \<Rightarrow> store \<Rightarrow> user result" where
  "userRepo_GetByEmail email s = find_row (\<lambda>u. EqualFold (Email u) email) (users s)"

definition userRepo_GetByOAuthSubject :: "string \<Rightarrow> string \<Rightarrow> store \<Rightarrow> user result" where
  "userRepo_GetByOAuthSubject provider subject s =
     find_row (\<lambda>u. OAuthProvider u = Some provider \<and> OAuthSubject u = Some subject) (users s)"

definition userRepo_Update :: "gotime \<Rightarrow> user \<Rightarrow> store \<Rightarrow> user result \<times> store" where
  "userRepo_Update now u s =
     (case map_of (users s) (uID u) of
        None \<Rightarrow> (Inl ErrNotFound, s)
      | Some _ \<Rightarrow> let u = u\<lparr>uUpdatedAt := now\<rparr> in (Inr u, touch (s\<lparr>users := put (uID u) u (users s)\<rparr>)))"

section \<open>Refresh tokens\<close>

definition refreshRepo_Create :: "uuid \<Rightarrow> gotime \<Rightarrow> refresh_token \<Rightarrow> store \<Rightarrow> refresh_token result \<times> store" where
  "refreshRepo_Create newID now rt s =
     (let rt = (if rtID rt = uuid_Nil then rt\<lparr>rtID := newID\<rparr> else rt);
          rt = rt\<lparr>rtCreatedAt := now\<rparr>
      in (Inr rt, touch (s\<lparr>refresh := put (rtID rt) rt (refresh s)\<rparr>)))"

definition refreshRepo_GetByHash :: "string \<Rightarrow> store \<Rightarrow> refresh_token result" where
  "refreshRepo_GetByHash hash s = find_row (\<lambda>rt. rtTokenHash rt = hash) (refresh s)"

definition refreshRepo_Revoke :: "gotime \<Rightarrow> uuid \<Rightarrow> store \<Rightarrow> unit result \<times> store" where
  "refreshRepo_Revoke now i s =
     (case map_of (refresh s) i of
        None \<Rightarrow> (Inl ErrNotFound, s)
      | Some rt \<Rightarrow> (Inr (), touch (s\<lparr>refresh := put i (rt\<lparr>RevokedAt := Some now\<rparr>) (refresh s)\<rparr>)))"

definition refreshRepo_RevokeAllForUser :: "gotime \<Rightarrow> uuid \<Rightarrow> store \<Rightarrow> unit result \<times> store" where
  "refreshRepo_RevokeAllForUser now userID s =
     (Inr (), touch (s\<lparr>refresh := map (\<lambda>(i, rt). (i,
        if rtUserID rt = userID \<and> RevokedAt rt = None then rt\<lparr>RevokedAt := Some now\<rparr> else rt)) (refresh s)\<rparr>))"

section \<open>Password resets\<close>

definition resetRepo_Create :: "uuid \<Rightarrow> gotime \<Rightarrow> password_reset \<Rightarrow> store \<Rightarrow> password_reset result \<times> store" where
  "resetRepo_Create newID now pr s =
     (let pr = (if prID pr = uuid_Nil then pr\<lparr>prID := newID\<rparr> else pr);
          pr = pr\<lparr>prCreatedAt := now\<rparr>
      in (Inr pr, touch (s\<lparr>resets := put (prID pr) pr (resets s)\<rparr>)))"

definition resetRepo_GetByHash :: "string \<Rightarrow> store \<Rightarrow> password_reset result" where
  "resetRepo_GetByHash hash s = find_row (\<lambda>pr. prTokenHash pr = hash) (resets s)"

definition resetRepo_MarkUsed :: "gotime \<Rightarrow> uuid \<Rightarrow> store \<Rightarrow> unit result \<times> store" where
  "resetRepo_MarkUsed now i s =
     (case map_of (resets s) i of
        None \<Rightarrow> (Inl ErrNotFound, s)
      | Some pr \<Rightarrow> (Inr (), touch (s\<lparr>resets := put i (pr\<lparr>UsedAt := Some now\<rparr>) (resets s)\<rparr>)))"

section \<open>Networks\<close>

definition networkRepo_Create :: "uuid \<Rightarrow> gotime \<Rightarrow> network \<Rightarrow> store \<Rightarrow> network result \<times> store" where
  "networkRepo_Create newID now n s =
     (if some_row (\<lambda>existing. InviteCode existing = InviteCode n) (networks s) then (Inl ErrAlreadyExists, s)
      else let n = (if nID n = uuid_Nil then n\<lparr>nID := newID\<rparr> else n);
               n = n\<lparr>nCreatedAt := now, nUpdatedAt := now\<rparr>
           in (Inr n, touch (s\<lparr>networks := put (nID n) n (networks s)\<rparr>)))"

definition networkRepo_GetByID :: "uuid \<Rightarrow> store \<Rightarrow> network result" where
  "networkRepo_GetByID i s = row_or_not_found (map_of (networks s) i)"

definition invite_expired :: "gotime \<Rightarrow> network \<Rightarrow> bool" where
  "invite_expired now n \<longleftrightarrow> (case InviteCodeExpiresAt n of None \<Rightarrow> False | Some e \<Rightarrow> after now e)"

definition networkRepo_GetByInviteCode :: "gotime \<Rightarrow> string \<Rightarrow> store \<Rightarrow> network result" where
  "networkRepo_GetByInviteCode now code s =
     (case find (\<lambda>n. EqualFold (InviteCode n) code) (map snd (networks s)) of
        None \<Rightarrow> Inl ErrNotFound
      | Some n \<Rightarrow> if invite_expired now n then Inl ErrNotFound else Inr n)"

definition networkRepo_ListForUser :: "uuid \<Rightarrow> store \<Rightarrow> network list" where
  "networkRepo_ListForUser userID s =
     sort_key nCreatedAt
       (List.map_filter (\<lambda>(key, m). if mUserID m \<noteq> userID then None else map_of (networks s) (fst key)) (members s))"

definition networkRepo_Update :: "gotime \<Rightarrow> network \<Rightarrow> store \<Rightarrow> network result \<times> store" where
  "networkRepo_Update now n s =
     (case map_of (networks s) (nID n) of
        None \<Rightarrow> (Inl ErrNotFound, s)
      | Some _ \<Rightarrow> let n = n\<lparr>nUpdatedAt := now\<rparr> in (Inr n, touch (s\<lparr>networks := put (nID n) n (networks s)\<rparr>)))"

definition networkRepo_Delete :: "uuid \<Rightarrow> store \<Rightarrow> unit result \<times> store" where
  "networkRepo_Delete i s =
     (case map_of (networks s) i of
        None \<Rightarrow> (Inl ErrNotFound, s)
      | Some _ \<Rightarrow>
          (Inr (), touch (s\<lparr>networks := del i (networks s),
                            members := filter (\<lambda>(key, m). fst key \<noteq> i) (members s),
                            devices := filter (\<lambda>(k, d). dNetworkID d \<noteq> i) (devices s)\<rparr>)))"

definition networkRepo_RotateInviteCode ::
  "gotime \<Rightarrow> uuid \<Rightarrow> string \<Rightarrow> gotime option \<Rightarrow> store \<Rightarrow> unit result \<times> store" where
  "networkRepo_RotateInviteCode now i code expires s =
     (case map_of (networks s) i of
        None \<Rightarrow> (Inl ErrNotFound, s)
      | Some n \<Rightarrow>
          (Inr (), touch (s\<lparr>networks := put i (n\<lparr>InviteCode := code, InviteCodeExpiresAt := expires,
                                                 nUpdatedAt := now\<rparr>) (networks s)\<rparr>)))"

definition networkRepo_CountMembers :: "uuid \<Rightarrow> store \<Rightarrow> nat" where
  "networkRepo_CountMembers networkID s = count_rows (\<lambda>(key, m). fst key = networkID) (members s)"

definition networkRepo_CountDevices :: "uuid \<Rightarrow> store \<Rightarrow> nat" where
  "networkRepo_CountDevices networkID s = count_rows (\<lambda>(k, d). dNetworkID d = networkID) (devices s)"

section \<open>Members\<close>

definition memberRepo_Create :: "uuid \<Rightarrow> gotime \<Rightarrow> network_member \<Rightarrow> store \<Rightarrow> network_member result \<times> store" where
  "memberRepo_Create newID now m s =
     (let key = (mNetworkID m, mUserID m)
      in case map_of (members s) key of
           Some _ \<Rightarrow> (Inl ErrAlreadyExists, s)
         | None \<Rightarrow> let m = (if mID m = uuid_Nil then m\<lparr>mID := newID\<rparr> else m);
                       m = m\<lparr>JoinedAt := now\<rparr>
                   in (Inr m, touch (s\<lparr>members := put key m (members s)\<rparr>)))"

definition memberRepo_Get :: "uuid \<Rightarrow> uuid \<Rightarrow> store \<Rightarrow> network_member result" where
  "memberRepo_Get networkID userID s = row_or_not_found (map_of (members s) (networkID, userID))"

definition memberRepo_List :: "uuid \<Rightarrow> store \<Rightarrow> network_member list" where
  "memberRepo_List networkID s =
     sort_key JoinedAt (map snd (filter (\<lambda>(key, m). fst key = networkID) (members s)))"

definition memberRepo_ListNetworkIDsForUser :: "uuid \<Rightarrow> store \<Rightarrow> uuid list" where
  "memberRepo_ListNetworkIDsForUser userID s =
     map (\<lambda>(key, m). fst key) (filter (\<lambda>(key, m). mUserID m = userID) (members s))"

definition memberRepo_UpdateRole :: "uuid \<Rightarrow> uuid \<Rightarrow> network_role \<Rightarrow> store \<Rightarrow> unit result \<times> store" where
  "memberRepo_UpdateRole networkID userID role s =
     (case map_of (members s) (networkID, userID) of
        None \<Rightarrow> (Inl ErrNotFound, s)
      | Some m \<Rightarrow> (Inr (), touch (s\<lparr>members := put (networkID, userID) (m\<lparr>Role := role\<rparr>) (members s)\<rparr>)))"

definition memberRepo_Delete :: "uuid \<Rightarrow> uuid \<Rightarrow> store \<Rightarrow> unit result \<times> store" where
  "memberRepo_Delete networkID userID s =
     (case map_of (members s) (networkID, userID) of
        None \<Rightarrow> (Inl ErrNotFound, s)
      | Some _ \<Rightarrow>
          (Inr (), touch (s\<lparr>members := del (networkID, userID) (members s),
             devices := filter (\<lambda>(k, d). \<not> (dNetworkID d = networkID \<and> dUserID d = userID)) (devices s)\<rparr>)))"

definition memberRepo_CountByRole :: "uuid \<Rightarrow> network_role \<Rightarrow> store \<Rightarrow> nat" where
  "memberRepo_CountByRole networkID role s =
     count_rows (\<lambda>(key, m). fst key = networkID \<and> Role m = role) (members s)"

section \<open>Devices\<close>

definition deviceRepo_Create :: "uuid \<Rightarrow> gotime \<Rightarrow> device \<Rightarrow> store \<Rightarrow> device result \<times> store" where
  "deviceRepo_Create newID now d s =
     (if some_row (\<lambda>existing. PublicKey existing = PublicKey d) (devices s) then (Inl ErrAlreadyExists, s)
      else let d = (if dID d = uuid_Nil then d\<lparr>dID := newID\<rparr> else d);
               d = d\<lparr>dCreatedAt := now, dUpdatedAt := now\<rparr>
           in (Inr d, touch (s\<lparr>devices := put (dID d) d (devices s)\<rparr>)))"

definition deviceRepo_GetByID :: "uuid \<Rightarrow> store \<Rightarrow> device result" where
  "deviceRepo_GetByID i s = row_or_not_found (map_of (devices s) i)"

definition deviceRepo_GetByPublicKey :: "string \<Rightarrow> store \<Rightarrow> device result" where
  "deviceRepo_GetByPublicKey key s = find_row (\<lambda>d. PublicKey d = key) (devices s)"

definition deviceRepo_GetByNetworkAndUser :: "uuid \<Rightarrow> uuid \<Rightarrow> store \<Rightarrow> device result" where
  "deviceRepo_GetByNetworkAndUser networkID userID s =
     find_row (\<lambda>d. dNetworkID d = networkID \<and> dUserID d = userID) (devices s)"

definition listDevicesLocked :: "(device \<Rightarrow> bool) \<Rightarrow> store \<Rightarrow> device list" where
  "listDevicesLocked match s = sort_key dCreatedAt (filter match (map snd (devices s)))"

definition deviceRepo_ListByNetwork :: "uuid \<Rightarrow> store \<Rightarrow> device list" where
  "deviceRepo_ListByNetwork networkID s = listDevicesLocked (\<lambda>d. dNetworkID d = networkID) s"

definition deviceRepo_ListByUser :: "uuid \<Rightarrow> store \<Rightarrow> device list" where
  "deviceRepo_ListByUser userID s = listDevicesLocked (\<lambda>d. dUserID d = userID) s"

definition deviceRepo_ListPeers :: "uuid \<Rightarrow> store \<Rightarrow> device list result" where
  "deviceRepo_ListPeers deviceID s =
     (case map_of (devices s) deviceID of
        None \<Rightarrow> Inl ErrNotFound
      | Some self \<Rightarrow> Inr (listDevicesLocked (\<lambda>d. dNetworkID d = dNetworkID self \<and> dID d \<noteq> deviceID) s))"

definition deviceRepo_Update :: "gotime \<Rightarrow> device \<Rightarrow> store \<Rightarrow> device result \<times> store" where
  "deviceRepo_Update now d s =
     (case map_of (devices s) (dID d) of
        None \<Rightarrow> (Inl ErrNotFound, s)
      | Some _ \<Rightarrow> let d = d\<lparr>dUpdatedAt := now\<rparr> in (Inr d, touch (s\<lparr>devices := put (dID d) d (devices s)\<rparr>)))"

definition new_info :: "string option \<Rightarrow> string option \<Rightarrow> string option" where
  "new_info v old = (case v of None \<Rightarrow> old | Some x \<Rightarrow> if x \<noteq> [] then Some x else old)"

definition deviceRepo_UpdateHeartbeat ::
  "gotime \<Rightarrow> uuid \<Rightarrow> device_status \<Rightarrow> string option \<Rightarrow> string option \<Rightarrow> string option \<Rightarrow>
     64 word \<Rightarrow> 64 word \<Rightarrow> store \<Rightarrow> unit result \<times> store" where
  "deviceRepo_UpdateHeartbeat now i status publicIP privateIP natType sentBytes received s =
     (case map_of (devices s) i of
        None \<Rightarrow> (Inl ErrNotFound, s)
      | Some d \<Rightarrow>
          let d = d\<lparr>dStatus := status, LastSeenAt := Some now,
                    LastPublicIP := new_info publicIP (LastPublicIP d),
                    LastPrivateIP := new_info privateIP (LastPrivateIP d),
                    dNATType := new_info natType (dNATType d),
                    dBytesSent := sentBytes, dBytesReceived := received, dUpdatedAt := now\<rparr>
          in (Inr (), touch (s\<lparr>devices := put i d (devices s)\<rparr>)))"

definition deviceRepo_Delete :: "uuid \<Rightarrow> store \<Rightarrow> unit result \<times> store" where
  "deviceRepo_Delete i s =
     (case map_of (devices s) i of
        None \<Rightarrow> (Inl ErrNotFound, s)
      | Some _ \<Rightarrow> (Inr (), touch (s\<lparr>devices := del i (devices s)\<rparr>)))"

definition seen_since :: "gotime \<Rightarrow> device \<Rightarrow> bool" where
  "seen_since since d \<longleftrightarrow> (case LastSeenAt d of None \<Rightarrow> False | Some t \<Rightarrow> after t since)"

definition deviceRepo_CountDistinctActiveUsers :: "gotime \<Rightarrow> store \<Rightarrow> nat" where
  "deviceRepo_CountDistinctActiveUsers since s =
     length (remdups (map dUserID (filter (seen_since since) (map snd (devices s)))))"

definition deviceRepo_CountDistinctActiveNetworks :: "gotime \<Rightarrow> store \<Rightarrow> nat" where
  "deviceRepo_CountDistinctActiveNetworks since s =
     length (remdups (map dNetworkID (filter (seen_since since) (map snd (devices s)))))"

definition deviceRepo_CountTotal :: "store \<Rightarrow> nat" where
  "deviceRepo_CountTotal s = length (devices s)"

section \<open>The contract of a repository\<close>

lemma row_or_not_found_simps [simp]:
  "row_or_not_found None = Inl ErrNotFound" "row_or_not_found (Some v) = Inr v"
  "row_or_not_found r = Inr v \<longleftrightarrow> r = Some v"
  "row_or_not_found r = Inl e \<longleftrightarrow> r = None \<and> e = ErrNotFound"
  by (auto simp: row_or_not_found_def split: option.splits)

lemma row_or_not_found_inject [simp]: "row_or_not_found r = row_or_not_found r' \<longleftrightarrow> r = r'"
  by (cases r; cases r') auto

locale keyed_repo =
  fixes row :: "'s \<Rightarrow> 'k \<Rightarrow> 'v option"
    and key :: "'v \<Rightarrow> 'k"
    and create :: "uuid \<Rightarrow> gotime \<Rightarrow> 'v \<Rightarrow> 's \<Rightarrow> 'v result \<times> 's"
    and get :: "'k \<Rightarrow> 's \<Rightarrow> 'v result"
  assumes create_row: "create i now v s = (Inr v', s') \<Longrightarrow> row s' = (row s)(key v' \<mapsto> v')"
    and create_error: "create i now v s = (Inl e, s') \<Longrightarrow> s' = s"
    and get_row: "get k s = row_or_not_found (row s k)"
begin

lemma read_own_write: "create i now v s = (Inr v', s') \<Longrightarrow> get (key v') s' = Inr v'"
  by (simp add: get_row create_row)

lemma read_other: "create i now v s = (Inr v', s') \<Longrightarrow> k \<noteq> key v' \<Longrightarrow> get k s' = get k s"
  by (simp add: get_row create_row)

lemma get_error: "get k s = Inl e \<Longrightarrow> e = ErrNotFound \<and> row s k = None"
  by (simp add: get_row)

end

interpretation user_repo: keyed_repo "\<lambda>s. map_of (users s)" uID userRepo_Create userRepo_GetByID
  by unfold_locales
    (auto simp: userRepo_Create_def userRepo_GetByID_def touch_def Let_def AList.update_conv' split: if_splits)

interpretation network_repo: keyed_repo "\<lambda>s. map_of (networks s)" nID networkRepo_Create networkRepo_GetByID
  by unfold_locales
    (auto simp: networkRepo_Create_def networkRepo_GetByID_def touch_def Let_def AList.update_conv' split: if_splits)

interpretation member_repo: keyed_repo "\<lambda>s. map_of (members s)" "\<lambda>m. (mNetworkID m, mUserID m)"
  memberRepo_Create "\<lambda>(n, u). memberRepo_Get n u"
  by unfold_locales
    (auto simp: memberRepo_Create_def memberRepo_Get_def touch_def Let_def AList.update_conv'
      split: if_splits option.splits)

interpretation device_repo: keyed_repo "\<lambda>s. map_of (devices s)" dID deviceRepo_Create deviceRepo_GetByID
  by unfold_locales
    (auto simp: deviceRepo_Create_def deviceRepo_GetByID_def touch_def Let_def AList.update_conv' split: if_splits)

section \<open>Finding rows\<close>

lemma find_row_Inr: "find_row P m = Inr v \<Longrightarrow> P v \<and> v \<in> snd ` set m"
  by (auto simp: find_row_def find_Some_iff)

lemma find_row_Inl: "find_row P m = Inl e \<longleftrightarrow> e = ErrNotFound \<and> (\<forall>v \<in> snd ` set m. \<not> P v)"
  by (auto simp: find_row_def find_None_iff)

lemma some_row_iff: "some_row P m \<longleftrightarrow> (\<exists>v \<in> snd ` set m. P v)"
  by (auto simp: some_row_def list_ex_iff)

section \<open>What the operations keep\<close>

text \<open>The store with its persistent tables compared: what an operation that is about other tables
  leaves alone.\<close>

lemmas repo_defs =
  userRepo_Create_def userRepo_Update_def refreshRepo_Create_def refreshRepo_Revoke_def
  refreshRepo_RevokeAllForUser_def resetRepo_Create_def resetRepo_MarkUsed_def
  networkRepo_Create_def networkRepo_Update_def networkRepo_Delete_def networkRepo_RotateInviteCode_def
  memberRepo_Create_def memberRepo_UpdateRole_def memberRepo_Delete_def
  deviceRepo_Create_def deviceRepo_Update_def deviceRepo_UpdateHeartbeat_def deviceRepo_Delete_def

lemma store_ok_put:
  assumes "store_ok s"
  shows "uID u = k \<Longrightarrow> store_ok (s\<lparr>users := put k u (users s)\<rparr>)"
    and "nID n = k \<Longrightarrow> store_ok (s\<lparr>networks := put k n (networks s)\<rparr>)"
    and "(mNetworkID m, mUserID m) = kk \<Longrightarrow> store_ok (s\<lparr>members := put kk m (members s)\<rparr>)"
    and "dID d = k \<Longrightarrow> store_ok (s\<lparr>devices := put k d (devices s)\<rparr>)"
    and "rtID rt = k \<Longrightarrow> store_ok (s\<lparr>refresh := put k rt (refresh s)\<rparr>)"
    and "prID pr = k \<Longrightarrow> store_ok (s\<lparr>resets := put k pr (resets s)\<rparr>)"
    and "rsID r = k \<Longrightarrow> store_ok (s\<lparr>relays := put k r (relays s)\<rparr>)"
    and "store_ok (s\<lparr>devices := del k (devices s)\<rparr>)"
    and "store_ok (s\<lparr>presence := put k e (presence s)\<rparr>)"
    and "store_ok (s\<lparr>presence := del k (presence s)\<rparr>)"
    and "store_ok (s\<lparr>ice := put kk x (ice s)\<rparr>)"
    and "store_ok (s\<lparr>limits := put str l (limits s)\<rparr>)"
  using assms by (auto simp: store_ok_def)

lemma store_ok_keys:
  assumes "store_ok s"
  shows "map_of (users s) k = Some u \<Longrightarrow> uID u = k"
    and "map_of (networks s) k = Some n \<Longrightarrow> nID n = k"
    and "map_of (members s) kk = Some m \<Longrightarrow> (mNetworkID m, mUserID m) = kk"
    and "map_of (devices s) k = Some d \<Longrightarrow> dID d = k"
    and "map_of (refresh s) k = Some rt \<Longrightarrow> rtID rt = k"
    and "map_of (resets s) k = Some pr \<Longrightarrow> prID pr = k"
    and "map_of (relays s) k = Some r \<Longrightarrow> rsID r = k"
  using assms keyed_get [of uID "users s" k u] keyed_get [of nID "networks s" k n]
    keyed_get [of "\<lambda>m. (mNetworkID m, mUserID m)" "members s" kk m] keyed_get [of dID "devices s" k d]
    keyed_get [of rtID "refresh s" k rt] keyed_get [of prID "resets s" k pr]
    keyed_get [of rsID "relays s" k r]
  by (simp_all add: store_ok_def)

lemma user_ops_ok:
  assumes "store_ok s"
  shows "store_ok (snd (userRepo_Create i now u s))" "store_ok (snd (userRepo_Update now u s))"
  using assms
  by (auto simp: userRepo_Create_def userRepo_Update_def Let_def store_ok_put split: option.split)

lemma refresh_ops_ok:
  assumes "store_ok s"
  shows "store_ok (snd (refreshRepo_Create i now rt s))" "store_ok (snd (refreshRepo_Revoke now k s))"
    and "store_ok (snd (refreshRepo_RevokeAllForUser now k s))"
proof -
  show "store_ok (snd (refreshRepo_Create i now rt s))"
    using assms by (auto simp: refreshRepo_Create_def Let_def store_ok_put)
  show "store_ok (snd (refreshRepo_Revoke now k s))"
    using assms by (auto simp: refreshRepo_Revoke_def store_ok_put store_ok_keys split: option.split)
  show "store_ok (snd (refreshRepo_RevokeAllForUser now k s))"
    using assms by (auto simp: refreshRepo_RevokeAllForUser_def store_ok_def touch_def intro: keyed_map)
qed

lemma reset_ops_ok:
  assumes "store_ok s"
  shows "store_ok (snd (resetRepo_Create i now pr s))" "store_ok (snd (resetRepo_MarkUsed now k s))"
  using assms
  by (auto simp: resetRepo_Create_def resetRepo_MarkUsed_def Let_def store_ok_put store_ok_keys split: option.split)

lemma network_ops_ok:
  assumes "store_ok s"
  shows "store_ok (snd (networkRepo_Create i now n s))" "store_ok (snd (networkRepo_Update now n s))"
    and "store_ok (snd (networkRepo_Delete k s))" "store_ok (snd (networkRepo_RotateInviteCode now k code e s))"
proof -
  show "store_ok (snd (networkRepo_Create i now n s))" "store_ok (snd (networkRepo_Update now n s))"
    using assms by (auto simp: networkRepo_Create_def networkRepo_Update_def Let_def store_ok_put split: option.split)
  show "store_ok (snd (networkRepo_Delete k s))"
    using assms by (auto simp: networkRepo_Delete_def store_ok_def touch_def split: option.split)
  show "store_ok (snd (networkRepo_RotateInviteCode now k code e s))"
    using assms by (auto simp: networkRepo_RotateInviteCode_def store_ok_put store_ok_keys split: option.split)
qed

lemma member_ops_ok:
  assumes "store_ok s"
  shows "store_ok (snd (memberRepo_Create i now m s))" "store_ok (snd (memberRepo_UpdateRole n u r s))"
    and "store_ok (snd (memberRepo_Delete n u s))"
proof -
  show "store_ok (snd (memberRepo_Create i now m s))"
    using assms by (auto simp: memberRepo_Create_def Let_def store_ok_put split: option.split)
  show "store_ok (snd (memberRepo_UpdateRole n u r s))"
    using assms store_ok_keys(3) [OF assms]
    by (auto simp: memberRepo_UpdateRole_def store_ok_put split: option.split)
  show "store_ok (snd (memberRepo_Delete n u s))"
    using assms by (auto simp: memberRepo_Delete_def store_ok_def touch_def split: option.split)
qed

lemma device_ops_ok:
  assumes "store_ok s"
  shows "store_ok (snd (deviceRepo_Create i now d s))" "store_ok (snd (deviceRepo_Update now d s))"
    and "store_ok (snd (deviceRepo_UpdateHeartbeat now k st p1 p2 nt b1 b2 s))"
    and "store_ok (snd (deviceRepo_Delete k s))"
  using assms
  by (auto simp: deviceRepo_Create_def deviceRepo_Update_def deviceRepo_UpdateHeartbeat_def
      deviceRepo_Delete_def Let_def store_ok_put store_ok_keys split: option.split)

lemmas repo_ops_ok =
  user_ops_ok refresh_ops_ok reset_ops_ok network_ops_ok member_ops_ok device_ops_ok

end
