(* ===== verification/Embedded_Infra.thy ===== *)
theory Embedded_Infra
  imports Complex_Main Embedded_Repos
begin

text \<open>
  The infrastructure half of the embedded store, \<open>backend/internal/repository/embedded/infra.go\<close>:
  presence, the peer event bus, the ICE rendezvous, the rate limiter, the logs and the relay
  registry.

  The load of a relay is compared as the rational number of its sessions over its capacity. The
  source divides \<open>float64\<close>s; for capacities below \<open>2^26\<close> two different fractions below 1 differ by
  more than the rounding, so the comparison is the same.
\<close>

section \<open>Presence\<close>

definition presence_SetOnline :: "gotime \<Rightarrow> uuid \<Rightarrow> uuid \<Rightarrow> presence_endpoint \<Rightarrow> duration \<Rightarrow> store \<Rightarrow> store" where
  "presence_SetOnline now networkID deviceID ep ttl s =
     s\<lparr>presence := put deviceID \<lparr>peNetworkID = networkID, endpoint = ep, peExpires = now + ttl\<rparr> (presence s)\<rparr>"

definition presence_Remove :: "uuid \<Rightarrow> store \<Rightarrow> store" where
  "presence_Remove deviceID s = s\<lparr>presence := del deviceID (presence s)\<rparr>"

definition presence_Get :: "gotime \<Rightarrow> uuid \<Rightarrow> store \<Rightarrow> presence_endpoint option" where
  "presence_Get now deviceID s =
     (case map_of (presence s) deviceID of
        None \<Rightarrow> None
      | Some e \<Rightarrow> if after now (peExpires e) then None else Some (endpoint e))"

definition presence_OnlineInNetwork :: "gotime \<Rightarrow> uuid \<Rightarrow> store \<Rightarrow> uuid list" where
  "presence_OnlineInNetwork now networkID s =
     map fst (filter (\<lambda>(i, e). peNetworkID e = networkID \<and> now < peExpires e) (presence s))"

definition presence_CountOnline :: "gotime \<Rightarrow> store \<Rightarrow> nat" where
  "presence_CountOnline now s = count_rows (\<lambda>(i, e). now < peExpires e) (presence s)"

section \<open>The peer event bus\<close>

text \<open>
  A subscription is a pointer, here a number; \<open>subs\<close> is the set of registered ones and \<open>chans\<close> the
  channels, with their buffered events. A send on a closed channel panics in Go: \<open>Publish\<close> then
  returns \<open>None\<close>.
\<close>

record channel =
  subNetworks :: "uuid list"
  buffer :: "peer_event list"
  closed :: bool

record bus =
  subs :: "nat list"
  chans :: "(nat, channel) gomap"

definition newBus :: bus where
  "newBus = \<lparr>subs = [], chans = []\<rparr>"

definition channelCap :: nat where
  "channelCap = 64"

definition send :: "peer_event \<Rightarrow> channel \<Rightarrow> channel" where
  "send ev ch = (if length (buffer ch) < channelCap then ch\<lparr>buffer := buffer ch @ [ev]\<rparr> else ch)"

fun publish_loop :: "peer_event \<Rightarrow> nat list \<Rightarrow> bus \<Rightarrow> bus option" where
  "publish_loop ev [] b = Some b"
| "publish_loop ev (i # is) b =
     (case map_of (chans b) i of
        None \<Rightarrow> publish_loop ev is b
      | Some ch \<Rightarrow>
          if evNetworkID ev \<notin> set (subNetworks ch) then publish_loop ev is b
          else if closed ch then None
          else publish_loop ev is (b\<lparr>chans := put i (send ev ch) (chans b)\<rparr>))"

definition Publish :: "peer_event \<Rightarrow> bus \<Rightarrow> bus option" where
  "Publish ev b = publish_loop ev (subs b) b"

definition Subscribe :: "uuid list \<Rightarrow> bus \<Rightarrow> nat \<times> bus" where
  "Subscribe networkIDs b =
     (let i = length (chans b)
      in (i, b\<lparr>subs := i # subs b,
               chans := put i \<lparr>subNetworks = networkIDs, buffer = [], closed = False\<rparr> (chans b)\<rparr>))"

definition subscription_Close :: "nat \<Rightarrow> bus \<Rightarrow> bus" where
  "subscription_Close i b =
     (case map_of (chans b) i of
        None \<Rightarrow> b
      | Some ch \<Rightarrow> if closed ch then b
                   else b\<lparr>subs := removeAll i (subs b), chans := put i (ch\<lparr>closed := True\<rparr>) (chans b)\<rparr>)"

section \<open>ICE rendezvous\<close>

definition ice_Put :: "gotime \<Rightarrow> uuid \<Rightarrow> uuid \<Rightarrow> ice_candidate list \<Rightarrow> duration \<Rightarrow> store \<Rightarrow> store" where
  "ice_Put now from_dev to_dev cs ttl s =
     s\<lparr>ice := put (from_dev, to_dev) \<lparr>candidates = cs, iceExpires = now + ttl\<rparr> (ice s)\<rparr>"

definition ice_Get :: "gotime \<Rightarrow> uuid \<Rightarrow> uuid \<Rightarrow> store \<Rightarrow> ice_candidate list" where
  "ice_Get now forDevice fromDevice s =
     (case map_of (ice s) (fromDevice, forDevice) of
        None \<Rightarrow> []
      | Some e \<Rightarrow> if after now (iceExpires e) then [] else candidates e)"

section \<open>Rate limiting\<close>

definition limiter_Allow :: "gotime \<Rightarrow> string \<Rightarrow> int \<Rightarrow> duration \<Rightarrow> store \<Rightarrow> bool \<times> store" where
  "limiter_Allow now key limit window s =
     (let fresh = \<lparr>count = 0, resets_at = now + window, limitAt = 0\<rparr>;
          entry = (case map_of (limits s) key of
                     None \<Rightarrow> fresh
                   | Some e \<Rightarrow> if after now (resets_at e) then fresh else e);
          entry = entry\<lparr>count := count entry + 1, limitAt := limit\<rparr>
      in (count entry \<le> limit, s\<lparr>limits := put key entry (limits s)\<rparr>))"

section \<open>Logs\<close>

definition connLogRepo_Create :: "uuid \<Rightarrow> gotime \<Rightarrow> connection_log \<Rightarrow> store \<Rightarrow> connection_log \<times> store" where
  "connLogRepo_Create newID now l s =
     (let l = (if clID l = uuid_Nil then l\<lparr>clID := newID\<rparr> else l); l = l\<lparr>clCreatedAt := now\<rparr>
      in (l, touch (s\<lparr>connLogs := capLog (connLogs s @ [l])\<rparr>)))"

definition auditLogRepo_Create :: "uuid \<Rightarrow> gotime \<Rightarrow> audit_log \<Rightarrow> store \<Rightarrow> audit_log \<times> store" where
  "auditLogRepo_Create newID now l s =
     (let l = (if alID l = uuid_Nil then l\<lparr>alID := newID\<rparr> else l); l = l\<lparr>alCreatedAt := now\<rparr>
      in (l, touch (s\<lparr>auditLogs := capLog (auditLogs s @ [l])\<rparr>)))"

definition errLogRepo_Create :: "uuid \<Rightarrow> gotime \<Rightarrow> error_log \<Rightarrow> store \<Rightarrow> error_log \<times> store" where
  "errLogRepo_Create newID now l s =
     (let l = (if elID l = uuid_Nil then l\<lparr>elID := newID\<rparr> else l); l = l\<lparr>elCreatedAt := now\<rparr>
      in (l, touch (s\<lparr>errLogs := capLog (errLogs s @ [l])\<rparr>)))"

text \<open>The loop of \<open>page\<close>, over the rows from the last to the first.\<close>

fun page_loop :: "('a \<Rightarrow> bool) \<Rightarrow> nat \<Rightarrow> nat \<Rightarrow> 'a list \<Rightarrow> nat \<Rightarrow> 'a list \<Rightarrow> 'a list" where
  "page_loop match limit offset [] skipped out = out"
| "page_loop match limit offset (r # rows) skipped out =
     (if length out < limit then
        if \<not> match r then page_loop match limit offset rows skipped out
        else if skipped < offset then page_loop match limit offset rows (Suc skipped) out
        else page_loop match limit offset rows skipped (out @ [r])
      else out)"

definition page :: "'a list \<Rightarrow> int \<Rightarrow> int \<Rightarrow> ('a \<Rightarrow> bool) \<Rightarrow> 'a list" where
  "page rows limit offset match =
     (let limit = (if limit \<le> 0 \<or> limit > int maxLogRows then 100 else limit);
          offset = (if offset < 0 then 0 else offset)
      in page_loop match (nat limit) (nat offset) (rev rows) 0 [])"

definition connLogRepo_ListByNetwork :: "uuid \<Rightarrow> int \<Rightarrow> int \<Rightarrow> store \<Rightarrow> connection_log list" where
  "connLogRepo_ListByNetwork networkID limit offset s =
     page (connLogs s) limit offset (\<lambda>l. clNetworkID l = networkID)"

definition connLogRepo_List :: "int \<Rightarrow> int \<Rightarrow> store \<Rightarrow> connection_log list" where
  "connLogRepo_List limit offset s = page (connLogs s) limit offset (\<lambda>_. True)"

definition connLogRepo_SumBytesByEventType :: "connection_event_type \<Rightarrow> gotime \<Rightarrow> store \<Rightarrow> 64 word" where
  "connLogRepo_SumBytesByEventType eventType since s =
     foldl (\<lambda>total l. if EventType l = eventType \<and> after (clCreatedAt l) since
                     then total + (clBytesSent l + clBytesReceived l) else total) 0 (connLogs s)"

definition connLogRepo_CountByEventType :: "gotime \<Rightarrow> store \<Rightarrow> (connection_event_type, int) gomap" where
  "connLogRepo_CountByEventType since s =
     foldl (\<lambda>counts l. if after (clCreatedAt l) since
                      then put (EventType l) (case map_of counts (EventType l) of None \<Rightarrow> 1 | Some c \<Rightarrow> c + 1) counts
                      else counts) [] (connLogs s)"

definition auditLogRepo_ListByNetwork :: "uuid \<Rightarrow> int \<Rightarrow> int \<Rightarrow> store \<Rightarrow> audit_log list" where
  "auditLogRepo_ListByNetwork networkID limit offset s =
     page (auditLogs s) limit offset (\<lambda>l. alNetworkID l = Some networkID)"

definition auditLogRepo_List :: "int \<Rightarrow> int \<Rightarrow> store \<Rightarrow> audit_log list" where
  "auditLogRepo_List limit offset s = page (auditLogs s) limit offset (\<lambda>_. True)"

section \<open>Relay servers\<close>

definition relayRepo_Create :: "uuid \<Rightarrow> gotime \<Rightarrow> relay_server \<Rightarrow> store \<Rightarrow> relay_server result \<times> store" where
  "relayRepo_Create newID now rs s =
     (let rs = (if rsID rs = uuid_Nil then rs\<lparr>rsID := newID\<rparr> else rs); rs = rs\<lparr>rsCreatedAt := now\<rparr>
      in (Inr rs, touch (s\<lparr>relays := put (rsID rs) rs (relays s)\<rparr>)))"

definition relayRepo_Upsert :: "uuid \<Rightarrow> gotime \<Rightarrow> relay_server \<Rightarrow> store \<Rightarrow> relay_server \<times> store" where
  "relayRepo_Upsert newID now rs s =
     (case find (\<lambda>e. Hostname e = Hostname rs \<and> RelayPort e = RelayPort rs) (map snd (relays s)) of
        Some existing \<Rightarrow>
          let rs = rs\<lparr>rsID := rsID existing, rsCreatedAt := rsCreatedAt existing\<rparr>
          in (rs, touch (s\<lparr>relays := put (rsID existing) rs (relays s)\<rparr>))
      | None \<Rightarrow>
          let rs = (if rsID rs = uuid_Nil then rs\<lparr>rsID := newID\<rparr> else rs); rs = rs\<lparr>rsCreatedAt := now\<rparr>
          in (rs, touch (s\<lparr>relays := put (rsID rs) rs (relays s)\<rparr>)))"

definition relayRepo_GetByID :: "uuid \<Rightarrow> store \<Rightarrow> relay_server result" where
  "relayRepo_GetByID i s = row_or_not_found (map_of (relays s) i)"

definition relayStaleAfter :: duration where
  "relayStaleAfter = 90 * Second"

definition isRelayHealthy :: "gotime \<Rightarrow> relay_server \<Rightarrow> bool" where
  "isRelayHealthy now rs \<longleftrightarrow>
     (rsStatus rs = [] \<or> rsStatus rs = ''active'' \<or> rsStatus rs = ''healthy'') \<and>
     (case LastHeartbeatAt rs of None \<Rightarrow> False | Some t \<Rightarrow> time_Sub now t < relayStaleAfter)"

definition relayRepo_ListActive :: "gotime \<Rightarrow> store \<Rightarrow> relay_server list" where
  "relayRepo_ListActive now s = filter (isRelayHealthy now) (map snd (relays s))"

definition loadFraction :: "relay_server \<Rightarrow> rat" where
  "loadFraction rs = (if Capacity rs \<le> 0 then 1 else of_int (CurrentLoad rs) / of_int (Capacity rs))"

definition wins_over :: "string \<Rightarrow> relay_server \<Rightarrow> relay_server \<Rightarrow> bool" where
  "wins_over region rs best \<longleftrightarrow>
     (Region rs = region \<and> Region best \<noteq> region) \<or>
     ((Region rs = region) = (Region best = region) \<and> loadFraction rs < loadFraction best)"

fun pick_loop :: "gotime \<Rightarrow> string \<Rightarrow> relay_server list \<Rightarrow> relay_server option \<Rightarrow> relay_server option" where
  "pick_loop now region [] best = best"
| "pick_loop now region (rs # rss) best =
     (if \<not> isRelayHealthy now rs \<or> CurrentLoad rs \<ge> Capacity rs then pick_loop now region rss best
      else case best of
             None \<Rightarrow> pick_loop now region rss (Some rs)
           | Some b \<Rightarrow> pick_loop now region rss (if wins_over region rs b then Some rs else Some b))"

definition relayRepo_PickLeastLoaded :: "gotime \<Rightarrow> string \<Rightarrow> store \<Rightarrow> relay_server result" where
  "relayRepo_PickLeastLoaded now region s =
     (case pick_loop now region (map snd (relays s)) None of
        None \<Rightarrow> Inl ErrNoRelayAvailable
      | Some best \<Rightarrow> Inr best)"

definition relayRepo_IncrementLoad :: "uuid \<Rightarrow> int \<Rightarrow> store \<Rightarrow> unit result \<times> store" where
  "relayRepo_IncrementLoad i delta s =
     (case map_of (relays s) i of
        None \<Rightarrow> (Inl ErrNotFound, s)
      | Some rs \<Rightarrow>
          let newLoad = CurrentLoad rs + delta; newLoad = (if newLoad < 0 then 0 else newLoad)
          in (Inr (), touch (s\<lparr>relays := put i (rs\<lparr>CurrentLoad := newLoad\<rparr>) (relays s)\<rparr>)))"

definition relayRepo_Heartbeat :: "gotime \<Rightarrow> uuid \<Rightarrow> int \<Rightarrow> store \<Rightarrow> unit result \<times> store" where
  "relayRepo_Heartbeat now i newLoad s =
     (case map_of (relays s) i of
        None \<Rightarrow> (Inl ErrNotFound, s)
      | Some rs \<Rightarrow>
          (Inr (), touch (s\<lparr>relays := put i (rs\<lparr>CurrentLoad := newLoad, LastHeartbeatAt := Some now\<rparr>) (relays s)\<rparr>)))"

section \<open>The bus never sends on a closed channel\<close>

text \<open>Registered subscriptions have an open channel, and channels are numbered in the order of
  their creation.\<close>

definition bus_ok :: "bus \<Rightarrow> bool" where
  "bus_ok b \<longleftrightarrow> distinct (subs b) \<and> map fst (chans b) = [0..<length (chans b)] \<and>
     (\<forall>i \<in> set (subs b). \<exists>ch. map_of (chans b) i = Some ch \<and> \<not> closed ch)"

datatype bus_call = CallPublish peer_event | CallSubscribe "uuid list" | CallClose nat | CallReceive nat

text \<open>Taking the first event out of a channel, as the reader of a subscription does.\<close>

definition receive :: "nat \<Rightarrow> bus \<Rightarrow> bus" where
  "receive i b =
     (case map_of (chans b) i of
        None \<Rightarrow> b
      | Some ch \<Rightarrow> b\<lparr>chans := put i (ch\<lparr>buffer := tl (buffer ch)\<rparr>) (chans b)\<rparr>)"

text \<open>A panic of \<open>Publish\<close> leaves the state undefined: the step keeps \<open>None\<close>.\<close>

fun bus_step :: "bus option \<Rightarrow> bus_call \<Rightarrow> bus option" where
  "bus_step None c = None"
| "bus_step (Some b) (CallPublish ev) = Publish ev b"
| "bus_step (Some b) (CallSubscribe ns) = Some (snd (Subscribe ns b))"
| "bus_step (Some b) (CallClose i) = Some (subscription_Close i b)"
| "bus_step (Some b) (CallReceive i) = Some (receive i b)"

definition bus_inv :: "bus option \<Rightarrow> bool" where
  "bus_inv s \<longleftrightarrow> (\<exists>b. s = Some b \<and> bus_ok b)"

lemma map_fst_put: "map_of m k \<noteq> None \<Longrightarrow> map fst (put k v m) = map fst m"
  by (induction m) auto

definition delivers :: "peer_event \<Rightarrow> channel \<Rightarrow> channel" where
  "delivers ev ch = (if evNetworkID ev \<in> set (subNetworks ch) then send ev ch else ch)"

lemma closed_send [simp]: "closed (send ev ch) = closed ch" "subNetworks (send ev ch) = subNetworks ch"
  by (simp_all add: send_def)

lemma publish_loop_ok:
  assumes "distinct is" "\<forall>i \<in> set is. \<exists>ch. map_of (chans b) i = Some ch \<and> \<not> closed ch"
  shows "\<exists>b'. publish_loop ev is b = Some b' \<and> subs b' = subs b \<and> map fst (chans b') = map fst (chans b) \<and>
           (\<forall>i. map_of (chans b') i =
              (if i \<in> set is then map_option (delivers ev) (map_of (chans b) i) else map_of (chans b) i))"
  using assms
proof (induction "is" arbitrary: b)
  case Nil
  then show ?case by simp
next
  case (Cons i "is")
  from Cons.prems obtain ch where ch: "map_of (chans b) i = Some ch" "\<not> closed ch" by auto
  let ?b = "if evNetworkID ev \<in> set (subNetworks ch) then b\<lparr>chans := put i (send ev ch) (chans b)\<rparr> else b"
  have step: "publish_loop ev (i # is) b = publish_loop ev is ?b" using ch by simp
  have get: "map_of (chans ?b) j = (if j = i then Some (delivers ev ch) else map_of (chans b) j)" for j
    using ch by (auto simp: go_map_simps delivers_def)
  have "\<forall>j \<in> set is. \<exists>ch. map_of (chans ?b) j = Some ch \<and> \<not> closed ch"
    using Cons.prems by (auto simp: get)
  with Cons.IH [of ?b] Cons.prems(1) obtain b' where
    b': "publish_loop ev is ?b = Some b'" "subs b' = subs ?b" "map fst (chans b') = map fst (chans ?b)"
    "\<And>j. map_of (chans b') j =
       (if j \<in> set is then map_option (delivers ev) (map_of (chans ?b) j) else map_of (chans ?b) j)"
    by auto
  have "map_of (chans b') j =
     (if j \<in> set (i # is) then map_option (delivers ev) (map_of (chans b) j) else map_of (chans b) j)" for j
    using Cons.prems(1) ch by (auto simp: b'(4) get)
  moreover have "subs b' = subs b" "map fst (chans b') = map fst (chans b)"
    using b'(2,3) ch by (simp_all add: map_fst_put split: if_splits)
  ultimately show ?case using step b'(1) by auto
qed

lemma Publish_ok:
  assumes "bus_ok b"
  shows "\<exists>b'. Publish ev b = Some b' \<and> bus_ok b' \<and> subs b' = subs b \<and>
           (\<forall>i. map_of (chans b') i =
              (if i \<in> set (subs b) then map_option (delivers ev) (map_of (chans b) i) else map_of (chans b) i))"
proof -
  from assms have "distinct (subs b)" "\<forall>i \<in> set (subs b). \<exists>ch. map_of (chans b) i = Some ch \<and> \<not> closed ch"
    by (auto simp: bus_ok_def)
  from publish_loop_ok [OF this, of ev] obtain b' where b': "Publish ev b = Some b'" "subs b' = subs b"
    "map fst (chans b') = map fst (chans b)"
    "\<forall>i. map_of (chans b') i =
       (if i \<in> set (subs b) then map_option (delivers ev) (map_of (chans b) i) else map_of (chans b) i)"
    by (auto simp: Publish_def)
  have "length (chans b') = length (chans b)" using b'(3) by (metis length_map)
  moreover have "\<exists>ch. map_of (chans b') i = Some ch \<and> \<not> closed ch" if i: "i \<in> set (subs b)" for i
  proof -
    from assms i obtain ch where "map_of (chans b) i = Some ch" "\<not> closed ch" by (auto simp: bus_ok_def)
    with b'(4) i show ?thesis by (simp add: delivers_def)
  qed
  ultimately have "bus_ok b'" using assms b'(2,3) by (simp add: bus_ok_def)
  with b' show ?thesis by blast
qed

lemma bus_step_inv:
  assumes "bus_ok b"
  shows "bus_inv (bus_step (Some b) c)"
proof (cases c)
  case (CallPublish ev)
  with Publish_ok [OF assms, of ev] show ?thesis by (auto simp: bus_inv_def)
next
  case (CallSubscribe ns)
  let ?n = "length (chans b)"
  have fresh: "map_of (chans b) ?n = None"
    using assms by (auto simp: bus_ok_def map_of_eq_None_iff simp flip: set_map)
  then have "?n \<notin> fst ` set (chans b)" by (simp add: map_of_eq_None_iff)
  then have "map fst (put ?n v (chans b)) = [0..<Suc ?n]" for v
    using assms by (simp add: put_fresh bus_ok_def)
  moreover have "?n \<notin> set (subs b)" using assms fresh by (force simp: bus_ok_def)
  ultimately show ?thesis
    using assms CallSubscribe
    by (auto simp: bus_inv_def bus_ok_def Subscribe_def Let_def go_map_simps length_put_new [OF fresh])
next
  case (CallClose i)
  with assms show ?thesis
    by (auto simp: bus_inv_def bus_ok_def subscription_Close_def map_fst_put length_put_old go_map_simps
        distinct_removeAll simp del: map_of_eq_Some_iff split: option.splits)
next
  case (CallReceive i)
  with assms show ?thesis
    by (auto simp: bus_inv_def bus_ok_def receive_def map_fst_put length_put_old go_map_simps
        simp del: map_of_eq_Some_iff split: option.splits)
qed

interpretation peer_bus: invariant_system "\<lambda>s. s = Some newBus" bus_step bus_inv
proof (unfold_locales, goal_cases)
  case (1 s)
  then show ?case by (simp add: bus_inv_def bus_ok_def newBus_def)
next
  case (2 s c)
  then show ?case using bus_step_inv by (auto simp: bus_inv_def)
qed



section \<open>Paging\<close>

lemma page_loop_spec:
  "page_loop match limit offset rows skipped out =
     out @ take (limit - length out) (drop (offset - skipped) (filter match rows))"
proof (induction rows arbitrary: skipped out)
  case Nil
  show ?case by simp
next
  case (Cons r rows)
  show ?case
  proof (cases "length out < limit \<and> match r")
    case True
    then have l: "limit - length out = Suc (limit - Suc (length out))" by (simp add: Suc_diff_Suc)
    show ?thesis
    proof (cases "skipped < offset")
      case skip: True
      then have "offset - skipped = Suc (offset - Suc skipped)" by (simp add: Suc_diff_Suc)
      with True skip show ?thesis by (simp add: Cons.IH)
    next
      case False
      with True l show ?thesis by (simp add: Cons.IH)
    qed
  next
    case False
    then show ?thesis by (auto simp: Cons.IH)
  qed
qed

text \<open>
  C35. A log listing is the requested window of the matching rows, newest first: at most \<open>limit\<close> rows
  (100 when the limit is not between 1 and \<open>maxLogRows\<close>) after skipping \<open>offset\<close> of them.
\<close>
lemma page_is_newest_first_window:
  "page rows limit offset match =
     take (if limit \<le> 0 \<or> limit > 2000 then 100 else nat limit)
       (drop (nat offset) (rev (filter match rows)))"
  by (simp add: page_def page_loop_spec Let_def maxLogRows_def rev_filter)

section \<open>Choosing a relay\<close>

definition eligible :: "gotime \<Rightarrow> relay_server \<Rightarrow> bool" where
  "eligible now rs \<longleftrightarrow> isRelayHealthy now rs \<and> CurrentLoad rs < Capacity rs"

definition no_worse :: "string \<Rightarrow> relay_server \<Rightarrow> relay_server \<Rightarrow> bool" where
  "no_worse region best rs \<longleftrightarrow>
     (Region rs = region \<longrightarrow> Region best = region) \<and>
     ((Region rs = region) = (Region best = region) \<longrightarrow> loadFraction best \<le> loadFraction rs)"

lemma no_worse_trans: "no_worse region a b \<Longrightarrow> no_worse region b c \<Longrightarrow> no_worse region a c"
  by (auto simp: no_worse_def)

lemma no_worse_refl: "no_worse region a a"
  by (simp add: no_worse_def)

lemma wins_over_no_worse: "no_worse region (if wins_over region rs b then rs else b) rs"
  "no_worse region (if wins_over region rs b then rs else b) b"
  by (auto simp: no_worse_def wins_over_def)

lemma pick_loop_some:
  "pick_loop now region rss (Some b) = Some best \<Longrightarrow>
   no_worse region best b \<and> (\<forall>rs \<in> set rss. eligible now rs \<longrightarrow> no_worse region best rs) \<and>
   (best = b \<or> (best \<in> set rss \<and> eligible now best))"
proof (induction rss arbitrary: b)
  case Nil
  then show ?case by (simp add: no_worse_refl)
next
  case (Cons rs rss)
  show ?case
  proof (cases "eligible now rs")
    case False
    with Cons.prems have "pick_loop now region rss (Some b) = Some best"
      by (auto simp: eligible_def split: if_splits)
    from Cons.IH [OF this] False show ?thesis by auto
  next
    case True
    let ?b = "if wins_over region rs b then rs else b"
    from True Cons.prems have "pick_loop now region rss (Some ?b) = Some best"
      by (auto simp: eligible_def split: if_splits)
    from Cons.IH [OF this] wins_over_no_worse [of region rs b] True show ?thesis
      by (auto intro: no_worse_trans split: if_splits)
  qed
qed

lemma pick_loop_total: "\<exists>best. pick_loop now region rss (Some b) = Some best"
  by (induction rss arbitrary: b) auto

lemma pick_loop_none:
  "case pick_loop now region rss None of
     None \<Rightarrow> \<forall>rs \<in> set rss. \<not> eligible now rs
   | Some best \<Rightarrow> best \<in> set rss \<and> eligible now best \<and>
                    (\<forall>rs \<in> set rss. eligible now rs \<longrightarrow> no_worse region best rs)"
proof (induction rss)
  case Nil
  show ?case by simp
next
  case (Cons rs rss)
  show ?case
  proof (cases "eligible now rs")
    case False
    then have "pick_loop now region (rs # rss) None = pick_loop now region rss None"
      by (auto simp: eligible_def)
    with Cons False show ?thesis by (auto split: option.splits)
  next
    case True
    then have e: "pick_loop now region (rs # rss) None = pick_loop now region rss (Some rs)"
      by (auto simp: eligible_def)
    obtain best where b: "pick_loop now region rss (Some rs) = Some best" using pick_loop_total by blast
    from pick_loop_some [OF b] True show ?thesis unfolding e b by auto
  qed
qed

text \<open>
  C34. \<open>PickLeastLoaded\<close> fails exactly when no relay is healthy and below its capacity; otherwise it
  returns such a relay, from the preferred region if one there qualifies, and with the smallest
  load fraction among the qualifying relays of its class (preferred region or not), in whatever
  order the map is ranged over.
\<close>

theorem pick_least_loaded_optimal:
  "case relayRepo_PickLeastLoaded now region s of
     Inl e \<Rightarrow> e = ErrNoRelayAvailable \<and> (\<forall>rs \<in> snd ` set (relays s). \<not> eligible now rs)
   | Inr best \<Rightarrow> best \<in> snd ` set (relays s) \<and> eligible now best \<and>
       (\<forall>rs \<in> snd ` set (relays s). eligible now rs \<longrightarrow>
          (Region rs = region \<longrightarrow> Region best = region) \<and>
          ((Region rs = region) = (Region best = region) \<longrightarrow> loadFraction best \<le> loadFraction rs))"
  using pick_loop_none [where rss = "map snd (relays s)" and now = now and region = region]
  by (auto simp: relayRepo_PickLeastLoaded_def no_worse_def split: option.splits)

definition ex_relay :: "byte \<Rightarrow> string \<Rightarrow> int \<Rightarrow> relay_server" where
  "ex_relay k region ld =
     \<lparr>rsID = ex_id k, Region = region, Hostname = ''h'', rsPublicKey = [], ControlPort = 0, RelayPort = 0,
      Capacity = 10, CurrentLoad = ld, rsStatus = ''active'', LastHeartbeatAt = Some 1000, rsCreatedAt = 0\<rparr>"

definition ex_relays :: store where
  "ex_relays = (empty_store [])\<lparr>relays :=
     [(ex_id 1, ex_relay 1 ''eu'' 4), (ex_id 2, ex_relay 2 ''us'' 1), (ex_id 3, ex_relay 3 ''eu'' 2)]\<rparr>"

theorem pick_least_loaded_optimal_witness:
  "relayRepo_PickLeastLoaded 1001 ''eu'' ex_relays = Inr (ex_relay 3 ''eu'' 2) \<and>
   loadFraction (ex_relay 3 ''eu'' 2) \<le> loadFraction (ex_relay 1 ''eu'' 4)"
proof -
  have r: "relayRepo_PickLeastLoaded 1001 ''eu'' ex_relays = Inr (ex_relay 3 ''eu'' 2)"
    by (simp add: relayRepo_PickLeastLoaded_def ex_relays_def ex_relay_def empty_store_def isRelayHealthy_def
        relayStaleAfter_def time_Sub_def wins_over_def loadFraction_def)
  have e: "eligible 1001 (ex_relay 1 ''eu'' 4)" "ex_relay 1 ''eu'' 4 \<in> snd ` set (relays ex_relays)"
    by (simp_all add: eligible_def isRelayHealthy_def relayStaleAfter_def time_Sub_def ex_relay_def
        ex_relays_def empty_store_def)
  have "Region (ex_relay 1 ''eu'' 4) = ''eu''" "Region (ex_relay 3 ''eu'' 2) = ''eu''"
    by (simp_all add: ex_relay_def)
  with pick_least_loaded_optimal [where now = 1001 and region = "''eu''" and s = ex_relays] r e show ?thesis by auto
qed

section \<open>Expiry is not observable\<close>

text \<open>
  The background \<open>expire\<close> never changes an answer: whatever it drops at one instant, a presence
  or ICE lookup or a rate-limit decision at that instant or later gives the same result as without
  it.
\<close>
lemma expire_unobservable:
  assumes "store_ok s" "t \<le> now"
  shows "presence_Get now d (expire t s) = presence_Get now d s \<and>
         ice_Get now for_dev from_dev (expire t s) = ice_Get now for_dev from_dev s \<and>
         fst (limiter_Allow now k limit window (expire t s)) = fst (limiter_Allow now k limit window s)"
proof -
  have ok: "gomap_ok (presence s)" "gomap_ok (ice s)" "gomap_ok (limits s)"
    using assms(1) by (simp_all add: store_ok_def)
  have "presence_Get now d (expire t s) = presence_Get now d s"
    using assms(2) by (auto simp: presence_Get_def expire_def get_filter [OF ok(1)] after_def split: option.splits)
  moreover have "ice_Get now for_dev from_dev (expire t s) = ice_Get now for_dev from_dev s"
    using assms(2) by (auto simp: ice_Get_def expire_def get_filter [OF ok(2)] after_def split: option.splits)
  moreover have "fst (limiter_Allow now k limit window (expire t s)) = fst (limiter_Allow now k limit window s)"
    using assms(2)
    by (auto simp: limiter_Allow_def expire_def get_filter [OF ok(3)] after_def Let_def split: option.splits)
  ultimately show ?thesis by simp
qed

theorem expire_unobservable_witness:
  "presence_Get 10 (ex_id 1) (expire 9 (presence_SetOnline 0 (ex_id 2) (ex_id 1) presence_endpoint_zero 5
      (empty_store []))) = None"
proof -
  let ?s = "presence_SetOnline 0 (ex_id 2) (ex_id 1) presence_endpoint_zero 5 (empty_store [])"
  have ok: "store_ok ?s" by (simp add: presence_SetOnline_def store_ok_put)
  have "presence_Get 10 (ex_id 1) ?s = None" by code_simp
  with expire_unobservable [OF ok, of 9 10 "ex_id 1"] show ?thesis by simp
qed

section \<open>The rate limit\<close>

text \<open>Calls of the limiter, on any keys, and runs of \<open>expire\<close> between them.\<close>

datatype limit_event = Hit string int duration gotime | Sweep gotime

fun grants_on :: "string \<Rightarrow> limit_event list \<Rightarrow> store \<Rightarrow> nat" where
  "grants_on k [] s = 0"
| "grants_on k (Hit key limit window now # es) s =
     (let (ok, s') = limiter_Allow now key limit window s
      in (if key = k \<and> ok then 1 else 0) + grants_on k es s')"
| "grants_on k (Sweep now # es) s = grants_on k es (expire now s)"

fun in_window :: "string \<Rightarrow> int \<Rightarrow> gotime \<Rightarrow> limit_event \<Rightarrow> bool" where
  "in_window k limit stop (Hit key lmt window now) \<longleftrightarrow> (key = k \<longrightarrow> lmt = limit \<and> now \<le> stop)"
| "in_window k limit stop (Sweep now) \<longleftrightarrow> now \<le> stop"

lemma limits_Allow:
  "map_of (limits (snd (limiter_Allow now key limit window s))) k =
     (if k = key then
        Some (let e = (case map_of (limits s) key of
                         None \<Rightarrow> \<lparr>count = 0, resets_at = now + window, limitAt = 0\<rparr>
                       | Some e \<Rightarrow> if after now (resets_at e) then \<lparr>count = 0, resets_at = now + window, limitAt = 0\<rparr> else e)
              in e\<lparr>count := count e + 1, limitAt := limit\<rparr>)
      else map_of (limits s) k)"
  by (simp add: limiter_Allow_def Let_def go_map_simps)

lemma limits_ok_Allow: "gomap_ok (limits s) \<Longrightarrow> gomap_ok (limits (snd (limiter_Allow now key limit window s)))"
  by (simp add: limiter_Allow_def Let_def)

lemma grants_on_live:
  assumes "gomap_ok (limits s)" "map_of (limits s) k = Some e" "stop \<le> resets_at e"
    and "\<forall>ev \<in> set es. in_window k limit stop ev"
  shows "int (grants_on k es s) \<le> max 0 (limit - count e)"
  using assms
proof (induction es arbitrary: s e)
  case Nil
  then show ?case by simp
next
  case (Cons ev es)
  show ?case
  proof (cases ev)
    case (Sweep t)
    with Cons.prems have "map_of (limits (expire t s)) k = Some e" "gomap_ok (limits (expire t s))"
      by (simp_all add: expire_def get_filter after_def)
    with Cons.IH [of "expire t s" e] Cons.prems Sweep show ?thesis by simp
  next
    case (Hit key lmt window t)
    let ?s = "snd (limiter_Allow t key lmt window s)"
    have ok: "gomap_ok (limits ?s)" using Cons.prems(1) by (rule limits_ok_Allow)
    show ?thesis
    proof (cases "key = k")
      case False
      with Cons.prems(2) have "map_of (limits ?s) k = Some e" by (simp add: limits_Allow)
      with Cons.IH [OF ok this] Cons.prems Hit False show ?thesis by (simp add: Let_def split_def)
    next
      case True
      with Hit Cons.prems(4) have t: "lmt = limit" "t \<le> stop" by auto
      with Cons.prems(3) have live: "\<not> after t (resets_at e)" by (simp add: after_def)
      let ?e = "e\<lparr>count := count e + 1, limitAt := limit\<rparr>"
      have "map_of (limits ?s) k = Some ?e"
        using True t live Cons.prems(2) by (simp add: limits_Allow)
      from Cons.IH [OF ok this] Cons.prems(3,4)
      have ih: "int (grants_on k es ?s) \<le> max 0 (limit - (count e + 1))" by simp
      have "fst (limiter_Allow t key lmt window s) \<longleftrightarrow> count e + 1 \<le> limit"
        using True t live Cons.prems(2) by (simp add: limiter_Allow_def Let_def)
      with ih Hit True show ?thesis by (auto simp: Let_def split_def)
    qed
  qed
qed

text \<open>
  C33. In one window an action is allowed at most \<open>limit\<close> times: after the first call on a key, among
  all calls on that key up to the end of the window it opened, interleaved with calls on other keys
  and with \<open>expire\<close>, at most \<open>limit\<close> are allowed, the first one included.
\<close>

theorem rate_limit_bounds_window:
  assumes "store_ok s" "map_of (limits s) k = None"
    and "\<forall>ev \<in> set es. in_window k limit (t0 + window) ev"
  shows "int (grants_on k (Hit k limit window t0 # es) s) \<le> max 0 limit"
proof -
  let ?s = "snd (limiter_Allow t0 k limit window s)"
  have "gomap_ok (limits s)" using assms(1) by (simp add: store_ok_def)
  then have ok: "gomap_ok (limits ?s)" by (rule limits_ok_Allow)
  have e: "map_of (limits ?s) k = Some \<lparr>count = 1, resets_at = t0 + window, limitAt = limit\<rparr>"
    using assms(2) by (simp add: limits_Allow)
  have "int (grants_on k es ?s) \<le> max 0 (limit - 1)"
    using grants_on_live [OF ok e _ assms(3)] by simp
  moreover have "fst (limiter_Allow t0 k limit window s) \<longleftrightarrow> 1 \<le> limit"
    using assms(2) by (simp add: limiter_Allow_def Let_def)
  ultimately show ?thesis by (auto simp: Let_def split_def)
qed

theorem rate_limit_bounds_window_witness:
  "int (grants_on ''k'' [Hit ''k'' 2 60 100, Hit ''k'' 2 60 110, Hit ''j'' 2 60 110, Sweep 120, Hit ''k'' 2 60 160]
     (empty_store [])) \<le> 2"
proof -
  have "\<forall>ev \<in> set [Hit ''k'' 2 60 110, Hit ''j'' 2 60 110, Sweep 120, Hit ''k'' 2 60 160]. in_window ''k'' 2 (100 + 60) ev"
    by simp
  moreover have "map_of (limits (empty_store [])) ''k'' = None" by (simp add: empty_store_def)
  ultimately show ?thesis
    using rate_limit_bounds_window [of "empty_store []" "''k''" _ 2 100 60] by fastforce
qed

section \<open>The store invariant\<close>

lemma infra_ops_ok:
  assumes "store_ok s"
  shows "store_ok (presence_SetOnline now n d ep ttl s)" "store_ok (presence_Remove d s)"
    and "store_ok (ice_Put now a b cs ttl s)" "store_ok (snd (limiter_Allow now k limit window s))"
    and "store_ok (snd (auditLogRepo_Create i now al s))" "store_ok (snd (connLogRepo_Create i now cl s))"
    and "store_ok (snd (relayRepo_IncrementLoad k' delta s))" "store_ok (snd (relayRepo_Heartbeat now k' ld s))"
    and "store_ok (snd (relayRepo_Create i now rs s))" "store_ok (snd (relayRepo_Upsert i now rs s))"
proof -
  show "store_ok (snd (auditLogRepo_Create i now al s))" "store_ok (snd (connLogRepo_Create i now cl s))"
    using assms by (simp_all add: auditLogRepo_Create_def connLogRepo_Create_def Let_def store_ok_def touch_def)
  show "store_ok (presence_SetOnline now n d ep ttl s)" "store_ok (presence_Remove d s)"
    "store_ok (ice_Put now a b cs ttl s)" "store_ok (snd (limiter_Allow now k limit window s))"
    using assms
    by (simp_all add: presence_SetOnline_def presence_Remove_def ice_Put_def limiter_Allow_def Let_def store_ok_put)
  show "store_ok (snd (relayRepo_IncrementLoad k' delta s))" "store_ok (snd (relayRepo_Heartbeat now k' ld s))"
    "store_ok (snd (relayRepo_Create i now rs s))" "store_ok (snd (relayRepo_Upsert i now rs s))"
    using assms
    by (auto simp: relayRepo_IncrementLoad_def relayRepo_Heartbeat_def relayRepo_Create_def
        relayRepo_Upsert_def Let_def store_ok_put store_ok_keys split: option.split)
qed

interpretation relay_repo: keyed_repo "\<lambda>s. map_of (relays s)" rsID relayRepo_Create relayRepo_GetByID
  by unfold_locales (auto simp: relayRepo_Create_def relayRepo_GetByID_def touch_def Let_def AList.update_conv')

end
