(* ===== verification/Go_Net.thy ===== *)
theory Go_Net
  imports Go_Strings
begin

unbundle bit_operations_syntax

text \<open>
  The part of Go's \<open>net\<close> and \<open>net/netip\<close> the sources rely on: the textual form of addresses,
  \<open>ParseIP\<close>, \<open>ParseCIDR\<close>, subnet membership, and \<open>UDPAddr\<close>. These are definitions of the
  standard library's behaviour, not of code of the repository; the components use them the way the
  sources call them. The lemmas give the facts the components need: the dotted form of an IPv4
  address parses back to that address, and membership in a subnet is agreement on the masked bits.
\<close>

section \<open>Numbers in a radix\<close>

definition digit_char :: "nat \<Rightarrow> char" where
  "digit_char d = char_of (if d < 10 then 48 + d else 87 + d)"

definition is_digit :: "char \<Rightarrow> bool" where
  "is_digit c \<longleftrightarrow> 48 \<le> (of_char c :: nat) \<and> (of_char c :: nat) \<le> 57"

definition digit_value :: "char \<Rightarrow> nat" where
  "digit_value c = of_char c - 48"

fun radix_string :: "nat \<Rightarrow> nat \<Rightarrow> string" where
  "radix_string b n =
     (if b < 2 \<or> n < b then [digit_char n] else radix_string b (n div b) @ [digit_char (n mod b)])"

declare radix_string.simps [simp del]

definition itoa :: "nat \<Rightarrow> string" where
  "itoa n = radix_string 10 n"

section \<open>The textual form of an address\<close>

definition v4InV6Prefix :: bytes where
  "v4InV6Prefix = replicate 10 0 @ [255, 255]"

definition IP_To4 :: "bytes \<Rightarrow> bytes option" where
  "IP_To4 ip =
     (if length ip = 4 then Some ip
      else if length ip = 16 \<and> take 12 ip = v4InV6Prefix then Some (drop 12 ip)
      else None)"

fun ip4_string :: "bytes \<Rightarrow> string" where
  "ip4_string [] = []"
| "ip4_string [b] = itoa (unat b)"
| "ip4_string (b # bs) = itoa (unat b) @ ''.'' @ ip4_string bs"

fun groups6 :: "bytes \<Rightarrow> nat list" where
  "groups6 (a # b # r) = (256 * unat a + unat b) # groups6 r"
| "groups6 _ = []"

definition zero_run :: "nat list \<Rightarrow> nat \<Rightarrow> nat" where
  "zero_run gs i = length (takeWhile (\<lambda>g. g = 0) (drop i gs))"

definition longest_zero_run :: "nat list \<Rightarrow> nat \<times> nat" where
  "longest_zero_run gs =
     foldl (\<lambda>(s, e) i. let l = zero_run gs i in if 2 \<le> l \<and> l > e - s then (i, i + l) else (s, e))
       (255, 255) [0..<8]"

definition ip6_string :: "bytes \<Rightarrow> string" where
  "ip6_string ip =
     (let gs = groups6 ip; (s, e) = longest_zero_run gs in
      concat (map (\<lambda>i.
        if s \<le> i \<and> i < e then (if i = s then ''::'' else [])
        else (if 0 < i \<and> i \<noteq> e then '':'' else []) @ radix_string 16 (gs ! i)) [0..<8]))"

definition hex_bytes :: "bytes \<Rightarrow> string" where
  "hex_bytes bs = concat (map (\<lambda>b. [digit_char (unat b div 16), digit_char (unat b mod 16)]) bs)"

definition IP_String :: "bytes \<Rightarrow> string" where
  "IP_String ip =
     (if ip = [] then ''<nil>''
      else case IP_To4 ip of
        Some p4 \<Rightarrow> ip4_string p4
      | None \<Rightarrow> if length ip = 16 then ip6_string ip else ''?'' @ hex_bytes ip)"

section \<open>UDP addresses\<close>

record udp_addr =
  IP :: bytes
  Port :: nat
  Zone :: string

definition JoinHostPort :: "string \<Rightarrow> string \<Rightarrow> string" where
  "JoinHostPort host port =
     (if CHR '':'' \<in> set host then ''['' @ host @ '']:'' @ port else host @ '':'' @ port)"

definition UDPAddr_String :: "udp_addr \<Rightarrow> string" where
  "UDPAddr_String a =
     (let ip = (if IP a = [] then [] else IP_String (IP a)) in
      JoinHostPort (if Zone a = [] then ip else ip @ ''%'' @ Zone a) (itoa (Port a)))"

text \<open>\<open>net.SplitHostPort\<close>.\<close>

definition SplitHostPort :: "string \<Rightarrow> (string \<times> string) option" where
  "SplitHostPort hp =
     (case last_index (CHR '':'') hp of
        None \<Rightarrow> None
      | Some i \<Rightarrow>
          if take 1 hp = ''['' then
            (case first_index (CHR '']'') hp of
               None \<Rightarrow> None
             | Some j \<Rightarrow>
                 if j + 1 \<noteq> i then None
                 else if CHR ''['' \<in> set (drop 1 hp) \<or> CHR '']'' \<in> set (drop (j + 1) hp) then None
                 else Some (drop 1 (take j hp), drop (i + 1) hp))
          else if CHR '':'' \<in> set (take i hp) \<or> CHR ''['' \<in> set hp \<or> CHR '']'' \<in> set hp then None
          else Some (take i hp, drop (i + 1) hp))"

section \<open>Parsing addresses\<close>

text \<open>
  \<open>parse_fields4 s edge val digs fs\<close> is the loop of \<open>parseIPv4Fields\<close> at the rest \<open>s\<close> of its
  input: \<open>edge\<close> holds at the start and right after a dot, \<open>val\<close> and \<open>digs\<close> are the field read
  so far, \<open>fs\<close> the finished fields.
\<close>

fun parse_fields4 :: "string \<Rightarrow> bool \<Rightarrow> nat \<Rightarrow> nat \<Rightarrow> bytes \<Rightarrow> bytes option" where
  "parse_fields4 [] edge val digs fs =
     (if length fs < 3 then None else Some (fs @ [word_of_nat val]))"
| "parse_fields4 (c # cs) edge val digs fs =
     (if is_digit c then
        (if digs = 1 \<and> val = 0 then None
         else if 255 < val * 10 + digit_value c then None
         else parse_fields4 cs False (val * 10 + digit_value c) (Suc digs) fs)
      else if c = CHR ''.'' then
        (if edge \<or> cs = [] then None
         else if length fs = 3 then None
         else parse_fields4 cs True 0 0 (fs @ [word_of_nat val]))
      else None)"

definition parseIPv4 :: "string \<Rightarrow> bytes option" where
  "parseIPv4 s = parse_fields4 s True 0 0 []"

definition is_hex :: "char \<Rightarrow> bool" where
  "is_hex c \<longleftrightarrow> is_digit c \<or> (97 \<le> (of_char c :: nat) \<and> (of_char c :: nat) \<le> 102)
     \<or> (65 \<le> (of_char c :: nat) \<and> (of_char c :: nat) \<le> 70)"

definition hex_value :: "char \<Rightarrow> nat" where
  "hex_value c =
     (if is_digit c then of_char c - 48
      else if 97 \<le> (of_char c :: nat) then of_char c - 87 else of_char c - 55)"

text \<open>\<open>parse_groups6 s ip ell\<close> is the group loop of \<open>parseIPv6\<close>: \<open>ip\<close> holds the bytes written so
  far and \<open>ell\<close> the position of the ellipsis.\<close>

function parse_groups6 :: "string \<Rightarrow> bytes \<Rightarrow> nat option \<Rightarrow> (string \<times> bytes \<times> nat option) option" where
  "parse_groups6 s ip ell =
     (if 16 \<le> length ip then Some (s, ip, ell)
      else
        let h = takeWhile is_hex s; r = dropWhile is_hex s;
            acc = foldl (\<lambda>a c. 16 * a + hex_value c) 0 h in
        if 4 < length h \<or> h = [] then None
        else if r \<noteq> [] \<and> hd r = CHR ''.'' then
          (if ell = None \<and> length ip \<noteq> 12 then None
           else if 16 < length ip + 4 then None
           else case parseIPv4 s of None \<Rightarrow> None | Some f \<Rightarrow> Some ([], ip @ f, ell))
        else
          let ip' = ip @ [word_of_nat (acc div 256), word_of_nat acc] in
          case r of
            [] \<Rightarrow> Some ([], ip', ell)
          | c # r' \<Rightarrow>
              if c \<noteq> CHR '':'' then None
              else case r' of
                [] \<Rightarrow> None
              | c2 # r'' \<Rightarrow>
                  if c2 = CHR '':'' then
                    (if ell \<noteq> None then None
                     else if r'' = [] then Some ([], ip', Some (length ip'))
                     else parse_groups6 r'' ip' (Some (length ip')))
                  else parse_groups6 r' ip' ell)"
  by pat_completeness auto
termination
proof (relation "measure (\<lambda>(s, ip, ell). length s)", goal_cases)
  case 1
  show ?case by simp
next
  case (2 s ip ell h r acc ip' c r' c2 r'')
  then have d: "dropWhile is_hex s = c # c2 # r''" by auto
  show ?case using length_dropWhile_le [of is_hex s] by (simp add: d)
next
  case (3 s ip ell h r acc ip' c r' c2 r'')
  then have d: "dropWhile is_hex s = c # r'" by auto
  show ?case using length_dropWhile_le [of is_hex s] by (simp add: d)
qed

declare parse_groups6.simps [simp del]

definition expand_ellipsis :: "string \<times> bytes \<times> nat option \<Rightarrow> bytes option" where
  "expand_ellipsis = (\<lambda>(s, ip, ell).
     if s \<noteq> [] then None
     else if length ip < 16 then
       (case ell of None \<Rightarrow> None
        | Some e \<Rightarrow> Some (take e ip @ replicate (16 - length ip) 0 @ drop e ip))
     else if ell \<noteq> None then None else Some ip)"

text \<open>The result carries the zone after the percent sign.\<close>

definition parseIPv6 :: "string \<Rightarrow> (bytes \<times> string) option" where
  "parseIPv6 inp =
     (let s = takeWhile (\<lambda>c. c \<noteq> CHR ''%'') inp; rest = dropWhile (\<lambda>c. c \<noteq> CHR ''%'') inp in
      if rest \<noteq> [] \<and> tl rest = [] then None
      else
        let zone = (if rest = [] then [] else tl rest) in
        if take 2 s = ''::'' then
          (if drop 2 s = [] then Some (replicate 16 0, zone)
           else case parse_groups6 (drop 2 s) [] (Some 0) of
             None \<Rightarrow> None
           | Some st \<Rightarrow> map_option (\<lambda>ip. (ip, zone)) (expand_ellipsis st))
        else case parse_groups6 s [] None of
             None \<Rightarrow> None
           | Some st \<Rightarrow> map_option (\<lambda>ip. (ip, zone)) (expand_ellipsis st))"

definition ParseAddr :: "string \<Rightarrow> (bytes \<times> string) option" where
  "ParseAddr s =
     (case find (\<lambda>c. c = CHR ''.'' \<or> c = CHR '':'' \<or> c = CHR ''%'') s of
        None \<Rightarrow> None
      | Some c \<Rightarrow>
          if c = CHR ''.'' then map_option (\<lambda>ip. (ip, [])) (parseIPv4 s)
          else if c = CHR '':'' then parseIPv6 s
          else None)"

definition As16 :: "bytes \<Rightarrow> bytes" where
  "As16 a = (if length a = 4 then v4InV6Prefix @ a else a)"

definition ParseIP :: "string \<Rightarrow> bytes option" where
  "ParseIP s =
     (case ParseAddr s of None \<Rightarrow> None
      | Some (a, zone) \<Rightarrow> if zone \<noteq> [] then None else Some (As16 a))"

section \<open>Subnets\<close>

record ip_net =
  NetIP :: bytes
  Mask :: bytes

definition mask_byte :: "nat \<Rightarrow> byte" where
  "mask_byte k = NOT (mask (8 - k))"

definition CIDRMask :: "nat \<Rightarrow> nat \<Rightarrow> bytes" where
  "CIDRMask ones len =
     map (\<lambda>i. if 8 * (i + 1) \<le> ones then 255 else if ones \<le> 8 * i then 0 else mask_byte (ones - 8 * i))
       [0..<len]"

definition mask_ip :: "bytes \<Rightarrow> bytes \<Rightarrow> bytes" where
  "mask_ip ip m = map2 (\<lambda>a b. a AND b) ip m"

definition dtoi :: "string \<Rightarrow> nat option" where
  "dtoi s =
     (if s \<noteq> [] \<and> list_all is_digit s \<and> foldl (\<lambda>a c. 10 * a + digit_value c) 0 s < 16777215
      then Some (foldl (\<lambda>a c. 10 * a + digit_value c) 0 s) else None)"

definition ParseCIDR :: "string \<Rightarrow> ip_net option" where
  "ParseCIDR s =
     (let addr = takeWhile (\<lambda>c. c \<noteq> CHR ''/'') s; rest = dropWhile (\<lambda>c. c \<noteq> CHR ''/'') s in
      if rest = [] then None
      else case (ParseAddr addr, dtoi (tl rest)) of
        (Some (a, zone), Some n) \<Rightarrow>
          if zone \<noteq> [] \<or> 8 * length a < n then None
          else Some \<lparr>NetIP = mask_ip a (CIDRMask n (length a)), Mask = CIDRMask n (length a)\<rparr>
      | _ \<Rightarrow> None)"

definition networkNumberAndMask :: "ip_net \<Rightarrow> (bytes \<times> bytes) option" where
  "networkNumberAndMask n =
     (let ip = (case IP_To4 (NetIP n) of Some p \<Rightarrow> p | None \<Rightarrow> NetIP n) in
      if length ip \<noteq> 4 \<and> length ip \<noteq> 16 then None
      else if length (Mask n) = 4 then (if length ip = 4 then Some (ip, Mask n) else None)
      else if length (Mask n) = 16 then
        Some (ip, if length ip = 4 then drop 12 (Mask n) else Mask n)
      else None)"

definition Contains :: "ip_net \<Rightarrow> bytes \<Rightarrow> bool" where
  "Contains n ip =
     (let ip' = (case IP_To4 ip of Some x \<Rightarrow> x | None \<Rightarrow> ip) in
      case networkNumberAndMask n of
        None \<Rightarrow> ip' = []
      | Some (nn, m) \<Rightarrow> length ip' = length nn \<and> mask_ip nn m = mask_ip ip' m)"

section \<open>Facts about the textual form\<close>

lemma of_digit_char [simp]: "d < 10 \<Longrightarrow> (of_char (digit_char d) :: nat) = 48 + d"
  by (simp add: digit_char_def)

lemma is_digit_digit_char [simp]: "d < 10 \<Longrightarrow> is_digit (digit_char d)"
  by (simp add: is_digit_def)

lemma digit_value_digit_char [simp]: "d < 10 \<Longrightarrow> digit_value (digit_char d) = d"
  by (simp add: digit_value_def)

lemma not_digit_punctuation [simp]:
  "\<not> is_digit (CHR ''.'')" "\<not> is_digit (CHR '':'')" "\<not> is_digit (CHR ''%'')" "\<not> is_digit (CHR ''/'')"
  by (simp_all add: is_digit_def)

lemma itoa_1: "n < 10 \<Longrightarrow> itoa n = [digit_char n]"
  by (simp add: itoa_def radix_string.simps)

lemma itoa_step: "10 \<le> n \<Longrightarrow> itoa n = itoa (n div 10) @ [digit_char (n mod 10)]"
  by (simp add: itoa_def radix_string.simps [of 10 n])

lemma itoa_2: "10 \<le> n \<Longrightarrow> n < 100 \<Longrightarrow> itoa n = [digit_char (n div 10), digit_char (n mod 10)]"
  by (simp add: itoa_step itoa_1)

lemma itoa_3:
  "100 \<le> n \<Longrightarrow> n < 1000 \<Longrightarrow>
   itoa n = [digit_char (n div 10 div 10), digit_char (n div 10 mod 10), digit_char (n mod 10)]"
  by (simp add: itoa_step [of n] itoa_2 [of "n div 10"] del: div_mult2_numeral_eq)

lemma itoa_digits: "\<forall>c \<in> set (itoa n). is_digit c"
proof (induction n rule: less_induct)
  case (less n)
  show ?case
  proof (cases "n < 10")
    case True
    then show ?thesis by (simp add: itoa_1)
  next
    case False
    with less [of "n div 10"] show ?thesis by (simp add: itoa_step)
  qed
qed

lemma itoa_nonempty [simp]: "itoa n \<noteq> []"
  by (cases "n < 10") (simp_all add: itoa_1 itoa_step)

lemma parse_fields4_itoa:
  assumes "n \<le> 255"
  shows "parse_fields4 (itoa n @ rest) edge 0 0 fs = parse_fields4 rest False n (length (itoa n)) fs"
proof -
  consider "n < 10" | "10 \<le> n" "n < 100" | "100 \<le> n" by linarith
  then show ?thesis
  proof cases
    case 1
    then show ?thesis by (simp add: itoa_1)
  next
    case 2
    then have "n div 10 * 10 + n mod 10 = n" "n div 10 \<noteq> 0" "n div 10 < 10" by simp_all
    with 2 assms show ?thesis by (simp add: itoa_2)
  next
    case 3
    define m where "m = n div 10"
    have a: "m div 10 * 10 + m mod 10 = m" and b: "m * 10 + n mod 10 = n"
      by (simp_all add: m_def)
    have c: "m div 10 \<noteq> 0" "m div 10 < 10" "m \<le> 255"
      using 3 assms by (simp_all add: m_def)
    have e: "itoa n = [digit_char (m div 10), digit_char (m mod 10), digit_char (n mod 10)]"
      unfolding m_def using 3 assms by (intro itoa_3) simp_all
    from assms a b c show ?thesis by (simp add: e)
  qed
qed

lemma unat_byte_le [simp]: "unat (b :: byte) \<le> 255"
  using unat_byte_less [of b] by simp

lemma ip4_string_4:
  "ip4_string [a, b, c, d] =
     itoa (unat a) @ ''.'' @ itoa (unat b) @ ''.'' @ itoa (unat c) @ ''.'' @ itoa (unat d)"
  by simp

lemma parseIPv4_ip4_string: "parseIPv4 (ip4_string [a, b, c, d]) = Some [a, b, c, d]"
proof -
  have "parse_fields4 (itoa (unat d)) True 0 0 fs = parse_fields4 [] False (unat d) (length (itoa (unat d))) fs"
    for fs using parse_fields4_itoa [of "unat d" "[]" True fs] by simp
  then show ?thesis
    by (simp add: parseIPv4_def parse_fields4_itoa)
qed

lemma find_skip: "\<forall>x \<in> set xs. \<not> P x \<Longrightarrow> find P (xs @ ys) = find P ys"
  by (induction xs) auto

lemma ParseAddr_ip4_string: "ParseAddr (ip4_string [a, b, c, d]) = Some ([a, b, c, d], [])"
proof -
  let ?P = "\<lambda>c. c = CHR ''.'' \<or> c = CHR '':'' \<or> c = CHR ''%''"
  have "\<forall>c \<in> set (itoa (unat a)). \<not> ?P c"
    using itoa_digits not_digit_punctuation by blast
  then have "find ?P (ip4_string [a, b, c, d]) = Some (CHR ''.'')"
    by (simp add: find_skip)
  then show ?thesis
    by (simp add: ParseAddr_def parseIPv4_ip4_string del: ip4_string.simps)
qed

text \<open>The dotted form of an IPv4 address parses back to that address.\<close>

lemma ParseIP_IP_String:
  assumes "length ip = 4"
  shows "ParseIP (IP_String ip) = Some (v4InV6Prefix @ ip)"
proof -
  from assms obtain a b c d where ip: "ip = [a, b, c, d]"
    by (auto simp: length_Suc_conv numeral_eq_Suc)
  show ?thesis
    by (simp add: ip ParseIP_def IP_String_def IP_To4_def ParseAddr_ip4_string As16_def del: ip4_string.simps)
qed

lemma IP_String_inject_v4:
  assumes "length ip = 4" "length ip' = 4" "IP_String ip = IP_String ip'"
  shows "ip = ip'"
  using ParseIP_IP_String [OF assms(1)] ParseIP_IP_String [OF assms(2)] unfolding assms(3) by simp

lemma To4_v4InV6 [simp]: "length ip = 4 \<Longrightarrow> IP_To4 (v4InV6Prefix @ ip) = Some ip"
  by (simp add: IP_To4_def v4InV6Prefix_def)

end
