(* ===== verification/Network_Service.thy ===== *)
theory Network_Service
  imports Embedded_Infra Go_Net
begin

text \<open>
  The network service, \<open>backend/internal/usecase/network_service.go\<close>, and the audit recorder,
  \<open>audit.go\<close>, over the embedded repositories. A call is one function of the state of the control
  plane; the two or three repository calls it makes are not interleaved with others here. The audit
  row of a call is written by a goroutine the call starts and does not wait for: it goes to
  \<open>pending\<close>, and \<open>write_audit\<close> is that goroutine running.

  A call takes the clock reading, the identifiers \<open>uuid.New\<close> returns to it and the random bytes it
  reads as the record \<open>svc_env\<close>; \<open>us\<close> is \<open>uuid.UUID.String\<close>.
\<close>

section \<open>State and environment\<close>

record backend =
  db :: store
  evbus :: "bus option"
  pending :: "audit_log list"

record svc_env =
  eNow :: gotime
  eID1 :: uuid
  eID2 :: uuid
  eAuditID :: uuid
  eRand :: "bytes option"

section \<open>Auditing\<close>

definition non_empty :: "string \<Rightarrow> string option" where
  "non_empty s = (if s = [] then None else Some s)"

definition Record ::
  "svc_env \<Rightarrow> uuid option \<Rightarrow> uuid option \<Rightarrow> audit_action \<Rightarrow> string \<Rightarrow> string \<Rightarrow> string \<Rightarrow> metadata \<Rightarrow>
     backend \<Rightarrow> backend" where
  "Record env actor networkID action targetType targetID ipAddress meta s =
     s\<lparr>pending := pending s @
        [\<lparr>alID = eAuditID env, ActorUserID = actor, alNetworkID = networkID, Action = action,
          TargetType = non_empty targetType, TargetID = non_empty targetID,
          alIPAddress = non_empty ipAddress, alMetadata = meta, alCreatedAt = 0\<rparr>]\<rparr>"

definition write_audit :: "gotime \<Rightarrow> nat \<Rightarrow> backend \<Rightarrow> backend" where
  "write_audit now i s =
     (if i < length (pending s)
      then s\<lparr>db := snd (auditLogRepo_Create uuid_Nil now (pending s ! i) (db s)),
             pending := take i (pending s) @ drop (Suc i) (pending s)\<rparr>
      else s)"

section \<open>Invite codes\<close>

definition inviteCodeEncoding :: string where
  "inviteCodeEncoding = ''0123456789ABCDEFGHJKMNPQRSTVWXYZ''"

text \<open>\<open>rand.Read\<close> fills the eight bytes or fails.\<close>

definition generateInviteCode :: "bytes option \<Rightarrow> string result" where
  "generateInviteCode r =
     (case r of
        None \<Rightarrow> Inl (ErrOther ''rand'')
      | Some bs \<Rightarrow> Inr (base32_encode inviteCodeEncoding (take 8 (bs @ replicate 8 0))))"

section \<open>Calls\<close>

definition requireMembership :: "uuid \<Rightarrow> uuid \<Rightarrow> store \<Rightarrow> network_member result" where
  "requireMembership networkID userID d =
     (case memberRepo_Get networkID userID d of
        Inl e \<Rightarrow> if e = ErrNotFound then Inl ErrForbidden else Inl e
      | Inr m \<Rightarrow> Inr m)"

definition requireRole :: "network_role \<Rightarrow> network_role list \<Rightarrow> unit result" where
  "requireRole role allowed = (if role \<in> set allowed then Inr () else Inl ErrForbidden)"

definition with_counts :: "store \<Rightarrow> network \<Rightarrow> network" where
  "with_counts d n =
     n\<lparr>MemberCount := networkRepo_CountMembers (nID n) d, DeviceCount := networkRepo_CountDevices (nID n) d\<rparr>"

definition NetworkService_Create ::
  "(uuid \<Rightarrow> string) \<Rightarrow> svc_env \<Rightarrow> uuid \<Rightarrow> string \<Rightarrow> string \<Rightarrow> string \<Rightarrow> string list \<Rightarrow> backend \<Rightarrow>
     network result \<times> backend" where
  "NetworkService_Create us env ownerID name description cidr dnsServers s =
     (if TrimSpace name = [] then (Inl ErrInvalidInput, s)
      else if ParseCIDR cidr = None then (Inl ErrInvalidInput, s)
      else case generateInviteCode (eRand env) of
        Inl e \<Rightarrow> (Inl e, s)
      | Inr code \<Rightarrow>
          let n = network_zero\<lparr>nID := eID1 env, nName := name, nDescription := description, CIDR := cidr,
                    DNSServers := dnsServers, OwnerID := ownerID, InviteCode := code,
                    InviteEnabled := True, AllowBroadcast := True\<rparr>
          in case networkRepo_Create uuid_Nil (eNow env) n (db s) of
               (Inl e, d) \<Rightarrow> (Inl e, s\<lparr>db := d\<rparr>)
             | (Inr n, d) \<Rightarrow>
                 let m = network_member_zero\<lparr>mID := eID2 env, mNetworkID := nID n, mUserID := ownerID,
                           Role := NetworkRoleOwner\<rparr>
                 in case memberRepo_Create uuid_Nil (eNow env) m d of
                      (Inl e, d) \<Rightarrow> (Inl e, s\<lparr>db := d\<rparr>)
                    | (Inr _, d) \<Rightarrow>
                        let n = n\<lparr>CallerRole := NetworkRoleOwner, MemberCount := 1, DeviceCount := 0\<rparr>
                        in (Inr n, Record env (Some ownerID) (Some (nID n)) AuditNetworkCreate ''network''
                                     (us (nID n)) [] [] (s\<lparr>db := d\<rparr>)))"

definition NetworkService_ListForUser :: "uuid \<Rightarrow> backend \<Rightarrow> network list" where
  "NetworkService_ListForUser userID s = map (with_counts (db s)) (networkRepo_ListForUser userID (db s))"

definition NetworkService_Get :: "uuid \<Rightarrow> uuid \<Rightarrow> backend \<Rightarrow> network result" where
  "NetworkService_Get networkID userID s =
     (case requireMembership networkID userID (db s) of
        Inl e \<Rightarrow> Inl e
      | Inr member \<Rightarrow>
          (case networkRepo_GetByID networkID (db s) of
             Inl e \<Rightarrow> Inl e
           | Inr n \<Rightarrow> Inr (n\<lparr>CallerRole := Role member,
                             MemberCount := networkRepo_CountMembers networkID (db s),
                             DeviceCount := networkRepo_CountDevices networkID (db s)\<rparr>)))"

definition network_patch ::
  "string option \<Rightarrow> string option \<Rightarrow> string option \<Rightarrow> string list option \<Rightarrow> network \<Rightarrow> network result" where
  "network_patch name description cidr dnsServers n =
     (let n = (case name of None \<Rightarrow> n | Some x \<Rightarrow> n\<lparr>nName := x\<rparr>);
          n = (case description of None \<Rightarrow> n | Some x \<Rightarrow> n\<lparr>nDescription := x\<rparr>)
      in if (case cidr of None \<Rightarrow> False | Some x \<Rightarrow> ParseCIDR x = None) then Inl ErrInvalidInput
         else let n = (case cidr of None \<Rightarrow> n | Some x \<Rightarrow> n\<lparr>CIDR := x\<rparr>)
              in Inr (case dnsServers of None \<Rightarrow> n | Some x \<Rightarrow> n\<lparr>DNSServers := x\<rparr>))"

definition NetworkService_Update ::
  "(uuid \<Rightarrow> string) \<Rightarrow> svc_env \<Rightarrow> uuid \<Rightarrow> uuid \<Rightarrow> string option \<Rightarrow> string option \<Rightarrow> string option \<Rightarrow>
     string list option \<Rightarrow> backend \<Rightarrow> network result \<times> backend" where
  "NetworkService_Update us env networkID userID name description cidr dnsServers s =
     (case requireMembership networkID userID (db s) of
        Inl e \<Rightarrow> (Inl e, s)
      | Inr member \<Rightarrow>
          (case requireRole (Role member) [NetworkRoleOwner, NetworkRoleAdmin] of
             Inl e \<Rightarrow> (Inl e, s)
           | Inr _ \<Rightarrow>
               (case networkRepo_GetByID networkID (db s) of
                  Inl e \<Rightarrow> (Inl e, s)
                | Inr n \<Rightarrow>
                    (case network_patch name description cidr dnsServers n of
                       Inl e \<Rightarrow> (Inl e, s)
                     | Inr n \<Rightarrow>
                         (case networkRepo_Update (eNow env) n (db s) of
                            (Inl e, d) \<Rightarrow> (Inl e, s\<lparr>db := d\<rparr>)
                          | (Inr n, d) \<Rightarrow>
                              let n = n\<lparr>CallerRole := Role member\<rparr>
                              in (Inr n, Record env (Some userID) (Some (nID n)) AuditNetworkUpdate ''network''
                                           (us (nID n)) [] [] (s\<lparr>db := d\<rparr>)))))))"

definition NetworkService_Delete :: "(uuid \<Rightarrow> string) \<Rightarrow> svc_env \<Rightarrow> uuid \<Rightarrow> uuid \<Rightarrow> backend \<Rightarrow> unit result \<times> backend" where
  "NetworkService_Delete us env networkID userID s =
     (case requireMembership networkID userID (db s) of
        Inl e \<Rightarrow> (Inl e, s)
      | Inr member \<Rightarrow>
          (case requireRole (Role member) [NetworkRoleOwner] of
             Inl e \<Rightarrow> (Inl e, s)
           | Inr _ \<Rightarrow>
               (case networkRepo_Delete networkID (db s) of
                  (Inl e, d) \<Rightarrow> (Inl e, s\<lparr>db := d\<rparr>)
                | (Inr _, d) \<Rightarrow>
                    (Inr (), Record env (Some userID) (Some networkID) AuditNetworkDelete ''network''
                               (us networkID) [] [] (s\<lparr>db := d\<rparr>)))))"

definition NetworkService_Join ::
  "(uuid \<Rightarrow> string) \<Rightarrow> svc_env \<Rightarrow> uuid \<Rightarrow> string \<Rightarrow> backend \<Rightarrow> network result \<times> backend" where
  "NetworkService_Join us env userID inviteCode s =
     (case networkRepo_GetByInviteCode (eNow env) inviteCode (db s) of
        Inl e \<Rightarrow> if e = ErrNotFound then (Inl ErrInviteInvalid, s) else (Inl e, s)
      | Inr n \<Rightarrow>
          if \<not> InviteEnabled n then (Inl ErrInviteInvalid, s)
          else if invite_expired (eNow env) n then (Inl ErrInviteInvalid, s)
          else case memberRepo_Get (nID n) userID (db s) of
            Inr existing \<Rightarrow> (Inr (with_counts (db s) (n\<lparr>CallerRole := Role existing\<rparr>)), s)
          | Inl _ \<Rightarrow>
              let m = network_member_zero\<lparr>mID := eID1 env, mNetworkID := nID n, mUserID := userID,
                        Role := NetworkRoleMember\<rparr>
              in case memberRepo_Create uuid_Nil (eNow env) m (db s) of
                   (Inl e, d) \<Rightarrow> (Inl e, s\<lparr>db := d\<rparr>)
                 | (Inr _, d) \<Rightarrow>
                     (Inr (with_counts d (n\<lparr>CallerRole := NetworkRoleMember\<rparr>)),
                      Record env (Some userID) (Some (nID n)) AuditNetworkMemberJoined ''network_member''
                        (us userID) [] [] (s\<lparr>db := d\<rparr>)))"

definition NetworkService_RotateInvite ::
  "(uuid \<Rightarrow> string) \<Rightarrow> svc_env \<Rightarrow> uuid \<Rightarrow> uuid \<Rightarrow> backend \<Rightarrow> string result \<times> backend" where
  "NetworkService_RotateInvite us env networkID userID s =
     (case requireMembership networkID userID (db s) of
        Inl e \<Rightarrow> (Inl e, s)
      | Inr member \<Rightarrow>
          (case requireRole (Role member) [NetworkRoleOwner, NetworkRoleAdmin] of
             Inl e \<Rightarrow> (Inl e, s)
           | Inr _ \<Rightarrow>
               (case generateInviteCode (eRand env) of
                  Inl e \<Rightarrow> (Inl e, s)
                | Inr newCode \<Rightarrow>
                    (case networkRepo_RotateInviteCode (eNow env) networkID newCode None (db s) of
                       (Inl e, d) \<Rightarrow> (Inl e, s\<lparr>db := d\<rparr>)
                     | (Inr _, d) \<Rightarrow>
                         (Inr newCode, Record env (Some userID) (Some networkID) AuditNetworkInviteRotated
                                         ''network'' (us networkID) [] [] (s\<lparr>db := d\<rparr>))))))"

definition NetworkService_ListMembers :: "uuid \<Rightarrow> uuid \<Rightarrow> backend \<Rightarrow> network_member list result" where
  "NetworkService_ListMembers networkID userID s =
     (case requireMembership networkID userID (db s) of
        Inl e \<Rightarrow> Inl e
      | Inr _ \<Rightarrow> Inr (memberRepo_List networkID (db s)))"

definition NetworkService_UpdateMemberRole ::
  "(uuid \<Rightarrow> string) \<Rightarrow> svc_env \<Rightarrow> uuid \<Rightarrow> uuid \<Rightarrow> uuid \<Rightarrow> network_role \<Rightarrow> backend \<Rightarrow> unit result \<times> backend" where
  "NetworkService_UpdateMemberRole us env networkID callerID targetUserID newRole s =
     (case requireMembership networkID callerID (db s) of
        Inl e \<Rightarrow> (Inl e, s)
      | Inr caller \<Rightarrow>
          if newRole \<noteq> NetworkRoleAdmin \<and> newRole \<noteq> NetworkRoleMember then (Inl ErrInvalidInput, s)
          else case memberRepo_Get networkID targetUserID (db s) of
            Inl e \<Rightarrow> (Inl e, s)
          | Inr target \<Rightarrow>
              if Role target = NetworkRoleOwner then (Inl ErrLastOwner, s)
              else case (if newRole = NetworkRoleAdmin \<or> Role target = NetworkRoleAdmin
                         then requireRole (Role caller) [NetworkRoleOwner]
                         else requireRole (Role caller) [NetworkRoleOwner, NetworkRoleAdmin]) of
                Inl e \<Rightarrow> (Inl e, s)
              | Inr _ \<Rightarrow>
                  (case memberRepo_UpdateRole networkID targetUserID newRole (db s) of
                     (Inl e, d) \<Rightarrow> (Inl e, s\<lparr>db := d\<rparr>)
                   | (Inr _, d) \<Rightarrow>
                       (Inr (), Record env (Some callerID) (Some networkID) AuditNetworkMemberRoleChg
                                  ''network_member'' (us targetUserID) [] [(''new_role'', newRole)]
                                  (s\<lparr>db := d\<rparr>))))"

definition NetworkService_RemoveMember ::
  "(uuid \<Rightarrow> string) \<Rightarrow> svc_env \<Rightarrow> uuid \<Rightarrow> uuid \<Rightarrow> uuid \<Rightarrow> backend \<Rightarrow> unit result \<times> backend" where
  "NetworkService_RemoveMember us env networkID callerID targetUserID s =
     (case requireMembership networkID callerID (db s) of
        Inl e \<Rightarrow> (Inl e, s)
      | Inr caller \<Rightarrow>
          (case memberRepo_Get networkID targetUserID (db s) of
             Inl e \<Rightarrow> (Inl e, s)
           | Inr target \<Rightarrow>
               if Role target = NetworkRoleOwner then (Inl ErrLastOwner, s)
               else case (if callerID \<noteq> targetUserID then
                            (case requireRole (Role caller) [NetworkRoleOwner, NetworkRoleAdmin] of
                               Inl e \<Rightarrow> Inl e
                             | Inr _ \<Rightarrow> if Role target = NetworkRoleAdmin \<and> Role caller \<noteq> NetworkRoleOwner
                                        then Inl ErrForbidden else Inr ())
                          else Inr ()) of
                 Inl e \<Rightarrow> (Inl e, s)
               | Inr _ \<Rightarrow>
                   (case memberRepo_Delete networkID targetUserID (db s) of
                      (Inl e, d) \<Rightarrow> (Inl e, s\<lparr>db := d\<rparr>)
                    | (Inr _, d) \<Rightarrow>
                        (Inr (), Record env (Some callerID) (Some networkID) AuditNetworkMemberRemoved
                                   ''network_member'' (us targetUserID) [] [] (s\<lparr>db := d\<rparr>)))))"

end
