(* ===== verification/Logs_Service.thy ===== *)
theory Logs_Service
  imports Network_Service
begin

text \<open>
  The log listings, \<open>backend/internal/usecase/logs_service.go\<close>, and the aggregates of the dashboard,
  \<open>dashboard_service.go\<close>, over the embedded repositories. Both only read the store.

  The ratio of direct connections is the exact quotient of the two counts; the rounding of the
  \<open>float64\<close> division is not modelled.
\<close>

section \<open>Logs\<close>

definition defaultLogLimit :: int where "defaultLogLimit = 50"
definition maxLogLimit :: int where "maxLogLimit = 200"

definition clampLimit :: "int \<Rightarrow> int" where
  "clampLimit limit =
     (if limit \<le> 0 then defaultLogLimit else if limit > maxLogLimit then maxLogLimit else limit)"

definition AuditLogs :: "uuid \<Rightarrow> uuid option \<Rightarrow> int \<Rightarrow> int \<Rightarrow> store \<Rightarrow> audit_log list result" where
  "AuditLogs userID networkID limit offset st =
     (let limit = clampLimit limit;
          offset = (if offset < 0 then 0 else offset)
      in case networkID of
           Some nid \<Rightarrow>
             (case memberRepo_Get nid userID st of
                Inl e \<Rightarrow> if e = ErrNotFound then Inl ErrForbidden else Inl e
              | Inr _ \<Rightarrow> Inr (auditLogRepo_ListByNetwork nid limit offset st))
         | None \<Rightarrow> Inr (auditLogRepo_List limit offset st))"

definition ConnectionLogs :: "uuid \<Rightarrow> uuid option \<Rightarrow> int \<Rightarrow> int \<Rightarrow> store \<Rightarrow> connection_log list result" where
  "ConnectionLogs userID networkID limit offset st =
     (let limit = clampLimit limit;
          offset = (if offset < 0 then 0 else offset)
      in case networkID of
           Some nid \<Rightarrow>
             (case memberRepo_Get nid userID st of
                Inl e \<Rightarrow> if e = ErrNotFound then Inl ErrForbidden else Inl e
              | Inr _ \<Rightarrow> Inr (connLogRepo_ListByNetwork nid limit offset st))
         | None \<Rightarrow> Inr (connLogRepo_List limit offset st))"

section \<open>Dashboard\<close>

record dashboard_stats =
  ActiveUsers :: nat
  ActiveNetworks :: nat
  OnlineDevices :: nat
  TotalDevices :: nat
  RelayBandwidthBytes :: "64 word"
  P2PConnectionRatio :: rat

definition NewDashboardService :: "duration \<Rightarrow> duration" where
  "NewDashboardService activeWindow = (if activeWindow \<le> 0 then 5 * Minute else activeWindow)"

definition count_of :: "connection_event_type \<Rightarrow> (connection_event_type, int) gomap \<Rightarrow> int" where
  "count_of t counts = (case map_of counts t of None \<Rightarrow> 0 | Some c \<Rightarrow> c)"

definition DashboardService_Stats :: "duration \<Rightarrow> gotime \<Rightarrow> store \<Rightarrow> dashboard_stats" where
  "DashboardService_Stats activeWindow now st =
     (let since = now - activeWindow;
          counts = connLogRepo_CountByEventType 0 st;
          p2p = count_of ConnEventP2PEstablished counts;
          relay = count_of ConnEventRelayFallback counts;
          total = p2p + relay
      in \<lparr>ActiveUsers = deviceRepo_CountDistinctActiveUsers since st,
          ActiveNetworks = deviceRepo_CountDistinctActiveNetworks since st,
          OnlineDevices = presence_CountOnline now st,
          TotalDevices = deviceRepo_CountTotal st,
          RelayBandwidthBytes = connLogRepo_SumBytesByEventType ConnEventRelayFallback 0 st,
          P2PConnectionRatio = (if total > 0 then of_int p2p / of_int total else 0)\<rparr>)"

section \<open>What the listings return\<close>

lemma clampLimit_bounds: "0 < clampLimit n \<and> clampLimit n \<le> maxLogLimit"
  by (simp add: clampLimit_def defaultLogLimit_def maxLogLimit_def)

lemma page_loop_subset: "set (page_loop match limit offset rows k out) \<subseteq> set out \<union> {r \<in> set rows. match r}"
  by (induction match limit offset rows k out rule: page_loop.induct) (auto split: if_splits)

lemma page_loop_length: "length out \<le> limit \<Longrightarrow> length (page_loop match limit offset rows k out) \<le> limit"
  by (induction match limit offset rows k out rule: page_loop.induct) auto

lemma page_subset: "set (page rows limit offset match) \<subseteq> {r \<in> set rows. match r}"
  using page_loop_subset [of match _ _ "rev rows" 0 "[]"] by (auto simp: page_def Let_def)

lemma page_length: "0 < limit \<Longrightarrow> limit \<le> 200 \<Longrightarrow> length (page rows limit offset match) \<le> 200"
  using page_loop_length [of "[]" "nat limit" match "nat (max 0 offset)" "rev rows" 0]
  by (auto simp: page_def Let_def maxLogRows_def max_def split: if_splits)

lemma memberRepo_Get_member:
  "memberRepo_Get nid u st = Inr m \<Longrightarrow> map_of (members st) (nid, u) \<noteq> None"
  by (auto simp: memberRepo_Get_def row_or_not_found_def split: option.splits)

lemma AuditLogs_scoped:
  "AuditLogs u (Some nid) limit offset st = Inr ls \<Longrightarrow>
   map_of (members st) (nid, u) \<noteq> None \<and> (\<forall>l \<in> set ls. alNetworkID l = Some nid) \<and> length ls \<le> 200"
  using page_subset [of "auditLogs st"] page_length clampLimit_bounds [of limit]
  by (fastforce simp: AuditLogs_def Let_def auditLogRepo_ListByNetwork_def maxLogLimit_def
      dest: memberRepo_Get_member split: sum.splits if_splits)

lemma ConnectionLogs_scoped:
  "ConnectionLogs u (Some nid) limit offset st = Inr ls \<Longrightarrow>
   map_of (members st) (nid, u) \<noteq> None \<and> (\<forall>l \<in> set ls. clNetworkID l = nid) \<and> length ls \<le> 200"
  using page_subset [of "connLogs st"] page_length clampLimit_bounds [of limit]
  by (fastforce simp: ConnectionLogs_def Let_def connLogRepo_ListByNetwork_def maxLogLimit_def
      dest: memberRepo_Get_member split: sum.splits if_splits)

text \<open>Without a network filter the listing does not look at the caller: it is the same for every user.\<close>

lemma unscoped_logs_ignore_caller:
  "AuditLogs u None limit offset st = AuditLogs u' None limit offset st"
  "ConnectionLogs u None limit offset st = ConnectionLogs u' None limit offset st"
  by (simp_all add: AuditLogs_def ConnectionLogs_def)

section \<open>What the dashboard counts\<close>

lemma count_of_put: "count_of t (put k v m) = (if t = k then v else count_of t m)"
  by (simp add: count_of_def get_put)

lemma CountByEventType_count:
  "count_of t (connLogRepo_CountByEventType since st) =
   int (length (filter (\<lambda>l. EventType l = t \<and> after (clCreatedAt l) since) (connLogs st)))"
proof -
  have "count_of t (foldl (\<lambda>counts l. if after (clCreatedAt l) since
            then put (EventType l) (case map_of counts (EventType l) of None \<Rightarrow> 1 | Some c \<Rightarrow> c + 1) counts
            else counts) m ls) =
        count_of t m + int (length (filter (\<lambda>l. EventType l = t \<and> after (clCreatedAt l) since) ls))" for m ls
    by (induction ls arbitrary: m) (auto simp: count_of_put, auto simp: count_of_def split: option.splits)
  from this [of "[]"] show ?thesis by (simp add: connLogRepo_CountByEventType_def count_of_def)
qed

lemma Stats_ratio_bounds:
  "0 \<le> P2PConnectionRatio (DashboardService_Stats w now st) \<and> P2PConnectionRatio (DashboardService_Stats w now st) \<le> 1"
  by (auto simp: DashboardService_Stats_def Let_def CountByEventType_count divide_le_eq zero_le_divide_iff)

lemma Stats_online_bound: "OnlineDevices (DashboardService_Stats w now st) \<le> length (presence st)"
  by (simp add: DashboardService_Stats_def Let_def presence_CountOnline_def count_rows_def)

end
