(* ===== verification/Tenancy.thy ===== *)
theory Tenancy
  imports Network_Service
begin

text \<open>
  What the network service keeps. The tables of networks, members and devices are viewed as partial
  maps; \<open>tenancy\<close> is the invariant that ties them together and \<open>net_change\<close> the permission model,
  the changes of the tables that a user may cause. Every call of the service is such a change.
\<close>

section \<open>Tenancy\<close>

text \<open>
  What ties networks, members and devices together: every membership is in an existing network,
  every device belongs to a member of its network, every network has exactly one member with the
  owner role, its \<open>OwnerID\<close>, every role is one of the three, and no two devices share a public key
  or, within a network, a virtual address. It is stated over the three tables as partial maps.
\<close>

definition refs_ok :: "(uuid \<rightharpoonup> network) \<Rightarrow> (uuid \<times> uuid \<rightharpoonup> network_member) \<Rightarrow> (uuid \<rightharpoonup> device) \<Rightarrow> bool" where
  "refs_ok N M D \<longleftrightarrow>
     (\<forall>i u m. M (i, u) = Some m \<longrightarrow> N i \<noteq> None) \<and>
     (\<forall>k d. D k = Some d \<longrightarrow> M (dNetworkID d, dUserID d) \<noteq> None)"

definition owners_ok :: "(uuid \<rightharpoonup> network) \<Rightarrow> (uuid \<times> uuid \<rightharpoonup> network_member) \<Rightarrow> bool" where
  "owners_ok N M \<longleftrightarrow>
     (\<forall>i n. N i = Some n \<longrightarrow> (\<exists>m. M (i, OwnerID n) = Some m \<and> Role m = NetworkRoleOwner)) \<and>
     (\<forall>i u m. M (i, u) = Some m \<longrightarrow> Role m = NetworkRoleOwner \<longrightarrow> (\<exists>n. N i = Some n \<and> OwnerID n = u)) \<and>
     (\<forall>i u m. M (i, u) = Some m \<longrightarrow> Role m \<in> {NetworkRoleOwner, NetworkRoleAdmin, NetworkRoleMember})"

definition devices_unique :: "(uuid \<rightharpoonup> device) \<Rightarrow> bool" where
  "devices_unique D \<longleftrightarrow>
     (\<forall>k d l e. D k = Some d \<longrightarrow> D l = Some e \<longrightarrow>
        PublicKey d = PublicKey e \<or> (dNetworkID d = dNetworkID e \<and> VirtualIP d = VirtualIP e) \<longrightarrow> k = l)"

definition tenancy :: "(uuid \<rightharpoonup> network) \<Rightarrow> (uuid \<times> uuid \<rightharpoonup> network_member) \<Rightarrow> (uuid \<rightharpoonup> device) \<Rightarrow> bool" where
  "tenancy N M D \<longleftrightarrow> refs_ok N M D \<and> owners_ok N M \<and> devices_unique D"

definition tenancy_ok :: "store \<Rightarrow> bool" where
  "tenancy_ok s \<longleftrightarrow> store_ok s \<and> tenancy (map_of (networks s)) (map_of (members s)) (map_of (devices s))"

definition restrict_rows :: "('v \<Rightarrow> bool) \<Rightarrow> ('k \<rightharpoonup> 'v) \<Rightarrow> ('k \<rightharpoonup> 'v)" where
  "restrict_rows P D k = (case D k of None \<Rightarrow> None | Some d \<Rightarrow> if P d then Some d else None)"

lemma restrict_rows_Some [simp]: "restrict_rows P D k = Some d \<longleftrightarrow> D k = Some d \<and> P d"
  by (auto simp: restrict_rows_def split: option.splits)

lemma devices_unique_restrict: "devices_unique D \<Longrightarrow> devices_unique (restrict_rows P D)"
  unfolding devices_unique_def restrict_rows_Some by metis

lemma roles_distinct [simp]:
  "NetworkRoleOwner \<noteq> NetworkRoleAdmin" "NetworkRoleOwner \<noteq> NetworkRoleMember"
  "NetworkRoleAdmin \<noteq> NetworkRoleMember" "NetworkRoleAdmin \<noteq> NetworkRoleOwner"
  "NetworkRoleMember \<noteq> NetworkRoleOwner" "NetworkRoleMember \<noteq> NetworkRoleAdmin"
  by (simp_all add: network_roles)

lemma tenancy_new_network:
  assumes "tenancy N M D" "N i = None" "OwnerID n = u" "Role m = NetworkRoleOwner"
  shows "tenancy (N(i \<mapsto> n)) (M((i, u) \<mapsto> m)) D"
proof -
  have none: "M (i, v) = None" for v using assms(1,2) by (force simp: tenancy_def refs_ok_def)
  show ?thesis
    using assms none by (auto simp: tenancy_def refs_ok_def owners_ok_def)
qed

lemma tenancy_update_network:
  "tenancy N M D \<Longrightarrow> N i = Some n0 \<Longrightarrow> OwnerID n = OwnerID n0 \<Longrightarrow> tenancy (N(i \<mapsto> n)) M D"
  by (fastforce simp: tenancy_def refs_ok_def owners_ok_def)

lemma tenancy_delete_network:
  assumes "tenancy N M D"
  shows "tenancy (N(i := None)) (\<lambda>k. if fst k = i then None else M k) (restrict_rows (\<lambda>d. dNetworkID d \<noteq> i) D)"
  using assms devices_unique_restrict [of D]
  by (auto simp: tenancy_def refs_ok_def owners_ok_def)

lemma tenancy_join:
  assumes "tenancy N M D" "N i = Some n" "M (i, u) = None" "Role m = NetworkRoleMember"
  shows "tenancy N (M((i, u) \<mapsto> m)) D"
  using assms by (auto simp: tenancy_def refs_ok_def owners_ok_def) force+

lemma tenancy_role:
  assumes "tenancy N M D" "M (i, u) = Some m" "Role m \<noteq> NetworkRoleOwner"
    and "r = NetworkRoleAdmin \<or> r = NetworkRoleMember"
  shows "tenancy N (M((i, u) \<mapsto> m\<lparr>Role := r\<rparr>)) D"
  using assms by (auto simp: tenancy_def refs_ok_def owners_ok_def) force+

lemma tenancy_remove:
  assumes "tenancy N M D" "M (i, u) = Some m" "Role m \<noteq> NetworkRoleOwner"
  shows "tenancy N (M((i, u) := None)) (restrict_rows (\<lambda>d. dNetworkID d = i \<longrightarrow> dUserID d \<noteq> u) D)"
proof -
  let ?M = "M((i, u) := None)"
  have "refs_ok N ?M (restrict_rows (\<lambda>d. dNetworkID d = i \<longrightarrow> dUserID d \<noteq> u) D)"
    using assms(1) by (auto simp: tenancy_def refs_ok_def)
  moreover have "\<exists>m'. ?M (j, OwnerID n) = Some m' \<and> Role m' = NetworkRoleOwner" if "N j = Some n" for j n
    using assms that by (force simp: tenancy_def owners_ok_def)
  with assms(1) have "owners_ok N ?M" by (simp add: tenancy_def owners_ok_def)
  ultimately show ?thesis
    using assms(1) devices_unique_restrict by (auto simp: tenancy_def)
qed

lemma tenancy_new_device:
  assumes "tenancy N M D" "D k = None" "M (dNetworkID d, dUserID d) \<noteq> None"
    and "\<And>l e. D l = Some e \<Longrightarrow> PublicKey e \<noteq> PublicKey d"
    and "\<And>l e. D l = Some e \<Longrightarrow> dNetworkID e = dNetworkID d \<Longrightarrow> VirtualIP e \<noteq> VirtualIP d"
  shows "tenancy N M (D(k \<mapsto> d))"
proof -
  have "devices_unique (D(k \<mapsto> d))"
    using assms unfolding tenancy_def devices_unique_def by (auto split: if_splits) metis+
  with assms show ?thesis by (auto simp: tenancy_def refs_ok_def)
qed

lemma tenancy_update_device:
  assumes "tenancy N M D" "D k = Some d0" "dNetworkID d = dNetworkID d0" "dUserID d = dUserID d0"
    and "PublicKey d = PublicKey d0" "VirtualIP d = VirtualIP d0"
  shows "tenancy N M (D(k \<mapsto> d))"
proof -
  have "devices_unique (D(k \<mapsto> d))"
    using assms unfolding tenancy_def devices_unique_def by (auto split: if_splits)
  with assms show ?thesis by (auto simp: tenancy_def refs_ok_def)
qed

lemma tenancy_delete_device: "tenancy N M D \<Longrightarrow> tenancy N M (D(k := None))"
  by (auto simp: tenancy_def refs_ok_def devices_unique_def split: if_splits)

section \<open>The repositories over the tables\<close>

lemma map_of_filter_rows: "gomap_ok m \<Longrightarrow> map_of (filter (\<lambda>(k, v). P v) m) = restrict_rows P (map_of m)"
  by (rule ext) (simp add: get_filter restrict_rows_def split: option.split)

lemma map_of_filter_keys:
  "gomap_ok m \<Longrightarrow> map_of (filter (\<lambda>(k, v). P k) m) = (\<lambda>k. if P k then map_of m k else None)"
  by (rule ext) (simp add: get_filter split: option.split)

definition tables :: "store \<Rightarrow> (uuid \<rightharpoonup> network) \<times> (uuid \<times> uuid \<rightharpoonup> network_member) \<times> (uuid \<rightharpoonup> device)" where
  "tables s = (map_of (networks s), map_of (members s), map_of (devices s))"

lemma tenancy_ok_tables: "tenancy_ok s \<longleftrightarrow> store_ok s \<and> (case tables s of (N, M, D) \<Rightarrow> tenancy N M D)"
  by (simp add: tenancy_ok_def tables_def)

lemma tables_networkRepo_Create:
  "networkRepo_Create i now n s = (Inr n', s') \<Longrightarrow>
   tables s' = (case tables s of (N, M, D) \<Rightarrow> (N(nID n' \<mapsto> n'), M, D)) \<and>
   nID n' = (if nID n = uuid_Nil then i else nID n) \<and> OwnerID n' = OwnerID n"
  by (auto simp: networkRepo_Create_def tables_def touch_def Let_def AList.update_conv' split: if_splits)

lemma tables_networkRepo_Update:
  "networkRepo_Update now n s = (Inr n', s') \<Longrightarrow>
   tables s' = (case tables s of (N, M, D) \<Rightarrow> (N(nID n \<mapsto> n'), M, D)) \<and> n' = n\<lparr>nUpdatedAt := now\<rparr>"
  by (auto simp: networkRepo_Update_def tables_def touch_def Let_def AList.update_conv' split: option.splits)

lemma tables_networkRepo_Delete:
  "store_ok s \<Longrightarrow> networkRepo_Delete i s = (Inr (), s') \<Longrightarrow>
   tables s' = (case tables s of (N, M, D) \<Rightarrow>
     (N(i := None), \<lambda>k. if fst k = i then None else M k, restrict_rows (\<lambda>d. dNetworkID d \<noteq> i) D))"
  by (auto simp: networkRepo_Delete_def tables_def touch_def AList.delete_conv' store_ok_def keyed_def
      map_of_filter_rows map_of_filter_keys [where P = "\<lambda>k. fst k \<noteq> i"] split: option.splits)

lemma tables_networkRepo_RotateInviteCode:
  "networkRepo_RotateInviteCode now i code e s = (Inr (), s') \<Longrightarrow>
   \<exists>n. map_of (networks s) i = Some n \<and>
     tables s' = (case tables s of (N, M, D) \<Rightarrow>
       (N(i \<mapsto> n\<lparr>InviteCode := code, InviteCodeExpiresAt := e, nUpdatedAt := now\<rparr>), M, D))"
  by (auto simp: networkRepo_RotateInviteCode_def tables_def touch_def AList.update_conv' split: option.splits)

lemma tables_memberRepo_Create:
  "memberRepo_Create i now m s = (Inr m', s') \<Longrightarrow>
   map_of (members s) (mNetworkID m, mUserID m) = None \<and>
   tables s' = (case tables s of (N, M, D) \<Rightarrow> (N, M((mNetworkID m, mUserID m) \<mapsto> m'), D)) \<and> Role m' = Role m"
  by (auto simp: memberRepo_Create_def tables_def touch_def Let_def AList.update_conv' split: option.splits)

lemma tables_memberRepo_UpdateRole:
  "memberRepo_UpdateRole n u r s = (Inr (), s') \<Longrightarrow>
   \<exists>m. map_of (members s) (n, u) = Some m \<and>
     tables s' = (case tables s of (N, M, D) \<Rightarrow> (N, M((n, u) \<mapsto> m\<lparr>Role := r\<rparr>), D))"
  by (auto simp: memberRepo_UpdateRole_def tables_def touch_def AList.update_conv' split: option.splits)

lemma tables_memberRepo_Delete:
  "store_ok s \<Longrightarrow> memberRepo_Delete n u s = (Inr (), s') \<Longrightarrow>
   tables s' = (case tables s of (N, M, D) \<Rightarrow>
     (N, M((n, u) := None), restrict_rows (\<lambda>d. dNetworkID d = n \<longrightarrow> dUserID d \<noteq> u) D))"
  by (auto simp: memberRepo_Delete_def tables_def touch_def AList.delete_conv' store_ok_def keyed_def
      map_of_filter_rows split: option.splits)

lemma repo_errors_keep:
  "networkRepo_Create i now n s = (Inl e, s') \<Longrightarrow> s' = s"
  "networkRepo_Update now n s = (Inl e, s') \<Longrightarrow> s' = s"
  "networkRepo_Delete k s = (Inl e, s') \<Longrightarrow> s' = s"
  "networkRepo_RotateInviteCode now k code x s = (Inl e, s') \<Longrightarrow> s' = s"
  "memberRepo_Create i now m s = (Inl e, s') \<Longrightarrow> s' = s"
  "memberRepo_UpdateRole k u r s = (Inl e, s') \<Longrightarrow> s' = s"
  "memberRepo_Delete k u s = (Inl e, s') \<Longrightarrow> s' = s"
  by (auto simp: networkRepo_Create_def networkRepo_Update_def networkRepo_Delete_def
      networkRepo_RotateInviteCode_def memberRepo_Create_def memberRepo_UpdateRole_def memberRepo_Delete_def
      Let_def split: if_splits option.splits)

lemma db_Record [simp]: "db (Record env a n act t i ip meta s) = db s"
  by (simp add: Record_def)

lemma requireRole_Inr [simp]: "requireRole r rs = Inr x \<longleftrightarrow> r \<in> set rs"
  by (simp add: requireRole_def)

lemma requireMembership_Inr [simp]:
  "requireMembership n u d = Inr m \<longleftrightarrow> map_of (members d) (n, u) = Some m"
  by (auto simp: requireMembership_def memberRepo_Get_def split: sum.splits)

section \<open>Who may change what\<close>

text \<open>
  The permission model: which changes of the tables a user may cause. Anybody may create a network
  and becomes its owner, or join one that has invites enabled, as a plain member. Owners and admins
  edit a network; only its owner deletes it. Roles are changed by the owner, or by an admin among
  plain members; nobody changes or removes the owner, and nobody becomes one. Members remove
  themselves; others are removed by the owner, or by an admin unless they are admins.
\<close>

type_synonym tenant_tables = "(uuid \<rightharpoonup> network) \<times> (uuid \<times> uuid \<rightharpoonup> network_member) \<times> (uuid \<rightharpoonup> device)"

inductive net_change :: "uuid \<Rightarrow> tenant_tables \<Rightarrow> tenant_tables \<Rightarrow> bool" for u where
  keep: "net_change u T T"
| create: "N i = None \<Longrightarrow> OwnerID n = u \<Longrightarrow> Role m = NetworkRoleOwner \<Longrightarrow>
    net_change u (N, M, D) (N(i \<mapsto> n), M((i, u) \<mapsto> m), D)"
| edit: "N i = Some n0 \<Longrightarrow> OwnerID n = OwnerID n0 \<Longrightarrow> M (i, u) = Some c \<Longrightarrow>
    Role c = NetworkRoleOwner \<or> Role c = NetworkRoleAdmin \<Longrightarrow> net_change u (N, M, D) (N(i \<mapsto> n), M, D)"
| delete: "M (i, u) = Some c \<Longrightarrow> Role c = NetworkRoleOwner \<Longrightarrow>
    net_change u (N, M, D)
      (N(i := None), \<lambda>k. if fst k = i then None else M k, restrict_rows (\<lambda>d. dNetworkID d \<noteq> i) D)"
| join: "N i = Some n \<Longrightarrow> InviteEnabled n \<Longrightarrow> M (i, u) = None \<Longrightarrow> Role m = NetworkRoleMember \<Longrightarrow>
    net_change u (N, M, D) (N, M((i, u) \<mapsto> m), D)"
| role: "M (i, u) = Some c \<Longrightarrow> M (i, v) = Some m \<Longrightarrow> Role m \<noteq> NetworkRoleOwner \<Longrightarrow>
    r = NetworkRoleAdmin \<or> r = NetworkRoleMember \<Longrightarrow>
    Role c = NetworkRoleOwner \<or>
      (Role c = NetworkRoleAdmin \<and> Role m \<noteq> NetworkRoleAdmin \<and> r = NetworkRoleMember) \<Longrightarrow>
    net_change u (N, M, D) (N, M((i, v) \<mapsto> m\<lparr>Role := r\<rparr>), D)"
| remove: "M (i, u) = Some c \<Longrightarrow> M (i, v) = Some m \<Longrightarrow> Role m \<noteq> NetworkRoleOwner \<Longrightarrow>
    v = u \<or> Role c = NetworkRoleOwner \<or> (Role c = NetworkRoleAdmin \<and> Role m \<noteq> NetworkRoleAdmin) \<Longrightarrow>
    net_change u (N, M, D)
      (N, M((i, v) := None), restrict_rows (\<lambda>d. dNetworkID d = i \<longrightarrow> dUserID d \<noteq> v) D)"

lemma net_change_tenancy:
  "net_change u T T' \<Longrightarrow> (case T of (N, M, D) \<Rightarrow> tenancy N M D) \<Longrightarrow> (case T' of (N, M, D) \<Rightarrow> tenancy N M D)"
  by (induction rule: net_change.induct)
    (auto intro: tenancy_new_network tenancy_update_network tenancy_delete_network tenancy_join
      tenancy_role tenancy_remove)

lemma Create_change:
  assumes "tenancy_ok (db s)" "map_of (networks (db s)) (eID1 env) = None" "eID1 env \<noteq> uuid_Nil"
  shows "net_change owner (tables (db s)) (tables (db (snd (NetworkService_Create us env owner name desc cidr dns s))))"
proof -
  have nomem: "map_of (members (db s)) (eID1 env, owner) = None"
    using assms(1,2) by (force simp: tenancy_ok_def tenancy_def refs_ok_def)
  obtain N M D where T: "tables (db s) = (N, M, D)" by (cases "tables (db s)") auto
  with assms(2) have N: "N (eID1 env) = None" by (auto simp: tables_def)
  have step: "net_change owner (tables (db s)) (tables d2)"
    if "networkRepo_Create i now n (db s) = (Inr n', d)" "memberRepo_Create j now' m d = (Inr m', d2)"
      and "nID n = eID1 env" "OwnerID n = owner" "mNetworkID m = nID n'" "mUserID m = owner"
      and "Role m = NetworkRoleOwner"
    for i j now now' n n' d m m' d2
    using tables_networkRepo_Create [OF that(1)] tables_memberRepo_Create [OF that(2)] that(3-) T assms(3)
    by (auto intro: net_change.create [of N "eID1 env", OF N])
  have nofail: False
    if "networkRepo_Create i now n (db s) = (Inr n', d)" "memberRepo_Create j now' m d = (Inl e, d2)"
      and "nID n = eID1 env" "mNetworkID m = nID n'" "mUserID m = owner"
    for i j now now' n n' d m e d2
    using tables_networkRepo_Create [OF that(1)] that(2-) nomem assms(3)
    by (auto simp: memberRepo_Create_def Let_def tables_def split: option.splits)
  show ?thesis
  proof (cases "TrimSpace name = [] \<or> ParseCIDR cidr = None \<or> (\<exists>e. generateInviteCode (eRand env) = Inl e)")
    case True
    then show ?thesis by (auto simp: NetworkService_Create_def net_change.keep)
  next
    case False
    then obtain code where code: "generateInviteCode (eRand env) = Inr code"
      by (cases "generateInviteCode (eRand env)") auto
    define n where "n = network_zero\<lparr>nID := eID1 env, nName := name, nDescription := desc, CIDR := cidr,
      DNSServers := dns, OwnerID := owner, InviteCode := code, InviteEnabled := True, AllowBroadcast := True\<rparr>"
    obtain rn d where rn: "networkRepo_Create uuid_Nil (eNow env) n (db s) = (rn, d)" by fastforce
    show ?thesis
    proof (cases rn)
      case (Inl e)
      with repo_errors_keep(1) [OF rn [unfolded Inl]] rn False code show ?thesis
        by (auto simp: NetworkService_Create_def Let_def n_def [symmetric] net_change.keep)
    next
      case (Inr n')
      define m where "m = network_member_zero\<lparr>mID := eID2 env, mNetworkID := nID n', mUserID := owner,
        Role := NetworkRoleOwner\<rparr>"
      obtain rm d2 where rm: "memberRepo_Create uuid_Nil (eNow env) m d = (rm, d2)" by fastforce
      have flds: "nID n = eID1 env" "OwnerID n = owner" "mNetworkID m = nID n'" "mUserID m = owner"
        "Role m = NetworkRoleOwner"
        by (simp_all add: n_def m_def)
      show ?thesis
      proof (cases rm)
        case (Inl e)
        with nofail [OF rn [unfolded Inr] rm [unfolded Inl] flds(1,3,4)] show ?thesis by simp
      next
        case rm': (Inr m')
        have "db (snd (NetworkService_Create us env owner name desc cidr dns s)) = d2"
          using False code rn Inr rm rm'
          by (auto simp: NetworkService_Create_def Let_def n_def [symmetric] m_def [symmetric])
        with step [OF rn [unfolded Inr] rm [unfolded rm'] flds] show ?thesis by simp
      qed
    qed
  qed
qed

text \<open>The calls that begin with a membership check.\<close>

lemma tables_get: "tables d = (N, M, D) \<Longrightarrow> map_of (networks d) = N \<and> map_of (members d) = M \<and> map_of (devices d) = D"
  by (simp add: tables_def)

lemma network_patch_keeps:
  "network_patch name desc cidr dns n = Inr n' \<Longrightarrow> nID n' = nID n \<and> OwnerID n' = OwnerID n"
  by (auto simp: network_patch_def Let_def split: if_splits option.splits)

lemma Update_change:
  assumes "store_ok (db s)"
  shows "net_change u (tables (db s)) (tables (db (snd (NetworkService_Update us env i u name desc cidr dns s))))"
proof (cases "\<exists>c n n1. map_of (members (db s)) (i, u) = Some c \<and>
    (Role c = NetworkRoleOwner \<or> Role c = NetworkRoleAdmin) \<and> map_of (networks (db s)) i = Some n \<and>
    network_patch name desc cidr dns n = Inr n1")
  case False
  then show ?thesis
    by (auto simp: NetworkService_Update_def networkRepo_GetByID_def net_change.keep split: sum.split)
next
  case True
  then obtain c n n1 where c: "map_of (members (db s)) (i, u) = Some c"
    "Role c = NetworkRoleOwner \<or> Role c = NetworkRoleAdmin" and n: "map_of (networks (db s)) i = Some n"
    and n1: "network_patch name desc cidr dns n = Inr n1" by auto
  have id: "nID n1 = i" "OwnerID n1 = OwnerID n"
    using store_ok_keys(2) [OF assms n] network_patch_keeps [OF n1] by simp_all
  obtain r d where r: "networkRepo_Update (eNow env) n1 (db s) = (r, d)" by fastforce
  then obtain n' where rn: "r = Inr n'" using id n by (auto simp: networkRepo_Update_def Let_def)
  have m: "requireMembership i u (db s) = Inr c" using c by simp
  have rr: "requireRole (Role c) [NetworkRoleOwner, NetworkRoleAdmin] = Inr ()" using c by auto
  have g: "networkRepo_GetByID i (db s) = Inr n" using n by (simp add: networkRepo_GetByID_def)
  have db: "db (snd (NetworkService_Update us env i u name desc cidr dns s)) = d"
    unfolding NetworkService_Update_def m rr g n1 sum.case r rn by (simp add: Let_def)
  obtain N M D where T: "tables (db s) = (N, M, D)" by (cases "tables (db s)") auto
  have "tables d = (N(i \<mapsto> n'), M, D)" "OwnerID n' = OwnerID n"
    using tables_networkRepo_Update [OF r [unfolded rn]] T id by auto
  moreover have "N i = Some n" "M (i, u) = Some c" using tables_get [OF T] n c by simp_all
  ultimately show ?thesis unfolding db T using c net_change.edit [of N i n n' M u c D] by simp
qed

lemma Delete_change:
  assumes "store_ok (db s)"
  shows "net_change u (tables (db s)) (tables (db (snd (NetworkService_Delete us env i u s))))"
proof (cases "\<exists>c. map_of (members (db s)) (i, u) = Some c \<and> Role c = NetworkRoleOwner")
  case False
  then show ?thesis
    by (auto simp: NetworkService_Delete_def net_change.keep split: sum.split)
next
  case True
  then obtain c where c: "map_of (members (db s)) (i, u) = Some c" "Role c = NetworkRoleOwner" by auto
  have m: "requireMembership i u (db s) = Inr c" using c by simp
  have rr: "requireRole (Role c) [NetworkRoleOwner] = Inr ()" using c by auto
  obtain r d where r: "networkRepo_Delete i (db s) = (r, d)" by fastforce
  have db: "db (snd (NetworkService_Delete us env i u s)) = d"
    unfolding NetworkService_Delete_def m rr sum.case r by (cases r) simp_all
  show ?thesis
  proof (cases r)
    case (Inl e)
    with repo_errors_keep(3) [OF r [unfolded Inl]] db show ?thesis by (simp add: net_change.keep)
  next
    case (Inr x)
    obtain N M D where T: "tables (db s) = (N, M, D)" by (cases "tables (db s)") auto
    have "r = Inr ()" using Inr by simp
    from tables_networkRepo_Delete [OF assms r [unfolded this]] T
    have t: "tables d = (N(i := None), \<lambda>k. if fst k = i then None else M k, restrict_rows (\<lambda>d. dNetworkID d \<noteq> i) D)"
      by simp
    have "M (i, u) = Some c" using tables_get [OF T] c by simp
    then show ?thesis unfolding db T t using c by (intro net_change.delete) simp_all
  qed
qed

lemma Join_change:
  assumes "store_ok (db s)"
  shows "net_change u (tables (db s)) (tables (db (snd (NetworkService_Join us env u code s))))"
proof (cases "\<exists>n. networkRepo_GetByInviteCode (eNow env) code (db s) = Inr n \<and> InviteEnabled n \<and>
    \<not> invite_expired (eNow env) n \<and> map_of (members (db s)) (nID n, u) = None")
  case False
  then show ?thesis
    by (auto simp: NetworkService_Join_def memberRepo_Get_def net_change.keep split: sum.split)
next
  case True
  then obtain n where n: "networkRepo_GetByInviteCode (eNow env) code (db s) = Inr n" "InviteEnabled n"
    "\<not> invite_expired (eNow env) n" "map_of (members (db s)) (nID n, u) = None" by auto
  have row: "map_of (networks (db s)) (nID n) = Some n"
  proof -
    from n(1) have "n \<in> snd ` set (networks (db s))"
      by (auto simp: networkRepo_GetByInviteCode_def find_Some_iff split: option.splits if_splits)
    then obtain k where k: "(k, n) \<in> set (networks (db s))" by auto
    have kd: "keyed nID (networks (db s))" using assms by (simp add: store_ok_def)
    then have "map_of (networks (db s)) k = Some n" using k by (auto simp: keyed_def intro: map_of_is_SomeI)
    with keyed_get [OF kd this] show ?thesis by simp
  qed
  define m where "m = network_member_zero\<lparr>mID := eID1 env, mNetworkID := nID n, mUserID := u,
    Role := NetworkRoleMember\<rparr>"
  have g: "memberRepo_Get (nID n) u (db s) = Inl ErrNotFound" using n(4) by (simp add: memberRepo_Get_def)
  obtain r d where r: "memberRepo_Create uuid_Nil (eNow env) m (db s) = (r, d)" by fastforce
  then obtain m' where rm: "r = Inr m'" using n(4) by (auto simp: memberRepo_Create_def m_def Let_def)
  have db: "db (snd (NetworkService_Join us env u code s)) = d"
    using n r unfolding NetworkService_Join_def n(1) sum.case g Let_def m_def [symmetric] rm by simp
  obtain N M D where T: "tables (db s) = (N, M, D)" by (cases "tables (db s)") auto
  have "tables d = (N, M((nID n, u) \<mapsto> m'), D)" "Role m' = NetworkRoleMember"
    using tables_memberRepo_Create [OF r [unfolded rm]] T by (simp_all add: m_def)
  moreover have "N (nID n) = Some n" "M (nID n, u) = None" using tables_get [OF T] n row by simp_all
  ultimately show ?thesis unfolding db T using n(2) net_change.join [of N "nID n" n M u m' D] by simp
qed

lemma RotateInvite_change:
  "net_change u (tables (db s)) (tables (db (snd (NetworkService_RotateInvite us env i u s))))"
proof (cases "\<exists>c code. map_of (members (db s)) (i, u) = Some c \<and>
    (Role c = NetworkRoleOwner \<or> Role c = NetworkRoleAdmin) \<and> generateInviteCode (eRand env) = Inr code")
  case False
  then show ?thesis
    by (auto simp: NetworkService_RotateInvite_def net_change.keep split: sum.split)
next
  case True
  then obtain c code where c: "map_of (members (db s)) (i, u) = Some c"
    "Role c = NetworkRoleOwner \<or> Role c = NetworkRoleAdmin" and code: "generateInviteCode (eRand env) = Inr code"
    by auto
  have m: "requireMembership i u (db s) = Inr c" using c by simp
  have rr: "requireRole (Role c) [NetworkRoleOwner, NetworkRoleAdmin] = Inr ()" using c by auto
  obtain r d where r: "networkRepo_RotateInviteCode (eNow env) i code None (db s) = (r, d)" by fastforce
  have db: "db (snd (NetworkService_RotateInvite us env i u s)) = d"
    unfolding NetworkService_RotateInvite_def m rr code sum.case r by (cases r) simp_all
  show ?thesis
  proof (cases r)
    case (Inl e)
    with repo_errors_keep(4) [OF r [unfolded Inl]] db show ?thesis by (simp add: net_change.keep)
  next
    case (Inr x)
    obtain N M D where T: "tables (db s) = (N, M, D)" by (cases "tables (db s)") auto
    have "r = Inr ()" using Inr by simp
    from tables_networkRepo_RotateInviteCode [OF r [unfolded this]] T obtain n where
      n: "map_of (networks (db s)) i = Some n"
      and t: "tables d = (N(i \<mapsto> n\<lparr>InviteCode := code, InviteCodeExpiresAt := None, nUpdatedAt := eNow env\<rparr>), M, D)"
      by auto
    have "N i = Some n" "M (i, u) = Some c" using tables_get [OF T] n c by simp_all
    then show ?thesis unfolding db T t using c by (intro net_change.edit [of N i n _ M u c]) simp_all
  qed
qed

lemma UpdateMemberRole_change:
  "net_change u (tables (db s)) (tables (db (snd (NetworkService_UpdateMemberRole us env i u v newRole s))))"
proof (cases "\<exists>c t. map_of (members (db s)) (i, u) = Some c \<and> map_of (members (db s)) (i, v) = Some t \<and>
    (newRole = NetworkRoleAdmin \<or> newRole = NetworkRoleMember) \<and> Role t \<noteq> NetworkRoleOwner \<and>
    (Role c = NetworkRoleOwner \<or>
      (Role c = NetworkRoleAdmin \<and> newRole \<noteq> NetworkRoleAdmin \<and> Role t \<noteq> NetworkRoleAdmin))")
  case False
  then show ?thesis
    by (auto simp: NetworkService_UpdateMemberRole_def memberRepo_Get_def net_change.keep
        split: sum.split)
next
  case True
  then obtain c t where c: "map_of (members (db s)) (i, u) = Some c"
    and t: "map_of (members (db s)) (i, v) = Some t"
    and new: "newRole = NetworkRoleAdmin \<or> newRole = NetworkRoleMember" and own: "Role t \<noteq> NetworkRoleOwner"
    and auth: "Role c = NetworkRoleOwner \<or>
      (Role c = NetworkRoleAdmin \<and> newRole \<noteq> NetworkRoleAdmin \<and> Role t \<noteq> NetworkRoleAdmin)" by auto
  have m: "requireMembership i u (db s) = Inr c" using c by simp
  have g: "memberRepo_Get i v (db s) = Inr t" using t by (simp add: memberRepo_Get_def)
  have rr: "(if newRole = NetworkRoleAdmin \<or> Role t = NetworkRoleAdmin
             then requireRole (Role c) [NetworkRoleOwner]
             else requireRole (Role c) [NetworkRoleOwner, NetworkRoleAdmin]) = Inr ()"
    using auth by auto
  obtain d where r: "memberRepo_UpdateRole i v newRole (db s) = (Inr (), d)"
    using t by (simp add: memberRepo_UpdateRole_def)
  have db: "db (snd (NetworkService_UpdateMemberRole us env i u v newRole s)) = d"
    using new own unfolding NetworkService_UpdateMemberRole_def m g sum.case rr r by auto
  obtain N M D where T: "tables (db s) = (N, M, D)" by (cases "tables (db s)") auto
  have "tables d = (N, M((i, v) \<mapsto> t\<lparr>Role := newRole\<rparr>), D)"
    using tables_memberRepo_UpdateRole [OF r] T t by auto
  moreover have "M (i, u) = Some c" "M (i, v) = Some t" using tables_get [OF T] c t by simp_all
  moreover have "Role c = NetworkRoleOwner \<or>
      (Role c = NetworkRoleAdmin \<and> Role t \<noteq> NetworkRoleAdmin \<and> newRole = NetworkRoleMember)"
    using auth new by blast
  ultimately show ?thesis
    unfolding db T using net_change.role [of M i u c v t newRole N D] new own by simp
qed

lemma RemoveMember_change:
  assumes "store_ok (db s)"
  shows "net_change u (tables (db s)) (tables (db (snd (NetworkService_RemoveMember us env i u v s))))"
proof (cases "\<exists>c t. map_of (members (db s)) (i, u) = Some c \<and> map_of (members (db s)) (i, v) = Some t \<and>
    Role t \<noteq> NetworkRoleOwner \<and>
    (v = u \<or> Role c = NetworkRoleOwner \<or> (Role c = NetworkRoleAdmin \<and> Role t \<noteq> NetworkRoleAdmin))")
  case False
  then show ?thesis
    by (auto simp: NetworkService_RemoveMember_def memberRepo_Get_def net_change.keep
        split: sum.split)
next
  case True
  then obtain c t where c: "map_of (members (db s)) (i, u) = Some c"
    and t: "map_of (members (db s)) (i, v) = Some t" and own: "Role t \<noteq> NetworkRoleOwner"
    and auth: "v = u \<or> Role c = NetworkRoleOwner \<or> (Role c = NetworkRoleAdmin \<and> Role t \<noteq> NetworkRoleAdmin)" by auto
  have m: "requireMembership i u (db s) = Inr c" using c by simp
  have g: "memberRepo_Get i v (db s) = Inr t" using t by (simp add: memberRepo_Get_def)
  have rr: "(if u \<noteq> v then
               (case requireRole (Role c) [NetworkRoleOwner, NetworkRoleAdmin] of
                  Inl e \<Rightarrow> Inl e
                | Inr _ \<Rightarrow> if Role t = NetworkRoleAdmin \<and> Role c \<noteq> NetworkRoleOwner
                           then Inl ErrForbidden else Inr ())
             else Inr ()) = Inr ()"
    using auth by (auto simp: requireRole_def)
  obtain d where r: "memberRepo_Delete i v (db s) = (Inr (), d)" using t by (simp add: memberRepo_Delete_def)
  have db: "db (snd (NetworkService_RemoveMember us env i u v s)) = d"
    using own unfolding NetworkService_RemoveMember_def m g sum.case rr r by simp
  obtain N M D where T: "tables (db s) = (N, M, D)" by (cases "tables (db s)") auto
  have "tables d = (N, M((i, v) := None), restrict_rows (\<lambda>d. dNetworkID d = i \<longrightarrow> dUserID d \<noteq> v) D)"
    using tables_memberRepo_Delete [OF assms r] T by simp
  moreover have "M (i, u) = Some c" "M (i, v) = Some t" using tables_get [OF T] c t by simp_all
  ultimately show ?thesis
    unfolding db T using net_change.remove [of M i u c v t N D] own auth by simp
qed

end
