(* ===== verification/Network_Properties.thy ===== *)
theory Network_Properties
  imports Tenancy
begin

text \<open>
  The calls of the network service as one datatype with its step function, and the properties of
  the service: role-based access control over arbitrary calls, member management and joining
  decided exactly by roles and codes, and invite codes that cannot be mistaken for one another.
\<close>

section \<open>Calls of the service\<close>

datatype net_call =
    CallCreate svc_env uuid string string string "string list"
  | CallUpdate svc_env uuid uuid "string option" "string option" "string option" "string list option"
  | CallDelete svc_env uuid uuid
  | CallJoin svc_env uuid string
  | CallRotateInvite svc_env uuid uuid
  | CallUpdateMemberRole svc_env uuid uuid uuid network_role
  | CallRemoveMember svc_env uuid uuid uuid

fun net_step :: "(uuid \<Rightarrow> string) \<Rightarrow> backend \<Rightarrow> net_call \<Rightarrow> backend" where
  "net_step us s (CallCreate env u name desc cidr dns) = snd (NetworkService_Create us env u name desc cidr dns s)"
| "net_step us s (CallUpdate env i u name desc cidr dns) = snd (NetworkService_Update us env i u name desc cidr dns s)"
| "net_step us s (CallDelete env i u) = snd (NetworkService_Delete us env i u s)"
| "net_step us s (CallJoin env u code) = snd (NetworkService_Join us env u code s)"
| "net_step us s (CallRotateInvite env i u) = snd (NetworkService_RotateInvite us env i u s)"
| "net_step us s (CallUpdateMemberRole env i u v r) = snd (NetworkService_UpdateMemberRole us env i u v r s)"
| "net_step us s (CallRemoveMember env i u v) = snd (NetworkService_RemoveMember us env i u v s)"

fun net_caller :: "net_call \<Rightarrow> uuid" where
  "net_caller (CallCreate env u name desc cidr dns) = u"
| "net_caller (CallUpdate env i u name desc cidr dns) = u"
| "net_caller (CallDelete env i u) = u"
| "net_caller (CallJoin env u code) = u"
| "net_caller (CallRotateInvite env i u) = u"
| "net_caller (CallUpdateMemberRole env i u v r) = u"
| "net_caller (CallRemoveMember env i u v) = u"

text \<open>What the code relies on \<open>uuid.New\<close> for: the identifier of a new network is not in use.\<close>

fun fresh_net_call :: "store \<Rightarrow> net_call \<Rightarrow> bool" where
  "fresh_net_call d (CallCreate env u name desc cidr dns) \<longleftrightarrow>
     eID1 env \<noteq> uuid_Nil \<and> map_of (networks d) (eID1 env) = None"
| "fresh_net_call d _ \<longleftrightarrow> True"

lemma repo_call_ok:
  assumes "store_ok d"
  shows "networkRepo_Create i now n d = (rn, d') \<Longrightarrow> store_ok d'"
    and "networkRepo_Update now n d = (rn, d') \<Longrightarrow> store_ok d'"
    and "networkRepo_Delete k d = (ru, d') \<Longrightarrow> store_ok d'"
    and "networkRepo_RotateInviteCode now k code e d = (ru, d') \<Longrightarrow> store_ok d'"
    and "memberRepo_Create i now m d = (rm, d') \<Longrightarrow> store_ok d'"
    and "memberRepo_UpdateRole k u r d = (ru, d') \<Longrightarrow> store_ok d'"
    and "memberRepo_Delete k u d = (ru, d') \<Longrightarrow> store_ok d'"
  using network_ops_ok [OF assms] member_ops_ok [OF assms] by (metis snd_conv)+

lemma net_step_store_ok:
  assumes "store_ok (db s)"
  shows "store_ok (db (net_step us s c))"
proof (cases c)
  case (CallCreate env u name desc cidr dns)
  then show ?thesis using assms
    by (auto simp: NetworkService_Create_def Let_def dest: repo_call_ok(1,5) split: sum.split prod.split)
next
  case (CallUpdate env i u name desc cidr dns)
  then show ?thesis using assms
    by (auto simp: NetworkService_Update_def Let_def dest: repo_call_ok(2) split: sum.split prod.split)
next
  case (CallDelete env i u)
  then show ?thesis using assms
    by (auto simp: NetworkService_Delete_def dest: repo_call_ok(3) split: sum.split prod.split)
next
  case (CallJoin env u code)
  then show ?thesis using assms
    by (auto simp: NetworkService_Join_def Let_def dest: repo_call_ok(5) split: sum.split prod.split)
next
  case (CallRotateInvite env i u)
  then show ?thesis using assms
    by (auto simp: NetworkService_RotateInvite_def dest: repo_call_ok(4) split: sum.split prod.split)
next
  case (CallUpdateMemberRole env i u v r)
  then show ?thesis using assms
    by (auto simp: NetworkService_UpdateMemberRole_def dest: repo_call_ok(6) split: sum.split prod.split)
next
  case (CallRemoveMember env i u v)
  then show ?thesis using assms
    by (auto simp: NetworkService_RemoveMember_def dest: repo_call_ok(7) split: sum.split prod.split)
qed

lemma net_step_change:
  assumes "tenancy_ok (db s)" "fresh_net_call (db s) c"
  shows "net_change (net_caller c) (tables (db s)) (tables (db (net_step us s c)))"
  using assms
  by (cases c) (simp_all add: Create_change Update_change Delete_change Join_change RotateInvite_change
      UpdateMemberRole_change RemoveMember_change tenancy_ok_def)

lemma net_step_tenancy:
  "tenancy_ok (db s) \<Longrightarrow> fresh_net_call (db s) c \<Longrightarrow> tenancy_ok (db (net_step us s c))"
  using net_change_tenancy [OF net_step_change] net_step_store_ok [of s us c]
  by (auto simp: tenancy_ok_tables)


section \<open>Properties of the service\<close>

text \<open>
  C5. Role-based access. Whatever call a user makes, the change it causes in the networks,
  memberships and devices is one the permission model \<open>net_change\<close> allows that user: nobody edits
  a network without being its owner or admin, nobody but the owner deletes it, grants or revokes
  the admin role or removes an admin, the owner is never demoted or removed, and nobody becomes an
  owner except by creating the network.
\<close>

theorem network_calls_respect_roles:
  assumes "tenancy_ok (db s)" "fresh_net_call (db s) c"
  shows "net_change (net_caller c) (tables (db s)) (tables (db (net_step us s c)))"
  using assms by (rule net_step_change)

text \<open>A control plane with one network: user 1 owns it, 2 is an admin and 3 a member.\<close>

definition ex_member :: "uuid \<Rightarrow> uuid \<Rightarrow> network_role \<Rightarrow> network_member" where
  "ex_member i u r = network_member_zero\<lparr>mNetworkID := i, mUserID := u, Role := r\<rparr>"

definition ex_backend :: backend where
  "ex_backend =
     \<lparr>db = (empty_store [])\<lparr>
        networks := [(ex_id 9, network_zero\<lparr>nID := ex_id 9, OwnerID := ex_id 1, CIDR := ''10.0.0.0/24'',
                       InviteCode := ''CODE'', InviteEnabled := True\<rparr>)],
        members := [((ex_id 9, ex_id 1), ex_member (ex_id 9) (ex_id 1) NetworkRoleOwner),
                    ((ex_id 9, ex_id 2), ex_member (ex_id 9) (ex_id 2) NetworkRoleAdmin),
                    ((ex_id 9, ex_id 3), ex_member (ex_id 9) (ex_id 3) NetworkRoleMember)]\<rparr>,
      evbus = Some newBus, pending = []\<rparr>"

definition ex_svc_env :: "byte \<Rightarrow> svc_env" where
  "ex_svc_env k = \<lparr>eNow = 1000, eID1 = ex_id k, eID2 = ex_id (k + 1), eAuditID = ex_id (k + 2),
     eRand = Some [1, 2, 3, 4, 5, 6, 7, 8]\<rparr>"

lemmas ex_backend_defs = ex_backend_def ex_member_def empty_store_def

lemma ex_backend_ok: "tenancy_ok (db ex_backend)"
proof -
  have "store_ok (db ex_backend)"
    by (simp add: ex_backend_defs store_ok_def keyed_def)
  moreover have "owners_ok (map_of (networks (db ex_backend))) (map_of (members (db ex_backend)))"
    by (auto simp: ex_backend_defs owners_ok_def network_roles split: if_splits)
  moreover have "refs_ok (map_of (networks (db ex_backend))) (map_of (members (db ex_backend)))
      (map_of (devices (db ex_backend)))"
    by (auto simp: ex_backend_defs refs_ok_def split: if_splits)
  moreover have "devices_unique (map_of (devices (db ex_backend)))"
    by (simp add: ex_backend_defs devices_unique_def)
  ultimately show ?thesis by (simp add: tenancy_ok_def tenancy_def)
qed

theorem network_calls_respect_roles_witness:
  "let c = CallUpdateMemberRole (ex_svc_env 20) (ex_id 9) (ex_id 1) (ex_id 3) NetworkRoleAdmin;
       s = net_step (\<lambda>_. []) ex_backend c
   in net_change (ex_id 1) (tables (db ex_backend)) (tables (db s)) \<and>
      map_option Role (map_of (members (db s)) (ex_id 9, ex_id 3)) = Some NetworkRoleAdmin"
proof -
  let ?c = "CallUpdateMemberRole (ex_svc_env 20) (ex_id 9) (ex_id 1) (ex_id 3) NetworkRoleAdmin"
  have "map_option Role (map_of (members (db (net_step (\<lambda>_. []) ex_backend ?c))) (ex_id 9, ex_id 3))
      = Some NetworkRoleAdmin"
    by code_simp
  with network_calls_respect_roles [OF ex_backend_ok, of ?c "\<lambda>_. []"] show ?thesis by (simp add: Let_def)
qed

text \<open>The two calls that manage other members, by what decides them.\<close>

definition may_set_role :: "network_role \<Rightarrow> network_role \<Rightarrow> network_role \<Rightarrow> bool" where
  "may_set_role caller target r \<longleftrightarrow>
     (r = NetworkRoleAdmin \<or> r = NetworkRoleMember) \<and> target \<noteq> NetworkRoleOwner \<and>
     (caller = NetworkRoleOwner \<or>
      (caller = NetworkRoleAdmin \<and> r = NetworkRoleMember \<and> target \<noteq> NetworkRoleAdmin))"

definition may_remove :: "bool \<Rightarrow> network_role \<Rightarrow> network_role \<Rightarrow> bool" where
  "may_remove self caller target \<longleftrightarrow>
     target \<noteq> NetworkRoleOwner \<and>
     (self \<or> caller = NetworkRoleOwner \<or> (caller = NetworkRoleAdmin \<and> target \<noteq> NetworkRoleAdmin))"

text \<open>
  C15. Member management is granted exactly when the roles allow it. Changing a role succeeds iff
  both users are members, the target is not the owner, the new role is admin or member, and the
  caller is the owner or an admin acting among plain members; removal succeeds iff both are members,
  the target is not the owner, and it is the caller, or the caller outranks it. In every other case
  the call changes nothing.
\<close>

theorem member_management_exact:
  "(if (\<exists>c t. map_of (members (db s)) (i, u) = Some c \<and> map_of (members (db s)) (i, v) = Some t \<and>
          may_set_role (Role c) (Role t) r)
    then fst (NetworkService_UpdateMemberRole us env i u v r s) = Inr () \<and>
         map_option Role (map_of (members (db (snd (NetworkService_UpdateMemberRole us env i u v r s)))) (i, v)) = Some r
    else isl (fst (NetworkService_UpdateMemberRole us env i u v r s)) \<and>
         snd (NetworkService_UpdateMemberRole us env i u v r s) = s) \<and>
   (if (\<exists>c t. map_of (members (db s)) (i, u) = Some c \<and> map_of (members (db s)) (i, v) = Some t \<and>
          may_remove (u = v) (Role c) (Role t))
    then fst (NetworkService_RemoveMember us env i u v s) = Inr () \<and>
         map_of (members (db (snd (NetworkService_RemoveMember us env i u v s)))) (i, v) = None
    else isl (fst (NetworkService_RemoveMember us env i u v s)) \<and>
         snd (NetworkService_RemoveMember us env i u v s) = s)"
  (is "?set \<and> ?rem")
proof
  show ?set
    by (auto simp: NetworkService_UpdateMemberRole_def requireMembership_def memberRepo_Get_def requireRole_def
        may_set_role_def memberRepo_UpdateRole_def touch_def go_map_simps row_or_not_found_def
        split: option.splits)
  show ?rem
    by (auto simp: NetworkService_RemoveMember_def requireMembership_def memberRepo_Get_def requireRole_def
        may_remove_def memberRepo_Delete_def touch_def go_map_simps row_or_not_found_def
        split: option.splits)
qed

text \<open>The invite codes of the store are distinct up to case, as the random codes are.\<close>

definition codes_distinct :: "store \<Rightarrow> bool" where
  "codes_distinct d \<longleftrightarrow>
     (\<forall>(i, n) \<in> set (networks d). \<forall>(j, n') \<in> set (networks d).
        EqualFold (InviteCode n) (InviteCode n') \<longrightarrow> i = j)"

definition admits :: "gotime \<Rightarrow> network \<Rightarrow> bool" where
  "admits now n \<longleftrightarrow> InviteEnabled n \<and> \<not> invite_expired now n"

lemma store_ok_networks: "store_ok d \<Longrightarrow> keyed nID (networks d)"
  by (simp add: store_ok_def)

lemma invite_lookup:
  assumes "store_ok d" "codes_distinct d" "map_of (networks d) i = Some n" "EqualFold (InviteCode n) code"
  shows "find (\<lambda>n. EqualFold (InviteCode n) code) (map snd (networks d)) = Some n"
proof -
  from assms(3) have i: "(i, n) \<in> set (networks d)" by (rule map_of_SomeD)
  then have "find (\<lambda>n. EqualFold (InviteCode n) code) (map snd (networks d)) \<noteq> None"
    using assms(4) unfolding find_None_iff by force
  then obtain n' where n': "find (\<lambda>n. EqualFold (InviteCode n) code) (map snd (networks d)) = Some n'" by auto
  then obtain j where j: "(j, n') \<in> set (networks d)" and f: "EqualFold (InviteCode n') code"
    using find_row_Inr [of "\<lambda>n. EqualFold (InviteCode n) code" "networks d" n'] by (force simp: find_row_def)
  have "EqualFold (InviteCode n) (InviteCode n')" using assms(4) f by (blast intro: EqualFold_trans EqualFold_sym)
  with assms(2) i j have "i = j" by (fastforce simp: codes_distinct_def)
  with j store_ok_networks [OF assms(1)] assms(3) have "n' = n"
    by (auto simp: keyed_def dest: map_of_is_SomeI)
  with n' show ?thesis by simp
qed

lemma Join_admitted:
  assumes "store_ok (db s)" "codes_distinct (db s)" "map_of (networks (db s)) i = Some n"
    and "EqualFold (InviteCode n) code" "admits (eNow env) n"
  shows "\<exists>n' s' m. NetworkService_Join us env u code s = (Inr n', s') \<and> nID n' = i \<and>
           map_of (members (db s')) (i, u) = Some m \<and> CallerRole n' = Role m \<and>
           Role m = (case map_of (members (db s)) (i, u) of Some m0 \<Rightarrow> Role m0 | None \<Rightarrow> NetworkRoleMember)"
proof -
  have id: "nID n = i" using store_ok_keys(2) [OF assms(1,3)] .
  have g: "networkRepo_GetByInviteCode (eNow env) code (db s) = Inr n"
    using invite_lookup [OF assms(1-4)] assms(5) by (simp add: networkRepo_GetByInviteCode_def admits_def)
  show ?thesis
    using assms(5) id unfolding NetworkService_Join_def g sum.case
    by (auto simp: admits_def memberRepo_Get_def with_counts_def memberRepo_Create_def Let_def touch_def
        Record_def go_map_simps split: option.splits)
qed

lemma Join_rejected:
  assumes "store_ok (db s)"
    and "\<And>i n. map_of (networks (db s)) i = Some n \<Longrightarrow> EqualFold (InviteCode n) code \<Longrightarrow> \<not> admits (eNow env) n"
  shows "NetworkService_Join us env u code s = (Inl ErrInviteInvalid, s)"
proof (cases "find (\<lambda>n. EqualFold (InviteCode n) code) (map snd (networks (db s)))")
  case None
  then show ?thesis by (simp add: NetworkService_Join_def networkRepo_GetByInviteCode_def)
next
  case (Some n)
  then obtain i where "(i, n) \<in> set (networks (db s))" "EqualFold (InviteCode n) code"
    using find_row_Inr [of "\<lambda>n. EqualFold (InviteCode n) code" "networks (db s)" n] by (force simp: find_row_def)
  with store_ok_networks [OF assms(1)] have "\<not> admits (eNow env) n"
    by (intro assms(2)) (auto simp: keyed_def intro: map_of_is_SomeI)
  with Some show ?thesis
    by (auto simp: NetworkService_Join_def networkRepo_GetByInviteCode_def admits_def)
qed

text \<open>
  C16. An invite code admits exactly while it is valid. If some network has that code, up to case,
  with invites enabled and not expired, joining succeeds and the caller is a member of that network
  afterwards, with the role they had or as a plain member; otherwise the answer is
  \<open>ErrInviteInvalid\<close>, whatever the reason, and nothing changes.
\<close>

theorem join_exact:
  assumes "store_ok (db s)" "codes_distinct (db s)"
  shows "if (\<exists>i n. map_of (networks (db s)) i = Some n \<and> EqualFold (InviteCode n) code \<and> admits (eNow env) n)
         then \<exists>i n n' s' m. map_of (networks (db s)) i = Some n \<and> EqualFold (InviteCode n) code \<and>
                admits (eNow env) n \<and> NetworkService_Join us env u code s = (Inr n', s') \<and> nID n' = i \<and>
                map_of (members (db s')) (i, u) = Some m \<and> CallerRole n' = Role m \<and>
                Role m = (case map_of (members (db s)) (i, u) of Some m0 \<Rightarrow> Role m0 | None \<Rightarrow> NetworkRoleMember)
         else NetworkService_Join us env u code s = (Inl ErrInviteInvalid, s)"
proof (cases "\<exists>i n. map_of (networks (db s)) i = Some n \<and> EqualFold (InviteCode n) code \<and> admits (eNow env) n")
  case True
  then obtain i n where n: "map_of (networks (db s)) i = Some n" "EqualFold (InviteCode n) code" "admits (eNow env) n"
    by blast
  from Join_admitted [OF assms n, of us u] n True show ?thesis by (simp del: map_of_eq_Some_iff) blast
next
  case False
  then have "NetworkService_Join us env u code s = (Inl ErrInviteInvalid, s)"
    by (intro Join_rejected [OF assms(1)]) blast
  with False show ?thesis by simp
qed

theorem join_exact_witness:
  "\<exists>n' s' m. NetworkService_Join (\<lambda>_. []) (ex_svc_env 20) (ex_id 4) ''code'' ex_backend = (Inr n', s') \<and>
     nID n' = ex_id 9 \<and> map_of (members (db s')) (ex_id 9, ex_id 4) = Some m \<and> Role m = NetworkRoleMember"
proof -
  have s: "store_ok (db ex_backend)" using ex_backend_ok by (simp add: tenancy_ok_def)
  have c: "codes_distinct (db ex_backend)" by (simp add: codes_distinct_def ex_backend_defs)
  have "EqualFold ''CODE'' ''code''" by code_simp
  then have v: "\<exists>i n. map_of (networks (db ex_backend)) i = Some n \<and> EqualFold (InviteCode n) ''code'' \<and>
      admits (eNow (ex_svc_env 20)) n"
    by (auto simp: ex_backend_defs admits_def invite_expired_def network_zero_def)
  have m: "map_of (members (db ex_backend)) (ex_id 9, ex_id 4) = None" by (simp add: ex_backend_defs)
  have n: "i = ex_id 9" if "map_of (networks (db ex_backend)) i = Some n" for i n
    using that by (simp add: ex_backend_defs split: if_splits)
  from join_exact [OF s c, of "''code''" "ex_svc_env 20" "\<lambda>_. []" "ex_id 4"] v m n show ?thesis
    by (auto simp del: map_of_eq_Some_iff) 
qed

lemma inviteCodeEncoding_ok: "length inviteCodeEncoding = 32" "distinct (map lower inviteCodeEncoding)"
  by code_simp+

text \<open>
  Invite codes are thirteen characters, and two of them that differ only in case come from the
  same random bytes: no invite code is accepted in place of another.
\<close>
lemma invite_codes_case_insensitive_unique:
  assumes "length a = 8" "length b = 8"
  shows "\<exists>x y. generateInviteCode (Some a) = Inr x \<and> generateInviteCode (Some b) = Inr y \<and>
           length x = 13 \<and> length y = 13 \<and> (EqualFold x y \<longleftrightarrow> a = b)"
  using assms base32_encode_inject_fold [OF inviteCodeEncoding_ok, of a b]
  by (auto simp: generateInviteCode_def length_base32_encode EqualFold_refl)

theorem invite_codes_case_insensitive_unique_witness:
  "\<exists>x y. generateInviteCode (Some [1, 2, 3, 4, 5, 6, 7, 8]) = Inr x \<and>
     generateInviteCode (Some [1, 2, 3, 4, 5, 6, 7, 9]) = Inr y \<and> \<not> EqualFold x y"
  using invite_codes_case_insensitive_unique [of "[1, 2, 3, 4, 5, 6, 7, 8]" "[1, 2, 3, 4, 5, 6, 7, 9]"] by auto

end
