(* ===== verification/Ip_Alloc.thy ===== *)
theory Ip_Alloc
  imports Embedded_Repos Go_Net
begin

text \<open>
  Allocation of virtual addresses: \<open>deviceRepo.NextFreeVirtualIP\<close> with \<open>incrementIP\<close> and
  \<open>isBroadcast\<close> of \<open>backend/internal/repository/embedded/repos.go\<close>, and the allocator of the Postgres
  repository, \<open>backend/internal/repository/postgres/ipalloc.go\<close>.

  The loop of the embedded allocator has no bound in the source. It is a partial function, whose
  value is \<open>None\<close> when the loop does not end; the theorems show that it ends for every IPv4 network
  with a prefix of at least one bit.
\<close>

unbundle bit_operations_syntax

section \<open>The embedded allocator\<close>

fun incrementIP_from :: "nat \<Rightarrow> bytes \<Rightarrow> bytes" where
  "incrementIP_from 0 ip = ip"
| "incrementIP_from (Suc i) ip =
     (let ip' = ip[i := ip ! i + 1] in if ip' ! i \<noteq> 0 then ip' else incrementIP_from i ip')"

definition incrementIP :: "bytes \<Rightarrow> bytes" where
  "incrementIP ip = incrementIP_from (length ip) ip"

definition isBroadcast :: "bytes \<Rightarrow> ip_net \<Rightarrow> bool" where
  "isBroadcast ip subnet \<longleftrightarrow> list_all (\<lambda>i. ip ! i OR Mask subnet ! i = 0xff) [0..<length ip]"

partial_function (option) alloc_loop :: "string list \<Rightarrow> ip_net \<Rightarrow> bytes \<Rightarrow> string result option" where
  "alloc_loop taken subnet ip =
     (if Contains subnet ip then
        if IP_String ip \<notin> set taken \<and> \<not> isBroadcast ip subnet then Some (Inr (IP_String ip))
        else alloc_loop taken subnet (incrementIP ip)
      else Some (Inl ErrNetworkFull))"

definition taken_ips :: "uuid \<Rightarrow> store \<Rightarrow> string list" where
  "taken_ips networkID s = map VirtualIP (filter (\<lambda>d. dNetworkID d = networkID) (map snd (devices s)))"

definition deviceRepo_NextFreeVirtualIP :: "uuid \<Rightarrow> string \<Rightarrow> store \<Rightarrow> string result option" where
  "deviceRepo_NextFreeVirtualIP networkID cidr s =
     (case ParseCIDR cidr of
        None \<Rightarrow> Some (Inl ErrInvalidInput)
      | Some subnet \<Rightarrow>
          alloc_loop (taken_ips networkID s) subnet (incrementIP (incrementIP (NetIP subnet))))"

declare alloc_loop.simps [code]

section \<open>Addresses as numbers\<close>

definition ip_value :: "bytes \<Rightarrow> nat" where
  "ip_value ip = foldl (\<lambda>n b. n * 256 + unat b) 0 ip"

lemma ip_value_Nil [simp]: "ip_value [] = 0"
  by (simp add: ip_value_def)

lemma ip_value_snoc [simp]: "ip_value (ip @ [b]) = ip_value ip * 256 + unat b"
  by (simp add: ip_value_def)

lemma ip_value_Cons: "ip_value (b # ip) = unat b * 256 ^ length ip + ip_value ip"
proof (induction ip rule: rev_induct)
  case Nil
  show ?case by (simp add: ip_value_def)
next
  case (snoc c ip)
  have "ip_value (b # ip @ [c]) = ip_value (b # ip) * 256 + unat c"
    using ip_value_snoc [of "b # ip" c] by simp
  with snoc show ?case by (simp add: algebra_simps)
qed

lemma ip_value_bound: "ip_value ip < 256 ^ length ip"
proof (induction ip rule: rev_induct)
  case (snoc b ip)
  have "ip_value ip * 256 + unat b < (ip_value ip + 1) * 256" using unat_byte_less [of b] by simp
  also have "\<dots> \<le> 256 ^ length ip * 256" using snoc by (intro mult_right_mono) auto
  finally show ?case by simp
qed simp

lemma ip_value_inject: "length a = length b \<Longrightarrow> ip_value a = ip_value b \<Longrightarrow> a = b"
proof (induction a arbitrary: b rule: rev_induct)
  case Nil
  then show ?case by simp
next
  case (snoc x a)
  then obtain y b' where b: "b = b' @ [y]" by (cases b rule: rev_cases) auto
  from snoc.prems(2) b have e: "ip_value a * 256 + unat x = ip_value b' * 256 + unat y" by simp
  have "unat x = (ip_value a * 256 + unat x) mod 256" using unat_byte_less [of x] by simp
  also have "\<dots> = unat y" unfolding e using unat_byte_less [of y] by simp
  finally have "x = y" by (simp add: word_unat_eq_iff)
  with e have "ip_value a = ip_value b'" by simp
  with snoc.IH [of b'] snoc.prems(1) b \<open>x = y\<close> show ?case by simp
qed

lemma length_incrementIP_from [simp]: "length (incrementIP_from i ip) = length ip"
  by (induction i ip rule: incrementIP_from.induct) (simp_all add: Let_def)

lemma length_incrementIP [simp]: "length (incrementIP ip) = length ip"
  by (simp add: incrementIP_def)

lemma incrementIP_from_append: "length xs = i \<Longrightarrow> incrementIP_from i (xs @ ys) = incrementIP_from i xs @ ys"
proof (induction i arbitrary: xs ys)
  case 0
  then show ?case by simp
next
  case (Suc i)
  then obtain zs b where xs: "xs = zs @ [b]" and l: "length zs = i"
    by (cases xs rule: rev_cases) auto
  from Suc.IH [OF l, of "0 # ys"] Suc.IH [OF l, of "[0]"] xs l show ?case
    by (simp add: Let_def nth_append list_update_append)
qed

lemma unat_byte_suc: "b + 1 \<noteq> 0 \<Longrightarrow> unat (b + 1 :: byte) = unat b + 1"
  using unatSuc [of b] by (simp add: add.commute)

lemma unat_byte_wrap: "b + 1 = 0 \<Longrightarrow> unat (b :: byte) = 255"
proof -
  assume "b + 1 = 0"
  then have "b = 255" by (simp add: add_eq_0_iff2)
  then show ?thesis by simp
qed

lemma ip_value_incrementIP: "ip_value (incrementIP ip) = (ip_value ip + 1) mod 256 ^ length ip"
proof (induction ip rule: rev_induct)
  case Nil
  show ?case by (simp add: incrementIP_def)
next
  case (snoc b ip)
  have step: "incrementIP (ip @ [b]) = (if b + 1 \<noteq> 0 then ip @ [b + 1] else incrementIP ip @ [0])"
    using incrementIP_from_append [of ip "length ip" "[0]"]
    by (simp add: incrementIP_def Let_def nth_append)
  show ?case
  proof (cases "b + 1 = 0")
    case False
    have "ip_value ip * 256 + unat b + 1 < 256 ^ Suc (length ip)"
    proof -
      have "unat b + 1 < 256" using False unat_byte_suc [OF False] unat_byte_less [of "b + 1"] by simp
      then have "ip_value ip * 256 + unat b + 1 < (ip_value ip + 1) * 256" by simp
      also have "\<dots> \<le> 256 ^ length ip * 256" using ip_value_bound [of ip] by (intro mult_right_mono) auto
      finally show ?thesis by simp
    qed
    with False show ?thesis by (simp add: step unat_byte_suc)
  next
    case True
    have "(ip_value ip * 256 + 255 + 1) mod (256 ^ length ip * 256) = ((ip_value ip + 1) mod 256 ^ length ip) * 256"
      using mult_mod_left [of "ip_value ip + 1" "256 ^ length ip" 256] by (simp add: algebra_simps)
    with True snoc show ?thesis by (simp add: step unat_byte_wrap mult.commute)
  qed
qed

section \<open>Subnets as intervals\<close>

lemma mask_byte_simps: "k \<le> 8 \<Longrightarrow>
    (if 8 \<le> k then 255 else if k = 0 then 0 else mask_byte k) = mask_byte k"
  by (auto simp: mask_byte_def mask_eq_exp_minus_1 dest: le_antisym)

lemma CIDRMask_Suc: "CIDRMask p (Suc n) = mask_byte (min p 8) # CIDRMask (p - 8) n"
proof -
  have "[0..<Suc n] = 0 # map Suc [0..<n]" by (simp add: upt_conv_Cons map_Suc_upt del: upt_Suc)
  then have "CIDRMask p (Suc n) = (if 8 \<le> p then 255 else if p = 0 then 0 else mask_byte p) #
      map (\<lambda>i. if 8 * (Suc i + 1) \<le> p then 255 else if p \<le> 8 * Suc i then 0 else mask_byte (p - 8 * Suc i)) [0..<n]"
    by (simp add: CIDRMask_def o_def del: upt_Suc)
  moreover have "(if 8 \<le> p then 255 else if p = 0 then 0 else mask_byte p) = mask_byte (min p 8)"
    using mask_byte_simps [of "min p 8"] by (auto simp: min_def)
  moreover have "(if 8 * (Suc i + 1) \<le> p then 255 else if p \<le> 8 * Suc i then 0 else mask_byte (p - 8 * Suc i)) =
      (if 8 * (i + 1) \<le> p - 8 then 255 else if p - 8 \<le> 8 * i then 0 else mask_byte (p - 8 - 8 * i))" for i
    by auto
  ultimately show ?thesis by (simp add: CIDRMask_def)
qed

lemma mask_byte_and_eq:
  fixes a b :: byte
  assumes "k \<le> 8"
  shows "a AND mask_byte k = b AND mask_byte k \<longleftrightarrow> unat a div 2 ^ (8 - k) = unat b div 2 ^ (8 - k)"
proof -
  have "a AND NOT (mask n) = b AND NOT (mask n) \<longleftrightarrow> drop_bit n a = drop_bit n b" for n
  proof
    assume "a AND NOT (mask n) = b AND NOT (mask n)"
    then have "drop_bit n (a AND NOT (mask n)) = drop_bit n (b AND NOT (mask n))" by simp
    then show "drop_bit n a = drop_bit n b"
      using bit_imp_le_length [of a] bit_imp_le_length [of b] by (auto simp: bit_eq_iff bit_simps)
  next
    assume d: "drop_bit n a = drop_bit n b"
    have j: "bit a j = bit b j" if "n \<le> j" for j
      using arg_cong [OF d, of "\<lambda>w. bit w (j - n)"] that by (simp add: bit_simps)
    show "a AND NOT (mask n) = b AND NOT (mask n)"
      by (rule bit_word_eqI) (auto simp: bit_simps not_less j)
  qed
  moreover have "drop_bit n a = drop_bit n b \<longleftrightarrow> unat a div 2 ^ n = unat b div 2 ^ n" for n
    using unat_drop_bit_eq [of n a] unat_drop_bit_eq [of n b]
    by (simp only: word_unat_eq_iff drop_bit_eq_div [of n "unat a"] drop_bit_eq_div [of n "unat b"])
  ultimately show ?thesis by (simp add: mask_byte_def)
qed

lemma div_split_eq:
  fixes a b x y D E :: nat
  assumes "x < D * E" "y < D * E" "0 < D" "0 < E"
  shows "(a * (D * E) + x) div D = (b * (D * E) + y) div D \<longleftrightarrow> a = b \<and> x div D = y div D"
proof -
  have "(a * (D * E) + x) div D = a * E + x div D" "(b * (D * E) + y) div D = b * E + y div D"
    using assms(3) div_mult_self2 [of D x "a * E"] div_mult_self2 [of D y "b * E"]
    by (simp_all add: algebra_simps)
  moreover have "x div D < E" "y div D < E" using assms by (simp_all add: less_mult_imp_div_less mult.commute)
  ultimately show ?thesis
    using assms(4)
    by (metis add.commute add_right_cancel div_mult_self3 div_less mult_eq_0_iff not_gr_zero add_0 Nat.add_0_right)
qed

lemma masked_eq:
  assumes "length a = n" "length b = n" "p \<le> 8 * n"
  shows "mask_ip a (CIDRMask p n) = mask_ip b (CIDRMask p n) \<longleftrightarrow>
         ip_value a div 2 ^ (8 * n - p) = ip_value b div 2 ^ (8 * n - p)"
  using assms
proof (induction n arbitrary: a b p)
  case 0
  then show ?case by (simp add: mask_ip_def)
next
  case (Suc n)
  obtain x a' y b' where ab: "a = x # a'" "b = y # b'" and l: "length a' = n" "length b' = n"
    using Suc.prems by (cases a; cases b) auto
  have split: "mask_ip a (CIDRMask p (Suc n)) = mask_ip b (CIDRMask p (Suc n)) \<longleftrightarrow>
      unat x div 2 ^ (8 - min p 8) = unat y div 2 ^ (8 - min p 8) \<and>
      mask_ip a' (CIDRMask (p - 8) n) = mask_ip b' (CIDRMask (p - 8) n)"
    using mask_byte_and_eq [of "min p 8" x y] by (simp add: ab CIDRMask_Suc mask_ip_def)
  have pow: "(256 :: nat) ^ n = 2 ^ (8 * n)" by (simp add: power_mult)
  have av: "ip_value a' < 2 ^ (8 * n)" "ip_value b' < 2 ^ (8 * n)"
    using ip_value_bound [of a'] ip_value_bound [of b'] l by (simp_all add: pow)
  show ?case
  proof (cases "8 \<le> p")
    case True
    let ?D = "2 ^ (8 * n - (p - 8)) :: nat" and ?E = "2 ^ (p - 8) :: nat"
    have DE: "?D * ?E = 2 ^ (8 * n)" using True Suc.prems(3) by (simp flip: power_add)
    from Suc.IH [OF l, of "p - 8"] Suc.prems(3) True
    have "mask_ip a' (CIDRMask (p - 8) n) = mask_ip b' (CIDRMask (p - 8) n) \<longleftrightarrow>
        ip_value a' div ?D = ip_value b' div ?D" by simp
    with True av DE show ?thesis
      using div_split_eq [of "ip_value a'" ?D ?E "ip_value b'" "unat x" "unat y"] l
      by (simp add: split [unfolded ab] ab ip_value_Cons pow word_unat_eq_iff diff_diff_right add.commute [of 8])
  next
    case False
    have z: "mask_ip a' (CIDRMask 0 n) = mask_ip b' (CIDRMask 0 n)"
      using Suc.IH [OF l, of 0] av by simp
    have "(unat x * 2 ^ (8 * n) + ip_value a') div 2 ^ (8 * n + (8 - p)) = unat x div 2 ^ (8 - p)"
      "(unat y * 2 ^ (8 * n) + ip_value b') div 2 ^ (8 * n + (8 - p)) = unat y div 2 ^ (8 - p)"
      using av by (simp_all add: power_add div_mult2_eq)
    with False z show ?thesis by (simp add: split [unfolded ab] ab ip_value_Cons l pow add.commute [of 8])
  qed
qed


text \<open>An IPv4 subnet with a prefix of \<open>p\<close> bits, as \<open>net.ParseCIDR\<close> returns it.\<close>

definition subnet4 :: "ip_net \<Rightarrow> nat \<Rightarrow> bool" where
  "subnet4 net p \<longleftrightarrow>
     length (NetIP net) = 4 \<and> p \<le> 32 \<and> Mask net = CIDRMask p 4 \<and>
     mask_ip (NetIP net) (Mask net) = NetIP net"

lemma length_CIDRMask [simp]: "length (CIDRMask p n) = n"
  by (simp add: CIDRMask_def)

lemma mask_ip_idem: "mask_ip (mask_ip a m) m = mask_ip a m"
  by (induction a m rule: list_induct2') (simp_all add: mask_ip_def)

lemma ParseCIDR_subnet4:
  assumes "ParseCIDR s = Some net" "length (NetIP net) = 4"
  shows "\<exists>p. subnet4 net p"
proof -
  from assms(1) obtain a n where n: "n \<le> 8 * length a"
    and net: "net = \<lparr>NetIP = mask_ip a (CIDRMask n (length a)), Mask = CIDRMask n (length a)\<rparr>"
    by (fastforce simp: ParseCIDR_def Let_def not_less split: option.splits prod.splits if_splits)
  moreover from net assms(2) have "length a = 4" by (simp add: mask_ip_def)
  ultimately have "subnet4 net n" using assms(2) by (simp add: subnet4_def mask_ip_idem)
  then show ?thesis ..
qed

lemma subnet4_prefix_pos:
  assumes "subnet4 net p" "Mask net ! 0 \<noteq> 0"
  shows "1 \<le> p"
proof (rule ccontr)
  assume "\<not> 1 \<le> p"
  then have "p = 0" by simp
  with assms(1) have "Mask net ! 0 = mask_byte 0" by (simp add: subnet4_def CIDRMask_Suc numeral_eq_Suc)
  then show False using assms(2) by (simp add: mask_byte_def mask_eq_exp_minus_1)
qed

lemma Contains_subnet4:
  assumes "subnet4 net p" "length a = 4"
  shows "Contains net a \<longleftrightarrow> mask_ip a (Mask net) = NetIP net"
  using assms by (auto simp: Contains_def networkNumberAndMask_def IP_To4_def subnet4_def Let_def)

lemma Contains_value:
  assumes "subnet4 net p" "length a = 4"
  shows "Contains net a \<longleftrightarrow> ip_value a div 2 ^ (32 - p) = ip_value (NetIP net) div 2 ^ (32 - p)"
proof -
  from assms(1) have "mask_ip (NetIP net) (CIDRMask p 4) = NetIP net" "length (NetIP net) = 4" "p \<le> 32"
    and "Mask net = CIDRMask p 4"
    by (auto simp: subnet4_def)
  with masked_eq [of a 4 "NetIP net" p] assms(2) show ?thesis
    by (simp add: Contains_subnet4 [OF assms])
qed

lemma ip_value_mask_le: "length a = length m \<Longrightarrow> ip_value (mask_ip a m) \<le> ip_value a"
proof (induction a m rule: list_induct2)
  case Nil
  show ?case by (simp add: mask_ip_def)
next
  case (Cons x a y m)
  have "unat (x AND y) \<le> unat x" using word_and_le2 [of x y] by (simp add: word_le_nat_alt)
  then have "unat (x AND y) * 256 ^ length a \<le> unat x * 256 ^ length a" by (rule mult_right_mono) simp
  with Cons.IH Cons.hyps have "unat (x AND y) * 256 ^ length a + ip_value (mask_ip a m) \<le>
      unat x * 256 ^ length a + ip_value a" by (intro add_mono)
  with Cons.hyps show ?case by (simp add: mask_ip_def ip_value_Cons)
qed

lemma Contains_ge:
  assumes "subnet4 net p" "length a = 4" "Contains net a"
  shows "ip_value (NetIP net) \<le> ip_value a"
proof -
  have "length a = length (Mask net)" using assms by (simp add: subnet4_def)
  from ip_value_mask_le [OF this] show ?thesis using assms(3) by (simp add: Contains_subnet4 [OF assms(1,2)])
qed

lemma Contains_convex:
  assumes "subnet4 net p" "length a = 4" "length b = 4" "Contains net b"
    and "ip_value (NetIP net) \<le> ip_value a" "ip_value a \<le> ip_value b"
  shows "Contains net a"
proof -
  have "ip_value (NetIP net) div 2 ^ (32 - p) \<le> ip_value a div 2 ^ (32 - p)"
    "ip_value a div 2 ^ (32 - p) \<le> ip_value b div 2 ^ (32 - p)"
    using assms by (auto intro: div_le_mono)
  with assms show ?thesis by (simp add: Contains_value)
qed

lemma Contains_no_wrap:
  assumes "subnet4 net p" "1 \<le> p" "length a = 4" "length b = 4"
    and "Contains net a" "ip_value a = 2 ^ 32 - 1" "ip_value b = 0"
  shows "\<not> Contains net b"
proof
  assume "Contains net b"
  with assms have "ip_value a div 2 ^ (32 - p) = 0" by (simp add: Contains_value)
  then have "2 ^ 32 - 1 < (2 ^ (32 - p) :: nat)" using assms(6) by (simp add: div_eq_0_iff)
  also have "(2 :: nat) ^ (32 - p) \<le> 2 ^ 31" using assms(2) by (intro power_increasing) auto
  finally show False by simp
qed

section \<open>What the embedded allocator returns\<close>

text \<open>An address that may be handed out: of the network, past the network address and the first
  host, not the broadcast address, and held by no device.\<close>

definition assignable :: "string list \<Rightarrow> ip_net \<Rightarrow> bytes \<Rightarrow> bool" where
  "assignable taken net a \<longleftrightarrow>
     length a = 4 \<and> Contains net a \<and> ip_value (NetIP net) + 2 \<le> ip_value a \<and>
     \<not> isBroadcast a net \<and> IP_String a \<notin> set taken"

definition lowest_or_full :: "(bytes \<Rightarrow> bool) \<Rightarrow> string result option \<Rightarrow> bool" where
  "lowest_or_full P r \<longleftrightarrow>
     (\<exists>a. P a \<and> (\<forall>b. P b \<longrightarrow> ip_value a \<le> ip_value b) \<and> r = Some (Inr (IP_String a))) \<or>
     ((\<forall>a. \<not> P a) \<and> r = Some (Inl ErrNetworkFull))"

lemma alloc_loop_from:
  assumes net: "subnet4 net p" "1 \<le> p"
    and x: "length x = 4" "ip_value (NetIP net) + 2 \<le> ip_value x"
  shows "lowest_or_full (\<lambda>a. assignable taken net a \<and> ip_value x \<le> ip_value a) (alloc_loop taken net x)"
  using x
proof (induction "2 ^ 32 - ip_value x" arbitrary: x rule: less_induct)
  case (less x)
  have bound: "ip_value x < 2 ^ 32" using ip_value_bound [of x] less.prems(1) by simp
  have inc: "length (incrementIP x) = 4" using less.prems(1) by simp
  show ?case
  proof (cases "Contains net x")
    case False
    have "\<not> assignable taken net a" if "ip_value x \<le> ip_value a" for a
      using Contains_convex [OF net(1) less.prems(1), of a] False that less.prems(2)
      by (auto simp: assignable_def)
    with False show ?thesis by (auto simp: lowest_or_full_def alloc_loop.simps)
  next
    case True
    show ?thesis
    proof (cases "assignable taken net x")
      case free: True
      then have "alloc_loop taken net x = Some (Inr (IP_String x))"
        by (subst alloc_loop.simps) (simp add: assignable_def)
      with free show ?thesis by (auto simp: lowest_or_full_def)
    next
      case busy: False
      then have step: "alloc_loop taken net x = alloc_loop taken net (incrementIP x)"
        using True less.prems by (subst alloc_loop.simps) (auto simp: assignable_def)
      have skip: "ip_value x \<le> ip_value a \<longleftrightarrow> ip_value x + 1 \<le> ip_value a" if "assignable taken net a" for a
        using that busy ip_value_inject [of x a] less.prems(1)
        by (auto simp: assignable_def Suc_le_eq order_le_less)
      show ?thesis
      proof (cases "ip_value x + 1 < 2 ^ 32")
        case True
        then have v: "ip_value (incrementIP x) = ip_value x + 1"
          using less.prems(1) by (simp add: ip_value_incrementIP)
        have "lowest_or_full (\<lambda>a. assignable taken net a \<and> ip_value x + 1 \<le> ip_value a)
                (alloc_loop taken net (incrementIP x))"
          using less.hyps [of "incrementIP x"] v bound less.prems inc by simp
        moreover have "(\<lambda>a. assignable taken net a \<and> ip_value x + 1 \<le> ip_value a) =
            (\<lambda>a. assignable taken net a \<and> ip_value x \<le> ip_value a)"
          using skip by blast
        ultimately show ?thesis by (simp add: step)
      next
        case False
        with bound have v: "ip_value x = 2 ^ 32 - 1" by simp
        then have "ip_value (incrementIP x) = 0"
          using less.prems(1) by (simp add: ip_value_incrementIP)
        from Contains_no_wrap [OF net less.prems(1) inc True v this]
        have "alloc_loop taken net x = Some (Inl ErrNetworkFull)"
          by (simp add: step) (subst alloc_loop.simps, simp)
        moreover have "\<not> (assignable taken net a \<and> ip_value x \<le> ip_value a)" for a
          using skip [of a] ip_value_bound [of a] v by (auto simp: assignable_def)
        ultimately show ?thesis by (auto simp: lowest_or_full_def)
      qed
    qed
  qed
qed


lemma NextFreeVirtualIP_lowest:
  assumes "ParseCIDR cidr = Some net" "length (NetIP net) = 4" "Mask net ! 0 \<noteq> 0"
  shows "lowest_or_full (assignable (taken_ips networkID s) net)
           (deviceRepo_NextFreeVirtualIP networkID cidr s)"
proof -
  let ?T = "taken_ips networkID s" and ?x = "incrementIP (incrementIP (NetIP net))"
  obtain p where p: "subnet4 net p" using ParseCIDR_subnet4 [OF assms(1,2)] ..
  have p1: "1 \<le> p" using subnet4_prefix_pos [OF p assms(3)] .
  have x: "length ?x = 4" using assms(2) by simp
  have v: "ip_value ?x = (ip_value (NetIP net) + 2) mod 2 ^ 32"
    using assms(2) by (simp add: ip_value_incrementIP mod_Suc_eq)
  have run: "deviceRepo_NextFreeVirtualIP networkID cidr s = alloc_loop ?T net ?x"
    by (simp add: deviceRepo_NextFreeVirtualIP_def assms(1))
  have base: "ip_value (NetIP net) < 2 ^ 32" using ip_value_bound [of "NetIP net"] assms(2) by simp
  show ?thesis
  proof (cases "ip_value (NetIP net) + 2 < 2 ^ 32")
    case True
    with v have v2: "ip_value ?x = ip_value (NetIP net) + 2" by simp
    have "(\<lambda>a. assignable ?T net a \<and> ip_value ?x \<le> ip_value a) = assignable ?T net"
      by (auto simp: assignable_def v2)
    with alloc_loop_from [OF p p1 x, of ?T] v2 show ?thesis by (simp add: run)
  next
    case False
    with base v have "ip_value ?x < ip_value (NetIP net)" by (simp add: mod_if)
    with Contains_ge [OF p x] have "\<not> Contains net ?x" by fastforce
    then have "alloc_loop ?T net ?x = Some (Inl ErrNetworkFull)" by (subst alloc_loop.simps) simp
    moreover have "\<not> assignable ?T net a" for a
      using False ip_value_bound [of a] by (auto simp: assignable_def)
    ultimately show ?thesis by (simp add: lowest_or_full_def run)
  qed
qed

text \<open>
  C31. On every IPv4 network with a prefix of at least one bit, the embedded allocator terminates and
  returns the numerically lowest address of the network that lies past the network address and the
  first host, is not the broadcast address and is held by no device of that network; it reports
  \<open>ErrNetworkFull\<close> exactly when there is none.
\<close>

theorem next_free_virtual_ip_lowest:
  assumes "ParseCIDR cidr = Some net" "length (NetIP net) = 4" "Mask net ! 0 \<noteq> 0"
  shows "lowest_or_full (assignable (taken_ips networkID s) net)
           (deviceRepo_NextFreeVirtualIP networkID cidr s)"
  using assms by (rule NextFreeVirtualIP_lowest)

definition ex_net_store :: store where
  "ex_net_store = (empty_store [])\<lparr>devices :=
     [(ex_id 1, device_zero\<lparr>dID := ex_id 1, dNetworkID := ex_id 9, VirtualIP := ''10.0.0.2''\<rparr>)]\<rparr>"

theorem next_free_virtual_ip_lowest_witness:
  "lowest_or_full (assignable [''10.0.0.2''] \<lparr>NetIP = [10, 0, 0, 0], Mask = [255, 255, 255, 0]\<rparr>)
     (Some (Inr ''10.0.0.3''))"
proof -
  let ?net = "\<lparr>NetIP = [10, 0, 0, 0], Mask = [255, 255, 255, 0]\<rparr> :: ip_net"
  have p: "ParseCIDR ''10.0.0.0/24'' = Some ?net" by code_simp
  have t: "taken_ips (ex_id 9) ex_net_store = [''10.0.0.2'']"
    by (simp add: taken_ips_def ex_net_store_def empty_store_def)
  have r: "deviceRepo_NextFreeVirtualIP (ex_id 9) ''10.0.0.0/24'' ex_net_store = Some (Inr ''10.0.0.3'')"
    by code_simp
  have "length (NetIP ?net) = 4" "Mask ?net ! 0 \<noteq> 0" by simp_all
  from next_free_virtual_ip_lowest [OF p this, of "ex_id 9" ex_net_store] show ?thesis
    unfolding t r .
qed

section \<open>The Postgres allocator\<close>

definition maxScannedHosts :: "32 word" where
  "maxScannedHosts = push_bit 20 1"

text \<open>\<open>net.IPMask.Size\<close>: the number of leading ones and of bits, both 0 when the mask is not of the
  form ones followed by zeros.\<close>

definition IPMask_Size :: "bytes \<Rightarrow> int \<times> int" where
  "IPMask_Size m =
     (let bits = concat (map byte_bits m) in
      if True \<in> set (dropWhile id bits) then (0, 0)
      else (int (length (takeWhile id bits)), int (length bits)))"

definition BigEndian_Uint32 :: "bytes \<Rightarrow> 32 word" where
  "BigEndian_Uint32 b = word_of_nat (ip_value b)"

definition BigEndian_PutUint32 :: "32 word \<Rightarrow> bytes" where
  "BigEndian_PutUint32 w = [ucast (drop_bit 24 w), ucast (drop_bit 16 w), ucast (drop_bit 8 w), ucast w]"

definition ip4_candidate :: "32 word \<Rightarrow> 32 word \<Rightarrow> string" where
  "ip4_candidate baseInt offset = IP_String (BigEndian_PutUint32 (baseInt + offset))"

lemma word_suc_le: "offset < stop \<Longrightarrow> unat (offset + 1) = unat offset + 1" for offset stop :: "32 word"
proof -
  assume "offset < stop"
  then have "unat offset + 1 \<le> unat stop" by (simp add: word_less_nat_alt)
  moreover have "unat stop < 2 ^ LENGTH(32)" by (rule unsigned_less)
  ultimately have "unat offset + 1 < 2 ^ LENGTH(32)" by linarith
  then show ?thesis by (simp add: unat_word_ariths)
qed

function scan_hosts :: "string list \<Rightarrow> 32 word \<Rightarrow> 32 word \<Rightarrow> 32 word \<Rightarrow> string option" where
  "scan_hosts used baseInt offset stop =
     (if offset < stop then
        if ip4_candidate baseInt offset \<notin> set used then Some (ip4_candidate baseInt offset)
        else scan_hosts used baseInt (offset + 1) stop
      else None)"
  by pat_completeness auto

termination
proof (relation "measure (\<lambda>(u, b, offset, stop). unat stop - unat offset)", goal_cases)
  case 1
  show ?case by simp
next
  case (2 used baseInt offset stop)
  then show ?case using word_suc_le [of offset stop] by (simp add: word_less_nat_alt)
qed

declare scan_hosts.simps [simp del]

text \<open>The end of the scan for a network of \<open>hostBits\<close> host bits. A shift of a \<open>uint32\<close> by 32 or more
  gives 0.\<close>

definition scan_end :: "int \<Rightarrow> 32 word" where
  "scan_end hostBits =
     (let total = (if 32 \<le> hostBits then 0 else push_bit (nat hostBits) 1);
          total = (if total > maxScannedHosts then maxScannedHosts else total)
      in if hostBits = 0 then 0 else total - 1)"

definition nextFreeIPv4 :: "ip_net \<Rightarrow> string list \<Rightarrow> string result" where
  "nextFreeIPv4 ipnet used =
     (let base = (case IP_To4 (NetIP ipnet) of None \<Rightarrow> [] | Some b \<Rightarrow> b);
          (ones, bits) = IPMask_Size (Mask ipnet);
          hostBits = bits - ones
      in if hostBits \<le> 0 then Inl (ErrOther ''no usable host addresses'')
         else case scan_hosts used (BigEndian_Uint32 base) (if hostBits = 0 then 0 else 1) (scan_end hostBits) of
                Some candidate \<Rightarrow> Inr candidate
              | None \<Rightarrow> Inl (ErrOther ''no free addresses''))"

definition nextFreeHostIP :: "string \<Rightarrow> string list \<Rightarrow> string result" where
  "nextFreeHostIP cidr used =
     (case ParseCIDR cidr of
        None \<Rightarrow> Inl (ErrOther ''invalid cidr'')
      | Some ipnet \<Rightarrow>
          (case IP_To4 (NetIP ipnet) of
             Some _ \<Rightarrow> nextFreeIPv4 ipnet used
           | None \<Rightarrow> Inl (ErrOther ''unsupported address family'')))"

lemma scan_hosts_spec:
  "case scan_hosts used baseInt offset stop of
     None \<Rightarrow> \<forall>k. offset \<le> k \<and> k < stop \<longrightarrow> ip4_candidate baseInt k \<in> set used
   | Some c \<Rightarrow> \<exists>k. offset \<le> k \<and> k < stop \<and> c = ip4_candidate baseInt k \<and> c \<notin> set used \<and>
                  (\<forall>j. offset \<le> j \<and> j < k \<longrightarrow> ip4_candidate baseInt j \<in> set used)"
proof (induction used baseInt offset stop rule: scan_hosts.induct)
  case (1 used baseInt offset stop)
  have suc: "offset + 1 \<le> k \<longleftrightarrow> offset < k" if "offset < stop" for k
    using word_suc_le [OF that] by (simp add: word_le_nat_alt word_less_nat_alt Suc_le_eq)
  show ?case
  proof (cases "offset < stop \<and> ip4_candidate baseInt offset \<in> set used")
    case True
    with 1 suc show ?thesis
      by (subst scan_hosts.simps) (auto simp: order_le_less split: option.splits)
  next
    case False
    then show ?thesis by (subst scan_hosts.simps) auto
  qed
qed

text \<open>
  The Postgres allocator on a network with host bits: the address it returns is the lowest host
  address that is not in use, at a positive offset below the end of the scan with every host
  address at a smaller offset in use; it returns an error exactly when every host address of the
  scan is in use.
\<close>
lemma postgres_next_free_lowest:
  assumes "IP_To4 (NetIP ipnet) = Some base" "IPMask_Size (Mask ipnet) = (ones, bits)" "ones < bits"
  shows "case nextFreeIPv4 ipnet used of
           Inr c \<Rightarrow> c \<notin> set used \<and>
             (\<exists>k. 1 \<le> k \<and> k < scan_end (bits - ones) \<and> c = ip4_candidate (BigEndian_Uint32 base) k \<and>
                (\<forall>j. 1 \<le> j \<and> j < k \<longrightarrow> ip4_candidate (BigEndian_Uint32 base) j \<in> set used))
         | Inl e \<Rightarrow> \<forall>k. 1 \<le> k \<and> k < scan_end (bits - ones) \<longrightarrow>
             ip4_candidate (BigEndian_Uint32 base) k \<in> set used"
  using assms scan_hosts_spec [where used = used and baseInt = "BigEndian_Uint32 base" and offset = 1
      and stop = "scan_end (bits - ones)"]
  by (auto simp: nextFreeIPv4_def Let_def split: option.splits)

theorem postgres_next_free_lowest_witness:
  "''10.0.0.2'' \<notin> set [''10.0.0.1''] \<and>
   (\<exists>k. 1 \<le> k \<and> k < scan_end 8 \<and> ''10.0.0.2'' = ip4_candidate (BigEndian_Uint32 [10, 0, 0, 0]) k)"
proof -
  let ?net = "\<lparr>NetIP = [10, 0, 0, 0], Mask = [255, 255, 255, 0]\<rparr> :: ip_net"
  have r: "nextFreeIPv4 ?net [''10.0.0.1''] = Inr ''10.0.0.2''" by code_simp
  have b: "IP_To4 (NetIP ?net) = Some [10, 0, 0, 0]" by (simp add: IP_To4_def)
  have m: "IPMask_Size (Mask ?net) = (24, 32)" by code_simp
  have "(32 :: int) - 24 = 8" "(24 :: int) < 32" by simp_all
  with postgres_next_free_lowest [OF b m, of "[''10.0.0.1'']"] r show ?thesis by auto
qed

text \<open>
  The bound on the scan of the Postgres allocator does not hold for the largest block. For a
  \<open>/0\<close> network the \<open>uint32\<close> shift by 32 gives 0, the comparison with \<open>maxScannedHosts\<close> is not
  taken, and \<open>total - 1\<close> wraps to the largest \<open>uint32\<close>; already for \<open>/1\<close> the bound applies.
\<close>
lemma slash_zero_escapes_scan_bound:
  "IPMask_Size (CIDRMask 0 4) = (0, 32) \<and> unat (scan_end 32) = 2 ^ 32 - 1 \<and>
   IPMask_Size (CIDRMask 1 4) = (1, 32) \<and> unat (scan_end 31) = 2 ^ 20 - 1 \<and>
   unat maxScannedHosts = 2 ^ 20"
proof -
  have "IPMask_Size (CIDRMask 0 4) = (0, 32)" by code_simp
  moreover have "IPMask_Size (CIDRMask 1 4) = (1, 32)" by code_simp
  moreover have "unat (scan_end 32) = 2 ^ 32 - 1"
    by (simp add: scan_end_def maxScannedHosts_def unsigned_minus_1_eq_mask mask_eq_exp_minus_1)
  moreover have "unat (scan_end 31) = 2 ^ 20 - 1"
    by (simp add: scan_end_def maxScannedHosts_def push_bit_eq_mult)
  moreover have "unat maxScannedHosts = 2 ^ 20" by (simp add: maxScannedHosts_def push_bit_eq_mult)
  ultimately show ?thesis by simp
qed

end
