(* ===== verification/Device_Service.thy ===== *)
theory Device_Service
  imports Network_Properties Ip_Alloc
begin

text \<open>
  The device service, \<open>backend/internal/usecase/device_service.go\<close>, over the embedded repositories,
  where the presence store is always there; \<open>evbus\<close> is \<open>None\<close> when the service has no event bus.
  The allocation of an address may not return in the model (\<open>None\<close>), and so may a registration.

  A registration reads the free address and creates the row in two critical sections of the store.
  \<open>Register_alloc\<close> is the part up to the address and \<open>Register_create\<close> the rest, so that two
  registrations can be interleaved; \<open>DeviceService_Register\<close> is one after the other.
\<close>

section \<open>Publishing\<close>

text \<open>\<open>Publish\<close> panics only when it meets a closed channel, which no bus reached by its calls has: the
  state of the other branch is never reached.\<close>

definition publish :: "peer_event \<Rightarrow> backend \<Rightarrow> backend" where
  "publish ev s =
     (case evbus s of
        None \<Rightarrow> s
      | Some b \<Rightarrow> (case Publish ev b of None \<Rightarrow> s | Some b' \<Rightarrow> s\<lparr>evbus := Some b'\<rparr>))"

section \<open>Registration\<close>

definition member_or_forbidden :: "uuid \<Rightarrow> uuid \<Rightarrow> store \<Rightarrow> unit result" where
  "member_or_forbidden networkID userID d =
     (case memberRepo_Get networkID userID d of
        Inl e \<Rightarrow> if e = ErrNotFound then Inl ErrForbidden else Inl e
      | Inr _ \<Rightarrow> Inr ())"

definition Register_alloc :: "uuid \<Rightarrow> uuid \<Rightarrow> string \<Rightarrow> string \<Rightarrow> backend \<Rightarrow> string result option" where
  "Register_alloc userID networkID name publicKey s =
     (if TrimSpace name = [] \<or> TrimSpace publicKey = [] then Some (Inl ErrInvalidInput)
      else case member_or_forbidden networkID userID (db s) of
        Inl e \<Rightarrow> Some (Inl e)
      | Inr _ \<Rightarrow>
          (case networkRepo_GetByID networkID (db s) of
             Inl e \<Rightarrow> Some (Inl e)
           | Inr n \<Rightarrow>
               (case deviceRepo_GetByPublicKey publicKey (db s) of
                  Inr _ \<Rightarrow> Some (Inl ErrAlreadyExists)
                | Inl e \<Rightarrow> if e \<noteq> ErrNotFound then Some (Inl e)
                            else deviceRepo_NextFreeVirtualIP networkID (CIDR n) (db s))))"

definition Register_create ::
  "(uuid \<Rightarrow> string) \<Rightarrow> svc_env \<Rightarrow> uuid \<Rightarrow> uuid \<Rightarrow> string \<Rightarrow> string \<Rightarrow> string \<Rightarrow> string \<Rightarrow> string \<Rightarrow> backend \<Rightarrow>
     device result \<times> backend" where
  "Register_create us env userID networkID name os osVersion publicKey ip s =
     (let d = device_zero\<lparr>dID := eID1 env, dUserID := userID, dNetworkID := networkID, dName := name,
                OS := NormalizeDeviceOS os, OSVersion := osVersion, PublicKey := publicKey,
                VirtualIP := ip, dStatus := DeviceStatusUnknown\<rparr>
      in case deviceRepo_Create uuid_Nil (eNow env) d (db s) of
           (Inl e, st) \<Rightarrow> (Inl e, s\<lparr>db := st\<rparr>)
         | (Inr d, st) \<Rightarrow>
             (Inr d, Record env (Some userID) (Some networkID) AuditDeviceRegistered ''device'' (us (dID d)) []
                       [(''virtual_ip'', ip)] (s\<lparr>db := st\<rparr>)))"

definition DeviceService_Register ::
  "(uuid \<Rightarrow> string) \<Rightarrow> svc_env \<Rightarrow> uuid \<Rightarrow> uuid \<Rightarrow> string \<Rightarrow> string \<Rightarrow> string \<Rightarrow> string \<Rightarrow> backend \<Rightarrow>
     (device result \<times> backend) option" where
  "DeviceService_Register us env userID networkID name os osVersion publicKey s =
     (case Register_alloc userID networkID name publicKey s of
        None \<Rightarrow> None
      | Some (Inl e) \<Rightarrow> Some (Inl e, s)
      | Some (Inr ip) \<Rightarrow> Some (Register_create us env userID networkID name os osVersion publicKey ip s))"

section \<open>Listing\<close>

definition merge_one :: "gotime \<Rightarrow> store \<Rightarrow> device \<Rightarrow> device" where
  "merge_one now st d =
     (case presence_Get now (dID d) st of
        None \<Rightarrow> d
      | Some ep \<Rightarrow> d\<lparr>dStatus := DeviceStatusOnline,
                     LastPublicIP := (if PublicIP ep \<noteq> [] then Some (PublicIP ep) else LastPublicIP d),
                     dNATType := (if NATType ep \<noteq> [] then Some (NATType ep) else dNATType d)\<rparr>)"

definition mergePresence :: "gotime \<Rightarrow> store \<Rightarrow> device list \<Rightarrow> device list" where
  "mergePresence now st ds = map (merge_one now st) ds"

definition DeviceService_ListForNetwork :: "gotime \<Rightarrow> uuid \<Rightarrow> uuid \<Rightarrow> backend \<Rightarrow> device list result" where
  "DeviceService_ListForNetwork now networkID userID s =
     (case member_or_forbidden networkID userID (db s) of
        Inl e \<Rightarrow> Inl e
      | Inr _ \<Rightarrow> Inr (mergePresence now (db s) (deviceRepo_ListByNetwork networkID (db s))))"

section \<open>Access to one device\<close>

definition authorizeDeviceAccess :: "uuid \<Rightarrow> uuid \<Rightarrow> store \<Rightarrow> device result" where
  "authorizeDeviceAccess deviceID userID st =
     (case deviceRepo_GetByID deviceID st of
        Inl e \<Rightarrow> Inl e
      | Inr d \<Rightarrow>
          if dUserID d = userID then Inr d
          else (case memberRepo_Get (dNetworkID d) userID st of
                  Inl e \<Rightarrow> if e = ErrNotFound then Inl ErrForbidden else Inl e
                | Inr member \<Rightarrow>
                    if Role member \<noteq> NetworkRoleOwner \<and> Role member \<noteq> NetworkRoleAdmin then Inl ErrForbidden
                    else Inr d))"

definition DeviceService_Get :: "gotime \<Rightarrow> uuid \<Rightarrow> uuid \<Rightarrow> backend \<Rightarrow> device result" where
  "DeviceService_Get now deviceID userID s =
     (case authorizeDeviceAccess deviceID userID (db s) of
        Inl e \<Rightarrow> Inl e
      | Inr d \<Rightarrow> Inr (hd (mergePresence now (db s) [d])))"

definition DeviceService_Delete ::
  "(uuid \<Rightarrow> string) \<Rightarrow> svc_env \<Rightarrow> uuid \<Rightarrow> uuid \<Rightarrow> backend \<Rightarrow> unit result \<times> backend" where
  "DeviceService_Delete us env deviceID userID s =
     (case authorizeDeviceAccess deviceID userID (db s) of
        Inl e \<Rightarrow> (Inl e, s)
      | Inr d \<Rightarrow>
          (case deviceRepo_Delete deviceID (db s) of
             (Inl e, st) \<Rightarrow> (Inl e, s\<lparr>db := st\<rparr>)
           | (Inr _, st) \<Rightarrow>
               let s = s\<lparr>db := presence_Remove (dID d) st\<rparr>;
                   s = publish \<lparr>evType = PeerEventLeft, evNetworkID = dNetworkID d, evDeviceID = dID d\<rparr> s
               in (Inr (), Record env (Some userID) (Some (dNetworkID d)) AuditDeviceRemoved ''device''
                             (us (dID d)) [] [] s)))"

definition DeviceService_Heartbeat ::
  "gotime \<Rightarrow> uuid \<Rightarrow> uuid \<Rightarrow> string option \<Rightarrow> string option \<Rightarrow> string option \<Rightarrow> 64 word \<Rightarrow> 64 word \<Rightarrow>
     backend \<Rightarrow> unit result \<times> backend" where
  "DeviceService_Heartbeat now deviceID userID publicIP privateIP natType bytesSent bytesReceived s =
     (case deviceRepo_GetByID deviceID (db s) of
        Inl e \<Rightarrow> (Inl e, s)
      | Inr d \<Rightarrow>
          if dUserID d \<noteq> userID then (Inl ErrForbidden, s)
          else (case deviceRepo_UpdateHeartbeat now deviceID DeviceStatusOnline publicIP privateIP natType
                       bytesSent bytesReceived (db s) of
                  (Inl e, st) \<Rightarrow> (Inl e, s\<lparr>db := st\<rparr>)
                | (Inr _, st) \<Rightarrow>
                    let ep = presence_endpoint_zero\<lparr>peUpdatedAt := now,
                               PublicIP := (case publicIP of None \<Rightarrow> [] | Some x \<Rightarrow> x),
                               PrivateIP := (case privateIP of None \<Rightarrow> [] | Some x \<Rightarrow> x),
                               NATType := (case natType of None \<Rightarrow> [] | Some x \<Rightarrow> x)\<rparr>;
                        s = s\<lparr>db := presence_SetOnline now (dNetworkID d) deviceID ep (45 * Second) st\<rparr>
                    in (Inr (), publish \<lparr>evType = PeerEventStatusChanged, evNetworkID = dNetworkID d,
                                         evDeviceID = deviceID\<rparr> s)))"

definition DeviceService_ListPeers :: "gotime \<Rightarrow> uuid \<Rightarrow> uuid \<Rightarrow> backend \<Rightarrow> device list result" where
  "DeviceService_ListPeers now deviceID userID s =
     (case authorizeDeviceAccess deviceID userID (db s) of
        Inl e \<Rightarrow> Inl e
      | Inr d \<Rightarrow>
          (case deviceRepo_ListPeers (dID d) (db s) of
             Inl e \<Rightarrow> Inl e
           | Inr peers \<Rightarrow> Inr (mergePresence now (db s) peers)))"

section \<open>The tables under the device operations\<close>

lemma db_publish [simp]: "db (publish ev s) = db s"
  by (simp add: publish_def split: option.split)

lemma tables_presence [simp]:
  "tables (presence_SetOnline now n d ep ttl st) = tables st" "tables (presence_Remove d st) = tables st"
  by (simp_all add: tables_def presence_SetOnline_def presence_Remove_def)

lemma member_or_forbidden_Inr [simp]:
  "member_or_forbidden n u st = Inr x \<longleftrightarrow> map_of (members st) (n, u) \<noteq> None"
  by (auto simp: member_or_forbidden_def memberRepo_Get_def row_or_not_found_def split: sum.splits option.splits)

lemma tables_deviceRepo_Create:
  "deviceRepo_Create i now d st = (Inr d', st') \<Longrightarrow>
   tables st' = (case tables st of (N, M, D) \<Rightarrow> (N, M, D(dID d' \<mapsto> d'))) \<and>
   (\<forall>e \<in> snd ` set (devices st). PublicKey e \<noteq> PublicKey d) \<and>
   d' = d\<lparr>dID := (if dID d = uuid_Nil then i else dID d), dCreatedAt := now, dUpdatedAt := now\<rparr>"
  by (auto simp: deviceRepo_Create_def tables_def touch_def Let_def some_row_iff AList.update_conv' split: if_splits)

lemma tables_deviceRepo_Update:
  "deviceRepo_Update now d st = (Inr d', st') \<Longrightarrow>
   tables st' = (case tables st of (N, M, D) \<Rightarrow> (N, M, D(dID d \<mapsto> d'))) \<and> d' = d\<lparr>dUpdatedAt := now\<rparr>"
  by (auto simp: deviceRepo_Update_def tables_def touch_def Let_def AList.update_conv' split: option.splits)

lemma tables_deviceRepo_Delete:
  "deviceRepo_Delete k st = (Inr (), st') \<Longrightarrow>
   tables st' = (case tables st of (N, M, D) \<Rightarrow> (N, M, D(k := None)))"
  by (auto simp: deviceRepo_Delete_def tables_def touch_def AList.delete_conv' split: option.splits)

lemma tables_deviceRepo_UpdateHeartbeat:
  "deviceRepo_UpdateHeartbeat now k st p1 p2 nt b1 b2 d = (Inr (), d') \<Longrightarrow>
   \<exists>d0 d1. map_of (devices d) k = Some d0 \<and> tables d' = (case tables d of (N, M, D) \<Rightarrow> (N, M, D(k \<mapsto> d1))) \<and>
     dNetworkID d1 = dNetworkID d0 \<and> dUserID d1 = dUserID d0 \<and> PublicKey d1 = PublicKey d0 \<and>
     VirtualIP d1 = VirtualIP d0 \<and> dID d1 = dID d0"
  by (auto simp: deviceRepo_UpdateHeartbeat_def tables_def touch_def Let_def AList.update_conv' split: option.splits)

lemma device_errors_keep:
  "deviceRepo_Create i now d st = (Inl e, st') \<Longrightarrow> st' = st"
  "deviceRepo_Update now d st = (Inl e, st') \<Longrightarrow> st' = st"
  "deviceRepo_Delete k st = (Inl e, st') \<Longrightarrow> st' = st"
  "deviceRepo_UpdateHeartbeat now k x p1 p2 nt b1 b2 st = (Inl e, st') \<Longrightarrow> st' = st"
  by (auto simp: deviceRepo_Create_def deviceRepo_Update_def deviceRepo_Delete_def
      deviceRepo_UpdateHeartbeat_def Let_def split: if_splits option.splits)

lemma device_call_ok:
  assumes "store_ok st"
  shows "deviceRepo_Create i now d st = (rd, st') \<Longrightarrow> store_ok st'"
    and "deviceRepo_Update now d st = (rd, st') \<Longrightarrow> store_ok st'"
    and "deviceRepo_Delete k st = (ru, st') \<Longrightarrow> store_ok st'"
    and "deviceRepo_UpdateHeartbeat now k x p1 p2 nt b1 b2 st = (ru, st') \<Longrightarrow> store_ok st'"
  using device_ops_ok [OF assms] by (metis snd_conv)+

lemma presence_ok: "store_ok st \<Longrightarrow> store_ok (presence_SetOnline now n d ep ttl st)"
  "store_ok st \<Longrightarrow> store_ok (presence_Remove d st)"
  by (simp_all add: presence_SetOnline_def presence_Remove_def store_ok_put)

section \<open>A free address is not held\<close>

lemma alloc_loop_free:
  assumes "alloc_loop taken net ip = Some (Inr c)"
  shows "c \<notin> set taken"
proof -
  have "\<forall>c'. Inr c = (Inr c' :: string result) \<longrightarrow> c' \<notin> set taken"
    using assms
    by (rule alloc_loop.raw_induct [where P = "\<lambda>taken net ip r. \<forall>c. r = Inr c \<longrightarrow> c \<notin> set taken", rotated])
      (auto split: if_splits)
  then show ?thesis by blast
qed

lemma NextFreeVirtualIP_free:
  "deviceRepo_NextFreeVirtualIP networkID cidr st = Some (Inr ip) \<Longrightarrow> ip \<notin> set (taken_ips networkID st)"
  by (auto simp: deviceRepo_NextFreeVirtualIP_def split: option.splits dest: alloc_loop_free)

end
