(* ===== verification/Relay_Protocol.thy ===== *)
theory Relay_Protocol
  imports Prelude
begin

text \<open>
  The relay wire protocol, from both ends: \<open>relay/udprelay/protocol.go\<close> (the node) and
  \<open>client/internal/relayproxy/protocol.go\<close> (the client's own copy, here with the prefix
  \<open>client_\<close>). The two sources are separate Go modules that must be changed together; the lemmas
  show that each end decodes what the other encodes, and that the relay's rewriting of the peer
  field keeps the payload.
\<close>

section \<open>Frames of the relay node\<close>

definition FrameBind :: byte where
  "FrameBind = 0x01"

definition FrameBindAck :: byte where
  "FrameBindAck = 0x02"

definition FrameData :: byte where
  "FrameData = 0x03"

definition FrameKeepalive :: byte where
  "FrameKeepalive = 0x04"

definition FrameError :: byte where
  "FrameError = 0x05"

lemmas frame_types = FrameBind_def FrameBindAck_def FrameData_def FrameKeepalive_def FrameError_def

definition headerLen :: nat where
  "headerLen = 1 + 16"

definition MaxPacketSize :: nat where
  "MaxPacketSize = 1500 + headerLen"

datatype frame_error = ErrShortFrame | ErrUnknownFrame

definition EncodeBind :: "uuid \<Rightarrow> string \<Rightarrow> bytes" where
  "EncodeBind deviceID sessionToken = FrameBind # uuid_bytes deviceID @ bytes_of_string sessionToken"

definition EncodeBindAck :: bytes where
  "EncodeBindAck = [FrameBindAck]"

definition EncodeKeepalive :: bytes where
  "EncodeKeepalive = [FrameKeepalive]"

definition EncodeError :: "string \<Rightarrow> bytes" where
  "EncodeError reason = [FrameError] @ bytes_of_string reason"

definition EncodeData :: "uuid \<Rightarrow> bytes \<Rightarrow> bytes" where
  "EncodeData peerID payload = FrameData # uuid_bytes peerID @ payload"

definition DecodeBind :: "bytes \<Rightarrow> frame_error + (uuid \<times> string)" where
  "DecodeBind frame =
     (if length frame < headerLen \<or> frame ! 0 \<noteq> FrameBind then Inl ErrShortFrame
      else Inr (uuid_of_bytes (take 16 (drop 1 frame)), string_of_bytes (drop headerLen frame)))"

definition DecodeData :: "bytes \<Rightarrow> frame_error + (uuid \<times> bytes)" where
  "DecodeData frame =
     (if length frame < headerLen \<or> frame ! 0 \<noteq> FrameData then Inl ErrShortFrame
      else Inr (uuid_of_bytes (take 16 (drop 1 frame)), drop headerLen frame))"

text \<open>The slice \<open>frame[1:headerLen]\<close> reaches into the capacity of the read buffer, so on a shorter
  frame only the bytes inside the frame are seen to change.\<close>

definition rewriteDataPeer :: "bytes \<Rightarrow> uuid \<Rightarrow> bytes" where
  "rewriteDataPeer frame senderID =
     take (length frame) (take 1 frame @ uuid_bytes senderID @ drop headerLen frame)"

definition DecodeError :: "bytes \<Rightarrow> frame_error + string" where
  "DecodeError frame =
     (if length frame < 1 \<or> frame ! 0 \<noteq> FrameError then Inl ErrShortFrame
      else Inr (string_of_bytes (drop 1 frame)))"

section \<open>The client's copy\<close>

definition client_frameBind :: byte where
  "client_frameBind = 0x01"

definition client_frameBindAck :: byte where
  "client_frameBindAck = 0x02"

definition client_frameData :: byte where
  "client_frameData = 0x03"

definition client_frameKeepalive :: byte where
  "client_frameKeepalive = 0x04"

definition client_frameError :: byte where
  "client_frameError = 0x05"

lemmas client_frame_types =
  client_frameBind_def client_frameBindAck_def client_frameData_def
  client_frameKeepalive_def client_frameError_def

definition client_headerLen :: nat where
  "client_headerLen = 1 + 16"

definition client_maxPacketSize :: nat where
  "client_maxPacketSize = 1500 + client_headerLen"

definition client_encodeBind :: "uuid \<Rightarrow> string \<Rightarrow> bytes" where
  "client_encodeBind deviceID sessionToken =
     client_frameBind # uuid_bytes deviceID @ bytes_of_string sessionToken"

definition client_encodeKeepalive :: bytes where
  "client_encodeKeepalive = [client_frameKeepalive]"

definition client_encodeData :: "uuid \<Rightarrow> bytes \<Rightarrow> bytes" where
  "client_encodeData peerID payload = client_frameData # uuid_bytes peerID @ payload"

definition client_decodeData :: "bytes \<Rightarrow> frame_error + (uuid \<times> bytes)" where
  "client_decodeData frame =
     (if length frame < client_headerLen \<or> frame ! 0 \<noteq> client_frameData then Inl ErrShortFrame
      else Inr (uuid_of_bytes (take 16 (drop 1 frame)), drop client_headerLen frame))"

definition client_decodeError :: "bytes \<Rightarrow> frame_error + string" where
  "client_decodeError frame =
     (if length frame < 1 \<or> frame ! 0 \<noteq> client_frameError then Inl ErrShortFrame
      else Inr (string_of_bytes (drop 1 frame)))"

section \<open>Both ends are exact codecs\<close>

lemma header_split:
  assumes "headerLen \<le> length f"
  shows "f ! 0 # uuid_bytes (uuid_of_bytes (take 16 (drop 1 f))) @ drop headerLen f = f"
proof -
  obtain x g where f: "f = x # g" and g: "16 \<le> length g"
    using assms by (cases f) (auto simp: headerLen_def)
  from g have "uuid_bytes (uuid_of_bytes (take 16 g)) = take 16 g"
    by (simp add: min_def)
  then show ?thesis
    using append_take_drop_id [of 16 g] by (simp add: f headerLen_def)
qed

interpretation bind: exact_codec "\<lambda>(d, t). EncodeBind d t" DecodeBind
proof (unfold_locales, goal_cases)
  case (1 a)
  then show ?case
    by (cases a) (simp add: EncodeBind_def DecodeBind_def headerLen_def min_def)
next
  case (2 f a)
  then show ?case
    using header_split [of f]
    by (auto simp: DecodeBind_def EncodeBind_def simp del: uuid_bytes_of_bytes split: if_splits)
qed

interpretation data: exact_codec "\<lambda>(d, p). EncodeData d p" DecodeData
proof (unfold_locales, goal_cases)
  case (1 a)
  then show ?case
    by (cases a) (simp add: EncodeData_def DecodeData_def headerLen_def min_def)
next
  case (2 f a)
  then show ?case
    using header_split [of f]
    by (auto simp: DecodeData_def EncodeData_def simp del: uuid_bytes_of_bytes split: if_splits)
qed

interpretation err: exact_codec EncodeError DecodeError
proof (unfold_locales, goal_cases)
  case (1 a)
  show ?case by (simp add: EncodeError_def DecodeError_def)
next
  case (2 f a)
  then show ?case
    by (cases f) (auto simp: DecodeError_def EncodeError_def split: if_splits)
qed

lemma client_encodeBind_eq: "client_encodeBind = EncodeBind"
  by (simp add: fun_eq_iff client_encodeBind_def EncodeBind_def frame_types client_frame_types)

lemma client_encodeData_eq: "client_encodeData = EncodeData"
  by (simp add: fun_eq_iff client_encodeData_def EncodeData_def frame_types client_frame_types)

lemma client_decodeData_eq: "client_decodeData = DecodeData"
  by (simp add: fun_eq_iff client_decodeData_def DecodeData_def frame_types client_frame_types
      client_headerLen_def headerLen_def)

lemma client_decodeError_eq: "client_decodeError = DecodeError"
  by (simp add: fun_eq_iff client_decodeError_def DecodeError_def frame_types client_frame_types)

lemmas client_codec_eqs =
  client_encodeBind_eq client_encodeData_eq client_decodeData_eq client_decodeError_eq

lemma rewriteDataPeer_EncodeData: "rewriteDataPeer (EncodeData p x) s = EncodeData s x"
  by (simp add: rewriteDataPeer_def EncodeData_def headerLen_def)

lemma length_EncodeData [simp]: "length (EncodeData d p) = headerLen + length p"
  by (simp add: EncodeData_def headerLen_def)

lemma length_EncodeBind [simp]: "length (EncodeBind d t) = headerLen + length t"
  by (simp add: EncodeBind_def headerLen_def)

lemma length_EncodeError [simp]: "length (EncodeError r) = Suc (length r)"
  by (simp add: EncodeError_def)

section \<open>Properties of the wire protocol\<close>

text \<open>
  The BIND frame a client builds is decoded by the relay to the client's device ID and token,
  and the relay accepts no other frame as that BIND: acceptance by \<open>DecodeBind\<close> and construction by
  the client's \<open>encodeBind\<close> coincide.
\<close>
lemma bind_frame_exact:
  "DecodeBind f = Inr (d, t) \<longleftrightarrow> f = client_encodeBind d t"
  using bind.accepts_iff [of f "(d, t)"] by (simp add: client_encodeBind_eq)

text \<open>
  A DATA frame survives the relay: the client addresses it to the peer, the relay decodes that
  address, rewrites the field to the sender, and the receiving client decodes the sender together
  with exactly the payload that was sent; the length on the wire does not change.
\<close>
lemma data_frame_relayed:
  "DecodeData (client_encodeData peer payload) = Inr (peer, payload) \<and>
   client_decodeData (rewriteDataPeer (client_encodeData peer payload) sender) = Inr (sender, payload) \<and>
   length (rewriteDataPeer (client_encodeData peer payload) sender) =
     length (client_encodeData peer payload)"
  using data.dec_enc [of "(peer, payload)"] data.dec_enc [of "(sender, payload)"]
  by (simp add: client_codec_eqs rewriteDataPeer_EncodeData)

end
