(* ===== verification/Relay_Sessions.thy ===== *)
theory Relay_Sessions
  imports Go_Net
begin

text \<open>
  The relay's session table, \<open>relay/udprelay/session.go\<close>: which device of which network is bound
  to which UDP address. The source guards every method with one mutex, so each method is one
  atomic function of the table; where a method reads the clock, the instant is its argument \<open>now\<close>.
  A \<open>*session\<close> or \<open>*binding\<close> that the code mutates in place is read from its map and stored back.

  The invariant \<open>table_ok\<close> ties the reverse index (address to device) to the bindings. The abstract
  view \<open>bound\<close> forgets sessions and index and keeps the partial map from network and device to
  binding; the refinement lemmas state each operation over it.
\<close>

section \<open>State\<close>

record binding =
  bDeviceID :: uuid
  bAddr :: udp_addr
  bLastSeen :: gotime
  bExpiresAt :: gotime

record session =
  sNetworkID :: string
  bindings :: "(uuid, binding) gomap"
  lastActive :: gotime

record addrBinding =
  abNetworkID :: string
  abDeviceID :: uuid

record session_table =
  sessions :: "(string, session) gomap"
  addrIndex :: "(string, addrBinding) gomap"
  idleTimeout :: duration
  maxSessions :: int
  bytesRelayed :: "64 word"
  packetsRelayed :: "64 word"
  packetsDropped :: "64 word"

datatype session_error = ErrTooManySessions int

section \<open>Operations\<close>

definition NewSessionTable :: "duration \<Rightarrow> int \<Rightarrow> session_table" where
  "NewSessionTable idle maxs =
     \<lparr>sessions = [], addrIndex = [],
      idleTimeout = (if idle \<le> 0 then 5 * Minute else idle), maxSessions = maxs,
      bytesRelayed = 0, packetsRelayed = 0, packetsDropped = 0\<rparr>"

definition bind_in :: "gotime \<Rightarrow> string \<Rightarrow> uuid \<Rightarrow> udp_addr \<Rightarrow> gotime \<Rightarrow> session \<Rightarrow> session_table \<Rightarrow> session_table" where
  "bind_in now networkID deviceID addr expiresAt s t =
     (let idx = (case map_of (bindings s) deviceID of
                   Some prev \<Rightarrow>
                     if UDPAddr_String (bAddr prev) \<noteq> UDPAddr_String addr
                     then del (UDPAddr_String (bAddr prev)) (addrIndex t) else addrIndex t
                 | None \<Rightarrow> addrIndex t);
          b = \<lparr>bDeviceID = deviceID, bAddr = addr, bLastSeen = now, bExpiresAt = expiresAt\<rparr>;
          s' = s\<lparr>bindings := put deviceID b (bindings s), lastActive := now\<rparr>
      in t\<lparr>sessions := put networkID s' (sessions t),
           addrIndex := put (UDPAddr_String addr) \<lparr>abNetworkID = networkID, abDeviceID = deviceID\<rparr> idx\<rparr>)"

definition Bind ::
  "gotime \<Rightarrow> string \<Rightarrow> uuid \<Rightarrow> udp_addr \<Rightarrow> gotime \<Rightarrow> session_table \<Rightarrow> (session_error + unit) \<times> session_table" where
  "Bind now networkID deviceID addr expiresAt t =
     (case map_of (sessions t) networkID of
        Some s \<Rightarrow> (Inr (), bind_in now networkID deviceID addr expiresAt s t)
      | None \<Rightarrow>
          if 0 < maxSessions t \<and> maxSessions t \<le> int (length (sessions t))
          then (Inl (ErrTooManySessions (maxSessions t)), t)
          else (Inr (), bind_in now networkID deviceID addr expiresAt
                  \<lparr>sNetworkID = networkID, bindings = [], lastActive = 0\<rparr> t))"

definition Lookup :: "udp_addr \<Rightarrow> session_table \<Rightarrow> (string \<times> uuid) option" where
  "Lookup addr t =
     (case map_of (addrIndex t) (UDPAddr_String addr) of
        None \<Rightarrow> None | Some ab \<Rightarrow> Some (abNetworkID ab, abDeviceID ab))"

definition lapsed :: "gotime \<Rightarrow> binding \<Rightarrow> bool" where
  "lapsed now b \<longleftrightarrow> \<not> time_IsZero (bExpiresAt b) \<and> now > bExpiresAt b"

definition drop_binding :: "string \<Rightarrow> session \<Rightarrow> uuid \<Rightarrow> binding \<Rightarrow> session_table \<Rightarrow> session_table" where
  "drop_binding networkID s deviceID b t =
     t\<lparr>addrIndex := del (UDPAddr_String (bAddr b)) (addrIndex t),
       sessions := put networkID (s\<lparr>bindings := del deviceID (bindings s)\<rparr>) (sessions t)\<rparr>"

definition Route ::
  "gotime \<Rightarrow> string \<Rightarrow> uuid \<Rightarrow> uuid \<Rightarrow> session_table \<Rightarrow> udp_addr option \<times> session_table" where
  "Route now networkID senderID peerID t =
     (case map_of (sessions t) networkID of
        None \<Rightarrow> (None, t)
      | Some s \<Rightarrow>
          (case map_of (bindings s) senderID of
             None \<Rightarrow> (None, t)
           | Some sender \<Rightarrow>
               if lapsed now sender then (None, drop_binding networkID s senderID sender t)
               else
                 let s1 = s\<lparr>bindings := put senderID (sender\<lparr>bLastSeen := now\<rparr>) (bindings s),
                            lastActive := now\<rparr>;
                     t1 = t\<lparr>sessions := put networkID s1 (sessions t)\<rparr>
                 in (case map_of (bindings s1) peerID of
                       None \<Rightarrow> (None, t1)
                     | Some peer \<Rightarrow>
                         if lapsed now peer then (None, drop_binding networkID s1 peerID peer t1)
                         else (Some (bAddr peer), t1))))"

definition Touch :: "gotime \<Rightarrow> string \<Rightarrow> uuid \<Rightarrow> session_table \<Rightarrow> session_table" where
  "Touch now networkID deviceID t =
     (case map_of (sessions t) networkID of
        None \<Rightarrow> t
      | Some s \<Rightarrow>
          let bs = (case map_of (bindings s) deviceID of
                      Some b \<Rightarrow> put deviceID (b\<lparr>bLastSeen := now\<rparr>) (bindings s)
                    | None \<Rightarrow> bindings s)
          in t\<lparr>sessions := put networkID (s\<lparr>bindings := bs, lastActive := now\<rparr>) (sessions t)\<rparr>)"

definition RecordRelayed :: "nat \<Rightarrow> session_table \<Rightarrow> session_table" where
  "RecordRelayed n t =
     t\<lparr>bytesRelayed := bytesRelayed t + word_of_nat n, packetsRelayed := packetsRelayed t + 1\<rparr>"

definition RecordDropped :: "session_table \<Rightarrow> session_table" where
  "RecordDropped t = t\<lparr>packetsDropped := packetsDropped t + 1\<rparr>"

record stats =
  stSessions :: nat
  stBindings :: nat
  stBytesRelayed :: "64 word"
  stPacketsRelayed :: "64 word"
  stPacketsDropped :: "64 word"

fun count_bindings :: "(string, session) gomap \<Rightarrow> nat \<Rightarrow> nat" where
  "count_bindings [] n = n"
| "count_bindings ((k, s) # ss) n = count_bindings ss (n + length (bindings s))"

definition Stats :: "session_table \<Rightarrow> stats" where
  "Stats t =
     \<lparr>stSessions = length (sessions t), stBindings = count_bindings (sessions t) 0,
      stBytesRelayed = bytesRelayed t, stPacketsRelayed = packetsRelayed t,
      stPacketsDropped = packetsDropped t\<rparr>"

definition stale :: "gotime \<Rightarrow> duration \<Rightarrow> binding \<Rightarrow> bool" where
  "stale now idle b \<longleftrightarrow> time_Sub now (bLastSeen b) > idle \<or> lapsed now b"

text \<open>The inner loop of \<open>EvictIdle\<close>: it ranges over the bindings of a session and deletes from that
  map and from the index as it goes.\<close>

fun evict_bindings ::
  "gotime \<Rightarrow> duration \<Rightarrow> (uuid \<times> binding) list \<Rightarrow>
     (uuid, binding) gomap \<times> (string, addrBinding) gomap \<Rightarrow>
     (uuid, binding) gomap \<times> (string, addrBinding) gomap" where
  "evict_bindings now idle [] st = st"
| "evict_bindings now idle ((deviceID, b) # bs) (m, idx) =
     (if stale now idle b
      then evict_bindings now idle bs (del deviceID m, del (UDPAddr_String (bAddr b)) idx)
      else evict_bindings now idle bs (m, idx))"

fun evict_sessions :: "gotime \<Rightarrow> (string \<times> session) list \<Rightarrow> session_table \<times> nat \<Rightarrow> session_table \<times> nat" where
  "evict_sessions now [] st = st"
| "evict_sessions now ((networkID, s) # ss) (t, removed) =
     (let (m, idx) = evict_bindings now (idleTimeout t) (bindings s) (bindings s, addrIndex t);
          t' = t\<lparr>addrIndex := idx, sessions := put networkID (s\<lparr>bindings := m\<rparr>) (sessions t)\<rparr>
      in if m = [] then evict_sessions now ss (t'\<lparr>sessions := del networkID (sessions t')\<rparr>, Suc removed)
         else evict_sessions now ss (t', removed))"

definition EvictIdle :: "gotime \<Rightarrow> session_table \<Rightarrow> session_table \<times> nat" where
  "EvictIdle now t = evict_sessions now (sessions t) (t, 0)"

section \<open>The abstract view and the invariant\<close>

definition bound :: "session_table \<Rightarrow> string \<Rightarrow> uuid \<Rightarrow> binding option" where
  "bound t n d = (case map_of (sessions t) n of None \<Rightarrow> None | Some s \<Rightarrow> map_of (bindings s) d)"

definition maps_ok :: "session_table \<Rightarrow> bool" where
  "maps_ok t \<longleftrightarrow> gomap_ok (sessions t) \<and> gomap_ok (addrIndex t) \<and>
     (\<forall>(n, s) \<in> set (sessions t). gomap_ok (bindings s))"

definition index_ok :: "session_table \<Rightarrow> bool" where
  "index_ok t \<longleftrightarrow>
     (\<forall>a ab. map_of (addrIndex t) a = Some ab \<longrightarrow>
        (\<exists>b. bound t (abNetworkID ab) (abDeviceID ab) = Some b \<and> UDPAddr_String (bAddr b) = a))"

definition capacity_ok :: "session_table \<Rightarrow> bool" where
  "capacity_ok t \<longleftrightarrow> (0 < maxSessions t \<longrightarrow> int (length (sessions t)) \<le> maxSessions t)"

definition table_ok :: "session_table \<Rightarrow> bool" where
  "table_ok t \<longleftrightarrow> maps_ok t \<and> index_ok t \<and> capacity_ok t"

section \<open>The operations over the abstract view\<close>

lemma bound_put:
  "bound (t\<lparr>sessions := put n s (sessions t)\<rparr>) = (bound t)(n := map_of (bindings s))"
  by (auto simp: bound_def fun_eq_iff go_map_simps)

lemma bound_index [simp]: "bound (t\<lparr>addrIndex := idx\<rparr>) = bound t"
  by (simp add: bound_def fun_eq_iff)

lemma bound_session: "map_of (sessions t) n = Some s \<Longrightarrow> bound t n = map_of (bindings s)"
  by (simp add: bound_def fun_eq_iff)

lemma bound_no_session: "map_of (sessions t) n = None \<Longrightarrow> bound t n = Map.empty"
  by (simp add: bound_def fun_eq_iff)

lemma bound_bind_in:
  "bound (bind_in now n d addr e s t) =
     (bound t)(n := (map_of (bindings s))
        (d \<mapsto> \<lparr>bDeviceID = d, bAddr = addr, bLastSeen = now, bExpiresAt = e\<rparr>))"
  unfolding bind_in_def Let_def bound_index
  by (auto simp: bound_def fun_eq_iff go_map_simps)

lemma bound_Bind:
  assumes "Bind now n d addr e t = (Inr (), t')"
  shows "bound t' = (bound t)(n := (bound t n)
           (d \<mapsto> \<lparr>bDeviceID = d, bAddr = addr, bLastSeen = now, bExpiresAt = e\<rparr>))"
proof (cases "map_of (sessions t) n")
  case None
  with assms have "t' = bind_in now n d addr e \<lparr>sNetworkID = n, bindings = [], lastActive = 0\<rparr> t"
    by (auto simp: Bind_def split: if_splits)
  with None show ?thesis by (simp add: bound_bind_in bound_no_session)
next
  case (Some s)
  with assms have "t' = bind_in now n d addr e s t" by (simp add: Bind_def)
  with Some show ?thesis by (simp add: bound_bind_in bound_session)
qed

lemma Bind_error: "Bind now n d addr e t = (Inl er, t') \<Longrightarrow> t' = t"
  by (auto simp: Bind_def split: option.splits if_splits)

lemma bound_drop_binding:
  "map_of (sessions t) n = Some s \<Longrightarrow>
   bound (drop_binding n s d b t) = (bound t)(n := (bound t n)(d := None))"
  by (auto simp: drop_binding_def bound_def fun_eq_iff go_map_simps)

text \<open>What \<open>Route\<close> does to the partial map of bindings.\<close>

definition route_spec ::
  "gotime \<Rightarrow> string \<Rightarrow> uuid \<Rightarrow> uuid \<Rightarrow> (string \<Rightarrow> uuid \<Rightarrow> binding option) \<Rightarrow>
     udp_addr option \<times> (string \<Rightarrow> uuid \<Rightarrow> binding option)" where
  "route_spec now n sender peer B =
     (case B n sender of
        None \<Rightarrow> (None, B)
      | Some b \<Rightarrow>
          if lapsed now b then (None, B(n := (B n)(sender := None)))
          else
            let B1 = B(n := (B n)(sender \<mapsto> b\<lparr>bLastSeen := now\<rparr>)) in
            case B1 n peer of
              None \<Rightarrow> (None, B1)
            | Some p \<Rightarrow> if lapsed now p then (None, B1(n := (B1 n)(peer := None))) else (Some (bAddr p), B1))"

lemma Route_refines:
  "route_spec now n sender peer (bound t) =
     (fst (Route now n sender peer t), bound (snd (Route now n sender peer t)))"
proof (cases "map_of (sessions t) n")
  case None
  then show ?thesis by (simp add: Route_def route_spec_def bound_no_session)
next
  case (Some s)
  note [simp] = Some bound_session [OF Some]
  show ?thesis
  proof (cases "map_of (bindings s) sender")
    case None
    then show ?thesis by (simp add: Route_def route_spec_def)
  next
    case (Some b)
    let ?s1 = "s\<lparr>bindings := put sender (b\<lparr>bLastSeen := now\<rparr>) (bindings s), lastActive := now\<rparr>"
    let ?t1 = "t\<lparr>sessions := put n ?s1 (sessions t)\<rparr>"
    have s1: "map_of (sessions ?t1) n = Some ?s1" by (simp add: go_map_simps)
    have b1: "bound ?t1 = (bound t)(n := (map_of (bindings s))(sender \<mapsto> b\<lparr>bLastSeen := now\<rparr>))"
      by (simp add: bound_put AList.update_conv')
    show ?thesis
    proof (cases "lapsed now b")
      case True
      with Some show ?thesis by (simp add: Route_def route_spec_def bound_drop_binding)
    next
      case False
      with Some s1 b1 show ?thesis
        by (auto simp: Route_def route_spec_def Let_def bound_drop_binding [OF s1] AList.update_conv'
            split: option.splits if_splits)
    qed
  qed
qed

lemma evict_bindings_eq:
  "evict_bindings now idle bs (m, idx) =
     (fold (\<lambda>x. del (fst x)) (filter (\<lambda>(d, b). stale now idle b) bs) m,
      fold (\<lambda>x. del (UDPAddr_String (bAddr (snd x)))) (filter (\<lambda>(d, b). stale now idle b) bs) idx)"
  by (induction bs arbitrary: m idx) auto

definition live :: "gotime \<Rightarrow> duration \<Rightarrow> (uuid, binding) gomap \<Rightarrow> (uuid, binding) gomap" where
  "live now idle m = filter (\<lambda>(d, b). \<not> stale now idle b) m"

lemma evict_bindings_live:
  assumes "gomap_ok m"
  shows "fst (evict_bindings now idle m (m, idx)) = live now idle m"
proof -
  have "(k \<in> fst ` {x \<in> set m. case x of (d, b) \<Rightarrow> stale now idle b}) = stale now idle v"
    if "(k, v) \<in> set m" for k v
    using assms that by (auto dest: eq_key_imp_eq_value intro!: rev_image_eqI)
  then show ?thesis
    by (auto simp: evict_bindings_eq fold_del_filter live_def intro!: filter_cong)
qed

lemma get_live:
  "gomap_ok m \<Longrightarrow> map_of (live now idle m) d =
     (case map_of m d of None \<Rightarrow> None | Some b \<Rightarrow> if stale now idle b then None else Some b)"
  by (auto simp: live_def get_filter split: option.splits)

text \<open>One round of the outer loop of \<open>EvictIdle\<close>.\<close>

definition evict_one :: "gotime \<Rightarrow> string \<Rightarrow> session \<Rightarrow> session_table \<Rightarrow> session_table" where
  "evict_one now n s t =
     (let m = live now (idleTimeout t) (bindings s);
          idx = fold (\<lambda>x. del (UDPAddr_String (bAddr (snd x))))
                  (filter (\<lambda>(d, b). stale now (idleTimeout t) b) (bindings s)) (addrIndex t)
      in t\<lparr>addrIndex := idx,
           sessions := (if m = [] then del n (sessions t) else put n (s\<lparr>bindings := m\<rparr>) (sessions t))\<rparr>)"

lemma evict_sessions_Cons:
  assumes "gomap_ok (bindings s)"
  shows "evict_sessions now ((n, s) # ss) (t, k) =
           evict_sessions now ss (evict_one now n s t,
             if live now (idleTimeout t) (bindings s) = [] then Suc k else k)"
proof -
  let ?p = "evict_bindings now (idleTimeout t) (bindings s) (bindings s, addrIndex t)"
  have "fst ?p = live now (idleTimeout t) (bindings s)"
    using assms by (rule evict_bindings_live)
  moreover have "snd ?p = fold (\<lambda>x. del (UDPAddr_String (bAddr (snd x))))
      (filter (\<lambda>(d, b). stale now (idleTimeout t) b) (bindings s)) (addrIndex t)"
    by (simp add: evict_bindings_eq)
  ultimately have "?p = (live now (idleTimeout t) (bindings s),
      fold (\<lambda>x. del (UDPAddr_String (bAddr (snd x))))
        (filter (\<lambda>(d, b). stale now (idleTimeout t) b) (bindings s)) (addrIndex t))"
    by (simp add: prod_eq_iff)
  then show ?thesis
    by (simp add: evict_one_def Let_def AList.delete_update_same)
qed

lemma evict_one_fields [simp]:
  "idleTimeout (evict_one now n s t) = idleTimeout t"
  "maxSessions (evict_one now n s t) = maxSessions t"
  "bytesRelayed (evict_one now n s t) = bytesRelayed t"
  "packetsRelayed (evict_one now n s t) = packetsRelayed t"
  "packetsDropped (evict_one now n s t) = packetsDropped t"
  by (simp_all add: evict_one_def Let_def)

lemma evict_one_session:
  "map_of (sessions (evict_one now n s t)) n' =
     (if n' = n then
        (let m = live now (idleTimeout t) (bindings s) in if m = [] then None else Some (s\<lparr>bindings := m\<rparr>))
      else map_of (sessions t) n')"
  by (simp add: evict_one_def Let_def go_map_simps)

lemma evict_one_index:
  "map_of (addrIndex (evict_one now n s t)) a =
     (if \<exists>(d, b) \<in> set (bindings s). stale now (idleTimeout t) b \<and> UDPAddr_String (bAddr b) = a
      then None else map_of (addrIndex t) a)"
  by (auto simp: evict_one_def Let_def get_fold_del image_iff)

definition session_bindings_ok :: "(string \<times> session) list \<Rightarrow> bool" where
  "session_bindings_ok ss \<longleftrightarrow> (\<forall>(n, s) \<in> set ss. gomap_ok (bindings s))"

lemma session_bindings_ok_simps [simp]:
  "session_bindings_ok []"
  "session_bindings_ok ((n, s) # ss) \<longleftrightarrow> gomap_ok (bindings s) \<and> session_bindings_ok ss"
  by (auto simp: session_bindings_ok_def)

lemma evict_sessions_fields:
  assumes "session_bindings_ok ss"
  shows "idleTimeout (fst (evict_sessions now ss (t, k))) = idleTimeout t"
    and "maxSessions (fst (evict_sessions now ss (t, k))) = maxSessions t"
  using assms
  by (induction ss arbitrary: t k) (auto simp: evict_sessions_Cons simp del: evict_sessions.simps(2))

lemma evict_sessions_session:
  assumes "session_bindings_ok ss" "gomap_ok ss"
  shows "map_of (sessions (fst (evict_sessions now ss (t, k)))) n =
     (case map_of ss n of
        None \<Rightarrow> map_of (sessions t) n
      | Some s \<Rightarrow>
          (let m = live now (idleTimeout t) (bindings s) in if m = [] then None else Some (s\<lparr>bindings := m\<rparr>)))"
  using assms
proof (induction ss arbitrary: t k)
  case Nil
  then show ?case by simp
next
  case (Cons ns ss)
  obtain n' s where ns: "ns = (n', s)" by (cases ns)
  from Cons.prems ns have "map_of ss n' = None" by (simp add: map_of_eq_None_iff)
  with Cons ns show ?case
    by (auto simp: evict_sessions_Cons evict_one_session simp del: evict_sessions.simps(2)
        split: option.splits)
qed

lemma evict_sessions_index:
  assumes "session_bindings_ok ss"
  shows "map_of (addrIndex (fst (evict_sessions now ss (t, k)))) a =
     (if \<exists>(n, s) \<in> set ss. \<exists>(d, b) \<in> set (bindings s).
           stale now (idleTimeout t) b \<and> UDPAddr_String (bAddr b) = a
      then None else map_of (addrIndex t) a)"
  using assms
proof (induction ss arbitrary: t k)
  case Nil
  then show ?case by simp
next
  case (Cons ns ss)
  obtain n' s where ns: "ns = (n', s)" by (cases ns)
  from Cons.prems ns have ok: "gomap_ok (bindings s)" "session_bindings_ok ss" by simp_all
  show ?case
    unfolding ns evict_sessions_Cons [OF ok(1)] Cons.IH [OF ok(2)] evict_one_index evict_one_fields
    by auto
qed

lemma evict_one_ok:
  assumes "gomap_ok (sessions t)" "gomap_ok (addrIndex t)"
  shows "gomap_ok (sessions (evict_one now n s t))" "gomap_ok (addrIndex (evict_one now n s t))"
  using assms by (simp_all add: evict_one_def Let_def fold_del_ok)

lemma evict_sessions_ok:
  assumes "session_bindings_ok ss" "gomap_ok (sessions t)" "gomap_ok (addrIndex t)"
  shows "gomap_ok (sessions (fst (evict_sessions now ss (t, k)))) \<and>
         gomap_ok (addrIndex (fst (evict_sessions now ss (t, k))))"
  using assms
proof (induction ss arbitrary: t k)
  case Nil
  then show ?case by simp
next
  case (Cons ns ss)
  then show ?case
    by (cases ns) (simp add: evict_sessions_Cons evict_one_ok del: evict_sessions.simps(2))
qed

text \<open>The number \<open>EvictIdle\<close> returns is the number of sessions that disappeared.\<close>

lemma length_evict_one:
  assumes "gomap_ok (sessions t)" "map_of (sessions t) n \<noteq> None"
  shows "length (sessions (evict_one now n s t)) +
           (if live now (idleTimeout t) (bindings s) = [] then 1 else 0) = length (sessions t)"
  using assms length_del [OF assms] length_put_old [OF assms(2)]
  by (simp add: evict_one_def Let_def)

lemma evict_sessions_count:
  assumes "session_bindings_ok ss" "gomap_ok ss" "gomap_ok (sessions t)" "gomap_ok (addrIndex t)"
    and "\<forall>n \<in> fst ` set ss. map_of (sessions t) n \<noteq> None"
  shows "length (sessions (fst (evict_sessions now ss (t, k)))) + snd (evict_sessions now ss (t, k))
           = length (sessions t) + k"
  using assms
proof (induction ss arbitrary: t k)
  case Nil
  then show ?case by simp
next
  case (Cons ns ss)
  obtain n s where ns: "ns = (n, s)" by (cases ns)
  from Cons.prems ns have ok: "gomap_ok (bindings s)" "session_bindings_ok ss" "gomap_ok ss"
    and n: "n \<notin> fst ` set ss" by simp_all
  have "\<forall>n' \<in> fst ` set ss. map_of (sessions (evict_one now n s t)) n' \<noteq> None"
    using Cons.prems(5) ns n by (auto simp: evict_one_session)
  from Cons.IH [OF ok(2,3) evict_one_ok(1,2) this] Cons.prems(3-5)
    length_evict_one [of t n now s]
  show ?case
    unfolding ns evict_sessions_Cons [OF ok(1)]
    by (auto split: if_splits)
qed

section \<open>Every operation keeps the invariant\<close>

lemma maps_ok_session: "maps_ok t \<Longrightarrow> map_of (sessions t) n = Some s \<Longrightarrow> gomap_ok (bindings s)"
  by (auto simp: maps_ok_def dest: map_of_SomeD)

lemma table_ok_session: "table_ok t \<Longrightarrow> map_of (sessions t) n = Some s \<Longrightarrow> gomap_ok (bindings s)"
  by (auto simp: table_ok_def intro: maps_ok_session)

lemma maps_ok_put:
  "maps_ok t \<Longrightarrow> gomap_ok idx \<Longrightarrow> gomap_ok (bindings s) \<Longrightarrow>
   maps_ok (t\<lparr>addrIndex := idx, sessions := put n s (sessions t)\<rparr>)"
  by (auto simp: maps_ok_def set_put_iff split: if_splits)

lemma maps_ok_put_session:
  "maps_ok t \<Longrightarrow> gomap_ok (bindings s) \<Longrightarrow> maps_ok (t\<lparr>sessions := put n s (sessions t)\<rparr>)"
  by (auto simp: maps_ok_def set_put_iff split: if_splits)

lemma capacity_ok_put:
  "capacity_ok t \<Longrightarrow> map_of (sessions t) n \<noteq> None \<or> maxSessions t \<le> 0 \<or> int (length (sessions t)) < maxSessions t \<Longrightarrow>
   capacity_ok (t\<lparr>sessions := put n s (sessions t)\<rparr>)"
  by (cases "map_of (sessions t) n") (auto simp: capacity_ok_def length_put_old length_put_new)

lemma capacity_ok_index [simp]: "capacity_ok (t\<lparr>addrIndex := idx\<rparr>) = capacity_ok t"
  by (simp add: capacity_ok_def)

lemma index_okD:
  "index_ok t \<Longrightarrow> map_of (addrIndex t) a = Some ab \<Longrightarrow>
   \<exists>b. bound t (abNetworkID ab) (abDeviceID ab) = Some b \<and> UDPAddr_String (bAddr b) = a"
  by (simp add: index_ok_def)

text \<open>The index stays right when entries disappear from it, when the only binding that disappears is
  one whose address was taken out of the index, and when bindings keep their addresses.\<close>

lemma index_ok_drop:
  assumes "index_ok t" "bound t n d = Some b"
    and "bound t' = (bound t)(n := (bound t n)(d := None))"
    and "addrIndex t' = del (UDPAddr_String (bAddr b)) (addrIndex t)"
  shows "index_ok t'"
  unfolding index_ok_def
proof (intro allI impI)
  fix a ab
  assume "map_of (addrIndex t') a = Some ab"
  with assms(4) have a: "a \<noteq> UDPAddr_String (bAddr b)" and "map_of (addrIndex t) a = Some ab"
    by (auto simp: go_map_simps split: if_splits)
  with assms(1) obtain b' where b': "bound t (abNetworkID ab) (abDeviceID ab) = Some b'"
    "UDPAddr_String (bAddr b') = a"
    by (blast dest: index_okD)
  with a assms(2) have "\<not> (abNetworkID ab = n \<and> abDeviceID ab = d)" by auto
  with b' show "\<exists>b. bound t' (abNetworkID ab) (abDeviceID ab) = Some b \<and> UDPAddr_String (bAddr b) = a"
    by (auto simp: assms(3))
qed

lemma index_ok_refresh:
  assumes "index_ok t" "bound t n d = Some b" "bAddr b' = bAddr b"
    and "bound t' = (bound t)(n := (bound t n)(d \<mapsto> b'))" "addrIndex t' = addrIndex t"
  shows "index_ok t'"
  unfolding index_ok_def
proof (intro allI impI)
  fix a ab
  assume "map_of (addrIndex t') a = Some ab"
  with assms obtain b0 where "bound t (abNetworkID ab) (abDeviceID ab) = Some b0"
    "UDPAddr_String (bAddr b0) = a"
    by (auto dest: index_okD)
  with assms(2,3) show "\<exists>b. bound t' (abNetworkID ab) (abDeviceID ab) = Some b \<and> UDPAddr_String (bAddr b) = a"
    by (auto simp: assms(4))
qed

lemma drop_binding_ok:
  assumes "table_ok t" "map_of (sessions t) n = Some s" "map_of (bindings s) d = Some b"
  shows "table_ok (drop_binding n s d b t)"
proof -
  from assms have "maps_ok (drop_binding n s d b t)"
    unfolding drop_binding_def table_ok_def
    by (intro maps_ok_put) (auto simp: maps_ok_session maps_ok_def)
  moreover have "index_ok (drop_binding n s d b t)"
  proof (rule index_ok_drop)
    show "index_ok t" using assms by (simp add: table_ok_def)
    show "bound t n d = Some b" using assms by (simp add: bound_def)
    show "bound (drop_binding n s d b t) = (bound t)(n := (bound t n)(d := None))"
      using assms(2) by (rule bound_drop_binding)
    show "addrIndex (drop_binding n s d b t) = del (UDPAddr_String (bAddr b)) (addrIndex t)"
      by (simp add: drop_binding_def)
  qed
  moreover have "capacity_ok (drop_binding n s d b t)"
    using assms by (simp add: drop_binding_def table_ok_def capacity_ok_def length_put_old)
  ultimately show ?thesis by (simp add: table_ok_def)
qed

lemma refresh_ok:
  assumes "table_ok t" "map_of (sessions t) n = Some s" "map_of (bindings s) d = Some b"
  shows "table_ok (t\<lparr>sessions := put n (s\<lparr>bindings := put d (b\<lparr>bLastSeen := now\<rparr>) (bindings s),
           lastActive := act\<rparr>) (sessions t)\<rparr>)" (is "table_ok ?t")
proof -
  have "maps_ok ?t"
    using assms by (intro maps_ok_put_session) (auto simp: table_ok_def maps_ok_session)
  moreover have "index_ok ?t"
  proof (rule index_ok_refresh)
    show "index_ok t" using assms by (simp add: table_ok_def)
    show "bound t n d = Some b" using assms by (simp add: bound_def)
    show "bound ?t = (bound t)(n := (bound t n)(d \<mapsto> b\<lparr>bLastSeen := now\<rparr>))"
      using assms(2) by (simp add: bound_put bound_session AList.update_conv')
  qed simp_all
  moreover have "capacity_ok ?t"
    using assms by (intro capacity_ok_put) (simp_all add: table_ok_def)
  ultimately show ?thesis by (simp add: table_ok_def)
qed

lemma Route_ok:
  assumes "table_ok t"
  shows "table_ok (snd (Route now n sender peer t))"
proof (cases "map_of (sessions t) n")
  case None
  with assms show ?thesis by (simp add: Route_def)
next
  case (Some s)
  note s = this
  show ?thesis
  proof (cases "map_of (bindings s) sender")
    case None
    with s assms show ?thesis by (simp add: Route_def)
  next
    case (Some b)
    let ?s1 = "s\<lparr>bindings := put sender (b\<lparr>bLastSeen := now\<rparr>) (bindings s), lastActive := now\<rparr>"
    let ?t1 = "t\<lparr>sessions := put n ?s1 (sessions t)\<rparr>"
    have t1: "table_ok ?t1" using assms s Some by (rule refresh_ok)
    have s1: "map_of (sessions ?t1) n = Some ?s1" by (simp add: go_map_simps)
    show ?thesis
      using s Some drop_binding_ok [OF assms s Some] t1 drop_binding_ok [OF t1 s1]
      by (auto simp: Route_def Let_def split: option.splits)
  qed
qed

lemma Touch_ok:
  assumes "table_ok t"
  shows "table_ok (Touch now n d t)"
proof (cases "map_of (sessions t) n")
  case None
  with assms show ?thesis by (simp add: Touch_def)
next
  case (Some s)
  note s = this
  show ?thesis
  proof (cases "map_of (bindings s) d")
    case None
    have "bound (t\<lparr>sessions := put n (s\<lparr>bindings := bindings s, lastActive := now\<rparr>) (sessions t)\<rparr>) = bound t"
      using s by (auto simp: bound_put bound_session fun_eq_iff)
    with None s assms show ?thesis
      by (auto simp: Touch_def table_ok_def index_ok_def intro!: maps_ok_put_session capacity_ok_put
          dest: maps_ok_session)
  next
    case (Some b)
    with s refresh_ok [OF assms s Some] show ?thesis by (simp add: Touch_def)
  qed
qed

lemma bind_in_ok:
  assumes t: "table_ok t" and s: "gomap_ok (bindings s)" "bound t n = map_of (bindings s)"
    and room: "map_of (sessions t) n \<noteq> None \<or> maxSessions t \<le> 0 \<or> int (length (sessions t)) < maxSessions t"
  shows "table_ok (bind_in now n d addr e s t)"
proof -
  let ?t = "bind_in now n d addr e s t"
  have "maps_ok ?t"
    unfolding bind_in_def Let_def using t s
    by (auto simp: table_ok_def maps_ok_def set_put_iff split: option.splits if_splits)
  moreover have "capacity_ok ?t"
    using capacity_ok_put [OF _ room] t by (simp add: bind_in_def Let_def table_ok_def)
  moreover have "index_ok ?t"
    unfolding index_ok_def
  proof (intro allI impI)
    fix a ab
    assume ab: "map_of (addrIndex ?t) a = Some ab"
    show "\<exists>b. bound ?t (abNetworkID ab) (abDeviceID ab) = Some b \<and> UDPAddr_String (bAddr b) = a"
    proof (cases "a = UDPAddr_String addr")
      case True
      with ab have "ab = \<lparr>abNetworkID = n, abDeviceID = d\<rparr>"
        by (simp add: bind_in_def Let_def go_map_simps)
      with True show ?thesis by (simp add: bound_bind_in)
    next
      case False
      with ab have old: "map_of (addrIndex t) a = Some ab"
        and keep: "\<And>prev. map_of (bindings s) d = Some prev \<Longrightarrow>
          UDPAddr_String (bAddr prev) \<noteq> UDPAddr_String addr \<Longrightarrow> UDPAddr_String (bAddr prev) \<noteq> a"
        by (auto simp: bind_in_def Let_def go_map_simps split: option.splits if_splits)
      from old t obtain b where b: "bound t (abNetworkID ab) (abDeviceID ab) = Some b"
        "UDPAddr_String (bAddr b) = a"
        by (auto simp: table_ok_def dest: index_okD)
      have "\<not> (abNetworkID ab = n \<and> abDeviceID ab = d)"
        using b keep [of b] False s(2) by auto
      with b s(2) show ?thesis by (auto simp: bound_bind_in)
    qed
  qed
  ultimately show ?thesis by (simp add: table_ok_def)
qed

lemma Bind_ok:
  assumes "table_ok t"
  shows "table_ok (snd (Bind now n d addr e t))"
proof (cases "map_of (sessions t) n")
  case None
  then have "bound t n = map_of (bindings \<lparr>sNetworkID = n, bindings = [], lastActive = 0\<rparr>)"
    by (simp add: bound_no_session)
  with None assms show ?thesis by (auto simp: Bind_def intro: bind_in_ok)
next
  case (Some s)
  with assms have "gomap_ok (bindings s)" by (auto intro: table_ok_session)
  with Some assms show ?thesis by (auto simp: Bind_def bound_session intro: bind_in_ok)
qed

lemma Record_ok [simp]:
  "table_ok (RecordDropped t) \<longleftrightarrow> table_ok t" "table_ok (RecordRelayed k t) \<longleftrightarrow> table_ok t"
  by (simp_all add: RecordDropped_def RecordRelayed_def table_ok_def maps_ok_def index_ok_def
      capacity_ok_def bound_def)

lemma bound_Record [simp]: "bound (RecordDropped t) = bound t" "bound (RecordRelayed k t) = bound t"
  by (simp_all add: RecordDropped_def RecordRelayed_def bound_def fun_eq_iff)

lemma NewSessionTable_ok: "table_ok (NewSessionTable idle maxs)"
  by (simp add: NewSessionTable_def table_ok_def maps_ok_def index_ok_def capacity_ok_def)

lemma EvictIdle_session:
  assumes "table_ok t"
  shows "map_of (sessions (fst (EvictIdle now t))) n =
     (case map_of (sessions t) n of
        None \<Rightarrow> None
      | Some s \<Rightarrow>
          (let m = live now (idleTimeout t) (bindings s) in if m = [] then None else Some (s\<lparr>bindings := m\<rparr>)))"
  using assms unfolding EvictIdle_def
  by (subst evict_sessions_session)
    (auto simp: table_ok_def maps_ok_def session_bindings_ok_def split: option.splits)

lemma bound_EvictIdle:
  assumes "table_ok t"
  shows "bound (fst (EvictIdle now t)) n d =
     (case bound t n d of None \<Rightarrow> None | Some b \<Rightarrow> if stale now (idleTimeout t) b then None else Some b)"
proof (cases "map_of (sessions t) n")
  case None
  then show ?thesis by (simp add: bound_def EvictIdle_session [OF assms])
next
  case (Some s)
  with assms have ok: "gomap_ok (bindings s)" by (auto intro: table_ok_session)
  have "map_of (live now (idleTimeout t) (bindings s)) d = None"
    if "live now (idleTimeout t) (bindings s) = []" using that by simp
  with Some get_live [OF ok, of now "idleTimeout t" d] show ?thesis
    by (auto simp: bound_def EvictIdle_session [OF assms] Let_def split: option.splits if_splits)
qed

lemma EvictIdle_ok:
  assumes "table_ok t"
  shows "table_ok (fst (EvictIdle now t))"
proof -
  let ?t = "fst (EvictIdle now t)"
  from assms have ok: "session_bindings_ok (sessions t)" "gomap_ok (sessions t)" "gomap_ok (addrIndex t)"
    by (auto simp: table_ok_def maps_ok_def session_bindings_ok_def)
  have maps: "gomap_ok (sessions ?t)" "gomap_ok (addrIndex ?t)"
    using evict_sessions_ok [OF ok] by (simp_all add: EvictIdle_def)
  have "gomap_ok (bindings s)" if "(n, s) \<in> set (sessions ?t)" for n s
  proof -
    have n: "map_of (sessions ?t) n = Some s" using maps(1) that by (rule map_of_is_SomeI)
    show ?thesis
    proof (cases "map_of (sessions t) n")
      case None
      with n show ?thesis by (simp add: EvictIdle_session [OF assms])
    next
      case (Some s0)
      with n have "s = s0\<lparr>bindings := live now (idleTimeout t) (bindings s0)\<rparr>"
        by (simp add: EvictIdle_session [OF assms] Let_def split: if_splits)
      with table_ok_session [OF assms Some] show ?thesis by (simp add: live_def)
    qed
  qed
  with maps have "maps_ok ?t" by (auto simp: maps_ok_def)
  moreover have "index_ok ?t"
    unfolding index_ok_def
  proof (intro allI impI)
    fix a ab
    assume "map_of (addrIndex ?t) a = Some ab"
    then have old: "map_of (addrIndex t) a = Some ab"
      and fresh: "\<not> (\<exists>(n, s) \<in> set (sessions t). \<exists>(d, b) \<in> set (bindings s).
           stale now (idleTimeout t) b \<and> UDPAddr_String (bAddr b) = a)"
      by (auto simp: EvictIdle_def evict_sessions_index [OF ok(1)] split: if_splits)
    from old assms obtain b where b: "bound t (abNetworkID ab) (abDeviceID ab) = Some b"
      "UDPAddr_String (bAddr b) = a"
      by (auto simp: table_ok_def dest: index_okD)
    then obtain s where s: "(abNetworkID ab, s) \<in> set (sessions t)" "(abDeviceID ab, b) \<in> set (bindings s)"
      by (auto simp: bound_def split: option.splits dest!: map_of_SomeD)
    with fresh b(2) have "\<not> stale now (idleTimeout t) b" by blast
    with b show "\<exists>b. bound ?t (abNetworkID ab) (abDeviceID ab) = Some b \<and> UDPAddr_String (bAddr b) = a"
      by (simp add: bound_EvictIdle [OF assms])
  qed
  moreover have "length (sessions ?t) \<le> length (sessions t)"
    using evict_sessions_count [OF ok(1,2,2,3), of now 0]
    by (auto simp: EvictIdle_def map_of_eq_None_iff)
  then have "capacity_ok ?t"
    using assms evict_sessions_fields(2) [OF ok(1)]
    by (auto simp: capacity_ok_def table_ok_def EvictIdle_def)
  ultimately show ?thesis by (simp add: table_ok_def)
qed

section \<open>Runs of the table\<close>

text \<open>
  The reader goroutine and the janitor call the methods in any order; the mutex makes each call
  atomic, so an execution is a sequence of calls.
\<close>

datatype table_call =
    CallBind gotime string uuid udp_addr gotime
  | CallRoute gotime string uuid uuid
  | CallTouch gotime string uuid
  | CallRelayed nat
  | CallDropped
  | CallEvict gotime

fun table_step :: "session_table \<Rightarrow> table_call \<Rightarrow> session_table" where
  "table_step t (CallBind now n d addr e) = snd (Bind now n d addr e t)"
| "table_step t (CallRoute now n s p) = snd (Route now n s p t)"
| "table_step t (CallTouch now n d) = Touch now n d t"
| "table_step t (CallRelayed k) = RecordRelayed k t"
| "table_step t CallDropped = RecordDropped t"
| "table_step t (CallEvict now) = fst (EvictIdle now t)"

definition initial_table :: "session_table \<Rightarrow> bool" where
  "initial_table t \<longleftrightarrow> (\<exists>idle maxs. t = NewSessionTable idle maxs)"

interpretation table: invariant_system initial_table table_step table_ok
proof (unfold_locales, goal_cases)
  case (1 t)
  then show ?case by (auto simp: initial_table_def NewSessionTable_ok)
next
  case (2 t c)
  then show ?case by (cases c) (simp_all add: Bind_ok Route_ok Touch_ok EvictIdle_ok)
qed

lemma initial_table_New [simp]: "initial_table (NewSessionTable idle maxs)"
  by (auto simp: initial_table_def)

section \<open>Properties of the session table\<close>

text \<open>
  C6. Whatever sequence of calls the reader goroutine and the janitor make on a new table, every
  entry of the address index names a device that is bound, in that network, at exactly that
  address, and the number of sessions stays within the configured maximum.
\<close>

theorem session_table_invariant:
  "index_ok (run table_step (NewSessionTable idle maxs) calls) \<and>
   capacity_ok (run table_step (NewSessionTable idle maxs) calls)"
  using table.inv_from_init [OF initial_table_New] by (simp add: table_ok_def)


text \<open>
  C9. \<open>EvictIdle\<close> removes exactly the bindings that are idle beyond the timeout or expired, leaves
  no session without a binding, and returns the number of sessions it removed.
\<close>

theorem evict_idle_exact:
  assumes "table_ok t"
  shows "bound (fst (EvictIdle now t)) n d =
           (case bound t n d of
              None \<Rightarrow> None
            | Some b \<Rightarrow> if stale now (idleTimeout t) b then None else Some b) \<and>
         (\<forall>s. map_of (sessions (fst (EvictIdle now t))) n = Some s \<longrightarrow> bindings s \<noteq> []) \<and>
         length (sessions (fst (EvictIdle now t))) + snd (EvictIdle now t) = length (sessions t)"
proof -
  have "session_bindings_ok (sessions t)" "gomap_ok (sessions t)" "gomap_ok (addrIndex t)"
    using assms by (auto simp: table_ok_def maps_ok_def session_bindings_ok_def)
  then have "length (sessions (fst (EvictIdle now t))) + snd (EvictIdle now t) = length (sessions t)"
    using evict_sessions_count [of "sessions t" t now 0] by (simp add: EvictIdle_def map_of_eq_None_iff)
  moreover have "bindings s \<noteq> []" if "map_of (sessions (fst (EvictIdle now t))) n = Some s" for s
    using that by (auto simp: EvictIdle_session [OF assms] Let_def split: option.splits if_splits)
  ultimately show ?thesis by (simp add: bound_EvictIdle [OF assms])
qed

text \<open>Concrete addresses and devices for the witnesses.\<close>

definition ex_addr :: "nat \<Rightarrow> udp_addr" where
  "ex_addr p = \<lparr>IP = [10, 0, 0, 1], Port = p, Zone = []\<rparr>"

definition ex_dev :: "byte \<Rightarrow> uuid" where
  "ex_dev k = uuid_of_bytes [k]"

definition ex_table :: session_table where
  "ex_table = run table_step (NewSessionTable 0 10)
     [CallBind 100 ''net'' (ex_dev 1) (ex_addr 7) 900, CallBind 200 ''net'' (ex_dev 2) (ex_addr 7) 0]"

lemma ex_table_ok: "table_ok ex_table"
  unfolding ex_table_def by (rule table.inv_from_init) simp

theorem evict_idle_exact_witness:
  "table_ok ex_table \<and>
   bound (fst (EvictIdle 1000 ex_table)) ''net'' (ex_dev 1) = None \<and>
   bound (fst (EvictIdle 1000 ex_table)) ''net'' (ex_dev 2) \<noteq> None"
proof -
  have "(case bound ex_table ''net'' (ex_dev 1) of None \<Rightarrow> None
         | Some b \<Rightarrow> if stale 1000 (idleTimeout ex_table) b then None else Some b) = None"
    by code_simp
  moreover have "(case bound ex_table ''net'' (ex_dev 2) of None \<Rightarrow> None
         | Some b \<Rightarrow> if stale 1000 (idleTimeout ex_table) b then None else Some b) \<noteq> None"
    by code_simp
  ultimately show ?thesis
    using ex_table_ok evict_idle_exact [OF ex_table_ok, of 1000 "''net''" "ex_dev 1"]
      evict_idle_exact [OF ex_table_ok, of 1000 "''net''" "ex_dev 2"]
    by (simp only:) simp
qed

text \<open>
  When a device binds from a new address, \<open>Bind\<close> deletes the index entry of its previous
  address without checking whose entry it is. If another device has meanwhile bound from that
  address, that device loses its index entry although its binding stays: its next packets are
  answered with \<open>not bound\<close>.
\<close>

theorem rebind_unindexes_other_device:
  assumes "table_ok t" "Lookup x t = Some (n, other)" "bound t n d = Some b"
    and "UDPAddr_String (bAddr b) = UDPAddr_String x" "other \<noteq> d"
    and "UDPAddr_String y \<noteq> UDPAddr_String x" "Bind now n d y e t = (Inr (), t')"
  shows "Lookup x t' = None \<and>
         (\<exists>b'. bound t' n other = Some b' \<and> UDPAddr_String (bAddr b') = UDPAddr_String x)"
proof -
  from assms(3) obtain s where s: "map_of (sessions t) n = Some s" "map_of (bindings s) d = Some b"
    by (auto simp: bound_def split: option.splits)
  with assms(7) have "t' = bind_in now n d y e s t" by (simp add: Bind_def)
  with s assms(4,6) have "Lookup x t' = None"
    by (simp add: Lookup_def bind_in_def Let_def go_map_simps)
  moreover from assms(2) obtain ab where "map_of (addrIndex t) (UDPAddr_String x) = Some ab"
    "abNetworkID ab = n" "abDeviceID ab = other"
    by (auto simp: Lookup_def split: option.splits)
  with assms(1) obtain b' where "bound t n other = Some b'" "UDPAddr_String (bAddr b') = UDPAddr_String x"
    by (auto simp: table_ok_def dest: index_okD)
  ultimately show ?thesis
    using assms(5) by (auto simp: bound_Bind [OF assms(7)])
qed

theorem rebind_unindexes_other_device_witness:
  "Lookup (ex_addr 7) ex_table = Some (''net'', ex_dev 2) \<and>
   Lookup (ex_addr 7) (snd (Bind 300 ''net'' (ex_dev 1) (ex_addr 9) 900 ex_table)) = None"
proof -
  let ?b = "\<lparr>bDeviceID = ex_dev 1, bAddr = ex_addr 7, bLastSeen = 100, bExpiresAt = 900\<rparr>"
  let ?r = "Bind 300 ''net'' (ex_dev 1) (ex_addr 9) 900 ex_table"
  have l: "Lookup (ex_addr 7) ex_table = Some (''net'', ex_dev 2)" by code_simp
  have b: "bound ex_table ''net'' (ex_dev 1) = Some ?b" by code_simp
  have ne: "ex_dev 2 \<noteq> ex_dev 1" by (simp add: ex_dev_def)
  have y: "UDPAddr_String (ex_addr 9) \<noteq> UDPAddr_String (ex_addr 7)" by code_simp
  have "fst ?r = Inr ()" by code_simp
  then have r: "?r = (Inr (), snd ?r)" by (simp add: prod_eq_iff)
  have "UDPAddr_String (bAddr ?b) = UDPAddr_String (ex_addr 7)" by simp
  from rebind_unindexes_other_device [OF ex_table_ok l b this ne y r] l show ?thesis by blast
qed

end
