(* ===== verification/Jwt.thy ===== *)
theory Jwt
  imports Prelude
begin

text \<open>
  The interface to \<open>github.com/golang-jwt/jwt/v5\<close>, which signs and parses every token of the
  system and is not part of the repository. The models take its two entry points as arguments:

  \<^item> \<open>sign method key claims\<close> is \<open>jwt.NewWithClaims(method, claims).SignedString(key)\<close>;
  \<^item> \<open>parse keyfunc now raw\<close> is \<open>jwt.ParseWithClaims(raw, &claims, keyfunc)\<close> at the instant \<open>now\<close>:
    \<open>None\<close> when it returns an error, otherwise the claims and the field \<open>Valid\<close> of the token.

  What a property relies on is a hypothesis over them (\<open>jwt_accepts\<close>, \<open>jwt_keyed\<close>). The key function
  is the part the repository writes itself, once per manager: it returns the secret for an HMAC
  method and an error for every other one.
\<close>

datatype signing_method = SigningMethodHMAC string | OtherMethod string

definition SigningMethodHS256 :: signing_method where
  "SigningMethodHS256 = SigningMethodHMAC ''HS256''"

type_synonym keyfunc = "signing_method \<Rightarrow> bytes option"
type_synonym 'c jwt_parse = "keyfunc \<Rightarrow> gotime \<Rightarrow> string \<Rightarrow> ('c \<times> bool) option"
type_synonym 'c jwt_sign = "signing_method \<Rightarrow> bytes \<Rightarrow> 'c \<Rightarrow> string"

record registered_claims =
  Issuer :: string
  Subject :: string
  rcID :: string
  rcIssuedAt :: "gotime option"
  rcExpiresAt :: "gotime option"

text \<open>\<open>jwt.NewNumericDate\<close> truncates to whole seconds.\<close>

definition NewNumericDate :: "gotime \<Rightarrow> gotime" where
  "NewNumericDate t = t - t mod Second"

definition hmac_key :: "bytes \<Rightarrow> keyfunc" where
  "hmac_key secret m = (case m of SigningMethodHMAC _ \<Rightarrow> Some secret | OtherMethod _ \<Rightarrow> None)"

lemma hmac_key_simps [simp]:
  "hmac_key secret SigningMethodHS256 = Some secret"
  "hmac_key secret (OtherMethod a) = None"
  by (simp_all add: hmac_key_def SigningMethodHS256_def)

lemma NewNumericDate_bounds: "NewNumericDate t \<le> t \<and> t - Second < NewNumericDate t"
  by (simp add: NewNumericDate_def)

text \<open>
  The documented behaviour the properties use. A token signed with the key the key function returns
  parses to its claims, and is valid before its expiry. A token the parser accepts was signed with
  the key the key function returned, and has not expired.
\<close>

definition jwt_accepts ::
  "('c \<Rightarrow> registered_claims) \<Rightarrow> 'c jwt_parse \<Rightarrow> 'c jwt_sign \<Rightarrow> 'c \<Rightarrow> bool" where
  "jwt_accepts reg parse sign c \<longleftrightarrow>
     (\<forall>keyfunc key now m. keyfunc m = Some key \<longrightarrow> (\<forall>e. rcExpiresAt (reg c) = Some e \<longrightarrow> now < e) \<longrightarrow>
        parse keyfunc now (sign m key c) = Some (c, True))"

definition jwt_keyed :: "('c \<Rightarrow> registered_claims) \<Rightarrow> 'c jwt_parse \<Rightarrow> 'c jwt_sign \<Rightarrow> bool" where
  "jwt_keyed reg parse sign \<longleftrightarrow>
     (\<forall>keyfunc now raw c. parse keyfunc now raw = Some (c, True) \<longrightarrow>
        (\<exists>m key. keyfunc m = Some key \<and> raw = sign m key c) \<and>
        (\<forall>e. rcExpiresAt (reg c) = Some e \<longrightarrow> now < e))"

lemma jwt_acceptsD:
  "jwt_accepts reg parse sign c \<Longrightarrow> keyfunc m = Some key \<Longrightarrow>
   (\<And>e. rcExpiresAt (reg c) = Some e \<Longrightarrow> now < e) \<Longrightarrow>
   parse keyfunc now (sign m key c) = Some (c, True)"
  by (simp add: jwt_accepts_def)

lemma jwt_keyedD:
  assumes "jwt_keyed reg parse sign" "parse keyfunc now raw = Some (c, True)"
  obtains m key where "keyfunc m = Some key" "raw = sign m key c"
    and "\<And>e. rcExpiresAt (reg c) = Some e \<Longrightarrow> now < e"
  using assms unfolding jwt_keyed_def by blast

section \<open>An instance\<close>

text \<open>A token format with the documented behaviour for tokens that carry the claims \<open>c\<close>: the token
  spells out the method and the key.\<close>

fun ex_encode :: "signing_method \<Rightarrow> bytes \<Rightarrow> string" where
  "ex_encode (SigningMethodHMAC a) key = CHR ''H'' # replicate (length a) CHR ''x'' @ ''.'' @ a @ string_of_bytes key"
| "ex_encode (OtherMethod a) key = CHR ''O'' # replicate (length a) CHR ''x'' @ ''.'' @ a @ string_of_bytes key"

definition ex_decode :: "string \<Rightarrow> signing_method \<times> bytes" where
  "ex_decode raw =
     (let body = tl raw; n = length (takeWhile (\<lambda>ch. ch = CHR ''x'') body); rest = drop (Suc n) body;
          a = take n rest; key = bytes_of_string (drop n rest)
      in (if hd raw = CHR ''H'' then SigningMethodHMAC a else OtherMethod a, key))"

lemma ex_decode_encode: "ex_decode (ex_encode m key) = (m, key)"
  by (cases m) (simp_all add: ex_decode_def Let_def takeWhile_append)

definition ex_jwt_sign :: "'c jwt_sign" where
  "ex_jwt_sign m key c = ex_encode m key"

definition ex_jwt_parse :: "('c \<Rightarrow> registered_claims) \<Rightarrow> 'c \<Rightarrow> 'c jwt_parse" where
  "ex_jwt_parse reg c kf now raw =
     (case ex_decode raw of (m, key) \<Rightarrow>
        if ex_encode m key = raw \<and> kf m = Some key \<and>
           (case rcExpiresAt (reg c) of None \<Rightarrow> True | Some e \<Rightarrow> now < e)
        then Some (c, True) else None)"

lemma ex_jwt_accepts: "jwt_accepts reg (ex_jwt_parse reg c) ex_jwt_sign c"
  by (auto simp: jwt_accepts_def ex_jwt_parse_def ex_jwt_sign_def ex_decode_encode split: option.split)

lemma ex_jwt_keyed: "jwt_keyed reg (ex_jwt_parse reg c) ex_jwt_sign"
  unfolding jwt_keyed_def ex_jwt_parse_def ex_jwt_sign_def
  by (auto split: prod.splits if_splits option.splits)

end
