(* ===== verification/Relay_Server.thy ===== *)
theory Relay_Server
  imports Relay_Protocol Relay_Sessions Jwt
begin

text \<open>
  The relay daemon's packet pump, \<open>relay/udprelay/server.go\<close>, and the verifier of its session
  tokens, \<open>relay/token/token.go\<close>. A handler is a function from the session table to the datagrams it
  writes and the new table. \<open>Serve\<close> runs one handler at a time, but the janitor runs in a goroutine
  of its own, so it may evict between two calls a handler makes on the table: the handlers take the
  list of janitor ticks that fall there. Where a handler reads the clock twice (the token parser
  and the table), both readings are arguments.

  The parser of the JWT library and \<open>uuid.UUID.String\<close> are arguments of the model.
\<close>

section \<open>Session tokens\<close>

record relay_claims =
  rclRegistered :: registered_claims
  rclDeviceID :: string
  rclRelayID :: string
  rclNetworkID :: string

record verifier =
  vsecret :: bytes
  vrelayID :: string

datatype token_error = ErrInvalid

definition NewVerifier :: "string \<Rightarrow> string \<Rightarrow> verifier" where
  "NewVerifier secret relayID = \<lparr>vsecret = bytes_of_string secret, vrelayID = relayID\<rparr>"

definition SetRelayID :: "verifier \<Rightarrow> string \<Rightarrow> verifier" where
  "SetRelayID v ident = v\<lparr>vrelayID := ident\<rparr>"

definition Verify ::
  "relay_claims jwt_parse \<Rightarrow> verifier \<Rightarrow> gotime \<Rightarrow> string \<Rightarrow> token_error + relay_claims" where
  "Verify parse v now raw =
     (if raw = [] then Inl ErrInvalid
      else (case parse (hmac_key (vsecret v)) now raw of
              None \<Rightarrow> Inl ErrInvalid
            | Some (claims, valid) \<Rightarrow>
                if \<not> valid then Inl ErrInvalid
                else if rclDeviceID claims = [] \<or> rclNetworkID claims = [] then Inl ErrInvalid
                else if vrelayID v \<noteq> [] \<and> rclRelayID claims \<noteq> vrelayID v then Inl ErrInvalid
                else Inr claims))"

definition SessionKey :: "relay_claims \<Rightarrow> string" where
  "SessionKey c = rclNetworkID c"

definition claims_ExpiresAt :: "relay_claims \<Rightarrow> gotime" where
  "claims_ExpiresAt c = (case rcExpiresAt (rclRegistered c) of None \<Rightarrow> 0 | Some e \<Rightarrow> e)"

section \<open>Handlers\<close>

type_synonym datagram = "bytes \<times> udp_addr"

definition session_error_string :: "session_error \<Rightarrow> string" where
  "session_error_string e =
     (case e of ErrTooManySessions m \<Rightarrow>
        ''relay: session capacity reached (max '' @
        (if m < 0 then ''-'' else []) @ itoa (nat \<bar>m\<bar>) @ '')'')"

definition janitor :: "gotime list \<Rightarrow> session_table \<Rightarrow> session_table" where
  "janitor ticks t = foldl (\<lambda>t now. fst (EvictIdle now t)) t ticks"

definition reply :: "udp_addr \<Rightarrow> bytes \<Rightarrow> datagram list" where
  "reply addr frame = [(frame, addr)]"

text \<open>The environment of a handler call: the token parser's and the table's reading of the clock,
  the janitor ticks between the handler's calls on the table, and whether a socket write succeeds.\<close>

record call_env =
  tokenNow :: gotime
  tableNow :: gotime
  ticks :: "gotime list"
  writeOk :: bool

definition handleBind ::
  "relay_claims jwt_parse \<Rightarrow> (uuid \<Rightarrow> string) \<Rightarrow> verifier \<Rightarrow> call_env \<Rightarrow> bytes \<Rightarrow> udp_addr \<Rightarrow>
     session_table \<Rightarrow> datagram list \<times> session_table" where
  "handleBind parse uuid_String v env frame addr t =
     (case DecodeBind frame of
        Inl _ \<Rightarrow> ([], RecordDropped t)
      | Inr (deviceID, rawToken) \<Rightarrow>
          (case Verify parse v (tokenNow env) rawToken of
             Inl _ \<Rightarrow> (reply addr (EncodeError ''unauthorized''), RecordDropped t)
           | Inr claims \<Rightarrow>
               if rclDeviceID claims \<noteq> uuid_String deviceID
               then (reply addr (EncodeError ''device mismatch''), RecordDropped t)
               else (case Bind (tableNow env) (SessionKey claims) deviceID addr (claims_ExpiresAt claims) t of
                       (Inl err, t') \<Rightarrow> (reply addr (EncodeError (session_error_string err)), RecordDropped t')
                     | (Inr _, t') \<Rightarrow> (reply addr EncodeBindAck, t'))))"

definition handleData ::
  "call_env \<Rightarrow> bytes \<Rightarrow> udp_addr \<Rightarrow> session_table \<Rightarrow> datagram list \<times> session_table" where
  "handleData env frame addr t =
     (case Lookup addr t of
        None \<Rightarrow> (reply addr (EncodeError ''not bound''), RecordDropped t)
      | Some (networkID, senderID) \<Rightarrow>
          (case DecodeData frame of
             Inl _ \<Rightarrow> ([], RecordDropped t)
           | Inr (peerID, _) \<Rightarrow>
               (case Route (tableNow env) networkID senderID peerID (janitor (ticks env) t) of
                  (None, t') \<Rightarrow> ([], RecordDropped t')
                | (Some dest, t') \<Rightarrow>
                    let frame' = rewriteDataPeer frame senderID
                    in if writeOk env then ([(frame', dest)], RecordRelayed (length frame') t')
                       else ([], RecordDropped t'))))"

definition handleKeepalive :: "call_env \<Rightarrow> udp_addr \<Rightarrow> session_table \<Rightarrow> datagram list \<times> session_table" where
  "handleKeepalive env addr t =
     (case Lookup addr t of
        None \<Rightarrow> ([], RecordDropped t)
      | Some (networkID, deviceID) \<Rightarrow> ([], Touch (tableNow env) networkID deviceID (janitor (ticks env) t)))"

definition handlePacket ::
  "relay_claims jwt_parse \<Rightarrow> (uuid \<Rightarrow> string) \<Rightarrow> verifier \<Rightarrow> call_env \<Rightarrow> bytes \<Rightarrow> udp_addr \<Rightarrow>
     session_table \<Rightarrow> datagram list \<times> session_table" where
  "handlePacket parse uuid_String v env frame addr t =
     (if frame ! 0 = FrameBind then handleBind parse uuid_String v env frame addr t
      else if frame ! 0 = FrameData then handleData env frame addr t
      else if frame ! 0 = FrameKeepalive then handleKeepalive env addr t
      else ([], RecordDropped t))"

text \<open>One turn of the daemon: a datagram of at most \<open>MaxPacketSize\<close> bytes, the rest of which the read
  truncates and whose empty case \<open>Serve\<close> skips, a janitor tick, or the re-scoping of the verifier.\<close>

datatype relay_event =
    Datagram bytes udp_addr call_env
  | Tick gotime
  | Rescope string

record relay_state =
  table :: session_table
  verif :: verifier
  sent :: "datagram list"

fun relay_step ::
  "relay_claims jwt_parse \<Rightarrow> (uuid \<Rightarrow> string) \<Rightarrow> relay_state \<Rightarrow> relay_event \<Rightarrow> relay_state" where
  "relay_step parse uuid_String s (Datagram packet addr env) =
     (let frame = take MaxPacketSize packet
      in if frame = [] then s
         else let (out, t) = handlePacket parse uuid_String (verif s) env frame addr (table s)
              in s\<lparr>table := t, sent := sent s @ out\<rparr>)"
| "relay_step parse uuid_String s (Tick now) = s\<lparr>table := fst (EvictIdle now (table s))\<rparr>"
| "relay_step parse uuid_String s (Rescope ident) = s\<lparr>verif := SetRelayID (verif s) ident\<rparr>"

definition relay_start :: "verifier \<Rightarrow> duration \<Rightarrow> int \<Rightarrow> relay_state" where
  "relay_start v idle maxs = \<lparr>table = NewSessionTable idle maxs, verif = v, sent = []\<rparr>"

section \<open>What the handlers keep\<close>

text \<open>\<open>inherits t t'\<close>: every binding of \<open>t'\<close> was one of \<open>t\<close> with the same address and expiry. All
  operations but \<open>Bind\<close> have it.\<close>

definition inherits :: "session_table \<Rightarrow> session_table \<Rightarrow> bool" where
  "inherits t t' \<longleftrightarrow>
     (\<forall>n d b'. bound t' n d = Some b' \<longrightarrow>
        (\<exists>b. bound t n d = Some b \<and> bAddr b = bAddr b' \<and> bExpiresAt b = bExpiresAt b'))"

lemma inherits_refl: "bound t' = bound t \<Longrightarrow> inherits t t'"
  by (auto simp: inherits_def)

lemma inherits_trans: "inherits t t' \<Longrightarrow> inherits t' t'' \<Longrightarrow> inherits t t''"
  by (fastforce simp: inherits_def)

lemma inherits_Record [simp]:
  "inherits t (RecordDropped t') = inherits t t'" "inherits t (RecordRelayed k t') = inherits t t'"
  by (simp_all add: inherits_def)

lemma inherits_EvictIdle: "table_ok t \<Longrightarrow> inherits t (fst (EvictIdle now t))"
  by (auto simp: inherits_def bound_EvictIdle split: option.splits if_splits)

lemma janitor_Nil [simp]: "janitor [] t = t"
  by (simp add: janitor_def)

lemma janitor_Cons [simp]: "janitor (now # js) t = janitor js (fst (EvictIdle now t))"
  by (simp add: janitor_def)

lemma janitor_ok: "table_ok t \<Longrightarrow> table_ok (janitor js t)"
  by (induction js arbitrary: t) (simp_all add: EvictIdle_ok)

lemma inherits_janitor: "table_ok t \<Longrightarrow> inherits t (janitor js t)"
proof (induction js arbitrary: t)
  case Nil
  show ?case by (simp add: inherits_refl)
next
  case (Cons now js)
  then show ?case
    using inherits_trans [OF inherits_EvictIdle Cons.IH [OF EvictIdle_ok]] by simp
qed

lemma Route_some:
  assumes "Route now n sender peer t = (Some dest, t')"
  obtains b p where "bound t n sender = Some b" "\<not> lapsed now b"
    and "bound t n peer = Some p" "\<not> lapsed now p" "bAddr p = dest"
proof -
  have "route_spec now n sender peer (bound t) = (Some dest, bound t')"
    using Route_refines [of now n sender peer t] by (simp add: assms)
  then show thesis
    by (auto simp: route_spec_def Let_def lapsed_def intro: that split: option.splits if_splits)
qed

lemma inherits_Route: "inherits t (snd (Route now n sender peer t))"
proof -
  have "bound (snd (Route now n sender peer t)) = snd (route_spec now n sender peer (bound t))"
    by (simp add: Route_refines)
  then show ?thesis
    by (auto simp: inherits_def route_spec_def Let_def split: option.splits if_splits)
qed

lemma inherits_Touch: "inherits t (Touch now n d t)"
  by (auto simp: inherits_def Touch_def Let_def bound_def go_map_simps split: option.splits if_splits)

lemma handleData_ok: "table_ok t \<Longrightarrow> table_ok (snd (handleData env frame addr t))"
  using Route_ok [OF janitor_ok]
  by (auto simp: handleData_def Let_def split: option.splits sum.splits prod.splits if_splits)
    (metis snd_conv)+

lemma handleKeepalive_ok: "table_ok t \<Longrightarrow> table_ok (snd (handleKeepalive env addr t))"
  by (auto simp: handleKeepalive_def Touch_ok janitor_ok split: option.splits)

lemma handleBind_ok: "table_ok t \<Longrightarrow> table_ok (snd (handleBind parse us v env frame addr t))"
  using Bind_ok [of t]
  by (auto simp: handleBind_def split: sum.splits prod.splits if_splits) (metis snd_conv)+

lemma handlePacket_ok: "table_ok t \<Longrightarrow> table_ok (snd (handlePacket parse us v env frame addr t))"
  by (simp add: handlePacket_def handleBind_ok handleData_ok handleKeepalive_ok)

interpretation relay: invariant_system
  "\<lambda>s. initial_table (table s)" "relay_step parse us" "\<lambda>s. table_ok (table s)" for parse us
proof (unfold_locales, goal_cases)
  case (1 s)
  then show ?case by (auto simp: initial_table_def NewSessionTable_ok)
next
  case (2 s e)
  then show ?case
    using handlePacket_ok [of "table s" parse us "verif s"]
    by (cases e) (auto simp: Let_def EvictIdle_ok split: prod.splits, metis snd_conv)
qed
lemma inherits_handleData: "table_ok t \<Longrightarrow> inherits t (snd (handleData env frame addr t))"
  using inherits_trans [OF inherits_janitor inherits_Route]
  by (auto simp: handleData_def Let_def inherits_refl split: option.splits sum.splits prod.splits if_splits)
    (metis snd_conv)+

lemma inherits_handleKeepalive: "table_ok t \<Longrightarrow> inherits t (snd (handleKeepalive env addr t))"
  using inherits_trans [OF inherits_janitor inherits_Touch]
  by (auto simp: handleKeepalive_def inherits_refl split: option.splits)

section \<open>Which bindings the tokens grant\<close>

text \<open>
  The grants of an event: the source address of a BIND whose token the verifier accepts for the
  device in its header, with the network and the expiry of the token. \<open>granted\<close> collects them over
  a history, each under the verifier in force when the frame arrived.
\<close>

type_synonym grant = "udp_addr \<times> string \<times> uuid \<times> gotime"

fun event_grants ::
  "relay_claims jwt_parse \<Rightarrow> (uuid \<Rightarrow> string) \<Rightarrow> verifier \<Rightarrow> relay_event \<Rightarrow> grant list" where
  "event_grants parse us v (Datagram packet addr env) =
     (case DecodeBind (take MaxPacketSize packet) of
        Inl _ \<Rightarrow> []
      | Inr (d, raw) \<Rightarrow>
          (case Verify parse v (tokenNow env) raw of
             Inl _ \<Rightarrow> []
           | Inr c \<Rightarrow> if rclDeviceID c = us d then [(addr, rclNetworkID c, d, claims_ExpiresAt c)] else []))"
| "event_grants parse us v (Tick now) = []"
| "event_grants parse us v (Rescope ident) = []"

definition granted ::
  "relay_claims jwt_parse \<Rightarrow> (uuid \<Rightarrow> string) \<Rightarrow> relay_state \<Rightarrow> relay_event list \<Rightarrow> grant \<Rightarrow> bool" where
  "granted parse us s es g \<longleftrightarrow>
     (\<exists>k < length es. g \<in> set (event_grants parse us (verif (run (relay_step parse us) s (take k es))) (es ! k)))"

lemma granted_Nil [simp]: "\<not> granted parse us s [] g"
  by (simp add: granted_def)

lemma granted_snoc:
  "granted parse us s (es @ [e]) g \<longleftrightarrow>
     granted parse us s es g \<or> g \<in> set (event_grants parse us (verif (run (relay_step parse us) s es)) e)"
  by (simp add: granted_def Ex_less_Suc nth_append disj_commute cong: conj_cong)

lemma handleBind_bound:
  assumes "bound (snd (handleBind parse us v env (take MaxPacketSize packet) addr t)) n d = Some b"
  shows "bound t n d = Some b \<or>
         (bAddr b, n, d, bExpiresAt b) \<in> set (event_grants parse us v (Datagram packet addr env))"
  using assms
  by (auto simp: handleBind_def SessionKey_def split: sum.splits prod.splits if_splits
      dest!: bound_Bind Bind_error)

lemma step_bound:
  assumes "table_ok (table s)" "bound (table (relay_step parse us s e)) n d = Some b'"
  shows "(\<exists>b. bound (table s) n d = Some b \<and> bAddr b = bAddr b' \<and> bExpiresAt b = bExpiresAt b') \<or>
         (bAddr b', n, d, bExpiresAt b') \<in> set (event_grants parse us (verif s) e)"
proof (cases e)
  case (Datagram packet addr env)
  let ?f = "take MaxPacketSize packet"
  let ?t = "snd (handlePacket parse us (verif s) env ?f addr (table s))"
  show ?thesis
  proof (cases "?f = []")
    case True
    with assms Datagram show ?thesis by auto
  next
    case False
    with assms(2) Datagram have b: "bound ?t n d = Some b'" by (auto simp: Let_def split: prod.splits)
    have "inherits (table s) ?t" if "?f ! 0 \<noteq> FrameBind"
      using that inherits_handleData [OF assms(1)] inherits_handleKeepalive [OF assms(1)]
      by (simp add: handlePacket_def inherits_refl)
    then show ?thesis
      using b Datagram handleBind_bound [of parse us "verif s" env packet addr "table s" n d b']
      by (cases "?f ! 0 = FrameBind") (auto simp: handlePacket_def inherits_def)
  qed
next
  case (Tick now)
  with assms inherits_EvictIdle [OF assms(1), of now] show ?thesis by (auto simp: inherits_def)
qed (use assms in auto)

lemma bound_granted:
  assumes "initial_table (table s)"
    and "bound (table (run (relay_step parse us) s es)) n d = Some b"
  shows "granted parse us s es (bAddr b, n, d, bExpiresAt b)"
  using assms(2)
proof (induction es arbitrary: b rule: rev_induct)
  case Nil
  with assms(1) show ?case by (auto simp: initial_table_def NewSessionTable_def bound_def)
next
  case (snoc e es)
  have "table_ok (table (run (relay_step parse us) s es))"
    using assms(1) by (rule relay.inv_from_init)
  from step_bound [OF this snoc.prems [unfolded run_snoc]] show ?case
    using snoc.IH by (auto simp: granted_snoc)
qed

lemma Lookup_bound:
  assumes "table_ok t" "Lookup addr t = Some (n, d)"
  obtains b where "bound t n d = Some b" "UDPAddr_String (bAddr b) = UDPAddr_String addr"
  using assms by (auto simp: table_ok_def Lookup_def dest: index_okD split: option.splits)

text \<open>What a DATA datagram that leaves the relay looks like, in terms of the table before the call.\<close>

lemma handlePacket_forward:
  assumes ok: "table_ok t"
    and out: "(f, dest) \<in> set (fst (handlePacket parse us v env frame addr t))" "f ! 0 = FrameData"
  obtains n sender peer payload b p where "frame = EncodeData peer payload" "f = EncodeData sender payload"
    and "bound t n sender = Some b" "UDPAddr_String (bAddr b) = UDPAddr_String addr"
    and "bExpiresAt b = 0 \<or> tableNow env \<le> bExpiresAt b"
    and "bound t n peer = Some p" "bAddr p = dest"
    and "bExpiresAt p = 0 \<or> tableNow env \<le> bExpiresAt p"
proof -
  have nb: "frame ! 0 \<noteq> FrameBind"
    using out by (auto simp: handlePacket_def handleBind_def reply_def EncodeError_def EncodeBindAck_def
        frame_types split: sum.splits prod.splits if_splits)
  with out have "(f, dest) \<in> set (fst (handleData env frame addr t))"
    by (auto simp: handlePacket_def handleKeepalive_def split: option.splits if_splits)
  with out(2) obtain n sender peer payload t' where
    l: "Lookup addr t = Some (n, sender)" and d: "DecodeData frame = Inr (peer, payload)"
    and r: "Route (tableNow env) n sender peer (janitor (ticks env) t) = (Some dest, t')"
    and f: "f = rewriteDataPeer frame sender"
    by (auto simp: handleData_def Let_def reply_def EncodeError_def frame_types
        split: option.splits sum.splits prod.splits if_splits)
  from d have fr: "frame = EncodeData peer payload"
    using data.accepts_iff [of frame "(peer, payload)"] by simp
  from ok l obtain b0 where b0: "bound t n sender = Some b0" "UDPAddr_String (bAddr b0) = UDPAddr_String addr"
    by (rule Lookup_bound)
  from r obtain b p where "bound (janitor (ticks env) t) n sender = Some b" "\<not> lapsed (tableNow env) b"
    and "bound (janitor (ticks env) t) n peer = Some p" "\<not> lapsed (tableNow env) p" "bAddr p = dest"
    by (rule Route_some)
  with inherits_janitor [OF ok, of "ticks env"] obtain b1 p1 where
    "bound t n sender = Some b1" "bExpiresAt b1 = bExpiresAt b" "\<not> lapsed (tableNow env) b"
    "bound t n peer = Some p1" "bExpiresAt p1 = bExpiresAt p" "bAddr p1 = dest" "\<not> lapsed (tableNow env) p"
    unfolding inherits_def by metis
  with b0 fr f that show thesis
    by (auto simp: rewriteDataPeer_EncodeData lapsed_def time_IsZero_def)
qed

section \<open>Properties of the relay\<close>

text \<open>
  C1. In every history of the relay, a DATA datagram it sends is a DATA datagram it received, with
  the payload unchanged and the peer field rewritten to the sender; the sender's and the receiver's
  address have both presented, earlier in the history, a token the verifier accepted, for the same
  network and for the device the frame names; and neither token has expired when the frame is
  forwarded.
\<close>

theorem relay_forwards_only_authorised:
  assumes "s = run (relay_step parse us) (relay_start v idle maxs) es"
    and "(f, dest) \<in> set (fst (handlePacket parse us (verif s) env (take MaxPacketSize packet) addr (table s)))"
    and "f ! 0 = FrameData"
  shows "\<exists>n sender peer payload src e1 e2.
           take MaxPacketSize packet = EncodeData peer payload \<and> f = EncodeData sender payload \<and>
           granted parse us (relay_start v idle maxs) es (src, n, sender, e1) \<and> UDPAddr_String src = UDPAddr_String addr \<and>
           granted parse us (relay_start v idle maxs) es (dest, n, peer, e2) \<and>
           (e1 = 0 \<or> tableNow env \<le> e1) \<and> (e2 = 0 \<or> tableNow env \<le> e2)"
proof -
  have init: "initial_table (table (relay_start v idle maxs))" by (simp add: relay_start_def)
  then have ok: "table_ok (table s)" unfolding assms(1) by (rule relay.inv_from_init)
  from ok assms(2,3) obtain n sender peer payload b p where
    "take MaxPacketSize packet = EncodeData peer payload" "f = EncodeData sender payload"
    "UDPAddr_String (bAddr b) = UDPAddr_String addr" "bAddr p = dest"
    "bExpiresAt b = 0 \<or> tableNow env \<le> bExpiresAt b" "bExpiresAt p = 0 \<or> tableNow env \<le> bExpiresAt p"
    and b: "bound (table s) n sender = Some b" and p: "bound (table s) n peer = Some p"
    by (rule handlePacket_forward)
  then show ?thesis
    using bound_granted [OF init b [unfolded assms(1)]] bound_granted [OF init p [unfolded assms(1)]]
    by blast
qed

text \<open>A parser for the witnesses: a token is the one-character name of the device it is for.\<close>

definition ex_uuid_String :: "uuid \<Rightarrow> string" where
  "ex_uuid_String u = map char_of_byte (uuid_bytes u)"

definition ex_relay_claims :: "uuid \<Rightarrow> relay_claims" where
  "ex_relay_claims d =
     \<lparr>rclRegistered = \<lparr>Issuer = [], Subject = [], rcID = [], rcIssuedAt = None, rcExpiresAt = Some 900\<rparr>,
      rclDeviceID = ex_uuid_String d, rclRelayID = ''r'', rclNetworkID = ''net''\<rparr>"

definition ex_relay_parse :: "relay_claims jwt_parse" where
  "ex_relay_parse keyfunc now raw =
     (if keyfunc SigningMethodHS256 = Some [7]
      then Some (ex_relay_claims (ex_dev (byte_of_char (hd raw))), now < 900) else None)"

definition ex_env :: "gotime \<Rightarrow> call_env" where
  "ex_env now = \<lparr>tokenNow = now, tableNow = now, ticks = [now], writeOk = True\<rparr>"

definition ex_verifier :: verifier where
  "ex_verifier = \<lparr>vsecret = [7], vrelayID = ''r''\<rparr>"

definition ex_history :: "relay_event list" where
  "ex_history =
     [Datagram (EncodeBind (ex_dev 65) ''A'') (ex_addr 7) (ex_env 100),
      Datagram (EncodeBind (ex_dev 66) ''B'') (ex_addr 9) (ex_env 200)]"

definition ex_state :: relay_state where
  "ex_state = run (relay_step ex_relay_parse ex_uuid_String) (relay_start ex_verifier 0 10) ex_history"

theorem relay_forwards_only_authorised_witness:
  "\<exists>n src e. granted ex_relay_parse ex_uuid_String (relay_start ex_verifier 0 10) ex_history (src, n, ex_dev 65, e) \<and>
     UDPAddr_String src = UDPAddr_String (ex_addr 7)"
proof -
  have out: "(EncodeData (ex_dev 65) [1, 2, 3], ex_addr 9) \<in> set (fst (handlePacket ex_relay_parse ex_uuid_String
      (verif ex_state) (ex_env 300) (take MaxPacketSize (EncodeData (ex_dev 66) [1, 2, 3])) (ex_addr 7)
      (table ex_state)))"
    by code_simp
  have f: "EncodeData (ex_dev 65) [1, 2, 3] ! 0 = FrameData" by (simp add: EncodeData_def)
  have inj: "EncodeData d p = EncodeData e q \<longleftrightarrow> d = e \<and> p = q" for d e p q
    using data.enc_inject [of "(d, p)" "(e, q)"] by simp
  from relay_forwards_only_authorised [OF ex_state_def out f] show ?thesis
    by (auto simp: inj)
qed
subsection \<open>Counters\<close>

definition relayed_frames :: "datagram list \<Rightarrow> bytes list" where
  "relayed_frames out = filter (\<lambda>f. f ! 0 = FrameData) (map fst out)"

definition relayed_counters :: "session_table \<Rightarrow> 64 word \<times> 64 word" where
  "relayed_counters t = (bytesRelayed t, packetsRelayed t)"

lemma counters_Record [simp]:
  "relayed_counters (RecordDropped t) = relayed_counters t"
  "relayed_counters (RecordRelayed k t) =
     (fst (relayed_counters t) + word_of_nat k, snd (relayed_counters t) + 1)"
  by (simp_all add: relayed_counters_def RecordDropped_def RecordRelayed_def)

lemma counters_Bind: "relayed_counters (snd (Bind now n d addr e t)) = relayed_counters t"
  by (simp add: Bind_def bind_in_def Let_def relayed_counters_def split: option.split)

lemma counters_Route: "relayed_counters (snd (Route now n s p t)) = relayed_counters t"
  by (simp add: Route_def drop_binding_def Let_def relayed_counters_def split: option.split)

lemma counters_Touch: "relayed_counters (Touch now n d t) = relayed_counters t"
  by (simp add: Touch_def Let_def relayed_counters_def split: option.split)

lemma counters_evict_sessions:
  "session_bindings_ok ss \<Longrightarrow> relayed_counters (fst (evict_sessions now ss (t, k))) = relayed_counters t"
proof (induction ss arbitrary: t k)
  case Nil
  then show ?case by simp
next
  case (Cons x ss)
  then show ?case
    by (cases x) (simp add: evict_sessions_Cons relayed_counters_def del: evict_sessions.simps(2))
qed

lemma counters_EvictIdle: "table_ok t \<Longrightarrow> relayed_counters (fst (EvictIdle now t)) = relayed_counters t"
  by (simp add: EvictIdle_def counters_evict_sessions session_bindings_ok_def table_ok_def maps_ok_def)

lemma counters_janitor: "table_ok t \<Longrightarrow> relayed_counters (janitor js t) = relayed_counters t"
  by (induction js arbitrary: t) (simp_all add: counters_EvictIdle EvictIdle_ok)

lemma not_data_frames [simp]:
  "EncodeError r ! 0 \<noteq> FrameData" "EncodeBindAck ! 0 \<noteq> FrameData" "EncodeData d p ! 0 = FrameData"
  by (simp_all add: EncodeError_def EncodeBindAck_def EncodeData_def frame_types)

lemma relayed_frames_simps [simp]:
  "relayed_frames [] = []"
  "relayed_frames (xs @ ys) = relayed_frames xs @ relayed_frames ys"
  "relayed_frames (reply addr (EncodeError r)) = []"
  "relayed_frames (reply addr EncodeBindAck) = []"
  by (simp_all add: relayed_frames_def reply_def)

definition counted :: "bytes list \<Rightarrow> 64 word \<times> 64 word" where
  "counted fs = (word_of_nat (sum_list (map length fs)), word_of_nat (length fs))"

lemma counters_handleBind:
  "relayed_counters (snd (handleBind parse us v env frame addr t)) = relayed_counters t"
  "relayed_frames (fst (handleBind parse us v env frame addr t)) = []"
  using counters_Bind
  by (auto simp: handleBind_def split: sum.split prod.split) (metis snd_conv)+

lemma counters_handleData:
  assumes "table_ok t"
  shows "relayed_counters (snd (handleData env frame addr t)) =
           (fst (relayed_counters t) + fst (counted (relayed_frames (fst (handleData env frame addr t)))),
            snd (relayed_counters t) + snd (counted (relayed_frames (fst (handleData env frame addr t)))))"
proof (cases "Lookup addr t")
  case None
  then show ?thesis by (simp add: handleData_def counted_def)
next
  case (Some ns)
  obtain n s where [simp]: "ns = (n, s)" by (cases ns)
  show ?thesis
  proof (cases "DecodeData frame")
    case (Inl e)
    with Some show ?thesis by (simp add: handleData_def counted_def)
  next
    case (Inr px)
    obtain p x where px: "px = (p, x)" by (cases px)
    with Inr have f: "frame = EncodeData p x" using data.accepts_iff [of frame "(p, x)"] by simp
    obtain d t' where r: "Route (tableNow env) n s p (janitor (ticks env) t) = (d, t')" by fastforce
    with counters_Route [of "tableNow env" n s p "janitor (ticks env) t"]
    have "relayed_counters t' = relayed_counters t" by (simp add: counters_janitor [OF assms])
    with Some Inr px r f show ?thesis
      by (cases d) (simp_all add: handleData_def Let_def counted_def relayed_frames_def rewriteDataPeer_EncodeData)
  qed
qed

lemma counters_step:
  assumes "table_ok (table s)" "relayed_counters (table s) = counted (relayed_frames (sent s))"
  shows "relayed_counters (table (relay_step parse us s e)) =
           counted (relayed_frames (sent (relay_step parse us s e)))"
proof (cases e)
  case (Datagram packet addr env)
  then show ?thesis
    using assms counters_handleBind [of parse us "verif s" env "take MaxPacketSize packet" addr "table s"]
      counters_handleData [OF assms(1), of env "take MaxPacketSize packet" addr]
    by (auto simp: Let_def handlePacket_def handleKeepalive_def counted_def counters_Touch
        counters_janitor split: prod.split option.split)
qed (use assms in \<open>simp_all add: counters_EvictIdle\<close>)

text \<open>
  C22. The counters the daemon reports are exact: after any history, \<open>packetsRelayed\<close> is the number
  of DATA frames it has forwarded and \<open>bytesRelayed\<close> the number of their bytes, both modulo
  \<open>2^64\<close>.
\<close>

theorem relay_counters_exact:
  "let s = run (relay_step parse us) (relay_start v idle maxs) es;
       fs = relayed_frames (sent s)
   in packetsRelayed (table s) = word_of_nat (length fs) \<and>
      bytesRelayed (table s) = word_of_nat (sum_list (map length fs))"
proof -
  let ?run = "\<lambda>es. run (relay_step parse us) (relay_start v idle maxs) es"
  have "relayed_counters (table (?run es)) = counted (relayed_frames (sent (?run es)))"
  proof (induction es rule: rev_induct)
    case Nil
    show ?case by (simp add: relay_start_def NewSessionTable_def relayed_counters_def counted_def)
  next
    case (snoc e es)
    have "table_ok (table (?run es))" by (rule relay.inv_from_init) (simp add: relay_start_def)
    from counters_step [OF this snoc.IH] show ?case by simp
  qed
  then show ?thesis by (simp add: relayed_counters_def counted_def Let_def)
qed

lemma handleBind_no_grant:
  assumes "event_grants parse us v (Datagram packet addr env) = []"
  shows "handleBind parse us v env (take MaxPacketSize packet) addr t \<in>
           {([], RecordDropped t), (reply addr (EncodeError ''unauthorized''), RecordDropped t),
            (reply addr (EncodeError ''device mismatch''), RecordDropped t)}"
  using assms by (auto simp: handleBind_def split: sum.splits if_splits)

lemma handlePacket_stranger:
  assumes "event_grants parse us v (Datagram packet addr env) = []" "Lookup addr t = None"
  shows "handlePacket parse us v env (take MaxPacketSize packet) addr t \<in>
           {([], RecordDropped t), (reply addr (EncodeError ''unauthorized''), RecordDropped t),
            (reply addr (EncodeError ''device mismatch''), RecordDropped t),
            (reply addr (EncodeError ''not bound''), RecordDropped t)}"
  using assms(2) handleBind_no_grant [OF assms(1), of t]
  by (auto simp only: handlePacket_def handleData_def handleKeepalive_def insert_iff empty_iff simp_thms
      option.case if_True if_False split: if_split)

text \<open>
  C23. A datagram from an address that is not bound, and that carries no acceptable token, changes
  no binding and no index entry, and the relay sends at most one datagram in response: an ERROR
  frame of at most 16 bytes, back to that address.
\<close>

theorem stranger_has_no_effect:
  assumes "Lookup addr (table s) = None"
    and "event_grants parse us (verif s) (Datagram packet addr env) = []"
  shows "let s' = relay_step parse us s (Datagram packet addr env)
         in bound (table s') = bound (table s) \<and> addrIndex (table s') = addrIndex (table s) \<and>
            (\<exists>out. sent s' = sent s @ out \<and>
               (out = [] \<or> (\<exists>reason. length reason \<le> 15 \<and> out = [(EncodeError reason, addr)])))"
proof -
  let ?h = "handlePacket parse us (verif s) env (take MaxPacketSize packet) addr (table s)"
  let ?s = "relay_step parse us s (Datagram packet addr env)"
  have "snd ?h = RecordDropped (table s)"
    using handlePacket_stranger [OF assms(2,1)] by auto
  then have "table ?s = table s \<or> table ?s = RecordDropped (table s)"
    by (auto simp: Let_def split: prod.split)
  then have "bound (table ?s) = bound (table s) \<and> addrIndex (table ?s) = addrIndex (table s)"
    by (auto simp: RecordDropped_def bound_def fun_eq_iff)
  moreover have "sent ?s = sent s @ [] \<or> sent ?s = sent s @ fst ?h"
    by (auto simp: Let_def split: prod.split)
  moreover have "fst ?h = [] \<or> (\<exists>reason. length reason \<le> 15 \<and> fst ?h = [(EncodeError reason, addr)])"
  proof -
    have "\<exists>r. length r \<le> 15 \<and> reply addr (EncodeError reason) = [(EncodeError r, addr)]"
      if "length reason \<le> 15" for reason
      using that by (auto simp: reply_def)
    from this [of "''unauthorized''"] this [of "''device mismatch''"] this [of "''not bound''"]
    show ?thesis using handlePacket_stranger [OF assms(2,1)] by auto
  qed
  ultimately show ?thesis unfolding Let_def by blast
qed

theorem stranger_has_no_effect_witness:
  "bound (table (relay_step ex_relay_parse ex_uuid_String ex_state
      (Datagram (EncodeData (ex_dev 65) [1]) (ex_addr 8) (ex_env 300)))) = bound (table ex_state)"
proof -
  have "Lookup (ex_addr 8) (table ex_state) = None" by code_simp
  moreover have "event_grants ex_relay_parse ex_uuid_String (verif ex_state)
      (Datagram (EncodeData (ex_dev 65) [1]) (ex_addr 8) (ex_env 300)) = []" by code_simp
  ultimately show ?thesis
    using stranger_has_no_effect [of "ex_addr 8" ex_state ex_relay_parse ex_uuid_String
        "EncodeData (ex_dev 65) [1]" "ex_env 300"]
    unfolding Let_def by blast
qed

text \<open>
  A one-byte datagram \<open>[0x03]\<close> from any unbound source address is answered with a ten-byte ERROR
  frame to that address, although the comment in \<open>handlePacket\<close> says that unsolicited traffic is
  dropped without a reply so that the node is no reflection amplifier.
\<close>
lemma unbound_data_probe_amplified:
  assumes "Lookup addr (table s) = None"
  shows "let s' = relay_step parse us s (Datagram [FrameData] addr env)
         in sent s' = sent s @ [(EncodeError ''not bound'', addr)] \<and>
            length (EncodeError ''not bound'') = 10 * length [FrameData]"
  using assms
  by (simp add: Let_def MaxPacketSize_def headerLen_def handlePacket_def handleData_def reply_def frame_types)

theorem unbound_data_probe_amplified_witness:
  "sent (relay_step ex_relay_parse ex_uuid_String ex_state (Datagram [FrameData] (ex_addr 8) (ex_env 300)))
     = sent ex_state @ [(EncodeError ''not bound'', ex_addr 8)]"
proof -
  have "Lookup (ex_addr 8) (table ex_state) = None" by code_simp
  from unbound_data_probe_amplified [OF this] show ?thesis unfolding Let_def by blast
qed

end
