(* ===== verification/Tokens.thy ===== *)
theory Tokens
  imports Relay_Server Domain Go_Strings
begin

text \<open>
  The credentials of the control plane, \<open>backend/internal/auth\<close>: access tokens (\<open>jwt.go\<close>), relay
  session tokens (\<open>relay_token.go\<close>), pairing tokens (\<open>pairing.go\<close>), opaque tokens and their hashes.
  JWT signing and parsing are the parameters \<open>sign\<close> and \<open>parse\<close> of \<open>Jwt\<close>, SHA-256 is the parameter
  \<open>sha256\<close>, \<open>us\<close> is \<open>uuid.UUID.String\<close> and a fresh \<open>uuid.NewString()\<close> is the argument \<open>jti\<close>. Signing
  with a byte key does not fail.

  Access tokens are parsed with the option \<open>jwt.WithIssuer\<close>: their parser takes the issuer first.
\<close>

section \<open>Access tokens\<close>

type_synonym token_type = string

definition TokenTypeAccess :: token_type where
  "TokenTypeAccess = ''access''"

definition TokenTypeRefresh :: token_type where
  "TokenTypeRefresh = ''refresh''"

record access_claims =
  acRegistered :: registered_claims
  acUserID :: string
  acEmail :: string
  acType :: token_type

record token_manager =
  accessSecret :: bytes
  refreshSecret :: bytes
  tmIssuer :: string
  accessTTL :: duration
  refreshTTL :: duration

definition NewTokenManager :: "string \<Rightarrow> string \<Rightarrow> string \<Rightarrow> duration \<Rightarrow> duration \<Rightarrow> token_manager" where
  "NewTokenManager aSecret rSecret iss aTTL rTTL =
     \<lparr>accessSecret = bytes_of_string aSecret, refreshSecret = bytes_of_string rSecret, tmIssuer = iss,
      accessTTL = aTTL, refreshTTL = rTTL\<rparr>"

definition access_claims_for :: "(uuid \<Rightarrow> string) \<Rightarrow> token_manager \<Rightarrow> gotime \<Rightarrow> string \<Rightarrow> uuid \<Rightarrow> string \<Rightarrow> access_claims" where
  "access_claims_for us m now jti userID email =
     \<lparr>acRegistered = \<lparr>Issuer = tmIssuer m, Subject = us userID, rcID = jti,
        rcIssuedAt = Some (NewNumericDate now), rcExpiresAt = Some (NewNumericDate (now + accessTTL m))\<rparr>,
      acUserID = us userID, acEmail = email, acType = TokenTypeAccess\<rparr>"

definition IssueAccessToken ::
  "access_claims jwt_sign \<Rightarrow> (uuid \<Rightarrow> string) \<Rightarrow> token_manager \<Rightarrow> gotime \<Rightarrow> string \<Rightarrow> uuid \<Rightarrow> string \<Rightarrow>
     string \<times> gotime" where
  "IssueAccessToken sign us m now jti userID email =
     (sign SigningMethodHS256 (accessSecret m) (access_claims_for us m now jti userID email),
      now + accessTTL m)"

text \<open>\<open>Duration.Seconds\<close> as an \<open>int\<close>, which truncates towards zero.\<close>

definition whole_seconds :: "duration \<Rightarrow> int" where
  "whole_seconds d = (if d < 0 then - ((- d) div Second) else d div Second)"

definition AccessTTLSeconds :: "token_manager \<Rightarrow> int" where
  "AccessTTLSeconds m = whole_seconds (accessTTL m)"

definition RefreshTTL :: "token_manager \<Rightarrow> duration" where
  "RefreshTTL m = refreshTTL m"

datatype access_error = ParseFailed | NotValid | NotAnAccessToken

definition ParseAccessToken ::
  "(string \<Rightarrow> access_claims jwt_parse) \<Rightarrow> token_manager \<Rightarrow> gotime \<Rightarrow> string \<Rightarrow> access_error + access_claims" where
  "ParseAccessToken parse m now tokenStr =
     (case parse (tmIssuer m) (hmac_key (accessSecret m)) now tokenStr of
        None \<Rightarrow> Inl ParseFailed
      | Some (claims, valid) \<Rightarrow>
          if \<not> valid then Inl NotValid
          else if acType claims \<noteq> TokenTypeAccess then Inl NotAnAccessToken
          else Inr claims)"

section \<open>Opaque tokens\<close>

definition base32_std :: string where
  "base32_std = ''ABCDEFGHIJKLMNOPQRSTUVWXYZ234567''"

definition NewOpaqueRefreshToken :: "bytes option \<Rightarrow> string result" where
  "NewOpaqueRefreshToken r =
     (case r of
        None \<Rightarrow> Inl (ErrOther ''rand'')
      | Some bs \<Rightarrow> Inr (base32_encode base32_std (take 32 (bs @ replicate 32 0))))"

definition HashToken :: "(bytes \<Rightarrow> bytes) \<Rightarrow> string \<Rightarrow> string" where
  "HashToken sha256 raw = hex_encode (sha256 (bytes_of_string raw))"

section \<open>Relay session tokens\<close>

text \<open>\<open>RelaySessionClaims\<close> of the control plane and \<open>Claims\<close> of the relay node are two Go types with
  the same JSON fields; what travels in a token is that JSON, so both are \<open>relay_claims\<close>.\<close>

record relay_session_manager =
  rsmSecret :: bytes
  rsmTTL :: duration

definition NewRelaySessionManager :: "string \<Rightarrow> duration \<Rightarrow> relay_session_manager" where
  "NewRelaySessionManager secret ttl = \<lparr>rsmSecret = bytes_of_string secret, rsmTTL = ttl\<rparr>"

definition relay_claims_for ::
  "(uuid \<Rightarrow> string) \<Rightarrow> relay_session_manager \<Rightarrow> gotime \<Rightarrow> string \<Rightarrow> uuid \<Rightarrow> uuid \<Rightarrow> uuid \<Rightarrow> relay_claims" where
  "relay_claims_for us m now jti deviceID relayID networkID =
     \<lparr>rclRegistered = \<lparr>Issuer = [], Subject = us deviceID, rcID = jti,
        rcIssuedAt = Some (NewNumericDate now), rcExpiresAt = Some (NewNumericDate (now + rsmTTL m))\<rparr>,
      rclDeviceID = us deviceID, rclRelayID = us relayID, rclNetworkID = us networkID\<rparr>"

definition RelaySessionManager_Issue ::
  "relay_claims jwt_sign \<Rightarrow> (uuid \<Rightarrow> string) \<Rightarrow> relay_session_manager \<Rightarrow> gotime \<Rightarrow> string \<Rightarrow>
     uuid \<Rightarrow> uuid \<Rightarrow> uuid \<Rightarrow> string" where
  "RelaySessionManager_Issue sign us m now jti deviceID relayID networkID =
     sign SigningMethodHS256 (rsmSecret m) (relay_claims_for us m now jti deviceID relayID networkID)"

definition RelaySessionManager_Verify ::
  "relay_claims jwt_parse \<Rightarrow> relay_session_manager \<Rightarrow> gotime \<Rightarrow> string \<Rightarrow> relay_claims option" where
  "RelaySessionManager_Verify parse m now tokenStr =
     (case parse (hmac_key (rsmSecret m)) now tokenStr of
        None \<Rightarrow> None
      | Some (claims, valid) \<Rightarrow> if \<not> valid then None else Some claims)"

section \<open>Pairing tokens\<close>

record pairing_claims =
  pcRegistered :: registered_claims
  pcUserID :: string
  pcNetworkID :: string

record pairing_manager =
  pmSecret :: bytes
  pmTTL :: duration
  pmUsed :: "(string, gotime) gomap"

definition NewPairingManager :: "string \<Rightarrow> duration \<Rightarrow> pairing_manager" where
  "NewPairingManager secret ttl =
     (let ttl = (if ttl \<le> 0 then 5 * Minute else ttl);
          ttl = (if ttl < Second then Second else ttl)
      in \<lparr>pmSecret = bytes_of_string secret, pmTTL = ttl, pmUsed = []\<rparr>)"

definition PairingManager_Issue ::
  "pairing_claims jwt_sign \<Rightarrow> (uuid \<Rightarrow> string) \<Rightarrow> gotime \<Rightarrow> string \<Rightarrow> uuid \<Rightarrow> string \<Rightarrow> pairing_manager \<Rightarrow>
     string \<times> gotime" where
  "PairingManager_Issue sign us now jti userID networkID m =
     (sign SigningMethodHS256 (pmSecret m)
        \<lparr>pcRegistered = \<lparr>Issuer = [], Subject = us userID, rcID = jti,
           rcIssuedAt = Some (NewNumericDate now), rcExpiresAt = Some (NewNumericDate (now + pmTTL m))\<rparr>,
         pcUserID = us userID, pcNetworkID = networkID\<rparr>,
      now + pmTTL m)"

definition sweepLocked :: "gotime \<Rightarrow> pairing_manager \<Rightarrow> pairing_manager" where
  "sweepLocked now m = m\<lparr>pmUsed := filter (\<lambda>(i, expires). \<not> expires < now) (pmUsed m)\<rparr>"

datatype pairing_error = PairingParseFailed | PairingNotValid | PairingNoID | ErrPairingTokenUsed

text \<open>\<open>Consume\<close> reads the clock three times: when the token is parsed, for the fallback expiry, and,
  once it holds the lock, in the sweep. The lock may be waited for in between.\<close>

definition Consume ::
  "pairing_claims jwt_parse \<Rightarrow> gotime \<Rightarrow> gotime \<Rightarrow> gotime \<Rightarrow> string \<Rightarrow> pairing_manager \<Rightarrow>
     (pairing_error + pairing_claims) \<times> pairing_manager" where
  "Consume parse parsedAt readAt lockedAt tokenStr m =
     (case parse (hmac_key (pmSecret m)) parsedAt tokenStr of
        None \<Rightarrow> (Inl PairingParseFailed, m)
      | Some (claims, valid) \<Rightarrow>
          if \<not> valid then (Inl PairingNotValid, m)
          else if rcID (pcRegistered claims) = [] then (Inl PairingNoID, m)
          else let expires = (case rcExpiresAt (pcRegistered claims) of Some e \<Rightarrow> e | None \<Rightarrow> readAt + pmTTL m);
                   m = sweepLocked lockedAt m
               in if map_of (pmUsed m) (rcID (pcRegistered claims)) \<noteq> None then (Inl ErrPairingTokenUsed, m)
                  else (Inr claims, m\<lparr>pmUsed := put (rcID (pcRegistered claims)) expires (pmUsed m)\<rparr>))"

section \<open>Passwords and second factors\<close>

text \<open>The password hasher and the TOTP manager are wrappers of bcrypt and \<open>pquerna/otp\<close>; their calls are
  the fields of this record. \<open>bcryptHash cost salt password\<close> is \<open>None\<close> when bcrypt refuses the
  password.\<close>

record credential_funs =
  bcryptDefaultCost :: int
  bcryptHash :: "int \<Rightarrow> bytes \<Rightarrow> string \<Rightarrow> string option"
  bcryptCompare :: "string \<Rightarrow> string \<Rightarrow> bool"
  totpGenerate :: "string \<Rightarrow> string \<Rightarrow> bytes \<Rightarrow> (string \<times> string) option"
  totpValidate :: "string \<Rightarrow> string \<Rightarrow> gotime \<Rightarrow> bool"

definition NewPasswordHasher :: "credential_funs \<Rightarrow> int \<Rightarrow> int" where
  "NewPasswordHasher cf cost = (if cost \<le> 0 then bcryptDefaultCost cf else cost)"

definition PasswordHasher_Hash :: "credential_funs \<Rightarrow> int \<Rightarrow> bytes \<Rightarrow> string \<Rightarrow> string result" where
  "PasswordHasher_Hash cf cost salt password =
     (case bcryptHash cf cost salt password of None \<Rightarrow> Inl (ErrOther ''bcrypt'') | Some h \<Rightarrow> Inr h)"

definition PasswordHasher_Verify :: "credential_funs \<Rightarrow> string \<Rightarrow> string \<Rightarrow> bool" where
  "PasswordHasher_Verify cf hash password \<longleftrightarrow> bcryptCompare cf hash password"

definition MFAManager_GenerateSecret :: "credential_funs \<Rightarrow> string \<Rightarrow> bytes \<Rightarrow> string \<Rightarrow> (string \<times> string) result" where
  "MFAManager_GenerateSecret cf iss rnd accountEmail =
     (case totpGenerate cf iss accountEmail rnd of None \<Rightarrow> Inl (ErrOther ''totp'') | Some r \<Rightarrow> Inr r)"

definition MFAManager_Validate :: "credential_funs \<Rightarrow> gotime \<Rightarrow> string \<Rightarrow> string \<Rightarrow> bool" where
  "MFAManager_Validate cf now secret code \<longleftrightarrow> totpValidate cf code secret now"

end
