(* ===== verification/Coordination_Service.thy ===== *)
theory Coordination_Service
  imports Device_Service Tokens
begin

text \<open>
  The coordination service, \<open>backend/internal/usecase/coordination_service.go\<close>: registration of
  devices over gRPC, heartbeats, ICE rendezvous and relay allocation, over the embedded store. As in
  the device service a registration is split where the store's lock is released between reading the
  free address and creating the row.
\<close>

section \<open>Registration\<close>

record register_input =
  inPublicKey :: string
  inDeviceName :: string
  inOS :: string
  inOSVersion :: string
  inClientVersion :: string
  inAdvertiseExitNode :: bool

record registered_device =
  rdDevice :: device
  rdNetworkCIDR :: string
  rdDNSServers :: "string list"
  rdExistingPeers :: "device list"

record relay_allocation =
  raRelay :: relay_server
  raSessionToken :: string

definition presenceTTL_or_default :: "duration \<Rightarrow> duration" where
  "presenceTTL_or_default ttl = (if ttl \<le> 0 then 45 * Second else ttl)"

text \<open>What the registration finds out before it writes: the network, and the known device or the address
  a new one gets.\<close>

definition RegisterDevice_lookup ::
  "uuid \<Rightarrow> uuid \<Rightarrow> register_input \<Rightarrow> backend \<Rightarrow> (network \<times> (device + string)) result option" where
  "RegisterDevice_lookup userID networkID inp s =
     (case member_or_forbidden networkID userID (db s) of
        Inl e \<Rightarrow> Some (Inl e)
      | Inr _ \<Rightarrow>
          (case networkRepo_GetByID networkID (db s) of
             Inl e \<Rightarrow> Some (Inl e)
           | Inr n \<Rightarrow>
               (case deviceRepo_GetByPublicKey (inPublicKey inp) (db s) of
                  Inr d \<Rightarrow> if dNetworkID d \<noteq> networkID \<or> dUserID d \<noteq> userID then Some (Inl ErrForbidden)
                           else Some (Inr (n, Inl d))
                | Inl e \<Rightarrow>
                    if e \<noteq> ErrNotFound then Some (Inl e)
                    else (case deviceRepo_NextFreeVirtualIP networkID (CIDR n) (db s) of
                            None \<Rightarrow> None
                          | Some (Inl e) \<Rightarrow> Some (Inl e)
                          | Some (Inr ip) \<Rightarrow> Some (Inr (n, Inr ip))))))"

definition RegisterDevice_update :: "svc_env \<Rightarrow> register_input \<Rightarrow> device \<Rightarrow> backend \<Rightarrow> device result \<times> backend" where
  "RegisterDevice_update env inp d s =
     (let d = d\<lparr>dName := inDeviceName inp, OS := NormalizeDeviceOS (inOS inp), OSVersion := inOSVersion inp,
                AdvertisesExitNode := inAdvertiseExitNode inp\<rparr>
      in case deviceRepo_Update (eNow env) d (db s) of (r, st) \<Rightarrow> (r, s\<lparr>db := st\<rparr>))"

definition RegisterDevice_create ::
  "(uuid \<Rightarrow> string) \<Rightarrow> svc_env \<Rightarrow> uuid \<Rightarrow> uuid \<Rightarrow> register_input \<Rightarrow> string \<Rightarrow> backend \<Rightarrow> device result \<times> backend" where
  "RegisterDevice_create us env userID networkID inp ip s =
     (let d = device_zero\<lparr>dID := eID1 env, dUserID := userID, dNetworkID := networkID,
                dName := inDeviceName inp, OS := NormalizeDeviceOS (inOS inp), OSVersion := inOSVersion inp,
                PublicKey := inPublicKey inp, VirtualIP := ip, dStatus := DeviceStatusUnknown,
                AdvertisesExitNode := inAdvertiseExitNode inp\<rparr>
      in case deviceRepo_Create uuid_Nil (eNow env) d (db s) of
           (Inl e, st) \<Rightarrow> (Inl e, s\<lparr>db := st\<rparr>)
         | (Inr d, st) \<Rightarrow>
             (Inr d, Record env (Some userID) (Some networkID) AuditDeviceRegistered ''device'' (us (dID d)) []
                       [(''virtual_ip'', ip), (''via'', ''grpc'')] (s\<lparr>db := st\<rparr>)))"

definition RegisterDevice_finish ::
  "gotime \<Rightarrow> uuid \<Rightarrow> network \<Rightarrow> device \<Rightarrow> backend \<Rightarrow> registered_device result \<times> backend" where
  "RegisterDevice_finish now networkID n d s =
     (case deviceRepo_ListPeers (dID d) (db s) of
        Inl e \<Rightarrow> (Inl e, s)
      | Inr peers \<Rightarrow>
          (Inr \<lparr>rdDevice = d, rdNetworkCIDR = CIDR n, rdDNSServers = DNSServers n,
                rdExistingPeers = map (merge_one now (db s)) peers\<rparr>,
           publish \<lparr>evType = PeerEventJoined, evNetworkID = networkID, evDeviceID = dID d\<rparr> s))"

definition RegisterDevice_write ::
  "(uuid \<Rightarrow> string) \<Rightarrow> svc_env \<Rightarrow> uuid \<Rightarrow> uuid \<Rightarrow> register_input \<Rightarrow> network \<times> (device + string) \<Rightarrow> backend \<Rightarrow>
     registered_device result \<times> backend" where
  "RegisterDevice_write us env userID networkID inp = (\<lambda>(n, found) s.
     (case (case found of Inl d \<Rightarrow> RegisterDevice_update env inp d s
                        | Inr ip \<Rightarrow> RegisterDevice_create us env userID networkID inp ip s) of
        (Inl e, s) \<Rightarrow> (Inl e, s)
      | (Inr d, s) \<Rightarrow> RegisterDevice_finish (eNow env) networkID n d s))"

definition CoordinationService_RegisterDevice ::
  "(uuid \<Rightarrow> string) \<Rightarrow> svc_env \<Rightarrow> uuid \<Rightarrow> uuid \<Rightarrow> register_input \<Rightarrow> backend \<Rightarrow>
     (registered_device result \<times> backend) option" where
  "CoordinationService_RegisterDevice us env userID networkID inp s =
     (case RegisterDevice_lookup userID networkID inp s of
        None \<Rightarrow> None
      | Some (Inl e) \<Rightarrow> Some (Inl e, s)
      | Some (Inr found) \<Rightarrow> Some (RegisterDevice_write us env userID networkID inp found s))"

section \<open>Heartbeats\<close>

text \<open>\<open>int32(ttl.Seconds() / 1.5)\<close>: the quotient truncated, exact for lifetimes below \<open>2^20\<close> seconds.\<close>

definition next_heartbeat :: "duration \<Rightarrow> int" where
  "next_heartbeat ttl = (2 * ttl) div (3 * Second)"

definition CoordinationService_Heartbeat ::
  "duration \<Rightarrow> gotime \<Rightarrow> uuid \<Rightarrow> presence_endpoint \<Rightarrow> presence_endpoint \<Rightarrow> string \<Rightarrow> 64 word \<Rightarrow> 64 word \<Rightarrow> backend \<Rightarrow>
     int result \<times> backend" where
  "CoordinationService_Heartbeat ttl now deviceID publicEP privateEP natType bytesSent bytesReceived s =
     (case deviceRepo_GetByID deviceID (db s) of
        Inl e \<Rightarrow> (Inl e, s)
      | Inr d \<Rightarrow>
          let ep = publicEP\<lparr>PrivateIP := PrivateIP privateEP, PrivatePort := PrivatePort privateEP,
                     NATType := natType, peUpdatedAt := now\<rparr>;
              s = s\<lparr>db := presence_SetOnline now (dNetworkID d) deviceID ep ttl (db s)\<rparr>
          in case deviceRepo_UpdateHeartbeat now deviceID DeviceStatusOnline (non_empty (PublicIP publicEP))
                    (non_empty (PrivateIP privateEP)) (non_empty natType) bytesSent bytesReceived (db s) of
               (Inl e, st) \<Rightarrow> (Inl e, s\<lparr>db := st\<rparr>)
             | (Inr _, st) \<Rightarrow>
                 (Inr (next_heartbeat ttl),
                  publish \<lparr>evType = PeerEventEndpointChanged, evNetworkID = dNetworkID d, evDeviceID = deviceID\<rparr>
                    (s\<lparr>db := st\<rparr>)))"

definition NetworksForDevice :: "uuid \<Rightarrow> backend \<Rightarrow> device result" where
  "NetworksForDevice deviceID s = deviceRepo_GetByID deviceID (db s)"

definition DevicePresence :: "gotime \<Rightarrow> uuid \<Rightarrow> backend \<Rightarrow> presence_endpoint option" where
  "DevicePresence now deviceID s = presence_Get now deviceID (db s)"

definition GetDevice :: "uuid \<Rightarrow> backend \<Rightarrow> device result" where
  "GetDevice deviceID s = deviceRepo_GetByID deviceID (db s)"

definition CoordinationService_Subscribe :: "uuid list \<Rightarrow> backend \<Rightarrow> (nat \<times> backend) option" where
  "CoordinationService_Subscribe networkIDs s =
     (case evbus s of
        None \<Rightarrow> None
      | Some b \<Rightarrow> (case Subscribe networkIDs b of (i, b') \<Rightarrow> Some (i, s\<lparr>evbus := Some b'\<rparr>)))"

section \<open>Rendezvous and relays\<close>

definition ExchangeICE ::
  "gotime \<Rightarrow> uuid \<Rightarrow> uuid \<Rightarrow> ice_candidate list \<Rightarrow> backend \<Rightarrow> ice_candidate list result \<times> backend" where
  "ExchangeICE now deviceID targetDeviceID cs s =
     (case deviceRepo_GetByID deviceID (db s) of
        Inl e \<Rightarrow> (Inl e, s)
      | Inr _ \<Rightarrow>
          (case deviceRepo_GetByID targetDeviceID (db s) of
             Inl e \<Rightarrow> (Inl e, s)
           | Inr _ \<Rightarrow>
               let st = ice_Put now deviceID targetDeviceID cs (30 * Second) (db s)
               in (Inr (ice_Get now deviceID targetDeviceID st), s\<lparr>db := st\<rparr>)))"

definition CoordinationService_RequestRelay ::
  "relay_claims jwt_sign \<Rightarrow> (uuid \<Rightarrow> string) \<Rightarrow> relay_session_manager \<Rightarrow> gotime \<Rightarrow> string \<Rightarrow> uuid \<Rightarrow> uuid \<Rightarrow> string \<Rightarrow>
     backend \<Rightarrow> relay_allocation result \<times> backend" where
  "CoordinationService_RequestRelay sign us rsm now jti deviceID networkID preferredRegion s =
     (case relayRepo_PickLeastLoaded now preferredRegion (db s) of
        Inl e \<Rightarrow> (Inl e, s)
      | Inr relay \<Rightarrow>
          (case relayRepo_IncrementLoad (rsID relay) 1 (db s) of
             (Inl e, st) \<Rightarrow> (Inl e, s\<lparr>db := st\<rparr>)
           | (Inr _, st) \<Rightarrow>
               (Inr \<lparr>raRelay = relay,
                     raSessionToken = RelaySessionManager_Issue sign us rsm now jti deviceID (rsID relay) networkID\<rparr>,
                s\<lparr>db := st\<rparr>)))"

end
