(* ===== verification/Grpc_Server.thy ===== *)
theory Grpc_Server
  imports Coordination_Service
begin

text \<open>
  The gRPC transport, \<open>backend/internal/transport/grpc\<close>: authentication of calls
  (\<open>interceptors.go\<close>) and the coordination server (\<open>coordination_server.go\<close>). A handler takes the
  user the interceptor put into the context (\<open>userIDFromContext\<close>) as an option. \<open>us\<close> and \<open>up\<close> are
  \<open>uuid.UUID.String\<close> and \<open>uuid.Parse\<close>. Of a status only the code is modelled, not its text; metrics
  and logging are left out.
\<close>

section \<open>Status codes and enumerations\<close>

datatype grpc_code =
    CodeNotFound | CodePermissionDenied | CodeUnauthenticated | CodeInvalidArgument
  | CodeAlreadyExists | CodeResourceExhausted | CodeInternal

definition toGRPCError :: "domain_error \<Rightarrow> grpc_code" where
  "toGRPCError err =
     (case err of
        ErrNotFound \<Rightarrow> CodeNotFound
      | ErrForbidden \<Rightarrow> CodePermissionDenied
      | ErrUnauthorized \<Rightarrow> CodeUnauthenticated
      | ErrInvalidInput \<Rightarrow> CodeInvalidArgument
      | ErrAlreadyExists \<Rightarrow> CodeAlreadyExists
      | ErrNoRelayAvailable \<Rightarrow> CodeResourceExhausted
      | ErrNetworkFull \<Rightarrow> CodeResourceExhausted
      | _ \<Rightarrow> CodeInternal)"

datatype nat_proto =
    NAT_TYPE_UNSPECIFIED | NAT_TYPE_OPEN | NAT_TYPE_FULL_CONE | NAT_TYPE_RESTRICTED_CONE
  | NAT_TYPE_PORT_RESTRICTED_CONE | NAT_TYPE_SYMMETRIC | NAT_TYPE_UNKNOWN int

definition natTypeToProto :: "string \<Rightarrow> nat_proto" where
  "natTypeToProto s =
     (let l = map lower s in
      if l = ''open'' then NAT_TYPE_OPEN
      else if l = ''full_cone'' \<or> l = ''fullcone'' then NAT_TYPE_FULL_CONE
      else if l = ''restricted_cone'' \<or> l = ''restricted'' then NAT_TYPE_RESTRICTED_CONE
      else if l = ''port_restricted_cone'' \<or> l = ''port_restricted'' then NAT_TYPE_PORT_RESTRICTED_CONE
      else if l = ''symmetric'' then NAT_TYPE_SYMMETRIC
      else NAT_TYPE_UNSPECIFIED)"

definition natTypeFromProto :: "nat_proto \<Rightarrow> string" where
  "natTypeFromProto t =
     (case t of
        NAT_TYPE_OPEN \<Rightarrow> ''open''
      | NAT_TYPE_FULL_CONE \<Rightarrow> ''full_cone''
      | NAT_TYPE_RESTRICTED_CONE \<Rightarrow> ''restricted_cone''
      | NAT_TYPE_PORT_RESTRICTED_CONE \<Rightarrow> ''port_restricted_cone''
      | NAT_TYPE_SYMMETRIC \<Rightarrow> ''symmetric''
      | _ \<Rightarrow> [])"

datatype peer_update_type =
    PEER_UPDATE_JOINED | PEER_UPDATE_LEFT | PEER_UPDATE_ENDPOINT_CHANGED | PEER_UPDATE_STATUS_CHANGED

definition peerUpdateTypeToProto :: "peer_event_type \<Rightarrow> peer_update_type" where
  "peerUpdateTypeToProto t =
     (case t of
        PeerEventJoined \<Rightarrow> PEER_UPDATE_JOINED
      | PeerEventLeft \<Rightarrow> PEER_UPDATE_LEFT
      | PeerEventEndpointChanged \<Rightarrow> PEER_UPDATE_ENDPOINT_CHANGED
      | PeerEventStatusChanged \<Rightarrow> PEER_UPDATE_STATUS_CHANGED)"

section \<open>Messages\<close>

record proto_endpoint =
  epIp :: string
  epPort :: "32 word"
  epProtocol :: string

record proto_peer =
  ppDeviceId :: string
  ppDeviceName :: string
  ppPublicKey :: string
  ppVirtualIp :: string
  ppOs :: string
  ppExitNode :: bool
  ppOnline :: bool
  ppLastSeen :: "gotime option"
  ppNatType :: nat_proto
  ppEndpoint :: "proto_endpoint option"

record proto_candidate =
  cdEndpoint :: "proto_endpoint option"
  cdType :: string
  cdPriority :: "32 word"

record peer_update =
  puType :: peer_update_type
  puNetworkId :: string
  puPeer :: proto_peer

definition peer_stub :: "string \<Rightarrow> proto_peer" where
  "peer_stub i = \<lparr>ppDeviceId = i, ppDeviceName = [], ppPublicKey = [], ppVirtualIp = [], ppOs = [],
     ppExitNode = False, ppOnline = False, ppLastSeen = None, ppNatType = NAT_TYPE_UNSPECIFIED,
     ppEndpoint = None\<rparr>"

definition toProtoPeer :: "(uuid \<Rightarrow> string) \<Rightarrow> gotime \<Rightarrow> backend \<Rightarrow> device \<Rightarrow> proto_peer" where
  "toProtoPeer us now s d =
     (let p = \<lparr>ppDeviceId = us (dID d), ppDeviceName = dName d, ppPublicKey = PublicKey d,
               ppVirtualIp = VirtualIP d, ppOs = OS d, ppExitNode = AdvertisesExitNode d,
               ppOnline = (dStatus d = DeviceStatusOnline), ppLastSeen = LastSeenAt d,
               ppNatType = (case dNATType d of None \<Rightarrow> NAT_TYPE_UNSPECIFIED | Some t \<Rightarrow> natTypeToProto t),
               ppEndpoint = None\<rparr>
      in case DevicePresence now (dID d) s of
           Some ep \<Rightarrow>
             p\<lparr>ppEndpoint := Some \<lparr>epIp = PublicIP ep, epPort = PublicPort ep, epProtocol = ''udp''\<rparr>,
               ppOnline := True,
               ppNatType := (if NATType ep \<noteq> [] then natTypeToProto (NATType ep) else ppNatType p)\<rparr>
         | None \<Rightarrow>
             (case LastPublicIP d of
                None \<Rightarrow> p
              | Some ip \<Rightarrow> p\<lparr>ppEndpoint := Some \<lparr>epIp = ip, epPort = 0, epProtocol = ''udp''\<rparr>\<rparr>))"

section \<open>Authentication\<close>

text \<open>\<open>md\<close> holds the values of the metadata key \<open>authorization\<close>, \<open>None\<close> when there is no metadata.\<close>

definition authenticate ::
  "(string \<Rightarrow> access_claims jwt_parse) \<Rightarrow> (string \<Rightarrow> uuid option) \<Rightarrow> token_manager \<Rightarrow> gotime \<Rightarrow>
     string list option \<Rightarrow> grpc_code + uuid" where
  "authenticate parse up tm now md =
     (case md of
        None \<Rightarrow> Inl CodeUnauthenticated
      | Some [] \<Rightarrow> Inl CodeUnauthenticated
      | Some (v # _) \<Rightarrow>
          let raw = TrimSpace (TrimPrefix v ''Bearer '') in
          if raw = [] then Inl CodeUnauthenticated
          else case ParseAccessToken parse tm now raw of
                 Inl _ \<Rightarrow> Inl CodeUnauthenticated
               | Inr claims \<Rightarrow>
                   (case up (acUserID claims) of None \<Rightarrow> Inl CodeUnauthenticated | Some userID \<Rightarrow> Inr userID))"

definition AuthUnaryInterceptor ::
  "(string \<Rightarrow> access_claims jwt_parse) \<Rightarrow> (string \<Rightarrow> uuid option) \<Rightarrow> token_manager \<Rightarrow> gotime \<Rightarrow> string list option \<Rightarrow>
     (uuid option \<Rightarrow> 's \<Rightarrow> (grpc_code + 'r) \<times> 's) \<Rightarrow> 's \<Rightarrow> (grpc_code + 'r) \<times> 's" where
  "AuthUnaryInterceptor parse up tm now md handler s =
     (case authenticate parse up tm now md of
        Inl c \<Rightarrow> (Inl c, s)
      | Inr userID \<Rightarrow> handler (Some userID) s)"

section \<open>Handlers\<close>

record register_request =
  rqNetworkId :: string
  rqDevicePublicKey :: string
  rqDeviceName :: string
  rqOs :: string
  rqOsVersion :: string
  rqClientVersion :: string
  rqAdvertiseExitNode :: bool

record register_response =
  rpDeviceId :: string
  rpAssignedVirtualIp :: string
  rpNetworkCidr :: string
  rpDnsServers :: "string list"
  rpExistingPeers :: "proto_peer list"

definition CoordinationServer_RegisterDevice ::
  "(uuid \<Rightarrow> string) \<Rightarrow> (string \<Rightarrow> uuid option) \<Rightarrow> svc_env \<Rightarrow> register_request \<Rightarrow> uuid option \<Rightarrow> backend \<Rightarrow>
     ((grpc_code + register_response) \<times> backend) option" where
  "CoordinationServer_RegisterDevice us up env req user s =
     (case user of
        None \<Rightarrow> Some (Inl CodeUnauthenticated, s)
      | Some userID \<Rightarrow>
          (case up (rqNetworkId req) of
             None \<Rightarrow> Some (Inl CodeInvalidArgument, s)
           | Some networkID \<Rightarrow>
               if rqDevicePublicKey req = [] then Some (Inl CodeInvalidArgument, s)
               else case CoordinationService_RegisterDevice us env userID networkID
                      \<lparr>inPublicKey = rqDevicePublicKey req, inDeviceName = rqDeviceName req, inOS = rqOs req,
                       inOSVersion = rqOsVersion req, inClientVersion = rqClientVersion req,
                       inAdvertiseExitNode = rqAdvertiseExitNode req\<rparr> s of
                 None \<Rightarrow> None
               | Some (Inl e, s) \<Rightarrow> Some (Inl (toGRPCError e), s)
               | Some (Inr r, s) \<Rightarrow>
                   Some (Inr \<lparr>rpDeviceId = us (dID (rdDevice r)), rpAssignedVirtualIp = VirtualIP (rdDevice r),
                              rpNetworkCidr = rdNetworkCIDR r, rpDnsServers = rdDNSServers r,
                              rpExistingPeers = map (toProtoPeer us (eNow env) s) (rdExistingPeers r)\<rparr>, s)))"

record heartbeat_request =
  hbDeviceId :: string
  hbPublicEndpoint :: "proto_endpoint option"
  hbPrivateEndpoint :: "proto_endpoint option"
  hbNatType :: nat_proto
  hbBytesSent :: "64 word"
  hbBytesReceived :: "64 word"

definition CoordinationServer_Heartbeat ::
  "(string \<Rightarrow> uuid option) \<Rightarrow> duration \<Rightarrow> gotime \<Rightarrow> heartbeat_request \<Rightarrow> uuid option \<Rightarrow> backend \<Rightarrow>
     (grpc_code + int) \<times> backend" where
  "CoordinationServer_Heartbeat up ttl now req user s =
     (if user = None then (Inl CodeUnauthenticated, s)
      else case up (hbDeviceId req) of
        None \<Rightarrow> (Inl CodeInvalidArgument, s)
      | Some deviceID \<Rightarrow>
          let publicEP = (case hbPublicEndpoint req of
                            None \<Rightarrow> presence_endpoint_zero
                          | Some ep \<Rightarrow> presence_endpoint_zero\<lparr>PublicIP := epIp ep, PublicPort := epPort ep\<rparr>);
              privateEP = (case hbPrivateEndpoint req of
                             None \<Rightarrow> presence_endpoint_zero
                           | Some ep \<Rightarrow> presence_endpoint_zero\<lparr>PrivateIP := epIp ep, PrivatePort := epPort ep\<rparr>)
          in case CoordinationService_Heartbeat ttl now deviceID publicEP privateEP
                    (natTypeFromProto (hbNatType req)) (hbBytesSent req) (hbBytesReceived req) s of
               (Inl e, s) \<Rightarrow> (Inl (toGRPCError e), s)
             | (Inr secs, s) \<Rightarrow> (Inr secs, s))"

text \<open>A stream: the part before the loop, which returns the device and the subscription, and what the loop
  makes of one event (\<open>None\<close>: nothing is sent).\<close>

definition StreamPeerUpdates_open ::
  "(string \<Rightarrow> uuid option) \<Rightarrow> string \<Rightarrow> uuid option \<Rightarrow> backend \<Rightarrow> (grpc_code + uuid \<times> nat) \<times> backend" where
  "StreamPeerUpdates_open up rawDevice user s =
     (if user = None then (Inl CodeUnauthenticated, s)
      else case up rawDevice of
        None \<Rightarrow> (Inl CodeInvalidArgument, s)
      | Some deviceID \<Rightarrow>
          (case NetworksForDevice deviceID s of
             Inl e \<Rightarrow> (Inl (toGRPCError e), s)
           | Inr d \<Rightarrow>
               (case CoordinationService_Subscribe [dNetworkID d] s of
                  None \<Rightarrow> (Inl CodeInternal, s)
                | Some (i, s) \<Rightarrow> (Inr (deviceID, i), s))))"

definition stream_event :: "(uuid \<Rightarrow> string) \<Rightarrow> gotime \<Rightarrow> uuid \<Rightarrow> peer_event \<Rightarrow> backend \<Rightarrow> peer_update option" where
  "stream_event us now deviceID ev s =
     (if evDeviceID ev = deviceID then None
      else Some \<lparr>puType = peerUpdateTypeToProto (evType ev), puNetworkId = us (evNetworkID ev),
                 puPeer = (case GetDevice (evDeviceID ev) s of
                             Inr d \<Rightarrow> toProtoPeer us now s d
                           | Inl _ \<Rightarrow> peer_stub (us (evDeviceID ev)))\<rparr>)"

definition ice_from_proto :: "proto_candidate list \<Rightarrow> ice_candidate list" where
  "ice_from_proto cs = List.map_filter (\<lambda>c. case cdEndpoint c of
     None \<Rightarrow> None
   | Some ep \<Rightarrow> Some \<lparr>icIP = epIp ep, icPort = epPort ep, icProtocol = epProtocol ep, icType = cdType c,
                      icPriority = cdPriority c\<rparr>) cs"

definition ice_to_proto :: "ice_candidate list \<Rightarrow> proto_candidate list" where
  "ice_to_proto cs = map (\<lambda>c.
     \<lparr>cdEndpoint = Some \<lparr>epIp = icIP c, epPort = icPort c,
        epProtocol = (if icProtocol c = [] then ''udp'' else icProtocol c)\<rparr>,
      cdType = icType c, cdPriority = icPriority c\<rparr>) cs"

definition ExchangeICECandidates ::
  "(string \<Rightarrow> uuid option) \<Rightarrow> gotime \<Rightarrow> string \<Rightarrow> string \<Rightarrow> proto_candidate list \<Rightarrow> uuid option \<Rightarrow> backend \<Rightarrow>
     (grpc_code + proto_candidate list) \<times> backend" where
  "ExchangeICECandidates up now rawDevice rawTarget cs user s =
     (if user = None then (Inl CodeUnauthenticated, s)
      else case up rawDevice of
        None \<Rightarrow> (Inl CodeInvalidArgument, s)
      | Some deviceID \<Rightarrow>
          (case up rawTarget of
             None \<Rightarrow> (Inl CodeInvalidArgument, s)
           | Some targetID \<Rightarrow>
               (case ExchangeICE now deviceID targetID (ice_from_proto cs) s of
                  (Inl e, s) \<Rightarrow> (Inl (toGRPCError e), s)
                | (Inr peer, s) \<Rightarrow> (Inr (ice_to_proto peer), s))))"

record relay_response =
  rrRelayId :: string
  rrHostname :: string
  rrRelayPort :: "32 word"
  rrRelayPublicKey :: string
  rrSessionToken :: string

definition CoordinationServer_RequestRelay ::
  "relay_claims jwt_sign \<Rightarrow> (uuid \<Rightarrow> string) \<Rightarrow> (string \<Rightarrow> uuid option) \<Rightarrow> relay_session_manager \<Rightarrow> gotime \<Rightarrow> string \<Rightarrow>
     string \<Rightarrow> string \<Rightarrow> string \<Rightarrow> uuid option \<Rightarrow> backend \<Rightarrow> (grpc_code + relay_response) \<times> backend" where
  "CoordinationServer_RequestRelay sign us up rsm now jti rawDevice rawNetwork region user s =
     (if user = None then (Inl CodeUnauthenticated, s)
      else case up rawDevice of
        None \<Rightarrow> (Inl CodeInvalidArgument, s)
      | Some deviceID \<Rightarrow>
          (case up rawNetwork of
             None \<Rightarrow> (Inl CodeInvalidArgument, s)
           | Some networkID \<Rightarrow>
               (case CoordinationService_RequestRelay sign us rsm now jti deviceID networkID region s of
                  (Inl e, s) \<Rightarrow> (Inl (toGRPCError e), s)
                | (Inr alloc, s) \<Rightarrow>
                    (Inr \<lparr>rrRelayId = us (rsID (raRelay alloc)), rrHostname = Hostname (raRelay alloc),
                          rrRelayPort = word_of_int (RelayPort (raRelay alloc)),
                          rrRelayPublicKey = rsPublicKey (raRelay alloc),
                          rrSessionToken = raSessionToken alloc\<rparr>, s))))"

end
