(* ===== verification/Auth_Service.thy ===== *)
theory Auth_Service
  imports Tokens Network_Service
begin

text \<open>
  The authentication service, \<open>backend/internal/usecase/auth_service.go\<close>: registration, login, token
  rotation, second factors, password resets and Google login, and the pairing service,
  \<open>pairing_service.go\<close>, over the embedded repositories.

  \<open>auth_cfg\<close> holds what the service is built from: the token manager, the hasher and MFA libraries, the
  hash, the reset lifetime and, when configured, the exchange with Google. \<open>auth_env\<close> holds what a call
  reads from outside: clock, identifiers and random bytes. The rate limiter of the embedded store never
  fails. A token refresh is split where the lock of the store is released between the look-up and the
  revocation (\<open>Refresh_check\<close>, \<open>Refresh_rotate\<close>).
\<close>

section \<open>Configuration and environment\<close>

record google_info =
  gSub :: string
  gEmail :: string
  gEmailVerified :: bool
  gName :: string

text \<open>What Google login calls: the exchange of the code for a token, the request for the profile (\<open>None\<close>
  when it fails, otherwise status and body), the JSON decoder, and the consent URL.\<close>

record google_funs =
  oauthExchange :: "string \<Rightarrow> string option"
  userinfoGet :: "string \<Rightarrow> (int \<times> bytes) option"
  decodeUserInfo :: "bytes \<Rightarrow> google_info option"
  oauthAuthCodeURL :: "string \<Rightarrow> string"

definition NewGoogleOAuthConfig :: "google_funs \<Rightarrow> string \<Rightarrow> string \<Rightarrow> google_funs option" where
  "NewGoogleOAuthConfig g clientID clientSecret = (if clientID = [] \<or> clientSecret = [] then None else Some g)"

definition Exchange :: "google_funs \<Rightarrow> string \<Rightarrow> google_info result" where
  "Exchange g code =
     (case oauthExchange g code of
        None \<Rightarrow> Inl (ErrOther ''oauth exchange'')
      | Some tok \<Rightarrow>
          (case userinfoGet g tok of
             None \<Rightarrow> Inl (ErrOther ''fetch userinfo'')
           | Some (status, body) \<Rightarrow>
               if status \<noteq> 200 then Inl (ErrOther ''userinfo status'')
               else case decodeUserInfo g body of
                 None \<Rightarrow> Inl (ErrOther ''decode userinfo'')
               | Some info \<Rightarrow>
                   if gSub info = [] \<or> gEmail info = [] then Inl (ErrOther ''incomplete userinfo response'')
                   else Inr info))"

record auth_cfg =
  cTokens :: token_manager
  cSign :: "access_claims jwt_sign"
  cString :: "uuid \<Rightarrow> string"
  cSha256 :: "bytes \<Rightarrow> bytes"
  cFuns :: credential_funs
  cCost :: int
  cMfaIssuer :: string
  cResetTTL :: duration
  cGoogle :: "google_funs option"

record auth_env =
  aSvc :: svc_env
  aJti :: string
  aSalt :: bytes
  aRand :: "bytes option"
  aRand2 :: "bytes option"
  aAuditID2 :: uuid

record auth_result =
  AccessToken :: string
  RefreshToken :: string
  ExpiresIn :: int
  MFARequired :: bool

section \<open>Rate limits\<close>

definition loginPerAccount :: int where "loginPerAccount = 10"
definition loginPerAddress :: int where "loginPerAddress = 30"
definition registerPerAddress :: int where "registerPerAddress = 5"
definition resetPerAccount :: int where "resetPerAccount = 3"
definition resetPerAddress :: int where "resetPerAddress = 10"
definition authRateWindow :: duration where "authRateWindow = Minute"

lemmas rate_limits =
  loginPerAccount_def loginPerAddress_def registerPerAddress_def resetPerAccount_def resetPerAddress_def
  authRateWindow_def

definition allow :: "gotime \<Rightarrow> string \<Rightarrow> int \<Rightarrow> backend \<Rightarrow> bool \<times> backend" where
  "allow now key limit s =
     (case limiter_Allow now key limit authRateWindow (db s) of (ok, st) \<Rightarrow> (ok, s\<lparr>db := st\<rparr>))"

text \<open>\<open>!allow(a) || !allow(b)\<close>: the second budget is not touched when the first is exhausted.\<close>

definition allow_both :: "gotime \<Rightarrow> string \<Rightarrow> int \<Rightarrow> string \<Rightarrow> int \<Rightarrow> backend \<Rightarrow> bool \<times> backend" where
  "allow_both now key1 limit1 key2 limit2 s =
     (case allow now key1 limit1 s of
        (False, s) \<Rightarrow> (False, s)
      | (True, s) \<Rightarrow> allow now key2 limit2 s)"

section \<open>Registration\<close>

definition AuthService_Register ::
  "auth_cfg \<Rightarrow> auth_env \<Rightarrow> string \<Rightarrow> string \<Rightarrow> string \<Rightarrow> string \<Rightarrow> backend \<Rightarrow> user result \<times> backend" where
  "AuthService_Register cfg env email password displayName ipAddress s =
     (case allow (eNow (aSvc env)) (''register-ip:'' @ ipAddress) registerPerAddress s of
        (False, s) \<Rightarrow> (Inl ErrForbidden, s)
      | (True, s) \<Rightarrow>
          (case userRepo_GetByEmail email (db s) of
             Inr _ \<Rightarrow> (Inl ErrAlreadyExists, s)
           | Inl e \<Rightarrow>
               if e \<noteq> ErrNotFound then (Inl e, s)
               else case PasswordHasher_Hash (cFuns cfg) (cCost cfg) (aSalt env) password of
                 Inl e \<Rightarrow> (Inl e, s)
               | Inr hash \<Rightarrow>
                   let u = user_zero\<lparr>uID := eID1 (aSvc env), Email := email, PasswordHash := hash,
                             uDisplayName := displayName, uStatus := UserStatusActive\<rparr>
                   in case userRepo_Create uuid_Nil (eNow (aSvc env)) u (db s) of
                        (Inl e, st) \<Rightarrow> (Inl e, s\<lparr>db := st\<rparr>)
                      | (Inr u, st) \<Rightarrow>
                          (Inr u, Record (aSvc env) (Some (uID u)) None AuditUserRegister ''user''
                                    (cString cfg (uID u)) [] [] (s\<lparr>db := st\<rparr>))))"

section \<open>Sessions\<close>

definition refresh_token_for :: "auth_cfg \<Rightarrow> auth_env \<Rightarrow> user \<Rightarrow> string \<Rightarrow> string \<Rightarrow> string \<Rightarrow> refresh_token" where
  "refresh_token_for cfg env u raw ipAddress userAgent =
     \<lparr>rtID = eID2 (aSvc env), rtUserID = uID u, rtTokenHash = HashToken (cSha256 cfg) raw,
      rtUserAgent = userAgent, rtIPAddress = ipAddress,
      rtExpiresAt = eNow (aSvc env) + RefreshTTL (cTokens cfg), RevokedAt = None, rtCreatedAt = 0\<rparr>"

definition issueTokenPair ::
  "auth_cfg \<Rightarrow> auth_env \<Rightarrow> user \<Rightarrow> string \<Rightarrow> string \<Rightarrow> backend \<Rightarrow> auth_result result \<times> backend" where
  "issueTokenPair cfg env u ipAddress userAgent s =
     (let access = fst (IssueAccessToken (cSign cfg) (cString cfg) (cTokens cfg) (eNow (aSvc env)) (aJti env)
                          (uID u) (Email u))
      in case NewOpaqueRefreshToken (aRand env) of
           Inl e \<Rightarrow> (Inl e, s)
         | Inr raw \<Rightarrow>
             (case refreshRepo_Create uuid_Nil (eNow (aSvc env)) (refresh_token_for cfg env u raw ipAddress userAgent) (db s) of
                (Inl e, st) \<Rightarrow> (Inl e, s\<lparr>db := st\<rparr>)
              | (Inr _, st) \<Rightarrow>
                  (Inr \<lparr>AccessToken = access, RefreshToken = raw,
                        ExpiresIn = AccessTTLSeconds (cTokens cfg), MFARequired = False\<rparr>, s\<lparr>db := st\<rparr>)))"

definition IssueTokenPairFor ::
  "auth_cfg \<Rightarrow> auth_env \<Rightarrow> user \<Rightarrow> string \<Rightarrow> string \<Rightarrow> backend \<Rightarrow> auth_result result \<times> backend" where
  "IssueTokenPairFor cfg env u ipAddress userAgent s = issueTokenPair cfg env u ipAddress userAgent s"

definition audit_user ::
  "auth_cfg \<Rightarrow> auth_env \<Rightarrow> audit_action \<Rightarrow> user \<Rightarrow> string \<Rightarrow> metadata \<Rightarrow> backend \<Rightarrow> backend" where
  "audit_user cfg env action u ipAddress meta s =
     Record (aSvc env) (Some (uID u)) None action ''user'' (cString cfg (uID u)) ipAddress meta s"

definition Login ::
  "auth_cfg \<Rightarrow> auth_env \<Rightarrow> string \<Rightarrow> string \<Rightarrow> string \<Rightarrow> string \<Rightarrow> string \<Rightarrow> backend \<Rightarrow> auth_result result \<times> backend" where
  "Login cfg env email password mfaCode ipAddress userAgent s =
     (case allow_both (eNow (aSvc env)) (''login:'' @ email) loginPerAccount (''login-ip:'' @ ipAddress) loginPerAddress s of
        (False, s) \<Rightarrow> (Inl ErrForbidden, s)
      | (True, s) \<Rightarrow>
          (case userRepo_GetByEmail email (db s) of
             Inl e \<Rightarrow>
               if e = ErrNotFound
               then (Inl ErrInvalidCredentials, Record (aSvc env) None None AuditUserLoginFailed ''user'' [] ipAddress
                       [(''email'', email)] s)
               else (Inl e, s)
           | Inr u \<Rightarrow>
               if uStatus u = UserStatusDisabled then (Inl ErrForbidden, s)
               else if \<not> PasswordHasher_Verify (cFuns cfg) (PasswordHash u) password
               then (Inl ErrInvalidCredentials, audit_user cfg env AuditUserLoginFailed u ipAddress [] s)
               else if MFAEnabled u \<and> mfaCode = []
               then (Inr \<lparr>AccessToken = [], RefreshToken = [], ExpiresIn = 0, MFARequired = True\<rparr>, s)
               else if MFAEnabled u \<and> \<not> MFAManager_Validate (cFuns cfg) (eNow (aSvc env)) (MFASecret u) mfaCode
               then (Inl ErrInvalidMFACode,
                     audit_user cfg env AuditUserLoginFailed u ipAddress [(''reason'', ''bad_mfa'')] s)
               else case issueTokenPair cfg env u ipAddress userAgent s of
                      (Inl e, s) \<Rightarrow> (Inl e, s)
                    | (Inr r, s) \<Rightarrow> (Inr r, audit_user cfg env AuditUserLogin u ipAddress [] s)))"

definition Refresh_check :: "auth_cfg \<Rightarrow> gotime \<Rightarrow> string \<Rightarrow> store \<Rightarrow> (refresh_token \<times> user) result" where
  "Refresh_check cfg now rawRefreshToken st =
     (case refreshRepo_GetByHash (HashToken (cSha256 cfg) rawRefreshToken) st of
        Inl e \<Rightarrow> Inl (if e = ErrNotFound then ErrTokenInvalid else e)
      | Inr rt \<Rightarrow>
          if RevokedAt rt \<noteq> None then Inl ErrTokenRevoked
          else if after now (rtExpiresAt rt) then Inl ErrTokenExpired
          else case userRepo_GetByID (rtUserID rt) st of Inl e \<Rightarrow> Inl e | Inr u \<Rightarrow> Inr (rt, u))"

definition Refresh_rotate ::
  "auth_cfg \<Rightarrow> auth_env \<Rightarrow> refresh_token \<times> user \<Rightarrow> string \<Rightarrow> string \<Rightarrow> backend \<Rightarrow> auth_result result \<times> backend" where
  "Refresh_rotate cfg env = (\<lambda>(rt, u) ipAddress userAgent s.
     (case refreshRepo_Revoke (eNow (aSvc env)) (rtID rt) (db s) of
        (Inl e, st) \<Rightarrow> (Inl e, s\<lparr>db := st\<rparr>)
      | (Inr _, st) \<Rightarrow> issueTokenPair cfg env u ipAddress userAgent (s\<lparr>db := st\<rparr>)))"

definition Refresh ::
  "auth_cfg \<Rightarrow> auth_env \<Rightarrow> string \<Rightarrow> string \<Rightarrow> string \<Rightarrow> backend \<Rightarrow> auth_result result \<times> backend" where
  "Refresh cfg env rawRefreshToken ipAddress userAgent s =
     (case Refresh_check cfg (eNow (aSvc env)) rawRefreshToken (db s) of
        Inl e \<Rightarrow> (Inl e, s)
      | Inr found \<Rightarrow> Refresh_rotate cfg env found ipAddress userAgent s)"

definition Logout :: "auth_cfg \<Rightarrow> auth_env \<Rightarrow> string \<Rightarrow> backend \<Rightarrow> unit result \<times> backend" where
  "Logout cfg env rawRefreshToken s =
     (if rawRefreshToken = [] then (Inr (), s)
      else case refreshRepo_GetByHash (HashToken (cSha256 cfg) rawRefreshToken) (db s) of
        Inl e \<Rightarrow> if e = ErrNotFound then (Inr (), s) else (Inl e, s)
      | Inr rt \<Rightarrow>
          (case refreshRepo_Revoke (eNow (aSvc env)) (rtID rt) (db s) of (r, st) \<Rightarrow> (r, s\<lparr>db := st\<rparr>)))"

section \<open>Second factors\<close>

definition EnableMFA :: "auth_cfg \<Rightarrow> auth_env \<Rightarrow> uuid \<Rightarrow> backend \<Rightarrow> (string \<times> string) result \<times> backend" where
  "EnableMFA cfg env userID s =
     (case userRepo_GetByID userID (db s) of
        Inl e \<Rightarrow> (Inl e, s)
      | Inr u \<Rightarrow>
          (case MFAManager_GenerateSecret (cFuns cfg) (cMfaIssuer cfg) (aSalt env) (Email u) of
             Inl e \<Rightarrow> (Inl e, s)
           | Inr (secret, url) \<Rightarrow>
               (case userRepo_Update (eNow (aSvc env)) (u\<lparr>MFASecret := secret, MFAEnabled := False\<rparr>) (db s) of
                  (Inl e, st) \<Rightarrow> (Inl e, s\<lparr>db := st\<rparr>)
                | (Inr _, st) \<Rightarrow> (Inr (secret, url), s\<lparr>db := st\<rparr>))))"

definition VerifyMFA :: "auth_cfg \<Rightarrow> auth_env \<Rightarrow> uuid \<Rightarrow> string \<Rightarrow> backend \<Rightarrow> unit result \<times> backend" where
  "VerifyMFA cfg env userID code s =
     (case userRepo_GetByID userID (db s) of
        Inl e \<Rightarrow> (Inl e, s)
      | Inr u \<Rightarrow>
          if MFASecret u = [] then (Inl ErrInvalidInput, s)
          else if \<not> MFAManager_Validate (cFuns cfg) (eNow (aSvc env)) (MFASecret u) code then (Inl ErrInvalidMFACode, s)
          else (case userRepo_Update (eNow (aSvc env)) (u\<lparr>MFAEnabled := True\<rparr>) (db s) of
                  (Inl e, st) \<Rightarrow> (Inl e, s\<lparr>db := st\<rparr>)
                | (Inr u, st) \<Rightarrow> (Inr (), audit_user cfg env AuditUserMFAEnabled u [] [] (s\<lparr>db := st\<rparr>))))"

section \<open>Password resets\<close>

definition ForgotPassword :: "auth_cfg \<Rightarrow> auth_env \<Rightarrow> string \<Rightarrow> string \<Rightarrow> backend \<Rightarrow> string result \<times> backend" where
  "ForgotPassword cfg env email ipAddress s =
     (case allow_both (eNow (aSvc env)) (''reset:'' @ email) resetPerAccount (''reset-ip:'' @ ipAddress) resetPerAddress s of
        (False, s) \<Rightarrow> (Inr [], s)
      | (True, s) \<Rightarrow>
          (case userRepo_GetByEmail email (db s) of
             Inl e \<Rightarrow> if e = ErrNotFound then (Inr [], s) else (Inl e, s)
           | Inr u \<Rightarrow>
               (case NewOpaqueRefreshToken (aRand env) of
                  Inl e \<Rightarrow> (Inl e, s)
                | Inr raw \<Rightarrow>
                    (case resetRepo_Create uuid_Nil (eNow (aSvc env))
                            \<lparr>prID = eID1 (aSvc env), prUserID = uID u, prTokenHash = HashToken (cSha256 cfg) raw,
                             prExpiresAt = eNow (aSvc env) + cResetTTL cfg, UsedAt = None, prCreatedAt = 0\<rparr> (db s) of
                       (Inl e, st) \<Rightarrow> (Inl e, s\<lparr>db := st\<rparr>)
                     | (Inr _, st) \<Rightarrow> (Inr raw, s\<lparr>db := st\<rparr>)))))"

definition ResetPassword :: "auth_cfg \<Rightarrow> auth_env \<Rightarrow> string \<Rightarrow> string \<Rightarrow> backend \<Rightarrow> unit result \<times> backend" where
  "ResetPassword cfg env rawToken newPassword s =
     (case resetRepo_GetByHash (HashToken (cSha256 cfg) rawToken) (db s) of
        Inl e \<Rightarrow> if e = ErrNotFound then (Inl ErrTokenInvalid, s) else (Inl e, s)
      | Inr pr \<Rightarrow>
          if UsedAt pr \<noteq> None then (Inl ErrTokenInvalid, s)
          else if after (eNow (aSvc env)) (prExpiresAt pr) then (Inl ErrTokenExpired, s)
          else (case userRepo_GetByID (prUserID pr) (db s) of
                  Inl e \<Rightarrow> (Inl e, s)
                | Inr u \<Rightarrow>
                    (case PasswordHasher_Hash (cFuns cfg) (cCost cfg) (aSalt env) newPassword of
                       Inl e \<Rightarrow> (Inl e, s)
                     | Inr newHash \<Rightarrow>
                         (case userRepo_Update (eNow (aSvc env)) (u\<lparr>PasswordHash := newHash\<rparr>) (db s) of
                            (Inl e, st) \<Rightarrow> (Inl e, s\<lparr>db := st\<rparr>)
                          | (Inr u, st) \<Rightarrow>
                              (case resetRepo_MarkUsed (eNow (aSvc env)) (prID pr) st of
                                 (Inl e, st) \<Rightarrow> (Inl e, s\<lparr>db := st\<rparr>)
                               | (Inr _, st) \<Rightarrow>
                                   (case refreshRepo_RevokeAllForUser (eNow (aSvc env)) (uID u) st of
                                      (Inl e, st) \<Rightarrow> (Inl e, s\<lparr>db := st\<rparr>)
                                    | (Inr _, st) \<Rightarrow>
                                        (Inr (), audit_user cfg env AuditUserPasswordReset u [] [] (s\<lparr>db := st\<rparr>))))))))"

section \<open>Google login\<close>

definition GoogleAuthCodeURL :: "auth_cfg \<Rightarrow> string \<Rightarrow> string result" where
  "GoogleAuthCodeURL cfg state = (case cGoogle cfg of None \<Rightarrow> Inl ErrInvalidInput | Some g \<Rightarrow> Inr (oauthAuthCodeURL g state))"

text \<open>Finding the account of a Google profile: by subject, or by email, which links it; \<open>None\<close> when there is
  none yet.\<close>

definition google_account :: "auth_env \<Rightarrow> google_info \<Rightarrow> backend \<Rightarrow> user option result \<times> backend" where
  "google_account env info s =
     (case userRepo_GetByOAuthSubject ''google'' (gSub info) (db s) of
        Inr u \<Rightarrow> (Inr (Some u), s)
      | Inl e \<Rightarrow>
          if e \<noteq> ErrNotFound then (Inl e, s)
          else (case userRepo_GetByEmail (gEmail info) (db s) of
                  Inr existing \<Rightarrow>
                    (case userRepo_Update (eNow (aSvc env))
                            (existing\<lparr>OAuthProvider := Some ''google'', OAuthSubject := Some (gSub info)\<rparr>) (db s) of
                       (Inl e, st) \<Rightarrow> (Inl e, s\<lparr>db := st\<rparr>)
                     | (Inr u, st) \<Rightarrow> (Inr (Some u), s\<lparr>db := st\<rparr>))
                | Inl e \<Rightarrow> if e \<noteq> ErrNotFound then (Inl e, s) else (Inr None, s)))"

definition google_create :: "auth_cfg \<Rightarrow> auth_env \<Rightarrow> google_info \<Rightarrow> string \<Rightarrow> backend \<Rightarrow> user result \<times> backend" where
  "google_create cfg env info ipAddress s =
     (case NewOpaqueRefreshToken (aRand2 env) of
        Inl e \<Rightarrow> (Inl e, s)
      | Inr randomPassword \<Rightarrow>
          (case PasswordHasher_Hash (cFuns cfg) (cCost cfg) (aSalt env) randomPassword of
             Inl e \<Rightarrow> (Inl e, s)
           | Inr hash \<Rightarrow>
               let u = user_zero\<lparr>uID := eID1 (aSvc env), Email := gEmail info, PasswordHash := hash,
                         uDisplayName := gName info, uStatus := UserStatusActive, OAuthProvider := Some ''google'',
                         OAuthSubject := Some (gSub info), EmailVerifiedAt := Some (eNow (aSvc env))\<rparr>
               in case userRepo_Create uuid_Nil (eNow (aSvc env)) u (db s) of
                    (Inl e, st) \<Rightarrow> (Inl e, s\<lparr>db := st\<rparr>)
                  | (Inr u, st) \<Rightarrow>
                      (Inr u, audit_user cfg env AuditUserRegister u ipAddress [(''via'', ''google'')] (s\<lparr>db := st\<rparr>))))"

definition GoogleCallback ::
  "auth_cfg \<Rightarrow> auth_env \<Rightarrow> string \<Rightarrow> string \<Rightarrow> string \<Rightarrow> backend \<Rightarrow> auth_result result \<times> backend" where
  "GoogleCallback cfg env code ipAddress userAgent s =
     (case cGoogle cfg of
        None \<Rightarrow> (Inl ErrInvalidInput, s)
      | Some g \<Rightarrow>
          (case Exchange g code of
             Inl e \<Rightarrow> (Inl e, s)
           | Inr info \<Rightarrow>
               (case google_account env info s of
                  (Inl e, s) \<Rightarrow> (Inl e, s)
                | (Inr found, s) \<Rightarrow>
                    (case (case found of Some u \<Rightarrow> (Inr u, s) | None \<Rightarrow> google_create cfg env info ipAddress s) of
                       (Inl e, s) \<Rightarrow> (Inl e, s)
                     | (Inr u, s) \<Rightarrow>
                         (case issueTokenPair cfg env u ipAddress userAgent s of
                            (Inl e, s) \<Rightarrow> (Inl e, s)
                          | (Inr r, s) \<Rightarrow>
                              (Inr r, audit_user cfg (env\<lparr>aSvc := (aSvc env)\<lparr>eAuditID := aAuditID2 env\<rparr>\<rparr>) AuditUserLogin u ipAddress
                                       [(''via'', ''google'')] s))))))"

section \<open>Pairing\<close>

record pairing_result =
  paToken :: string
  paExpiresAt :: gotime
  paExpiresIn :: int

record claimed_pairing =
  cpAuth :: auth_result
  cpNetworkID :: string
  cpEmail :: string

definition Pairing_Start ::
  "auth_cfg \<Rightarrow> pairing_claims jwt_sign \<Rightarrow> (string \<Rightarrow> uuid option) \<Rightarrow> auth_env \<Rightarrow> uuid \<Rightarrow> string \<Rightarrow> pairing_manager \<Rightarrow> backend \<Rightarrow>
     pairing_result result \<times> backend" where
  "Pairing_Start cfg sign up env userID networkID pm s =
     (case (if networkID \<noteq> [] then
              (case up networkID of
                 None \<Rightarrow> Inl ErrInvalidInput
               | Some nid \<Rightarrow>
                   (case memberRepo_Get nid userID (db s) of
                      Inl e \<Rightarrow> if e = ErrNotFound then Inl ErrForbidden else Inl e
                    | Inr _ \<Rightarrow> Inr ()))
            else Inr ()) of
        Inl e \<Rightarrow> (Inl e, s)
      | Inr _ \<Rightarrow>
          (case PairingManager_Issue sign (cString cfg) (eNow (aSvc env)) (aJti env) userID networkID pm of
             (token, expires) \<Rightarrow>
               (Inr \<lparr>paToken = token, paExpiresAt = expires, paExpiresIn = whole_seconds (pmTTL pm)\<rparr>,
                Record (aSvc env) (Some userID) None AuditPairingStarted ''user'' (cString cfg userID) [] [] s)))"

definition Pairing_Claim ::
  "auth_cfg \<Rightarrow> pairing_claims jwt_parse \<Rightarrow> (string \<Rightarrow> uuid option) \<Rightarrow> auth_env \<Rightarrow> string \<Rightarrow> string \<Rightarrow> string \<Rightarrow>
     pairing_manager \<times> backend \<Rightarrow> claimed_pairing result \<times> pairing_manager \<times> backend" where
  "Pairing_Claim cfg parse up env token ipAddress userAgent = (\<lambda>(pm, s).
     (case Consume parse (eNow (aSvc env)) (eNow (aSvc env)) (eNow (aSvc env)) token pm of
        (Inl _, pm) \<Rightarrow> (Inl ErrUnauthorized, pm, s)
      | (Inr claims, pm) \<Rightarrow>
          (case up (pcUserID claims) of
             None \<Rightarrow> (Inl ErrUnauthorized, pm, s)
           | Some userID \<Rightarrow>
               (case userRepo_GetByID userID (db s) of
                  Inl _ \<Rightarrow> (Inl ErrUnauthorized, pm, s)
                | Inr u \<Rightarrow>
                    (case IssueTokenPairFor cfg env u ipAddress userAgent s of
                       (Inl e, s) \<Rightarrow> (Inl e, pm, s)
                     | (Inr r, s) \<Rightarrow>
                         (Inr \<lparr>cpAuth = r, cpNetworkID = pcNetworkID claims, cpEmail = Email u\<rparr>, pm,
                          Record (aSvc env) (Some userID) None AuditPairingClaimed ''user'' (cString cfg userID)
                            ipAddress [] s))))))"

end
