(* ===== verification/Http_Request.thy ===== *)
theory Http_Request
  imports Logs_Service Grpc_Server Auth_Service
begin

text \<open>
  Requests and responses of the REST API: \<open>respond.go\<close>, \<open>middleware.go\<close> and \<open>dto.go\<close> of
  \<open>backend/internal/transport/http\<close>.

  A request is what \<open>net/http\<close> hands to a handler: the method, the segments of the cleaned path
  (unescaped; the mux redirects a path that is not clean before any handler runs), the first value
  of each header under its canonical name, the query, the cookies and the body. A JSON body is the
  first JSON value of the stream with the number of bytes up to its end, \<open>None\<close> when there is no body
  or no JSON value in it; \<open>decodeJSON\<close> is the decoding of that value into a struct. The body of a
  response is the value handed to the JSON encoder.
\<close>

section \<open>JSON values and their decoding\<close>

datatype json =
    JNull
  | JBool bool
  | JNumber string
  | JString string
  | JArray "json list"
  | JObject "(string \<times> json) list"

text \<open>\<open>strconv.ParseInt(s, 10, 64)\<close>, which is also \<open>strconv.Atoi\<close>.\<close>

definition digits_value :: "string \<Rightarrow> int option" where
  "digits_value ds =
     (if ds \<noteq> [] \<and> list_all is_digit ds then Some (foldl (\<lambda>n c. 10 * n + (int (of_char c) - 48)) 0 ds) else None)"

definition Atoi :: "string \<Rightarrow> int option" where
  "Atoi s =
     (let (neg, ds) = (case s of [] \<Rightarrow> (False, s)
                                | c # cs \<Rightarrow> if c = CHR ''-'' then (True, cs) else if c = CHR ''+'' then (False, cs) else (False, s))
      in case digits_value ds of
           None \<Rightarrow> None
         | Some n \<Rightarrow> if neg then (if n \<le> 2 ^ 63 then Some (- n) else None)
                     else (if n < 2 ^ 63 then Some n else None))"

text \<open>How \<open>encoding/json\<close> stores a value into a field, by the type of the field: \<open>None\<close> is a type
  mismatch, which leaves the field as it was and makes the decoding return an error.\<close>

type_synonym 'a field = "json \<Rightarrow> 'a \<Rightarrow> 'a option"

definition string_field :: "(string \<Rightarrow> 'a \<Rightarrow> 'a) \<Rightarrow> 'a field" where
  "string_field set_it j v = (case j of JNull \<Rightarrow> Some v | JString s \<Rightarrow> Some (set_it s v) | _ \<Rightarrow> None)"

definition string_ptr_field :: "(string option \<Rightarrow> 'a \<Rightarrow> 'a) \<Rightarrow> 'a field" where
  "string_ptr_field set_it j v =
     (case j of JNull \<Rightarrow> Some (set_it None v) | JString s \<Rightarrow> Some (set_it (Some s) v) | _ \<Rightarrow> None)"

definition int_field :: "(int \<Rightarrow> 'a \<Rightarrow> 'a) \<Rightarrow> 'a field" where
  "int_field set_it j v =
     (case j of JNull \<Rightarrow> Some v
      | JNumber lit \<Rightarrow> map_option (\<lambda>n. set_it n v) (Atoi lit)
      | _ \<Rightarrow> None)"

fun string_element :: "json \<Rightarrow> string option" where
  "string_element JNull = Some []"
| "string_element (JString s) = Some s"
| "string_element _ = None"

text \<open>A slice of strings: \<open>None\<close> is the nil slice. An array with an element of another type is an error;
  what the slice then holds is not modelled, since every handler with such a field stops there.\<close>

definition strings_field :: "(string list option \<Rightarrow> 'a \<Rightarrow> 'a) \<Rightarrow> 'a field" where
  "strings_field set_it j v =
     (case j of JNull \<Rightarrow> Some (set_it None v)
      | JArray js \<Rightarrow>
          (if list_all (\<lambda>e. string_element e \<noteq> None) js
           then Some (set_it (Some (map (the \<circ> string_element) js)) v) else None)
      | _ \<Rightarrow> None)"

text \<open>The field of a key: its exact name first, then its name up to case. An unknown key is an error
  (\<open>DisallowUnknownFields\<close>), and the keys after it are still decoded.\<close>

definition field_of :: "(string \<times> 'a field) list \<Rightarrow> string \<Rightarrow> 'a field option" where
  "field_of fs key =
     (case map_of fs key of
        Some f \<Rightarrow> Some f
      | None \<Rightarrow> map_option snd (find (\<lambda>(name, _). EqualFold name key) fs))"

fun decode_members :: "(string \<times> 'a field) list \<Rightarrow> (string \<times> json) list \<Rightarrow> bool \<times> 'a \<Rightarrow> bool \<times> 'a" where
  "decode_members fs [] acc = acc"
| "decode_members fs ((key, j) # kvs) (failed, v) =
     (case field_of fs key of
        None \<Rightarrow> decode_members fs kvs (True, v)
      | Some f \<Rightarrow>
          (case f j v of
             None \<Rightarrow> decode_members fs kvs (True, v)
           | Some v' \<Rightarrow> decode_members fs kvs (failed, v')))"

definition decode_struct :: "(string \<times> 'a field) list \<Rightarrow> json \<Rightarrow> 'a \<Rightarrow> bool \<times> 'a" where
  "decode_struct fs j v =
     (case j of JNull \<Rightarrow> (False, v) | JObject kvs \<Rightarrow> decode_members fs kvs (False, v) | _ \<Rightarrow> (True, v))"

definition maxRequestBody :: int where
  "maxRequestBody = 2 ^ 20"

text \<open>The flag is \<open>err != nil\<close>.\<close>

definition decodeJSON :: "(string \<times> 'a field) list \<Rightarrow> (int \<times> json) option \<Rightarrow> 'a \<Rightarrow> bool \<times> 'a" where
  "decodeJSON fs body v =
     (case body of
        None \<Rightarrow> (True, v)
      | Some (n, j) \<Rightarrow> if n > maxRequestBody then (True, v) else decode_struct fs j v)"

section \<open>Request structs\<close>

record registerRequest =
  rgEmail :: string
  rgPassword :: string
  rgDisplayName :: string

definition registerRequest_zero :: registerRequest where
  "registerRequest_zero = \<lparr>rgEmail = [], rgPassword = [], rgDisplayName = []\<rparr>"

definition registerRequest_fields :: "(string \<times> registerRequest field) list" where
  "registerRequest_fields =
     [(''email'', string_field (\<lambda>s v. v\<lparr>rgEmail := s\<rparr>)),
      (''password'', string_field (\<lambda>s v. v\<lparr>rgPassword := s\<rparr>)),
      (''displayName'', string_field (\<lambda>s v. v\<lparr>rgDisplayName := s\<rparr>))]"

record loginRequest =
  lgEmail :: string
  lgPassword :: string
  lgMFACode :: string

definition loginRequest_zero :: loginRequest where
  "loginRequest_zero = \<lparr>lgEmail = [], lgPassword = [], lgMFACode = []\<rparr>"

definition loginRequest_fields :: "(string \<times> loginRequest field) list" where
  "loginRequest_fields =
     [(''email'', string_field (\<lambda>s v. v\<lparr>lgEmail := s\<rparr>)),
      (''password'', string_field (\<lambda>s v. v\<lparr>lgPassword := s\<rparr>)),
      (''mfaCode'', string_field (\<lambda>s v. v\<lparr>lgMFACode := s\<rparr>))]"

text \<open>A struct with one string field is that string.\<close>

definition one_string :: "string \<Rightarrow> (string \<times> string field) list" where
  "one_string name = [(name, string_field (\<lambda>s _. s))]"

definition refreshRequest_fields :: "(string \<times> string field) list" where
  "refreshRequest_fields = one_string ''refreshToken''"

definition mfaVerifyRequest_fields :: "(string \<times> string field) list" where
  "mfaVerifyRequest_fields = one_string ''code''"

definition forgotPasswordRequest_fields :: "(string \<times> string field) list" where
  "forgotPasswordRequest_fields = one_string ''email''"

record resetPasswordRequest =
  rpwToken :: string
  rpwNewPassword :: string

definition resetPasswordRequest_fields :: "(string \<times> resetPasswordRequest field) list" where
  "resetPasswordRequest_fields =
     [(''token'', string_field (\<lambda>s v. v\<lparr>rpwToken := s\<rparr>)),
      (''newPassword'', string_field (\<lambda>s v. v\<lparr>rpwNewPassword := s\<rparr>))]"

record networkCreateRequest =
  ncName :: string
  ncDescription :: string
  ncCIDR :: string
  ncDNSServers :: "string list option"

definition networkCreateRequest_zero :: networkCreateRequest where
  "networkCreateRequest_zero = \<lparr>ncName = [], ncDescription = [], ncCIDR = [], ncDNSServers = None\<rparr>"

definition networkCreateRequest_fields :: "(string \<times> networkCreateRequest field) list" where
  "networkCreateRequest_fields =
     [(''name'', string_field (\<lambda>s v. v\<lparr>ncName := s\<rparr>)),
      (''description'', string_field (\<lambda>s v. v\<lparr>ncDescription := s\<rparr>)),
      (''cidr'', string_field (\<lambda>s v. v\<lparr>ncCIDR := s\<rparr>)),
      (''dnsServers'', strings_field (\<lambda>s v. v\<lparr>ncDNSServers := s\<rparr>))]"

record networkUpdateRequest =
  nuName :: "string option"
  nuDescription :: "string option"
  nuCIDR :: "string option"
  nuDNSServers :: "string list option"

definition networkUpdateRequest_zero :: networkUpdateRequest where
  "networkUpdateRequest_zero = \<lparr>nuName = None, nuDescription = None, nuCIDR = None, nuDNSServers = None\<rparr>"

definition networkUpdateRequest_fields :: "(string \<times> networkUpdateRequest field) list" where
  "networkUpdateRequest_fields =
     [(''name'', string_ptr_field (\<lambda>s v. v\<lparr>nuName := s\<rparr>)),
      (''description'', string_ptr_field (\<lambda>s v. v\<lparr>nuDescription := s\<rparr>)),
      (''cidr'', string_ptr_field (\<lambda>s v. v\<lparr>nuCIDR := s\<rparr>)),
      (''dnsServers'', strings_field (\<lambda>s v. v\<lparr>nuDNSServers := s\<rparr>))]"

definition joinNetworkRequest_fields :: "(string \<times> string field) list" where
  "joinNetworkRequest_fields = one_string ''inviteCode''"

definition memberRoleRequest_fields :: "(string \<times> string field) list" where
  "memberRoleRequest_fields = one_string ''role''"

record deviceRegisterRequest =
  drName :: string
  drOS :: string
  drOSVersion :: string
  drPublicKey :: string

definition deviceRegisterRequest_zero :: deviceRegisterRequest where
  "deviceRegisterRequest_zero = \<lparr>drName = [], drOS = [], drOSVersion = [], drPublicKey = []\<rparr>"

definition deviceRegisterRequest_fields :: "(string \<times> deviceRegisterRequest field) list" where
  "deviceRegisterRequest_fields =
     [(''name'', string_field (\<lambda>s v. v\<lparr>drName := s\<rparr>)),
      (''os'', string_field (\<lambda>s v. v\<lparr>drOS := s\<rparr>)),
      (''osVersion'', string_field (\<lambda>s v. v\<lparr>drOSVersion := s\<rparr>)),
      (''publicKey'', string_field (\<lambda>s v. v\<lparr>drPublicKey := s\<rparr>))]"

record heartbeatRequest =
  hrPublicIP :: "string option"
  hrPrivateIP :: "string option"
  hrNATType :: "string option"
  hrBytesSent :: int
  hrBytesReceived :: int

definition heartbeatRequest_zero :: heartbeatRequest where
  "heartbeatRequest_zero =
     \<lparr>hrPublicIP = None, hrPrivateIP = None, hrNATType = None, hrBytesSent = 0, hrBytesReceived = 0\<rparr>"

definition heartbeatRequest_fields :: "(string \<times> heartbeatRequest field) list" where
  "heartbeatRequest_fields =
     [(''publicIp'', string_ptr_field (\<lambda>s v. v\<lparr>hrPublicIP := s\<rparr>)),
      (''privateIp'', string_ptr_field (\<lambda>s v. v\<lparr>hrPrivateIP := s\<rparr>)),
      (''natType'', string_ptr_field (\<lambda>s v. v\<lparr>hrNATType := s\<rparr>)),
      (''bytesSent'', int_field (\<lambda>n v. v\<lparr>hrBytesSent := n\<rparr>)),
      (''bytesReceived'', int_field (\<lambda>n v. v\<lparr>hrBytesReceived := n\<rparr>))]"

definition startPairingRequest_fields :: "(string \<times> string field) list" where
  "startPairingRequest_fields = one_string ''networkId''"

definition claimPairingRequest_fields :: "(string \<times> string field) list" where
  "claimPairingRequest_fields = one_string ''token''"

record relayRegisterRequest =
  rlRegion :: string
  rlHostname :: string
  rlPublicKey :: string
  rlControlPort :: int
  rlRelayPort :: int
  rlCapacity :: int

definition relayRegisterRequest_zero :: relayRegisterRequest where
  "relayRegisterRequest_zero =
     \<lparr>rlRegion = [], rlHostname = [], rlPublicKey = [], rlControlPort = 0, rlRelayPort = 0, rlCapacity = 0\<rparr>"

definition relayRegisterRequest_fields :: "(string \<times> relayRegisterRequest field) list" where
  "relayRegisterRequest_fields =
     [(''region'', string_field (\<lambda>s v. v\<lparr>rlRegion := s\<rparr>)),
      (''hostname'', string_field (\<lambda>s v. v\<lparr>rlHostname := s\<rparr>)),
      (''publicKey'', string_field (\<lambda>s v. v\<lparr>rlPublicKey := s\<rparr>)),
      (''controlPort'', int_field (\<lambda>n v. v\<lparr>rlControlPort := n\<rparr>)),
      (''relayPort'', int_field (\<lambda>n v. v\<lparr>rlRelayPort := n\<rparr>)),
      (''capacity'', int_field (\<lambda>n v. v\<lparr>rlCapacity := n\<rparr>))]"

record relayHeartbeatRequest =
  rhRelayID :: string
  rhCurrentLoad :: int

definition relayHeartbeatRequest_fields :: "(string \<times> relayHeartbeatRequest field) list" where
  "relayHeartbeatRequest_fields =
     [(''relayId'', string_field (\<lambda>s v. v\<lparr>rhRelayID := s\<rparr>)),
      (''currentLoad'', int_field (\<lambda>n v. v\<lparr>rhCurrentLoad := n\<rparr>))]"

section \<open>Response structs\<close>

record userDTO =
  duID :: string
  duEmail :: string
  duDisplayName :: string
  duMFAEnabled :: bool
  duStatus :: string
  duCreatedAt :: gotime

definition toUserDTO :: "(uuid \<Rightarrow> string) \<Rightarrow> user \<Rightarrow> userDTO" where
  "toUserDTO us u =
     \<lparr>duID = us (uID u), duEmail = Email u, duDisplayName = uDisplayName u, duMFAEnabled = MFAEnabled u,
      duStatus = uStatus u, duCreatedAt = uCreatedAt u\<rparr>"

record tokenPairDTO =
  dtAccessToken :: string
  dtRefreshToken :: string
  dtExpiresIn :: int
  dtMFARequired :: bool

definition toTokenPairDTO :: "auth_result \<Rightarrow> tokenPairDTO" where
  "toTokenPairDTO r =
     \<lparr>dtAccessToken = AccessToken r, dtRefreshToken = RefreshToken r, dtExpiresIn = ExpiresIn r,
      dtMFARequired = MFARequired r\<rparr>"

record networkDTO =
  dnID :: string
  dnName :: string
  dnDescription :: string
  dnCIDR :: string
  dnDNSServers :: "string list"
  dnRole :: string
  dnMemberCount :: nat
  dnDeviceCount :: nat
  dnInviteCode :: string
  dnCreatedAt :: gotime

definition toNetworkDTO :: "(uuid \<Rightarrow> string) \<Rightarrow> network \<Rightarrow> networkDTO" where
  "toNetworkDTO us n =
     \<lparr>dnID = us (nID n), dnName = nName n, dnDescription = nDescription n, dnCIDR = CIDR n,
      dnDNSServers = DNSServers n, dnRole = CallerRole n, dnMemberCount = MemberCount n,
      dnDeviceCount = DeviceCount n, dnInviteCode = InviteCode n, dnCreatedAt = nCreatedAt n\<rparr>"

definition toNetworkDTOs :: "(uuid \<Rightarrow> string) \<Rightarrow> network list \<Rightarrow> networkDTO list" where
  "toNetworkDTOs us ns = map (toNetworkDTO us) ns"

record memberDTO =
  dmUserID :: string
  dmEmail :: string
  dmDisplayName :: string
  dmRole :: string
  dmJoinedAt :: gotime

definition toMemberDTOs :: "(uuid \<Rightarrow> string) \<Rightarrow> network_member list \<Rightarrow> memberDTO list" where
  "toMemberDTOs us ms =
     map (\<lambda>m. \<lparr>dmUserID = us (mUserID m), dmEmail = mEmail m, dmDisplayName = mDisplayName m,
                dmRole = Role m, dmJoinedAt = JoinedAt m\<rparr>) ms"

record deviceDTO =
  ddID :: string
  ddName :: string
  ddOS :: string
  ddOSVersion :: string
  ddPublicKey :: string
  ddVirtualIP :: string
  ddLastPublicIP :: string
  ddLastPrivateIP :: string
  ddStatus :: string
  ddNATType :: string
  ddBytesSent :: "64 word"
  ddBytesReceived :: "64 word"
  ddLastSeenAt :: "gotime option"

definition deref :: "string option \<Rightarrow> string" where
  "deref s = (case s of None \<Rightarrow> [] | Some v \<Rightarrow> v)"

definition toDeviceDTO :: "(uuid \<Rightarrow> string) \<Rightarrow> device \<Rightarrow> deviceDTO" where
  "toDeviceDTO us d =
     \<lparr>ddID = us (dID d), ddName = dName d, ddOS = OS d, ddOSVersion = OSVersion d, ddPublicKey = PublicKey d,
      ddVirtualIP = VirtualIP d, ddLastPublicIP = deref (LastPublicIP d), ddLastPrivateIP = deref (LastPrivateIP d),
      ddStatus = dStatus d, ddNATType = deref (dNATType d), ddBytesSent = dBytesSent d,
      ddBytesReceived = dBytesReceived d, ddLastSeenAt = LastSeenAt d\<rparr>"

definition toDeviceDTOs :: "(uuid \<Rightarrow> string) \<Rightarrow> device list \<Rightarrow> deviceDTO list" where
  "toDeviceDTOs us ds = map (toDeviceDTO us) ds"

definition action_string :: "audit_action \<Rightarrow> string" where
  "action_string a =
     (case a of
        AuditUserRegister \<Rightarrow> ''user.register''
      | AuditUserLogin \<Rightarrow> ''user.login''
      | AuditUserLoginFailed \<Rightarrow> ''user.login_failed''
      | AuditUserPasswordReset \<Rightarrow> ''user.password_reset''
      | AuditUserMFAEnabled \<Rightarrow> ''user.mfa_enabled''
      | AuditUserMFADisabled \<Rightarrow> ''user.mfa_disabled''
      | AuditPairingStarted \<Rightarrow> ''auth.pairing_started''
      | AuditPairingClaimed \<Rightarrow> ''auth.pairing_claimed''
      | AuditNetworkCreate \<Rightarrow> ''network.create''
      | AuditNetworkUpdate \<Rightarrow> ''network.update''
      | AuditNetworkDelete \<Rightarrow> ''network.delete''
      | AuditNetworkInviteCreated \<Rightarrow> ''network.invite_created''
      | AuditNetworkInviteRotated \<Rightarrow> ''network.invite_rotated''
      | AuditNetworkMemberJoined \<Rightarrow> ''network.member_joined''
      | AuditNetworkMemberRemoved \<Rightarrow> ''network.member_removed''
      | AuditNetworkMemberRoleChg \<Rightarrow> ''network.member_role_changed''
      | AuditDeviceRegistered \<Rightarrow> ''device.registered''
      | AuditDeviceRemoved \<Rightarrow> ''device.removed''
      | AuditDeviceKeyRotated \<Rightarrow> ''device.key_rotated'')"

record auditLogDTO =
  daID :: string
  daActorUserID :: string
  daNetworkID :: string
  daAction :: string
  daTargetType :: string
  daTargetID :: string
  daCreatedAt :: gotime

definition toAuditLogDTOs :: "(uuid \<Rightarrow> string) \<Rightarrow> audit_log list \<Rightarrow> auditLogDTO list" where
  "toAuditLogDTOs us ls =
     map (\<lambda>l. \<lparr>daID = us (alID l), daActorUserID = deref (map_option us (ActorUserID l)),
                daNetworkID = deref (map_option us (alNetworkID l)), daAction = action_string (Action l),
                daTargetType = deref (TargetType l), daTargetID = deref (TargetID l),
                daCreatedAt = alCreatedAt l\<rparr>) ls"

record connectionLogDTO =
  dcID :: string
  dcNetworkID :: string
  dcDeviceID :: string
  dcPeerDeviceID :: string
  dcEventType :: string
  dcLatencyMs :: "int option"
  dcCreatedAt :: gotime

definition toConnectionLogDTOs :: "(uuid \<Rightarrow> string) \<Rightarrow> connection_log list \<Rightarrow> connectionLogDTO list" where
  "toConnectionLogDTOs us ls =
     map (\<lambda>l. \<lparr>dcID = us (clID l), dcNetworkID = us (clNetworkID l), dcDeviceID = us (clDeviceID l),
                dcPeerDeviceID = deref (map_option us (PeerDeviceID l)), dcEventType = EventType l,
                dcLatencyMs = LatencyMs l, dcCreatedAt = clCreatedAt l\<rparr>) ls"

record claimedPairingDTO =
  dpPair :: tokenPairDTO
  dpNetworkID :: string
  dpEmail :: string

text \<open>The text of an error envelope: a literal of the handlers, or \<open>err.Error()\<close> of a domain error.\<close>

datatype message = Text string | ErrorText domain_error

datatype body =
    NoBody
  | PlainText string
  | ErrorEnvelope string message
  | UserBody userDTO
  | TokenPairBody tokenPairDTO
  | NetworkBody networkDTO
  | NetworksBody "networkDTO list"
  | MembersBody "memberDTO list"
  | DeviceBody deviceDTO
  | DevicesBody "deviceDTO list"
  | AuditLogsBody "auditLogDTO list"
  | ConnectionLogsBody "connectionLogDTO list"
  | StatsBody dashboard_stats
  | PairingBody pairing_result
  | ClaimedBody claimedPairingDTO
  | StringsBody "(string \<times> string) list"
  | FlagBody string bool
  | InviteBody string "gotime option"

section \<open>Requests and responses\<close>

record http_request =
  hqMethod :: string
  hqPath :: "string list"
  hqHeader :: "(string \<times> string) list"
  hqQuery :: "(string \<times> string) list"
  hqCookie :: "(string \<times> string) list"
  hqBody :: "(int \<times> json) option"
  hqContentLength :: int
  hqRemoteAddr :: string
  hqTLS :: bool
  hqPathValue :: "(string \<times> string) list"
  hqUser :: "(uuid \<times> string) option"

record cookie =
  ckName :: string
  ckValue :: string
  ckPath :: string
  ckHttpOnly :: bool
  ckSecure :: bool
  ckSameSiteLax :: bool
  ckMaxAge :: int

record http_response =
  hpStatus :: int
  hpHeader :: "(string, string) gomap"
  hpCookies :: "cookie list"
  hpBody :: body

text \<open>\<open>Header.Get\<close>, \<open>Query().Get\<close> and \<open>PathValue\<close>: the empty string when there is none.\<close>

definition Get :: "(string \<times> string) list \<Rightarrow> string \<Rightarrow> string" where
  "Get m k = deref (map_of m k)"

definition writeJSON :: "int \<Rightarrow> body \<Rightarrow> http_response" where
  "writeJSON status v =
     \<lparr>hpStatus = status, hpHeader = [(''Content-Type'', ''application/json'')], hpCookies = [], hpBody = v\<rparr>"

definition no_content :: http_response where
  "no_content = \<lparr>hpStatus = 204, hpHeader = [], hpCookies = [], hpBody = NoBody\<rparr>"

definition writeError :: "int \<Rightarrow> string \<Rightarrow> string \<Rightarrow> http_response" where
  "writeError status code msg = writeJSON status (ErrorEnvelope code (Text msg))"

definition writeDomainError :: "domain_error \<Rightarrow> http_response" where
  "writeDomainError err =
     (let env = (\<lambda>status code. writeJSON status (ErrorEnvelope code (ErrorText err)))
      in case err of
           ErrNotFound \<Rightarrow> env 404 ''not_found''
         | ErrAlreadyExists \<Rightarrow> env 409 ''already_exists''
         | ErrInvalidCredentials \<Rightarrow> env 401 ''invalid_credentials''
         | ErrInvalidMFACode \<Rightarrow> env 401 ''invalid_mfa_code''
         | ErrUnauthorized \<Rightarrow> env 401 ''unauthorized''
         | ErrForbidden \<Rightarrow> env 403 ''forbidden''
         | ErrLastOwner \<Rightarrow> env 403 ''forbidden''
         | ErrInvalidInput \<Rightarrow> env 400 ''invalid_input''
         | ErrInviteInvalid \<Rightarrow> env 400 ''invite_invalid''
         | ErrNetworkFull \<Rightarrow> env 409 ''network_full''
         | ErrTokenExpired \<Rightarrow> env 401 ''token_expired''
         | ErrTokenRevoked \<Rightarrow> env 401 ''token_revoked''
         | ErrTokenInvalid \<Rightarrow> env 401 ''token_invalid''
         | ErrMFARequired \<Rightarrow> env 401 ''mfa_required''
         | _ \<Rightarrow> writeError 500 ''internal_error'' ''an unexpected error occurred'')"

section \<open>Middleware\<close>

text \<open>A handler takes a request and the state of the server; \<open>None\<close> is a handler that does not return.\<close>

type_synonym hstate = "pairing_manager \<times> backend"
type_synonym handler = "http_request \<Rightarrow> hstate \<Rightarrow> (http_response \<times> hstate) option"

definition UserIDFromContext :: "http_request \<Rightarrow> uuid option" where
  "UserIDFromContext r = map_option fst (hqUser r)"

definition EmailFromContext :: "http_request \<Rightarrow> string option" where
  "EmailFromContext r = map_option snd (hqUser r)"

definition WithUserID :: "http_request \<Rightarrow> uuid \<Rightarrow> string \<Rightarrow> http_request" where
  "WithUserID r userID email = r\<lparr>hqUser := Some (userID, email)\<rparr>"

definition bearerToken :: "http_request \<Rightarrow> string" where
  "bearerToken r =
     (case CutPrefix (Get (hqHeader r) ''Authorization'') ''Bearer '' of
        Some after_it \<Rightarrow> TrimSpace after_it
      | None \<Rightarrow> Get (hqQuery r) ''access_token'')"

definition Authenticate ::
  "(string \<Rightarrow> access_error + access_claims) \<Rightarrow> (string \<Rightarrow> uuid option) \<Rightarrow> handler \<Rightarrow> handler" where
  "Authenticate parse up next_h r s =
     (let raw = bearerToken r
      in if raw = [] then Some (writeError 401 ''unauthorized'' ''missing bearer token'', s)
         else (case parse raw of
                 Inl _ \<Rightarrow> Some (writeError 401 ''token_invalid'' ''invalid or expired access token'', s)
               | Inr claims \<Rightarrow>
                   (case up (acUserID claims) of
                      None \<Rightarrow> Some (writeError 401 ''token_invalid'' ''malformed subject claim'', s)
                    | Some userID \<Rightarrow> next_h (WithUserID r userID (acEmail claims)) s)))"

definition with_headers :: "(string \<times> string) list \<Rightarrow> http_response \<Rightarrow> http_response" where
  "with_headers hs resp = resp\<lparr>hpHeader := hs @ hpHeader resp\<rparr>"

definition cors_headers :: "string list \<Rightarrow> string \<Rightarrow> (string \<times> string) list" where
  "cors_headers allowedOrigins origin =
     (let allowAll = (''*'' \<in> set allowedOrigins);
          allowed = filter (\<lambda>x. x \<noteq> ''*'') allowedOrigins
      in if origin = [] then []
         else if origin \<in> set allowed then
           [(''Access-Control-Allow-Origin'', origin),
            (''Vary'', ''Origin''),
            (''Access-Control-Allow-Credentials'', ''true''),
            (''Access-Control-Allow-Methods'', ''GET, POST, PATCH, DELETE, OPTIONS''),
            (''Access-Control-Allow-Headers'', ''Authorization, Content-Type''),
            (''Access-Control-Max-Age'', ''600'')]
         else if allowAll then
           [(''Access-Control-Allow-Origin'', ''*''),
            (''Access-Control-Allow-Methods'', ''GET, POST, PATCH, DELETE, OPTIONS''),
            (''Access-Control-Allow-Headers'', ''Authorization, Content-Type''),
            (''Access-Control-Max-Age'', ''600'')]
         else [])"

definition CORS :: "string list \<Rightarrow> handler \<Rightarrow> handler" where
  "CORS allowedOrigins next_h r s =
     (let hs = cors_headers allowedOrigins (Get (hqHeader r) ''Origin'')
      in if hqMethod r = ''OPTIONS'' then Some (with_headers hs no_content, s)
         else map_option (\<lambda>(resp, s'). (with_headers hs resp, s')) (next_h r s))"

text \<open>\<open>chain(h, a, b)\<close> runs \<open>a\<close>, then \<open>b\<close>, then \<open>h\<close>.\<close>

definition chain :: "handler \<Rightarrow> (handler \<Rightarrow> handler) list \<Rightarrow> handler" where
  "chain h mw = foldr (\<lambda>m acc. m acc) mw h"

section \<open>Addresses\<close>

text \<open>\<open>strings.Cut(s, ",")\<close>: what precedes the first comma, when there is one.\<close>

definition before_comma :: "string \<Rightarrow> string option" where
  "before_comma s = map_option (\<lambda>i. take i s) (first_index (CHR '','') s)"

definition clientIP :: "http_request \<Rightarrow> string" where
  "clientIP r =
     (let xff = Get (hqHeader r) ''X-Forwarded-For''
      in if xff \<noteq> [] then
           (case before_comma xff of Some first \<Rightarrow> TrimSpace first | None \<Rightarrow> TrimSpace xff)
         else (case SplitHostPort (hqRemoteAddr r) of
                 Some (host, _) \<Rightarrow> host
               | None \<Rightarrow> hqRemoteAddr r))"

end
