(* ===== verification/Http_Server.thy ===== *)
theory Http_Server
  imports Http_Request
begin

text \<open>
  The handlers of the REST API and their router, \<open>backend/internal/transport/http\<close>. One definition per
  handler, over the services of \<open>Network_Service\<close>, \<open>Device_Service\<close>, \<open>Auth_Service\<close> and \<open>Logs_Service\<close>.

  \<open>http_cfg\<close> is what the router is built from; the handlers of the relay fleet and of pairing are there
  only when they are configured, and the WebSocket handler is not configured. \<open>env\<close> is what one request
  reads of the clock, \<open>uuid.New\<close> and the random source. \<open>Recover\<close> and \<open>Metrics\<close>, which wrap every handler,
  are left out of the chain: no modelled handler panics, and the counters are not part of the state.
\<close>

record http_cfg =
  hAuth :: auth_cfg
  hAccess :: "string \<Rightarrow> access_claims jwt_parse"
  hParse :: "string \<Rightarrow> uuid option"
  hPairSign :: "pairing_claims jwt_sign"
  hPairParse :: "pairing_claims jwt_parse"
  hPairing :: bool
  hExpose :: bool
  hRelaySecret :: "string option"
  hOrigins :: "string list"
  hWindow :: duration

abbreviation hString :: "http_cfg \<Rightarrow> uuid \<Rightarrow> string" where
  "hString cfg \<equiv> cString (hAuth cfg)"

definition hTokens :: "http_cfg \<Rightarrow> gotime \<Rightarrow> string \<Rightarrow> access_error + access_claims" where
  "hTokens cfg now = ParseAccessToken (hAccess cfg) (cTokens (hAuth cfg)) now"

section \<open>Answering with the result of a service\<close>

definition respond_with :: "('a \<Rightarrow> http_response) \<Rightarrow> pairing_manager \<Rightarrow> 'a result \<times> backend \<Rightarrow> (http_response \<times> hstate) option" where
  "respond_with ok pm x =
     (case x of
        (Inl err, s) \<Rightarrow> Some (writeDomainError err, pm, s)
      | (Inr v, s) \<Rightarrow> Some (ok v, pm, s))"

abbreviation malformed_body :: http_response where
  "malformed_body \<equiv> writeError 400 ''invalid_input'' ''malformed JSON body''"

abbreviation bad_input :: "string \<Rightarrow> http_response" where
  "bad_input msg \<equiv> writeError 400 ''invalid_input'' msg"

definition normal_email :: "string \<Rightarrow> string" where
  "normal_email email = TrimSpace (map lower email)"

section \<open>Accounts\<close>

definition AuthHandler_register :: "http_cfg \<Rightarrow> auth_env \<Rightarrow> handler" where
  "AuthHandler_register cfg env r = (\<lambda>(pm, s).
     (case decodeJSON registerRequest_fields (hqBody r) registerRequest_zero of
        (failed, req) \<Rightarrow>
          if failed then Some (malformed_body, pm, s)
          else let email = normal_email (rgEmail req)
               in if email = [] \<or> CHR ''@'' \<notin> set email then Some (bad_input ''a valid email is required'', pm, s)
                  else if length (rgPassword req) < 12
                  then Some (bad_input ''password must be at least 12 characters'', pm, s)
                  else if TrimSpace (rgDisplayName req) = [] then Some (bad_input ''displayName is required'', pm, s)
                  else respond_with (\<lambda>u. writeJSON 201 (UserBody (toUserDTO (hString cfg) u))) pm
                         (AuthService_Register (hAuth cfg) env email (rgPassword req) (rgDisplayName req) (clientIP r) s)))"

definition UserAgent :: "http_request \<Rightarrow> string" where
  "UserAgent r = Get (hqHeader r) ''User-Agent''"

definition AuthHandler_login :: "http_cfg \<Rightarrow> auth_env \<Rightarrow> handler" where
  "AuthHandler_login cfg env r = (\<lambda>(pm, s).
     (case decodeJSON loginRequest_fields (hqBody r) loginRequest_zero of
        (failed, req) \<Rightarrow>
          if failed then Some (malformed_body, pm, s)
          else let email = normal_email (lgEmail req)
               in if email = [] \<or> lgPassword req = [] then Some (bad_input ''email and password are required'', pm, s)
                  else respond_with (\<lambda>a. writeJSON 200 (TokenPairBody (toTokenPairDTO a))) pm
                         (Login (hAuth cfg) env email (lgPassword req) (lgMFACode req) (clientIP r) (UserAgent r) s)))"

definition AuthHandler_refresh :: "http_cfg \<Rightarrow> auth_env \<Rightarrow> handler" where
  "AuthHandler_refresh cfg env r = (\<lambda>(pm, s).
     (case decodeJSON refreshRequest_fields (hqBody r) [] of
        (failed, token) \<Rightarrow>
          if failed then Some (malformed_body, pm, s)
          else if token = [] then Some (bad_input ''refreshToken is required'', pm, s)
          else respond_with (\<lambda>a. writeJSON 200 (TokenPairBody (toTokenPairDTO a))) pm
                 (Refresh (hAuth cfg) env token (clientIP r) (UserAgent r) s)))"

definition AuthHandler_logout :: "http_cfg \<Rightarrow> auth_env \<Rightarrow> handler" where
  "AuthHandler_logout cfg env r = (\<lambda>(pm, s).
     (case decodeJSON refreshRequest_fields (hqBody r) [] of
        (_, token) \<Rightarrow> respond_with (\<lambda>_. no_content) pm (Logout (hAuth cfg) env token s)))"

definition AuthHandler_enableMFA :: "http_cfg \<Rightarrow> auth_env \<Rightarrow> handler" where
  "AuthHandler_enableMFA cfg env r = (\<lambda>(pm, s).
     (case UserIDFromContext r of
        None \<Rightarrow> Some (writeError 401 ''unauthorized'' ''authentication required'', pm, s)
      | Some userID \<Rightarrow>
          respond_with (\<lambda>(secret, otpauthURL). writeJSON 200 (StringsBody [(''secret'', secret), (''otpauthUrl'', otpauthURL)])) pm
            (EnableMFA (hAuth cfg) env userID s)))"

definition AuthHandler_verifyMFA :: "http_cfg \<Rightarrow> auth_env \<Rightarrow> handler" where
  "AuthHandler_verifyMFA cfg env r = (\<lambda>(pm, s).
     (case UserIDFromContext r of
        None \<Rightarrow> Some (writeError 401 ''unauthorized'' ''authentication required'', pm, s)
      | Some userID \<Rightarrow>
          (case decodeJSON mfaVerifyRequest_fields (hqBody r) [] of
             (failed, code) \<Rightarrow>
               if failed \<or> code = [] then Some (bad_input ''code is required'', pm, s)
               else respond_with (\<lambda>_. writeJSON 200 (FlagBody ''mfaEnabled'' True)) pm
                      (VerifyMFA (hAuth cfg) env userID code s))))"

definition AuthHandler_forgotPassword :: "http_cfg \<Rightarrow> auth_env \<Rightarrow> handler" where
  "AuthHandler_forgotPassword cfg env r = (\<lambda>(pm, s).
     (case decodeJSON forgotPasswordRequest_fields (hqBody r) [] of
        (failed, email) \<Rightarrow>
          if failed then Some (malformed_body, pm, s)
          else (case ForgotPassword (hAuth cfg) env (normal_email email) (clientIP r) s of
                  (res, s') \<Rightarrow>
                    let token = (case res of Inl _ \<Rightarrow> [] | Inr t \<Rightarrow> t)
                    in Some (writeJSON 202 (StringsBody
                               ((''status'', ''accepted'') #
                                (if hExpose cfg \<and> token \<noteq> [] then [(''resetToken'', token)] else []))), pm, s'))))"

definition AuthHandler_resetPassword :: "http_cfg \<Rightarrow> auth_env \<Rightarrow> handler" where
  "AuthHandler_resetPassword cfg env r = (\<lambda>(pm, s).
     (case decodeJSON resetPasswordRequest_fields (hqBody r) \<lparr>rpwToken = [], rpwNewPassword = []\<rparr> of
        (failed, req) \<Rightarrow>
          if failed then Some (malformed_body, pm, s)
          else if rpwToken req = [] \<or> length (rpwNewPassword req) < 12
          then Some (bad_input ''token and a newPassword of at least 12 characters are required'', pm, s)
          else respond_with (\<lambda>_. writeJSON 200 (StringsBody [(''status'', ''password_updated'')])) pm
                 (ResetPassword (hAuth cfg) env (rpwToken req) (rpwNewPassword req) s)))"

section \<open>Google login\<close>

text \<open>\<open>base64.RawURLEncoding\<close>: groups of six bits, the last one filled up with zeros, and no padding.\<close>

definition base64_url :: string where
  "base64_url = ''ABCDEFGHIJKLMNOPQRSTUVWXYZabcdefghijklmnopqrstuvwxyz0123456789-_''"

function chunk6 :: "bool list \<Rightarrow> bool list list" where
  "chunk6 xs = (if xs = [] then [] else take 6 (xs @ replicate 6 False) # chunk6 (drop 6 xs))"
  by pat_completeness auto
termination by (relation "measure length") auto

declare chunk6.simps [simp del]

definition RawURLEncoding :: "bytes \<Rightarrow> string" where
  "RawURLEncoding bs = map (\<lambda>c. base64_url ! bits_value c) (chunk6 (concat (map byte_bits bs)))"

definition oauthState :: "bytes option \<Rightarrow> string option" where
  "oauthState r = map_option (\<lambda>b. RawURLEncoding (take 24 b)) r"

definition oauthStateCookie :: string where
  "oauthStateCookie = ''nexusvpn_oauth_state''"

definition AuthHandler_oauthRedirect :: "http_cfg \<Rightarrow> auth_env \<Rightarrow> handler" where
  "AuthHandler_oauthRedirect cfg env r s =
     (if Get (hqPathValue r) ''provider'' \<noteq> ''google'' then Some (bad_input ''unsupported OAuth provider'', s)
      else case oauthState (aRand env) of
        None \<Rightarrow> Some (writeError 500 ''internal_error'' ''could not start OAuth flow'', s)
      | Some state \<Rightarrow>
          (case GoogleAuthCodeURL (hAuth cfg) state of
             Inl _ \<Rightarrow> Some (bad_input ''OAuth is not configured on this server'', s)
           | Inr url \<Rightarrow>
               Some (\<lparr>hpStatus = 302, hpHeader = [(''Location'', url)],
                      hpCookies = [\<lparr>ckName = oauthStateCookie, ckValue = state, ckPath = ''/'', ckHttpOnly = True,
                                    ckSecure = hqTLS r, ckSameSiteLax = True, ckMaxAge = 600\<rparr>],
                      hpBody = NoBody\<rparr>, s)))"

definition clear_state_cookie :: "http_response \<Rightarrow> http_response" where
  "clear_state_cookie resp =
     resp\<lparr>hpCookies := \<lparr>ckName = oauthStateCookie, ckValue = [], ckPath = ''/'', ckHttpOnly = False,
                         ckSecure = False, ckSameSiteLax = False, ckMaxAge = - 1\<rparr> # hpCookies resp\<rparr>"

definition AuthHandler_oauthCallback :: "http_cfg \<Rightarrow> auth_env \<Rightarrow> handler" where
  "AuthHandler_oauthCallback cfg env r = (\<lambda>(pm, s).
     if Get (hqPathValue r) ''provider'' \<noteq> ''google'' then Some (bad_input ''unsupported OAuth provider'', pm, s)
     else let code = Get (hqQuery r) ''code''; state = Get (hqQuery r) ''state''
          in if code = [] \<or> state = [] then Some (bad_input ''code and state are required'', pm, s)
             else if (case map_of (hqCookie r) oauthStateCookie of
                        None \<Rightarrow> True | Some v \<Rightarrow> v = [] \<or> v \<noteq> state)
             then Some (bad_input ''OAuth state mismatch'', pm, s)
             else map_option (\<lambda>(resp, s'). (clear_state_cookie resp, s'))
                    (respond_with (\<lambda>a. writeJSON 200 (TokenPairBody (toTokenPairDTO a))) pm
                       (GoogleCallback (hAuth cfg) env code (clientIP r) (UserAgent r) s)))"

section \<open>Pairing\<close>

definition PairingHandler_start :: "http_cfg \<Rightarrow> auth_env \<Rightarrow> handler" where
  "PairingHandler_start cfg env r = (\<lambda>(pm, s).
     (case UserIDFromContext r of
        None \<Rightarrow> Some (writeError 401 ''unauthorized'' ''authentication required'', pm, s)
      | Some userID \<Rightarrow>
          (case (if hqContentLength r > 0 then decodeJSON startPairingRequest_fields (hqBody r) [] else (False, [])) of
             (failed, networkID) \<Rightarrow>
               if failed then Some (malformed_body, pm, s)
               else respond_with (\<lambda>p. writeJSON 200 (PairingBody p)) pm
                      (Pairing_Start (hAuth cfg) (hPairSign cfg) (hParse cfg) env userID (TrimSpace networkID) pm s))))"

definition PairingHandler_claim :: "http_cfg \<Rightarrow> auth_env \<Rightarrow> handler" where
  "PairingHandler_claim cfg env r = (\<lambda>(pm, s).
     (case decodeJSON claimPairingRequest_fields (hqBody r) [] of
        (failed, tok) \<Rightarrow>
          if failed then Some (malformed_body, pm, s)
          else let token = TrimSpace tok
               in if token = [] then Some (bad_input ''token is required'', pm, s)
                  else (case Pairing_Claim (hAuth cfg) (hPairParse cfg) (hParse cfg) env token (clientIP r) (UserAgent r) (pm, s) of
                          (Inl err, st) \<Rightarrow> Some (writeDomainError err, st)
                        | (Inr c, st) \<Rightarrow>
                            Some (writeJSON 200 (ClaimedBody \<lparr>dpPair = toTokenPairDTO (cpAuth c),
                                                   dpNetworkID = cpNetworkID c, dpEmail = cpEmail c\<rparr>), st))))"

section \<open>Networks\<close>

definition requireUser :: "http_request \<Rightarrow> http_response + uuid" where
  "requireUser r =
     (case UserIDFromContext r of
        None \<Rightarrow> Inl (writeError 401 ''unauthorized'' ''authentication required'')
      | Some userID \<Rightarrow> Inr userID)"

definition pathUUID :: "http_cfg \<Rightarrow> http_request \<Rightarrow> string \<Rightarrow> http_response + uuid" where
  "pathUUID cfg r name =
     (case hParse cfg (Get (hqPathValue r) name) of
        None \<Rightarrow> Inl (bad_input (''malformed '' @ name))
      | Some i \<Rightarrow> Inr i)"

definition NetworkHandler_list :: "http_cfg \<Rightarrow> auth_env \<Rightarrow> handler" where
  "NetworkHandler_list cfg env r = (\<lambda>(pm, s).
     (case requireUser r of
        Inl resp \<Rightarrow> Some (resp, pm, s)
      | Inr userID \<Rightarrow>
          Some (writeJSON 200 (NetworksBody (toNetworkDTOs (hString cfg) (NetworkService_ListForUser userID s))), pm, s)))"

definition NetworkHandler_create :: "http_cfg \<Rightarrow> auth_env \<Rightarrow> handler" where
  "NetworkHandler_create cfg env r = (\<lambda>(pm, s).
     (case requireUser r of
        Inl resp \<Rightarrow> Some (resp, pm, s)
      | Inr userID \<Rightarrow>
          (case decodeJSON networkCreateRequest_fields (hqBody r) networkCreateRequest_zero of
             (failed, req) \<Rightarrow>
               if failed then Some (malformed_body, pm, s)
               else if TrimSpace (ncName req) = [] then Some (bad_input ''name is required'', pm, s)
               else respond_with (\<lambda>n. writeJSON 201 (NetworkBody (toNetworkDTO (hString cfg) n))) pm
                      (NetworkService_Create (hString cfg) (aSvc env) userID (ncName req) (ncDescription req) (ncCIDR req)
                         (case ncDNSServers req of None \<Rightarrow> [] | Some ds \<Rightarrow> ds) s))))"

definition NetworkHandler_join :: "http_cfg \<Rightarrow> auth_env \<Rightarrow> handler" where
  "NetworkHandler_join cfg env r = (\<lambda>(pm, s).
     (case requireUser r of
        Inl resp \<Rightarrow> Some (resp, pm, s)
      | Inr userID \<Rightarrow>
          (case decodeJSON joinNetworkRequest_fields (hqBody r) [] of
             (failed, code) \<Rightarrow>
               if failed then Some (malformed_body, pm, s)
               else if TrimSpace code = [] then Some (bad_input ''inviteCode is required'', pm, s)
               else respond_with (\<lambda>n. writeJSON 200 (NetworkBody (toNetworkDTO (hString cfg) n))) pm
                      (NetworkService_Join (hString cfg) (aSvc env) userID (TrimSpace code) s))))"

definition NetworkHandler_get :: "http_cfg \<Rightarrow> auth_env \<Rightarrow> handler" where
  "NetworkHandler_get cfg env r = (\<lambda>(pm, s).
     (case requireUser r of
        Inl resp \<Rightarrow> Some (resp, pm, s)
      | Inr userID \<Rightarrow>
          (case pathUUID cfg r ''networkId'' of
             Inl resp \<Rightarrow> Some (resp, pm, s)
           | Inr networkID \<Rightarrow>
               respond_with (\<lambda>n. writeJSON 200 (NetworkBody (toNetworkDTO (hString cfg) n))) pm
                 (NetworkService_Get networkID userID s, s))))"

definition NetworkHandler_update :: "http_cfg \<Rightarrow> auth_env \<Rightarrow> handler" where
  "NetworkHandler_update cfg env r = (\<lambda>(pm, s).
     (case requireUser r of
        Inl resp \<Rightarrow> Some (resp, pm, s)
      | Inr userID \<Rightarrow>
          (case pathUUID cfg r ''networkId'' of
             Inl resp \<Rightarrow> Some (resp, pm, s)
           | Inr networkID \<Rightarrow>
               (case decodeJSON networkUpdateRequest_fields (hqBody r) networkUpdateRequest_zero of
                  (failed, req) \<Rightarrow>
                    if failed then Some (malformed_body, pm, s)
                    else respond_with (\<lambda>n. writeJSON 200 (NetworkBody (toNetworkDTO (hString cfg) n))) pm
                           (NetworkService_Update (hString cfg) (aSvc env) networkID userID (nuName req) (nuDescription req)
                              (nuCIDR req) (nuDNSServers req) s)))))"

definition NetworkHandler_delete :: "http_cfg \<Rightarrow> auth_env \<Rightarrow> handler" where
  "NetworkHandler_delete cfg env r = (\<lambda>(pm, s).
     (case requireUser r of
        Inl resp \<Rightarrow> Some (resp, pm, s)
      | Inr userID \<Rightarrow>
          (case pathUUID cfg r ''networkId'' of
             Inl resp \<Rightarrow> Some (resp, pm, s)
           | Inr networkID \<Rightarrow>
               respond_with (\<lambda>_. no_content) pm (NetworkService_Delete (hString cfg) (aSvc env) networkID userID s))))"

text \<open>The service never gives a new invite code an expiry.\<close>

definition NetworkHandler_rotateInvite :: "http_cfg \<Rightarrow> auth_env \<Rightarrow> handler" where
  "NetworkHandler_rotateInvite cfg env r = (\<lambda>(pm, s).
     (case requireUser r of
        Inl resp \<Rightarrow> Some (resp, pm, s)
      | Inr userID \<Rightarrow>
          (case pathUUID cfg r ''networkId'' of
             Inl resp \<Rightarrow> Some (resp, pm, s)
           | Inr networkID \<Rightarrow>
               respond_with (\<lambda>code. writeJSON 200 (InviteBody code None)) pm
                 (NetworkService_RotateInvite (hString cfg) (aSvc env) networkID userID s))))"

definition NetworkHandler_listMembers :: "http_cfg \<Rightarrow> auth_env \<Rightarrow> handler" where
  "NetworkHandler_listMembers cfg env r = (\<lambda>(pm, s).
     (case requireUser r of
        Inl resp \<Rightarrow> Some (resp, pm, s)
      | Inr userID \<Rightarrow>
          (case pathUUID cfg r ''networkId'' of
             Inl resp \<Rightarrow> Some (resp, pm, s)
           | Inr networkID \<Rightarrow>
               respond_with (\<lambda>ms. writeJSON 200 (MembersBody (toMemberDTOs (hString cfg) ms))) pm
                 (NetworkService_ListMembers networkID userID s, s))))"

definition NetworkHandler_updateMemberRole :: "http_cfg \<Rightarrow> auth_env \<Rightarrow> handler" where
  "NetworkHandler_updateMemberRole cfg env r = (\<lambda>(pm, s).
     (case requireUser r of
        Inl resp \<Rightarrow> Some (resp, pm, s)
      | Inr callerID \<Rightarrow>
          (case pathUUID cfg r ''networkId'' of
             Inl resp \<Rightarrow> Some (resp, pm, s)
           | Inr networkID \<Rightarrow>
               (case pathUUID cfg r ''userId'' of
                  Inl resp \<Rightarrow> Some (resp, pm, s)
                | Inr targetUserID \<Rightarrow>
                    (case decodeJSON memberRoleRequest_fields (hqBody r) [] of
                       (failed, role) \<Rightarrow>
                         if failed then Some (malformed_body, pm, s)
                         else if role \<noteq> NetworkRoleAdmin \<and> role \<noteq> NetworkRoleMember
                         then Some (bad_input (''role must be '' @ [CHR 0x27] @ ''admin'' @ [CHR 0x27] @ '' or '' @ [CHR 0x27] @ ''member'' @ [CHR 0x27]), pm, s)
                         else respond_with (\<lambda>_. writeJSON 200 (StringsBody [(''role'', role)])) pm
                                (NetworkService_UpdateMemberRole (hString cfg) (aSvc env) networkID callerID targetUserID role s))))))"

definition NetworkHandler_removeMember :: "http_cfg \<Rightarrow> auth_env \<Rightarrow> handler" where
  "NetworkHandler_removeMember cfg env r = (\<lambda>(pm, s).
     (case requireUser r of
        Inl resp \<Rightarrow> Some (resp, pm, s)
      | Inr callerID \<Rightarrow>
          (case pathUUID cfg r ''networkId'' of
             Inl resp \<Rightarrow> Some (resp, pm, s)
           | Inr networkID \<Rightarrow>
               (case pathUUID cfg r ''userId'' of
                  Inl resp \<Rightarrow> Some (resp, pm, s)
                | Inr targetUserID \<Rightarrow>
                    respond_with (\<lambda>_. no_content) pm
                      (NetworkService_RemoveMember (hString cfg) (aSvc env) networkID callerID targetUserID s)))))"

definition NetworkHandler_listDevices :: "http_cfg \<Rightarrow> auth_env \<Rightarrow> handler" where
  "NetworkHandler_listDevices cfg env r = (\<lambda>(pm, s).
     (case requireUser r of
        Inl resp \<Rightarrow> Some (resp, pm, s)
      | Inr userID \<Rightarrow>
          (case pathUUID cfg r ''networkId'' of
             Inl resp \<Rightarrow> Some (resp, pm, s)
           | Inr networkID \<Rightarrow>
               respond_with (\<lambda>ds. writeJSON 200 (DevicesBody (toDeviceDTOs (hString cfg) ds))) pm
                 (DeviceService_ListForNetwork (eNow (aSvc env)) networkID userID s, s))))"

definition NetworkHandler_registerDevice :: "http_cfg \<Rightarrow> auth_env \<Rightarrow> handler" where
  "NetworkHandler_registerDevice cfg env r = (\<lambda>(pm, s).
     (case requireUser r of
        Inl resp \<Rightarrow> Some (resp, pm, s)
      | Inr userID \<Rightarrow>
          (case pathUUID cfg r ''networkId'' of
             Inl resp \<Rightarrow> Some (resp, pm, s)
           | Inr networkID \<Rightarrow>
               (case decodeJSON deviceRegisterRequest_fields (hqBody r) deviceRegisterRequest_zero of
                  (failed, req) \<Rightarrow>
                    if failed then Some (malformed_body, pm, s)
                    else if TrimSpace (drName req) = [] \<or> TrimSpace (drPublicKey req) = []
                    then Some (bad_input ''name and publicKey are required'', pm, s)
                    else (case DeviceService_Register (hString cfg) (aSvc env) userID networkID (drName req) (drOS req)
                                 (drOSVersion req) (drPublicKey req) s of
                            None \<Rightarrow> None
                          | Some x \<Rightarrow> respond_with (\<lambda>d. writeJSON 201 (DeviceBody (toDeviceDTO (hString cfg) d))) pm x)))))"

section \<open>Devices\<close>

definition DeviceHandler_get :: "http_cfg \<Rightarrow> auth_env \<Rightarrow> handler" where
  "DeviceHandler_get cfg env r = (\<lambda>(pm, s).
     (case requireUser r of
        Inl resp \<Rightarrow> Some (resp, pm, s)
      | Inr userID \<Rightarrow>
          (case pathUUID cfg r ''deviceId'' of
             Inl resp \<Rightarrow> Some (resp, pm, s)
           | Inr deviceID \<Rightarrow>
               respond_with (\<lambda>d. writeJSON 200 (DeviceBody (toDeviceDTO (hString cfg) d))) pm
                 (DeviceService_Get (eNow (aSvc env)) deviceID userID s, s))))"

definition DeviceHandler_delete :: "http_cfg \<Rightarrow> auth_env \<Rightarrow> handler" where
  "DeviceHandler_delete cfg env r = (\<lambda>(pm, s).
     (case requireUser r of
        Inl resp \<Rightarrow> Some (resp, pm, s)
      | Inr userID \<Rightarrow>
          (case pathUUID cfg r ''deviceId'' of
             Inl resp \<Rightarrow> Some (resp, pm, s)
           | Inr deviceID \<Rightarrow>
               respond_with (\<lambda>_. no_content) pm (DeviceService_Delete (hString cfg) (aSvc env) deviceID userID s))))"

text \<open>A body that does not decode is not an error here: what was decoded of it is used.\<close>

definition DeviceHandler_heartbeat :: "http_cfg \<Rightarrow> auth_env \<Rightarrow> handler" where
  "DeviceHandler_heartbeat cfg env r = (\<lambda>(pm, s).
     (case requireUser r of
        Inl resp \<Rightarrow> Some (resp, pm, s)
      | Inr userID \<Rightarrow>
          (case pathUUID cfg r ''deviceId'' of
             Inl resp \<Rightarrow> Some (resp, pm, s)
           | Inr deviceID \<Rightarrow>
               (case decodeJSON heartbeatRequest_fields (hqBody r) heartbeatRequest_zero of
                  (_, req) \<Rightarrow>
                    let publicIP = (case hrPublicIP req of
                                      Some ip \<Rightarrow> Some ip
                                    | None \<Rightarrow> (let ip = clientIP r in if ip \<noteq> [] then Some ip else None))
                    in respond_with (\<lambda>_. writeJSON 200 (FlagBody ''ok'' True)) pm
                         (DeviceService_Heartbeat (eNow (aSvc env)) deviceID userID publicIP (hrPrivateIP req) (hrNATType req)
                            (word_of_int (hrBytesSent req)) (word_of_int (hrBytesReceived req)) s)))))"

definition DeviceHandler_listPeers :: "http_cfg \<Rightarrow> auth_env \<Rightarrow> handler" where
  "DeviceHandler_listPeers cfg env r = (\<lambda>(pm, s).
     (case requireUser r of
        Inl resp \<Rightarrow> Some (resp, pm, s)
      | Inr userID \<Rightarrow>
          (case pathUUID cfg r ''deviceId'' of
             Inl resp \<Rightarrow> Some (resp, pm, s)
           | Inr deviceID \<Rightarrow>
               respond_with (\<lambda>ds. writeJSON 200 (DevicesBody (toDeviceDTOs (hString cfg) ds))) pm
                 (DeviceService_ListPeers (eNow (aSvc env)) deviceID userID s, s))))"

section \<open>Logs and dashboard\<close>

definition defaultPageLimit :: int where "defaultPageLimit = 50"
definition maxPageLimit :: int where "maxPageLimit = 500"

definition pagination :: "http_request \<Rightarrow> int \<times> int" where
  "pagination r =
     (let limit = (case Atoi (Get (hqQuery r) ''limit'') of
                     None \<Rightarrow> defaultPageLimit
                   | Some n \<Rightarrow> if n > 0 then min n maxPageLimit else defaultPageLimit);
          offset = (case Atoi (Get (hqQuery r) ''offset'') of
                      None \<Rightarrow> 0
                    | Some n \<Rightarrow> if n \<ge> 0 then n else 0)
      in (limit, offset))"

definition optionalNetworkID :: "http_cfg \<Rightarrow> http_request \<Rightarrow> http_response + uuid option" where
  "optionalNetworkID cfg r =
     (let raw = Get (hqQuery r) ''networkId''
      in if raw = [] then Inr None
         else (case hParse cfg raw of
                 None \<Rightarrow> Inl (bad_input ''malformed networkId'')
               | Some i \<Rightarrow> Inr (Some i)))"

definition LogsHandler_auditLogs :: "http_cfg \<Rightarrow> auth_env \<Rightarrow> handler" where
  "LogsHandler_auditLogs cfg env r = (\<lambda>(pm, s).
     (case requireUser r of
        Inl resp \<Rightarrow> Some (resp, pm, s)
      | Inr userID \<Rightarrow>
          (case optionalNetworkID cfg r of
             Inl resp \<Rightarrow> Some (resp, pm, s)
           | Inr networkID \<Rightarrow>
               (case pagination r of
                  (limit, offset) \<Rightarrow>
                    respond_with (\<lambda>ls. writeJSON 200 (AuditLogsBody (toAuditLogDTOs (hString cfg) ls))) pm
                      (AuditLogs userID networkID limit offset (db s), s)))))"

definition LogsHandler_connectionLogs :: "http_cfg \<Rightarrow> auth_env \<Rightarrow> handler" where
  "LogsHandler_connectionLogs cfg env r = (\<lambda>(pm, s).
     (case requireUser r of
        Inl resp \<Rightarrow> Some (resp, pm, s)
      | Inr userID \<Rightarrow>
          (case optionalNetworkID cfg r of
             Inl resp \<Rightarrow> Some (resp, pm, s)
           | Inr networkID \<Rightarrow>
               (case pagination r of
                  (limit, offset) \<Rightarrow>
                    respond_with (\<lambda>ls. writeJSON 200 (ConnectionLogsBody (toConnectionLogDTOs (hString cfg) ls))) pm
                      (ConnectionLogs userID networkID limit offset (db s), s)))))"

definition LogsHandler_dashboardStats :: "http_cfg \<Rightarrow> auth_env \<Rightarrow> handler" where
  "LogsHandler_dashboardStats cfg env r = (\<lambda>(pm, s).
     (case requireUser r of
        Inl resp \<Rightarrow> Some (resp, pm, s)
      | Inr _ \<Rightarrow>
          Some (writeJSON 200 (StatsBody (DashboardService_Stats (NewDashboardService (hWindow cfg)) (eNow (aSvc env)) (db s))), pm, s)))"

section \<open>The relay fleet\<close>

definition RelayHandler_authorize :: "string \<Rightarrow> http_request \<Rightarrow> bool" where
  "RelayHandler_authorize secret r \<longleftrightarrow>
     secret \<noteq> [] \<and> TrimSpace (TrimPrefix (Get (hqHeader r) ''Authorization'') ''Bearer '') = secret"

definition relay_row :: "relayRegisterRequest \<Rightarrow> relay_server" where
  "relay_row req =
     \<lparr>rsID = uuid_Nil, Region = rlRegion req, Hostname = rlHostname req, rsPublicKey = rlPublicKey req,
      ControlPort = (if rlControlPort req \<le> 0 then 3478 else rlControlPort req), RelayPort = rlRelayPort req,
      Capacity = (if rlCapacity req \<le> 0 then 1000 else rlCapacity req),
      CurrentLoad = 0, rsStatus = ''active'', LastHeartbeatAt = None, rsCreatedAt = 0\<rparr>"

definition RelayHandler_register :: "http_cfg \<Rightarrow> auth_env \<Rightarrow> string \<Rightarrow> handler" where
  "RelayHandler_register cfg env secret r = (\<lambda>(pm, s).
     if \<not> RelayHandler_authorize secret r
     then Some (writeError 401 ''unauthorized'' ''invalid relay secret'', pm, s)
     else (case decodeJSON relayRegisterRequest_fields (hqBody r) relayRegisterRequest_zero of
             (failed, req) \<Rightarrow>
               if failed then Some (malformed_body, pm, s)
               else if rlHostname req = [] \<or> rlRelayPort req \<le> 0
               then Some (bad_input ''hostname and relayPort are required'', pm, s)
               else (case relayRepo_Upsert (eID1 (aSvc env)) (eNow (aSvc env)) (relay_row req) (db s) of
                       (relay, st) \<Rightarrow>
                         Some (writeJSON 200 (StringsBody [(''relayId'', hString cfg (rsID relay))]), pm, s\<lparr>db := st\<rparr>))))"

definition RelayHandler_heartbeat :: "http_cfg \<Rightarrow> auth_env \<Rightarrow> string \<Rightarrow> handler" where
  "RelayHandler_heartbeat cfg env secret r = (\<lambda>(pm, s).
     if \<not> RelayHandler_authorize secret r
     then Some (writeError 401 ''unauthorized'' ''invalid relay secret'', pm, s)
     else (case decodeJSON relayHeartbeatRequest_fields (hqBody r) \<lparr>rhRelayID = [], rhCurrentLoad = 0\<rparr> of
             (failed, req) \<Rightarrow>
               if failed then Some (malformed_body, pm, s)
               else (case hParse cfg (rhRelayID req) of
                       None \<Rightarrow> Some (bad_input ''malformed relayId'', pm, s)
                     | Some relayID \<Rightarrow>
                         (case relayRepo_Heartbeat (eNow (aSvc env)) relayID
                                 (if rhCurrentLoad req < 0 then 0 else rhCurrentLoad req) (db s) of
                            (res, st) \<Rightarrow>
                              respond_with (\<lambda>_. writeJSON 200 (FlagBody ''ok'' True)) pm (res, s\<lparr>db := st\<rparr>)))))"

section \<open>The router\<close>

datatype segment = Lit string | Wild string

datatype route =
    R_register | R_login | R_refresh | R_logout | R_forgot | R_reset | R_oauthRedirect | R_oauthCallback
  | R_pairClaim | R_pairStart | R_enableMFA | R_verifyMFA
  | R_networks | R_createNetwork | R_join | R_network | R_updateNetwork | R_deleteNetwork | R_rotateInvite
  | R_members | R_memberRole | R_removeMember | R_networkDevices | R_registerDevice
  | R_device | R_deleteDevice | R_heartbeat | R_peers
  | R_auditLogs | R_connectionLogs | R_stats
  | R_relayRegister | R_relayHeartbeat | R_healthz | R_readyz

abbreviation api :: "segment list \<Rightarrow> segment list" where
  "api p \<equiv> Lit ''api'' # Lit ''v1'' # p"

type_synonym route_row = "string \<times> segment list \<times> route"

definition auth_routes :: "route_row list" where
  "auth_routes =
     [(''POST'', api [Lit ''auth'', Lit ''register''], R_register),
      (''POST'', api [Lit ''auth'', Lit ''login''], R_login),
      (''POST'', api [Lit ''auth'', Lit ''refresh''], R_refresh),
      (''POST'', api [Lit ''auth'', Lit ''logout''], R_logout),
      (''POST'', api [Lit ''auth'', Lit ''password'', Lit ''forgot''], R_forgot),
      (''POST'', api [Lit ''auth'', Lit ''password'', Lit ''reset''], R_reset),
      (''GET'', api [Lit ''auth'', Lit ''oauth'', Wild ''provider'', Lit ''redirect''], R_oauthRedirect),
      (''GET'', api [Lit ''auth'', Lit ''oauth'', Wild ''provider'', Lit ''callback''], R_oauthCallback)]"

definition pairing_routes :: "route_row list" where
  "pairing_routes =
     [(''POST'', api [Lit ''auth'', Lit ''pair'', Lit ''claim''], R_pairClaim),
      (''POST'', api [Lit ''auth'', Lit ''pair''], R_pairStart)]"

definition api_routes :: "route_row list" where
  "api_routes =
     [(''POST'', api [Lit ''auth'', Lit ''mfa'', Lit ''enable''], R_enableMFA),
      (''POST'', api [Lit ''auth'', Lit ''mfa'', Lit ''verify''], R_verifyMFA),
      (''GET'', api [Lit ''networks''], R_networks),
      (''POST'', api [Lit ''networks''], R_createNetwork),
      (''POST'', api [Lit ''networks'', Lit ''join''], R_join),
      (''GET'', api [Lit ''networks'', Wild ''networkId''], R_network),
      (''PATCH'', api [Lit ''networks'', Wild ''networkId''], R_updateNetwork),
      (''DELETE'', api [Lit ''networks'', Wild ''networkId''], R_deleteNetwork),
      (''POST'', api [Lit ''networks'', Wild ''networkId'', Lit ''invite''], R_rotateInvite),
      (''GET'', api [Lit ''networks'', Wild ''networkId'', Lit ''members''], R_members),
      (''PATCH'', api [Lit ''networks'', Wild ''networkId'', Lit ''members'', Wild ''userId''], R_memberRole),
      (''DELETE'', api [Lit ''networks'', Wild ''networkId'', Lit ''members'', Wild ''userId''], R_removeMember),
      (''GET'', api [Lit ''networks'', Wild ''networkId'', Lit ''devices''], R_networkDevices),
      (''POST'', api [Lit ''networks'', Wild ''networkId'', Lit ''devices''], R_registerDevice),
      (''GET'', api [Lit ''devices'', Wild ''deviceId''], R_device),
      (''DELETE'', api [Lit ''devices'', Wild ''deviceId''], R_deleteDevice),
      (''POST'', api [Lit ''devices'', Wild ''deviceId'', Lit ''heartbeat''], R_heartbeat),
      (''GET'', api [Lit ''devices'', Wild ''deviceId'', Lit ''peers''], R_peers),
      (''GET'', api [Lit ''logs'', Lit ''audit''], R_auditLogs),
      (''GET'', api [Lit ''logs'', Lit ''connections''], R_connectionLogs),
      (''GET'', api [Lit ''dashboard'', Lit ''stats''], R_stats)]"

definition relay_routes :: "route_row list" where
  "relay_routes =
     [(''POST'', [Lit ''internal'', Lit ''relay'', Lit ''register''], R_relayRegister),
      (''POST'', [Lit ''internal'', Lit ''relay'', Lit ''heartbeat''], R_relayHeartbeat)]"

definition health_routes :: "route_row list" where
  "health_routes =
     [(''GET'', [Lit ''healthz''], R_healthz),
      (''GET'', [Lit ''readyz''], R_readyz)]"

definition routes :: "http_cfg \<Rightarrow> route_row list" where
  "routes cfg =
     auth_routes @ (if hPairing cfg then pairing_routes else []) @ api_routes @
     (if hRelaySecret cfg \<noteq> None then relay_routes else []) @ health_routes"

text \<open>Matching a pattern of \<open>http.ServeMux\<close>: a wildcard takes one segment that is not empty, and a \<open>GET\<close>
  pattern also takes \<open>HEAD\<close>.\<close>

fun match_path :: "segment list \<Rightarrow> string list \<Rightarrow> (string \<times> string) list option" where
  "match_path [] [] = Some []"
| "match_path (Lit l # ps) (x # xs) = (if x = l then match_path ps xs else None)"
| "match_path (Wild w # ps) (x # xs) = (if x = [] then None else map_option (Cons (w, x)) (match_path ps xs))"
| "match_path _ _ = None"

definition match_method :: "string \<Rightarrow> string \<Rightarrow> bool" where
  "match_method m method \<longleftrightarrow> method = m \<or> m = ''GET'' \<and> method = ''HEAD''"

fun find_route :: "route_row list \<Rightarrow> string \<Rightarrow> string list \<Rightarrow> (route \<times> (string \<times> string) list) option" where
  "find_route [] method segs = None"
| "find_route ((m, p, rt) # rs) method segs =
     (case match_path p segs of
        Some vs \<Rightarrow> if match_method m method then Some (rt, vs) else find_route rs method segs
      | None \<Rightarrow> find_route rs method segs)"

definition protect :: "http_cfg \<Rightarrow> auth_env \<Rightarrow> handler \<Rightarrow> handler" where
  "protect cfg env h = Authenticate (hTokens cfg (eNow (aSvc env))) (hParse cfg) h"

definition relay_secret :: "http_cfg \<Rightarrow> string" where
  "relay_secret cfg = deref (hRelaySecret cfg)"

fun serve :: "http_cfg \<Rightarrow> auth_env \<Rightarrow> route \<Rightarrow> handler" where
  "serve cfg env R_register = AuthHandler_register cfg env"
| "serve cfg env R_login = AuthHandler_login cfg env"
| "serve cfg env R_refresh = AuthHandler_refresh cfg env"
| "serve cfg env R_logout = AuthHandler_logout cfg env"
| "serve cfg env R_forgot = AuthHandler_forgotPassword cfg env"
| "serve cfg env R_reset = AuthHandler_resetPassword cfg env"
| "serve cfg env R_oauthRedirect = AuthHandler_oauthRedirect cfg env"
| "serve cfg env R_oauthCallback = AuthHandler_oauthCallback cfg env"
| "serve cfg env R_pairClaim = PairingHandler_claim cfg env"
| "serve cfg env R_pairStart = protect cfg env (PairingHandler_start cfg env)"
| "serve cfg env R_enableMFA = protect cfg env (AuthHandler_enableMFA cfg env)"
| "serve cfg env R_verifyMFA = protect cfg env (AuthHandler_verifyMFA cfg env)"
| "serve cfg env R_networks = protect cfg env (NetworkHandler_list cfg env)"
| "serve cfg env R_createNetwork = protect cfg env (NetworkHandler_create cfg env)"
| "serve cfg env R_join = protect cfg env (NetworkHandler_join cfg env)"
| "serve cfg env R_network = protect cfg env (NetworkHandler_get cfg env)"
| "serve cfg env R_updateNetwork = protect cfg env (NetworkHandler_update cfg env)"
| "serve cfg env R_deleteNetwork = protect cfg env (NetworkHandler_delete cfg env)"
| "serve cfg env R_rotateInvite = protect cfg env (NetworkHandler_rotateInvite cfg env)"
| "serve cfg env R_members = protect cfg env (NetworkHandler_listMembers cfg env)"
| "serve cfg env R_memberRole = protect cfg env (NetworkHandler_updateMemberRole cfg env)"
| "serve cfg env R_removeMember = protect cfg env (NetworkHandler_removeMember cfg env)"
| "serve cfg env R_networkDevices = protect cfg env (NetworkHandler_listDevices cfg env)"
| "serve cfg env R_registerDevice = protect cfg env (NetworkHandler_registerDevice cfg env)"
| "serve cfg env R_device = protect cfg env (DeviceHandler_get cfg env)"
| "serve cfg env R_deleteDevice = protect cfg env (DeviceHandler_delete cfg env)"
| "serve cfg env R_heartbeat = protect cfg env (DeviceHandler_heartbeat cfg env)"
| "serve cfg env R_peers = protect cfg env (DeviceHandler_listPeers cfg env)"
| "serve cfg env R_auditLogs = protect cfg env (LogsHandler_auditLogs cfg env)"
| "serve cfg env R_connectionLogs = protect cfg env (LogsHandler_connectionLogs cfg env)"
| "serve cfg env R_stats = protect cfg env (LogsHandler_dashboardStats cfg env)"
| "serve cfg env R_relayRegister = RelayHandler_register cfg env (relay_secret cfg)"
| "serve cfg env R_relayHeartbeat = RelayHandler_heartbeat cfg env (relay_secret cfg)"
| "serve cfg env R_healthz = (\<lambda>r s. Some (writeJSON 200 (StringsBody [(''status'', ''ok'')]), s))"
| "serve cfg env R_readyz = (\<lambda>r s. Some (writeJSON 200 (StringsBody [(''status'', ''ready'')]), s))"

definition plain :: "int \<Rightarrow> string \<Rightarrow> http_response" where
  "plain status text = \<lparr>hpStatus = status, hpHeader = [], hpCookies = [], hpBody = PlainText text\<rparr>"

definition mux :: "http_cfg \<Rightarrow> auth_env \<Rightarrow> handler" where
  "mux cfg env r s =
     (case find_route (routes cfg) (hqMethod r) (hqPath r) of
        Some (rt, vs) \<Rightarrow> serve cfg env rt (r\<lparr>hqPathValue := vs\<rparr>) s
      | None \<Rightarrow>
          if list_ex (\<lambda>(m, p, rt). match_path p (hqPath r) \<noteq> None) (routes cfg)
          then Some (plain 405 ''Method Not Allowed'', s)
          else Some (plain 404 ''404 page not found'', s))"

definition NewRouter :: "http_cfg \<Rightarrow> auth_env \<Rightarrow> handler" where
  "NewRouter cfg env = chain (mux cfg env) [CORS (hOrigins cfg)]"

end
