(* ===== verification/Control_Plane.thy ===== *)
theory Control_Plane
  imports Grpc_Server
begin

text \<open>
  The control plane as one transition system: the calls of the network, device and coordination
  services and the gRPC handlers, with presence expiry, audit writes and stream events, over one
  backend state. The theory shows that each call keeps the tenancy invariant and the invariant of
  the event bus, and so does every reachable state.
\<close>

section \<open>Tenancy under the device operations\<close>

lemma tenancy_same_tables:
  "tenancy_ok st \<Longrightarrow> tables st' = tables st \<Longrightarrow> store_ok st' \<Longrightarrow> tenancy_ok st'"
  by (simp add: tenancy_ok_tables)

lemma rows_of_devices: "map_of (devices st) l = Some e \<Longrightarrow> e \<in> snd ` set (devices st)"
  by (force dest: map_of_SomeD)

lemma device_create_tenancy:
  assumes ok: "tenancy_ok st" and c: "deviceRepo_Create i now d st = (r, st')"
    and new: "dID d \<noteq> uuid_Nil" "map_of (devices st) (dID d) = None"
    and mem: "map_of (members st) (dNetworkID d, dUserID d) \<noteq> None"
    and free: "VirtualIP d \<notin> set (taken_ips (dNetworkID d) st)"
  shows "tenancy_ok st'"
proof (cases r)
  case (Inl e)
  with device_errors_keep(1) c ok show ?thesis by blast
next
  case (Inr d')
  obtain N M D where T: "tables st = (N, M, D)" by (cases "tables st") auto
  note get = tables_get [OF T]
  from tables_deviceRepo_Create [OF c [unfolded Inr]] new(1) T
  have T': "tables st' = (N, M, D(dID d \<mapsto> d'))"
    and key: "\<forall>e \<in> snd ` set (devices st). PublicKey e \<noteq> PublicKey d"
    and flds: "PublicKey d' = PublicKey d" "dNetworkID d' = dNetworkID d" "dUserID d' = dUserID d"
      "VirtualIP d' = VirtualIP d"
    by auto
  have ip: "VirtualIP e \<noteq> VirtualIP d" if "D l = Some e" "dNetworkID e = dNetworkID d" for l e
  proof -
    have "e \<in> snd ` set (devices st)" using that get by (simp add: rows_of_devices)
    with that(2) have "VirtualIP e \<in> set (taken_ips (dNetworkID d) st)" by (simp add: taken_ips_def)
    with free show ?thesis by auto
  qed
  have keys: "PublicKey e \<noteq> PublicKey d" if "D l = Some e" for l e
    using key rows_of_devices [of st l e] that get by blast
  have "tenancy N M D" using ok T by (simp add: tenancy_ok_tables)
  then have "tenancy N M (D(dID d \<mapsto> d'))"
    using new(2) mem get ip keys by (intro tenancy_new_device) (simp_all add: flds)
  moreover have "store_ok st'" using device_call_ok(1) [OF _ c] ok by (simp add: tenancy_ok_def)
  ultimately show ?thesis using T' by (simp add: tenancy_ok_tables)
qed

lemma device_row_tenancy:
  assumes ok: "tenancy_ok st" and row: "map_of (devices st) k = Some dold"
    and T': "tables st' = (case tables st of (N, M, D) \<Rightarrow> (N, M, D(k \<mapsto> dd)))" and ok': "store_ok st'"
    and "dNetworkID dd = dNetworkID dold" "dUserID dd = dUserID dold" "PublicKey dd = PublicKey dold"
      "VirtualIP dd = VirtualIP dold"
  shows "tenancy_ok st'"
proof -
  obtain N M D where T: "tables st = (N, M, D)" by (cases "tables st") auto
  have "tenancy N M D" using ok T by (simp add: tenancy_ok_tables)
  then have "tenancy N M (D(k \<mapsto> dd))"
    using assms(5-) row tables_get [OF T] by (intro tenancy_update_device) auto
  with T T' ok' show ?thesis by (simp add: tenancy_ok_tables)
qed

lemma device_update_tenancy:
  assumes ok: "tenancy_ok st" and u: "deviceRepo_Update now d st = (r, st')"
    and row: "map_of (devices st) (dID d) = Some dold"
    and flds: "dNetworkID d = dNetworkID dold" "dUserID d = dUserID dold" "PublicKey d = PublicKey dold"
      "VirtualIP d = VirtualIP dold"
  shows "tenancy_ok st'"
proof (cases r)
  case (Inl e)
  with device_errors_keep(2) u ok show ?thesis by blast
next
  case (Inr d')
  from tables_deviceRepo_Update [OF u [unfolded Inr]] flds device_call_ok(2) [OF _ u] ok show ?thesis
    by (intro device_row_tenancy [OF ok row, where dd = d']) (auto simp: tenancy_ok_def)
qed

lemma device_heartbeat_tenancy:
  assumes ok: "tenancy_ok st" and u: "deviceRepo_UpdateHeartbeat now k x p1 p2 nt b1 b2 st = (r, st')"
  shows "tenancy_ok st'"
proof (cases r)
  case (Inl e)
  with device_errors_keep(4) u ok show ?thesis by blast
next
  case (Inr y)
  then have "r = Inr ()" by simp
  from tables_deviceRepo_UpdateHeartbeat [OF u [unfolded this]] obtain d0 d1 where
    "map_of (devices st) k = Some d0" "tables st' = (case tables st of (N, M, D) \<Rightarrow> (N, M, D(k \<mapsto> d1)))"
    "dNetworkID d1 = dNetworkID d0" "dUserID d1 = dUserID d0" "PublicKey d1 = PublicKey d0" "VirtualIP d1 = VirtualIP d0"
    by blast
  with device_call_ok(4) [OF _ u] ok show ?thesis
    by (intro device_row_tenancy [OF ok, of k d0 st' d1]) (auto simp: tenancy_ok_def)
qed

lemma device_delete_tenancy:
  assumes ok: "tenancy_ok st" and u: "deviceRepo_Delete k st = (r, st')"
  shows "tenancy_ok st'"
proof (cases r)
  case (Inl e)
  with device_errors_keep(3) u ok show ?thesis by blast
next
  case (Inr y)
  then have "r = Inr ()" by simp
  from tables_deviceRepo_Delete [OF u [unfolded this]] device_call_ok(3) [OF _ u] ok show ?thesis
    by (auto simp: tenancy_ok_tables intro: tenancy_delete_device split: prod.splits)
qed

lemma presence_tenancy:
  "tenancy_ok st \<Longrightarrow> tenancy_ok (presence_SetOnline now n d ep ttl st)"
  "tenancy_ok st \<Longrightarrow> tenancy_ok (presence_Remove d st)"
  by (rule tenancy_same_tables; simp add: presence_ok tenancy_ok_def)+

section \<open>Tenancy under the calls\<close>

lemma Register_create_tenancy:
  assumes "tenancy_ok (db s)" "eID1 env \<noteq> uuid_Nil" "map_of (devices (db s)) (eID1 env) = None"
    and "map_of (members (db s)) (n, u) \<noteq> None" "ip \<notin> set (taken_ips n (db s))"
  shows "tenancy_ok (db (snd (Register_create us env u n name os ver key ip s)))"
  using assms
  by (auto simp: Register_create_def Let_def split: prod.split sum.split
      elim!: device_create_tenancy)

lemma Register_alloc_Inr:
  assumes "Register_alloc u n name key s = Some (Inr ip)"
  shows "map_of (members (db s)) (n, u) \<noteq> None \<and> ip \<notin> set (taken_ips n (db s))"
  using assms
  by (auto simp: Register_alloc_def simp del: not_None_eq split: if_splits sum.splits option.splits
      dest!: NextFreeVirtualIP_free)

lemma DeviceService_Register_tenancy:
  assumes "tenancy_ok (db s)" "eID1 env \<noteq> uuid_Nil" "map_of (devices (db s)) (eID1 env) = None"
    and "DeviceService_Register us env u n name os ver key s = Some (r, s')"
  shows "tenancy_ok (db s')"
proof -
  from assms(4) consider e where "Register_alloc u n name key s = Some (Inl e)" "s' = s"
    | ip where "Register_alloc u n name key s = Some (Inr ip)"
        "(r, s') = Register_create us env u n name os ver key ip s"
    by (auto simp: DeviceService_Register_def split: option.splits sum.splits)
  then show ?thesis
  proof cases
    case 1
    with assms(1) show ?thesis by simp
  next
    case (2 ip)
    then have "s' = snd (Register_create us env u n name os ver key ip s)" by (metis snd_conv)
    with Register_alloc_Inr [OF 2(1)] assms show ?thesis by (simp add: Register_create_tenancy)
  qed
qed

lemma DeviceService_Delete_tenancy:
  "tenancy_ok (db s) \<Longrightarrow> tenancy_ok (db (snd (DeviceService_Delete us env d u s)))"
  by (auto simp: DeviceService_Delete_def Let_def split: sum.split prod.split
      dest: device_delete_tenancy intro: presence_tenancy)

lemma DeviceService_Heartbeat_tenancy:
  "tenancy_ok (db s) \<Longrightarrow> tenancy_ok (db (snd (DeviceService_Heartbeat now d u p1 p2 nt b1 b2 s)))"
  by (auto simp: DeviceService_Heartbeat_def Let_def split: sum.split prod.split
      dest: device_heartbeat_tenancy intro: presence_tenancy)

lemma CoordinationService_Heartbeat_tenancy:
  "tenancy_ok (db s) \<Longrightarrow> tenancy_ok (db (snd (CoordinationService_Heartbeat ttl now d e1 e2 nt b1 b2 s)))"
  by (auto simp: CoordinationService_Heartbeat_def Let_def split: sum.split prod.split
      elim!: device_heartbeat_tenancy [rotated] intro: presence_tenancy)

lemma RegisterDevice_lookup_Inr:
  assumes "RegisterDevice_lookup u n inp s = Some (Inr (nw, found))"
  shows "map_of (members (db s)) (n, u) \<noteq> None \<and>
    (case found of Inl d \<Rightarrow> d \<in> snd ` set (devices (db s)) | Inr ip \<Rightarrow> ip \<notin> set (taken_ips n (db s)))"
  using assms
  by (auto simp: RegisterDevice_lookup_def deviceRepo_GetByPublicKey_def simp del: not_None_eq
      split: if_splits sum.splits option.splits dest!: NextFreeVirtualIP_free find_row_Inr)

lemma device_row_of:
  assumes "store_ok st" "d \<in> snd ` set (devices st)"
  shows "map_of (devices st) (dID d) = Some d"
proof -
  have k: "keyed dID (devices st)" using assms(1) by (simp add: store_ok_def)
  with assms(2) obtain i where i: "map_of (devices st) i = Some d"
    by (auto simp: keyed_def intro: map_of_is_SomeI)
  with keyed_get [OF k i] show ?thesis by simp
qed

lemma RegisterDevice_finish_db [simp]: "db (snd (RegisterDevice_finish now n nw d s)) = db s"
  by (simp add: RegisterDevice_finish_def split: sum.split)

lemma RegisterDevice_update_tenancy:
  assumes "tenancy_ok (db s)" "d \<in> snd ` set (devices (db s))"
  shows "tenancy_ok (db (snd (RegisterDevice_update env inp d s)))"
  using assms device_row_of [of "db s" d]
  by (auto simp: RegisterDevice_update_def Let_def tenancy_ok_def [of "db s"] split: prod.split
      elim!: device_update_tenancy [rotated, where dold = d])

lemma RegisterDevice_create_tenancy:
  assumes "tenancy_ok (db s)" "eID1 env \<noteq> uuid_Nil" "map_of (devices (db s)) (eID1 env) = None"
    and "map_of (members (db s)) (n, u) \<noteq> None" "ip \<notin> set (taken_ips n (db s))"
  shows "tenancy_ok (db (snd (RegisterDevice_create us env u n inp ip s)))"
  using assms
  by (auto simp: RegisterDevice_create_def Let_def split: prod.split sum.split
      elim!: device_create_tenancy)

lemma RegisterDevice_write_tenancy:
  assumes "tenancy_ok (db s)" "eID1 env \<noteq> uuid_Nil" "map_of (devices (db s)) (eID1 env) = None"
    and l: "RegisterDevice_lookup u n inp s = Some (Inr (nw, found))"
  shows "tenancy_ok (db (snd (RegisterDevice_write us env u n inp (nw, found) s)))"
proof (cases found)
  case (Inl d)
  with RegisterDevice_update_tenancy [OF assms(1), of d env inp] RegisterDevice_lookup_Inr [OF l] show ?thesis
    by (auto simp: RegisterDevice_write_def split: prod.split sum.split)
next
  case (Inr ip)
  with RegisterDevice_create_tenancy [OF assms(1-3), of n u ip us inp] RegisterDevice_lookup_Inr [OF l] show ?thesis
    by (auto simp: RegisterDevice_write_def simp del: not_None_eq split: prod.split sum.split)
qed

lemma RegisterDevice_tenancy:
  assumes "tenancy_ok (db s)" "eID1 env \<noteq> uuid_Nil" "map_of (devices (db s)) (eID1 env) = None"
    and "CoordinationService_RegisterDevice us env u n inp s = Some (r, s')"
  shows "tenancy_ok (db s')"
proof -
  from assms(4) consider "s' = s"
    | found where "RegisterDevice_lookup u n inp s = Some (Inr found)"
        "(r, s') = RegisterDevice_write us env u n inp found s"
    by (auto simp: CoordinationService_RegisterDevice_def split: option.splits sum.splits)
  then show ?thesis
  proof cases
    case 1
    with assms(1) show ?thesis by simp
  next
    case (2 found)
    then have "s' = snd (RegisterDevice_write us env u n inp found s)" by (metis snd_conv)
    with RegisterDevice_write_tenancy [OF assms(1-3), of u n inp "fst found" "snd found"] 2(1) show ?thesis by simp
  qed
qed

section \<open>The control plane as a transition system\<close>

text \<open>The parameters of a deployment: \<open>uuid.String\<close> and \<open>uuid.Parse\<close>, the JWT signature, the relay session
  manager and the presence lifetime.\<close>

record ctl_params =
  pString :: "uuid \<Rightarrow> string"
  pParse :: "string \<Rightarrow> uuid option"
  pSign :: "relay_claims jwt_sign"
  pRelay :: relay_session_manager
  pTTL :: duration

datatype ctl_call =
    NetCall net_call
  | RegisterCall svc_env uuid uuid string string string string
  | DeleteDeviceCall svc_env uuid uuid
  | HeartbeatCall gotime uuid uuid "string option" "string option" "string option" "64 word" "64 word"
  | GrpcRegisterCall svc_env register_request "uuid option"
  | GrpcHeartbeatCall gotime heartbeat_request "uuid option"
  | GrpcStreamCall string "uuid option"
  | GrpcIceCall gotime string string "proto_candidate list" "uuid option"
  | GrpcRelayCall gotime string string string string "uuid option"
  | StreamClosed nat
  | StreamReads nat
  | AuditWritten gotime nat
  | Expired gotime

definition on_bus :: "bus_call \<Rightarrow> backend \<Rightarrow> backend" where
  "on_bus c s = (case bus_step (evbus s) c of None \<Rightarrow> s | Some b \<Rightarrow> s\<lparr>evbus := Some b\<rparr>)"

text \<open>\<open>None\<close>: the call does not return.\<close>

fun ctl_step :: "ctl_params \<Rightarrow> backend \<Rightarrow> ctl_call \<Rightarrow> backend option" where
  "ctl_step P s (NetCall c) = Some (net_step (pString P) s c)"
| "ctl_step P s (RegisterCall env u n name os ver key) =
     map_option snd (DeviceService_Register (pString P) env u n name os ver key s)"
| "ctl_step P s (DeleteDeviceCall env d u) = Some (snd (DeviceService_Delete (pString P) env d u s))"
| "ctl_step P s (HeartbeatCall now d u p1 p2 nt b1 b2) =
     Some (snd (DeviceService_Heartbeat now d u p1 p2 nt b1 b2 s))"
| "ctl_step P s (GrpcRegisterCall env req user) =
     map_option snd (CoordinationServer_RegisterDevice (pString P) (pParse P) env req user s)"
| "ctl_step P s (GrpcHeartbeatCall now req user) =
     Some (snd (CoordinationServer_Heartbeat (pParse P) (pTTL P) now req user s))"
| "ctl_step P s (GrpcStreamCall raw user) = Some (snd (StreamPeerUpdates_open (pParse P) raw user s))"
| "ctl_step P s (GrpcIceCall now raw target cs user) =
     Some (snd (ExchangeICECandidates (pParse P) now raw target cs user s))"
| "ctl_step P s (GrpcRelayCall now jti raw rawNet region user) =
     Some (snd (CoordinationServer_RequestRelay (pSign P) (pString P) (pParse P) (pRelay P) now jti raw rawNet region user s))"
| "ctl_step P s (StreamClosed i) = Some (on_bus (CallClose i) s)"
| "ctl_step P s (StreamReads i) = Some (on_bus (CallReceive i) s)"
| "ctl_step P s (AuditWritten now i) = Some (write_audit now i s)"
| "ctl_step P s (Expired now) = Some (s\<lparr>db := expire now (db s)\<rparr>)"

text \<open>What is relied on \<open>uuid.New\<close> for: new networks and devices get identifiers that are not in use.\<close>

fun fresh_call :: "store \<Rightarrow> ctl_call \<Rightarrow> bool" where
  "fresh_call d (NetCall c) \<longleftrightarrow> fresh_net_call d c"
| "fresh_call d (RegisterCall env u n name os ver key) \<longleftrightarrow>
     eID1 env \<noteq> uuid_Nil \<and> map_of (devices d) (eID1 env) = None"
| "fresh_call d (GrpcRegisterCall env req user) \<longleftrightarrow>
     eID1 env \<noteq> uuid_Nil \<and> map_of (devices d) (eID1 env) = None"
| "fresh_call d _ \<longleftrightarrow> True"

definition start_backend :: "string \<Rightarrow> backend" where
  "start_backend p = \<lparr>db = empty_store p, evbus = Some newBus, pending = []\<rparr>"

inductive reachable :: "ctl_params \<Rightarrow> backend \<Rightarrow> bool" for P where
  start: "reachable P (start_backend p)"
| step: "reachable P s \<Longrightarrow> fresh_call (db s) c \<Longrightarrow> ctl_step P s c = Some s' \<Longrightarrow> reachable P s'"

section \<open>The invariant\<close>

definition ctl_ok :: "backend \<Rightarrow> bool" where
  "ctl_ok s \<longleftrightarrow> tenancy_ok (db s) \<and> bus_inv (evbus s)"

lemma evbus_Record [simp]: "evbus (Record env a n act t i ip meta s) = evbus s"
  by (simp add: Record_def)

lemma bus_inv_publish: "bus_inv (evbus s) \<Longrightarrow> bus_inv (evbus (publish ev s))"
  using Publish_ok [of "the (evbus s)" ev] by (auto simp: bus_inv_def publish_def)

lemma net_step_evbus [simp]: "evbus (net_step us s c) = evbus s"
  by (cases c)
    (simp_all add: NetworkService_Create_def NetworkService_Update_def NetworkService_Delete_def
      NetworkService_Join_def NetworkService_RotateInvite_def NetworkService_UpdateMemberRole_def
      NetworkService_RemoveMember_def Let_def split: sum.split prod.split)

lemma Register_create_evbus [simp]:
  "evbus (snd (Register_create us env u n name os ver key ip s)) = evbus s"
  by (simp add: Register_create_def Let_def split: prod.split sum.split)

lemma Register_evbus:
  "DeviceService_Register us env u n name os ver key s = Some rs \<Longrightarrow> evbus (snd rs) = evbus s"
  by (auto simp: DeviceService_Register_def split: option.splits sum.splits)

lemma device_calls_evbus:
  assumes "bus_inv (evbus s)"
  shows "bus_inv (evbus (snd (DeviceService_Delete us env d u s)))"
    and "bus_inv (evbus (snd (DeviceService_Heartbeat now d u p1 p2 nt b1 b2 s)))"
    and "bus_inv (evbus (snd (CoordinationService_Heartbeat ttl now d e1 e2 nat_type b1 b2 s)))"
  using assms
  by (auto simp: DeviceService_Delete_def DeviceService_Heartbeat_def CoordinationService_Heartbeat_def Let_def
      intro!: bus_inv_publish split: sum.split prod.split)

lemma RegisterDevice_write_evbus:
  "bus_inv (evbus s) \<Longrightarrow> bus_inv (evbus (snd (RegisterDevice_write us env u n inp found s)))"
  by (cases found)
    (auto simp: RegisterDevice_write_def RegisterDevice_update_def RegisterDevice_create_def RegisterDevice_finish_def
      Let_def intro!: bus_inv_publish split: sum.splits prod.splits)

lemma RegisterDevice_evbus:
  "CoordinationService_RegisterDevice us env u n inp s = Some rs \<Longrightarrow> bus_inv (evbus s) \<Longrightarrow> bus_inv (evbus (snd rs))"
  by (auto simp: CoordinationService_RegisterDevice_def RegisterDevice_write_evbus split: option.splits sum.splits)

lemma on_bus_inv: "bus_inv (evbus s) \<Longrightarrow> bus_inv (evbus (on_bus c s))"
  using bus_step_inv [of "the (evbus s)" c] by (auto simp: bus_inv_def on_bus_def)

lemma Subscribe_inv:
  "bus_inv (evbus s) \<Longrightarrow> CoordinationService_Subscribe ns s = Some (i, s') \<Longrightarrow> bus_inv (evbus s') \<and> db s' = db s"
  using bus_step_inv [of "the (evbus s)" "CallSubscribe ns"]
  by (auto simp: bus_inv_def CoordinationService_Subscribe_def split: prod.splits)

lemma tables_infra [simp]:
  "tables (ice_Put now a b cs ttl st) = tables st" "tables (expire now st) = tables st"
  "tables (snd (auditLogRepo_Create i now l st)) = tables st"
  "tables (snd (relayRepo_IncrementLoad k delta st)) = tables st"
  by (simp_all add: tables_def ice_Put_def expire_def auditLogRepo_Create_def relayRepo_IncrementLoad_def
      touch_def Let_def split: option.split)

lemma infra_tenancy:
  assumes "tenancy_ok st"
  shows "tenancy_ok (ice_Put now a b cs ttl st)" "tenancy_ok (expire now st)"
    and "tenancy_ok (snd (auditLogRepo_Create i now l st))"
    and "tenancy_ok (snd (relayRepo_IncrementLoad k delta st))"
  using assms by (auto simp: tenancy_ok_tables infra_ops_ok expire_ok)

lemma GrpcRegister_ok:
  assumes "ctl_ok s" "eID1 env \<noteq> uuid_Nil" "map_of (devices (db s)) (eID1 env) = None"
    and "CoordinationServer_RegisterDevice us up env req user s = Some (r, s')"
  shows "ctl_ok s'"
  using assms
  by (auto simp: CoordinationServer_RegisterDevice_def ctl_ok_def split: option.splits if_splits prod.splits sum.splits
      dest: RegisterDevice_tenancy RegisterDevice_evbus)

lemma GrpcHeartbeat_ok:
  assumes "ctl_ok s"
  shows "ctl_ok (snd (CoordinationServer_Heartbeat up ttl now req user s))"
proof -
  have "ctl_ok (snd (CoordinationService_Heartbeat ttl now d e1 e2 nt b1 b2 s))" for d e1 e2 nt b1 b2
    using assms by (simp add: ctl_ok_def CoordinationService_Heartbeat_tenancy device_calls_evbus)
  then have "ctl_ok s'" if "CoordinationService_Heartbeat ttl now d e1 e2 nt b1 b2 s = (r, s')"
    for d e1 e2 nt b1 b2 r s'
    using that by (metis snd_conv)
  then show ?thesis using assms
    by (simp add: CoordinationServer_Heartbeat_def Let_def split: option.split prod.split sum.split)
qed

lemma GrpcStream_ok: "ctl_ok s \<Longrightarrow> ctl_ok (snd (StreamPeerUpdates_open up raw user s))"
  using Subscribe_inv by (fastforce simp: StreamPeerUpdates_open_def ctl_ok_def split: option.split sum.split prod.split)

lemma GrpcIce_ok: "ctl_ok s \<Longrightarrow> ctl_ok (snd (ExchangeICECandidates up now raw target cs user s))"
  by (auto simp: ExchangeICECandidates_def ExchangeICE_def Let_def ctl_ok_def infra_tenancy
      split: option.split sum.split prod.split)

lemma GrpcRelay_ok:
  "ctl_ok s \<Longrightarrow> ctl_ok (snd (CoordinationServer_RequestRelay sign us up rsm now jti raw rawNet region user s))"
  using infra_tenancy(4)
  by (auto simp: CoordinationServer_RequestRelay_def CoordinationService_RequestRelay_def ctl_ok_def
      split: option.split sum.split prod.split) (metis snd_conv)+

lemma ctl_step_ok:
  assumes "ctl_ok s" "fresh_call (db s) c" "ctl_step P s c = Some s'"
  shows "ctl_ok s'"
proof (cases c)
  case (NetCall nc)
  with assms show ?thesis by (auto simp: ctl_ok_def intro: net_step_tenancy)
next
  case (RegisterCall env u n name os ver key)
  with assms show ?thesis
    by (auto simp: ctl_ok_def dest: Register_evbus DeviceService_Register_tenancy [rotated 3])
next
  case (GrpcRegisterCall env req user)
  with assms show ?thesis by (auto intro: GrpcRegister_ok)
next
  case (AuditWritten now i)
  with assms show ?thesis by (auto simp: ctl_ok_def write_audit_def infra_tenancy)
next
  case (StreamClosed i)
  with assms show ?thesis by (auto simp: ctl_ok_def on_bus_inv) (simp add: on_bus_def split: option.split)
next
  case (StreamReads i)
  with assms show ?thesis by (auto simp: ctl_ok_def on_bus_inv) (simp add: on_bus_def split: option.split)
next
  case (DeleteDeviceCall env d u)
  with assms show ?thesis by (auto simp: ctl_ok_def DeviceService_Delete_tenancy device_calls_evbus)
next
  case (HeartbeatCall now d u p1 p2 nt b1 b2)
  with assms show ?thesis by (auto simp: ctl_ok_def DeviceService_Heartbeat_tenancy device_calls_evbus)
next
  case (Expired now)
  with assms show ?thesis by (auto simp: ctl_ok_def infra_tenancy)
qed (use assms in \<open>auto simp: GrpcHeartbeat_ok GrpcStream_ok GrpcIce_ok GrpcRelay_ok\<close>)

lemma start_ok: "ctl_ok (start_backend p)"
  by (simp add: ctl_ok_def start_backend_def tenancy_ok_def tenancy_def refs_ok_def owners_ok_def
      devices_unique_def bus_inv_def bus_ok_def newBus_def) (simp add: empty_store_def)

lemma reachable_ok: "reachable P s \<Longrightarrow> ctl_ok s"
  by (induction rule: reachable.induct) (auto intro: start_ok ctl_step_ok)

end
