(* ===== verification/Token_Properties.thy ===== *)
theory Token_Properties
  imports Tokens
begin

text \<open>
  Properties of the credentials: access tokens are accepted until they expire and only when signed
  with the secret, pairing tokens are single use, and what happens to them around their expiry.
\<close>

section \<open>Properties of access tokens\<close>

lemma access_claims_for_simps [simp]:
  "acType (access_claims_for us m now jti u e) = TokenTypeAccess"
  "acUserID (access_claims_for us m now jti u e) = us u"
  "rcExpiresAt (acRegistered (access_claims_for us m now jti u e)) = Some (NewNumericDate (now + accessTTL m))"
  by (simp_all add: access_claims_for_def)

text \<open>
  An access token is accepted until it expires and carries its user: what \<open>IssueAccessToken\<close>
  returns, \<open>ParseAccessToken\<close> of the same manager parses, at any instant before the expiry the token
  holds, to the claims that were signed. Refused are, whatever the parser does, claims of another
  token type.
\<close>
lemma access_token_roundtrip:
  assumes "jwt_accepts acRegistered (parse (tmIssuer m)) sign (access_claims_for us m issued jti u email)"
    and "now < NewNumericDate (issued + accessTTL m)"
  shows "ParseAccessToken parse m now (fst (IssueAccessToken sign us m issued jti u email)) =
           Inr (access_claims_for us m issued jti u email) \<and>
         acUserID (access_claims_for us m issued jti u email) = us u"
proof -
  have "parse (tmIssuer m) (hmac_key (accessSecret m)) now
      (sign SigningMethodHS256 (accessSecret m) (access_claims_for us m issued jti u email)) =
      Some (access_claims_for us m issued jti u email, True)"
    using assms(2) by (intro jwt_acceptsD [OF assms(1)]) simp_all
  then show ?thesis by (simp add: ParseAccessToken_def IssueAccessToken_def)
qed

definition ex_tm :: token_manager where
  "ex_tm = NewTokenManager ''secret'' ''other'' ''nexusvpn-local'' (15 * Minute) (720 * 60 * Minute)"

theorem access_token_roundtrip_witness:
  "ParseAccessToken
     (\<lambda>_. ex_jwt_parse acRegistered (access_claims_for (\<lambda>_. ''u'') ex_tm 0 ''j'' (ex_id 1) ''a@b'')) ex_tm Minute
     (fst (IssueAccessToken ex_jwt_sign (\<lambda>_. ''u'') ex_tm 0 ''j'' (ex_id 1) ''a@b'')) =
   Inr (access_claims_for (\<lambda>_. ''u'') ex_tm 0 ''j'' (ex_id 1) ''a@b'')"
proof -
  have "Minute < NewNumericDate (0 + accessTTL ex_tm)"
    by (simp add: ex_tm_def NewTokenManager_def NewNumericDate_def)
  from access_token_roundtrip [where parse = "\<lambda>_. ex_jwt_parse acRegistered (access_claims_for (\<lambda>_. ''u'') ex_tm 0 ''j'' (ex_id 1) ''a@b'')",
      OF ex_jwt_accepts this]
  show ?thesis by simp
qed



section \<open>Properties of pairing tokens\<close>

text \<open>A sequence of calls of \<open>Consume\<close>, in the order in which they take the lock.\<close>

record consume_call =
  ccParsed :: gotime
  ccRead :: gotime
  ccLocked :: gotime
  ccToken :: string

definition consume_step ::
  "pairing_claims jwt_parse \<Rightarrow> pairing_manager \<Rightarrow> consume_call \<Rightarrow> pairing_manager" where
  "consume_step parse m c = snd (Consume parse (ccParsed c) (ccRead c) (ccLocked c) (ccToken c) m)"

definition redeemed ::
  "pairing_claims jwt_parse \<Rightarrow> pairing_manager \<Rightarrow> consume_call \<Rightarrow> pairing_claims option" where
  "redeemed parse m c =
     (case fst (Consume parse (ccParsed c) (ccRead c) (ccLocked c) (ccToken c) m) of Inl _ \<Rightarrow> None | Inr cl \<Rightarrow> Some cl)"

abbreviation "claims_jti cl \<equiv> rcID (pcRegistered cl)"
abbreviation "claims_expiry cl \<equiv> rcExpiresAt (pcRegistered cl)"

lemma Consume_used_ok: "gomap_ok (pmUsed m) \<Longrightarrow> gomap_ok (pmUsed (consume_step parse m c))"
  by (auto simp: consume_step_def Consume_def sweepLocked_def Let_def split: option.splits prod.splits)

lemma redeemed_records:
  assumes "gomap_ok (pmUsed m)" "redeemed parse m c = Some cl" "claims_expiry cl = Some e"
  shows "map_of (pmUsed (consume_step parse m c)) (claims_jti cl) = Some e"
  using assms
  by (auto simp: redeemed_def consume_step_def Consume_def sweepLocked_def Let_def go_map_simps
      simp del: map_of_eq_Some_iff split: option.splits prod.splits if_splits)

lemma sweep_keeps:
  "gomap_ok (pmUsed m) \<Longrightarrow> map_of (pmUsed m) i = Some e \<Longrightarrow> now \<le> e \<Longrightarrow>
   map_of (pmUsed (sweepLocked now m)) i = Some e"
  by (simp add: sweepLocked_def get_filter del: map_of_eq_Some_iff)

lemma Consume_keeps:
  assumes "gomap_ok (pmUsed m)" "map_of (pmUsed m) i = Some e" "ccLocked c \<le> e"
  shows "map_of (pmUsed (consume_step parse m c)) i = Some e"
  using assms sweep_keeps [OF assms(1,2), of "ccLocked c"]
  by (auto simp: consume_step_def Consume_def Let_def go_map_simps simp del: map_of_eq_Some_iff
      split: option.splits prod.splits)

lemma Consume_refuses:
  assumes "gomap_ok (pmUsed m)" "map_of (pmUsed m) (claims_jti cl) = Some e" "ccLocked c \<le> e"
  shows "redeemed parse m c \<noteq> Some cl"
  using assms sweep_keeps [OF assms(1,2), of "ccLocked c"]
  by (auto simp: redeemed_def Consume_def Let_def simp del: map_of_eq_Some_iff
      split: option.splits prod.splits if_splits)

lemma used_run_ok: "gomap_ok (pmUsed m) \<Longrightarrow> gomap_ok (pmUsed (run (consume_step parse) m cs))"
  by (induction cs arbitrary: m) (simp_all add: Consume_used_ok)

lemma used_run_keeps:
  "gomap_ok (pmUsed m) \<Longrightarrow> map_of (pmUsed m) i = Some e \<Longrightarrow> \<forall>c \<in> set cs. ccLocked c \<le> e \<Longrightarrow>
   map_of (pmUsed (run (consume_step parse) m cs)) i = Some e"
  by (induction cs arbitrary: m) (simp_all add: Consume_used_ok Consume_keeps del: map_of_eq_Some_iff)

text \<open>
  C25. A pairing token is redeemed at most once while it is valid. In any sequence of \<open>Consume\<close> calls
  in which the lock is taken in the order of the clock, if two calls redeem a token with the same
  claims, the later of them held the lock after the token had expired.
\<close>

theorem pairing_token_single_use:
  assumes m0: "m0 = NewPairingManager secret ttl"
    and times: "sorted (map ccLocked (before @ c1 # between @ [c2]))"
    and first: "redeemed parse (run (consume_step parse) m0 before) c1 = Some cl"
    and second: "redeemed parse (run (consume_step parse) m0 (before @ c1 # between)) c2 = Some cl"
    and expires: "rcExpiresAt (pcRegistered cl) = Some e"
  shows "e < ccLocked c2"
proof (rule ccontr)
  assume "\<not> e < ccLocked c2"
  then have le: "ccLocked c2 \<le> e" by simp
  let ?m = "run (consume_step parse) m0 before"
  have ok: "gomap_ok (pmUsed ?m)"
    by (rule used_run_ok) (simp add: m0 NewPairingManager_def Let_def)
  let ?m1 = "consume_step parse ?m c1"
  have "\<forall>c \<in> set between. ccLocked c \<le> e"
    using times le by (auto simp: sorted_append)
  then have "map_of (pmUsed (run (consume_step parse) ?m1 between)) (claims_jti cl) = Some e"
    using redeemed_records [OF ok first expires] ok by (intro used_run_keeps) (simp_all add: Consume_used_ok)
  moreover have "gomap_ok (pmUsed (run (consume_step parse) ?m1 between))"
    by (rule used_run_ok, rule Consume_used_ok, rule ok)
  moreover have "run (consume_step parse) m0 (before @ c1 # between) = run (consume_step parse) ?m1 between"
    by (simp add: run_append)
  ultimately show False using Consume_refuses le second by metis
qed

text \<open>
  Two requests with the same pairing token can both be honoured around its expiry. Both are
  parsed while the token is valid; the first redeems it; the second takes the lock after the expiry,
  its own sweep forgets that the token was used, and it is redeemed again.
\<close>
lemma pairing_token_redeemed_twice:
  assumes "parse (hmac_key (pmSecret m)) parsedAt raw = Some (cl, True)"
    and "rcID (pcRegistered cl) \<noteq> []" "rcExpiresAt (pcRegistered cl) = Some e"
    and "map_of (pmUsed m) (rcID (pcRegistered cl)) = None" "gomap_ok (pmUsed m)" "e < late"
  shows "let (r1, m1) = Consume parse parsedAt parsedAt parsedAt raw m;
             (r2, m2) = Consume parse parsedAt parsedAt late raw m1
         in r1 = Inr cl \<and> r2 = Inr cl"
  using assms by (auto simp: Consume_def Let_def sweepLocked_def get_filter go_map_simps)

definition ex_pairing_claims :: pairing_claims where
  "ex_pairing_claims = \<lparr>pcRegistered = \<lparr>Issuer = [], Subject = ''u'', rcID = ''t1'', rcIssuedAt = Some 0,
     rcExpiresAt = Some (300 * Second)\<rparr>, pcUserID = ''u'', pcNetworkID = []\<rparr>"

abbreviation "ex_pairing_parse \<equiv> ex_jwt_parse pcRegistered ex_pairing_claims"

definition ex_pm :: pairing_manager where
  "ex_pm = NewPairingManager ''key'' 0"

definition ex_consume :: "gotime \<Rightarrow> consume_call" where
  "ex_consume locked = \<lparr>ccParsed = 10, ccRead = 10, ccLocked = locked,
     ccToken = ex_jwt_sign SigningMethodHS256 (bytes_of_string ''key'') ex_pairing_claims\<rparr>"

theorem pairing_token_single_use_witness:
  "300 * Second < ccLocked (ex_consume (301 * Second)) \<and>
   redeemed ex_pairing_parse ex_pm (ex_consume 20) = Some ex_pairing_claims"
proof -
  have r1: "redeemed ex_pairing_parse (run (consume_step ex_pairing_parse) ex_pm []) (ex_consume 20) = Some ex_pairing_claims"
    by code_simp
  have r2: "redeemed ex_pairing_parse (run (consume_step ex_pairing_parse) ex_pm ([] @ ex_consume 20 # [])) (ex_consume (301 * Second))
      = Some ex_pairing_claims"
    by code_simp
  have s: "sorted (map ccLocked ([] @ ex_consume 20 # [] @ [ex_consume (301 * Second)]))"
    by (simp add: ex_consume_def)
  have e: "rcExpiresAt (pcRegistered ex_pairing_claims) = Some (300 * Second)" by (simp add: ex_pairing_claims_def)
  from pairing_token_single_use [OF ex_pm_def s r1 r2 e] r1 show ?thesis by simp
qed

theorem pairing_token_redeemed_twice_witness:
  "\<exists>m1 m2. Consume ex_pairing_parse 10 10 10 (ccToken (ex_consume 10)) ex_pm = (Inr ex_pairing_claims, m1) \<and>
     Consume ex_pairing_parse 10 10 (301 * Second) (ccToken (ex_consume 10)) m1 = (Inr ex_pairing_claims, m2)"
proof -
  have p: "ex_pairing_parse (hmac_key (pmSecret ex_pm)) 10 (ccToken (ex_consume 10)) = Some (ex_pairing_claims, True)"
    by code_simp
  have "rcID (pcRegistered ex_pairing_claims) \<noteq> []" "rcExpiresAt (pcRegistered ex_pairing_claims) = Some (300 * Second)"
    "map_of (pmUsed ex_pm) (rcID (pcRegistered ex_pairing_claims)) = None" "gomap_ok (pmUsed ex_pm)"
    "300 * Second < 301 * Second"
    by (simp_all add: ex_pairing_claims_def ex_pm_def NewPairingManager_def Let_def)
  from pairing_token_redeemed_twice [where parse = ex_pairing_parse and m = ex_pm, OF p this] show ?thesis
    by (auto simp: Let_def split: prod.splits)
qed

end
