(* ===== verification/Control_Plane_Properties.thy ===== *)
theory Control_Plane_Properties
  imports Control_Plane Token_Properties
begin

text \<open>
  Properties that span the components of the control plane: tenancy of every reachable state,
  registration that always ends with the lowest free address, what two simultaneous registrations
  do, access to devices, and the way of a relay token from the control plane to the relay.
\<close>

section \<open>Properties of the control plane\<close>

text \<open>
  Tenancy holds in every state the control plane can reach by any sequence of calls of the network,
  device and coordination services, snapshots of presence, audit writes and stream events: every
  member and device belongs to an existing network, every device to a member of its network, every
  network has exactly one owner, who is the user recorded in it, roles are owner, admin or member,
  and no two devices share a public key or, within one network, a virtual address. The event bus is
  in a state in which publishing does not panic.
\<close>

theorem control_plane_tenancy:
  assumes "reachable P s"
  shows "tenancy_ok (db s) \<and> (\<exists>b. evbus s = Some b \<and> (\<forall>ev. Publish ev b \<noteq> None))"
  using reachable_ok [OF assms] Publish_ok by (fastforce simp: ctl_ok_def bus_inv_def)

definition ex_params :: ctl_params where
  "ex_params = \<lparr>pString = (\<lambda>i. string_of_bytes (uuid_bytes i)), pParse = (\<lambda>_. None), pSign = ex_jwt_sign,
     pRelay = \<lparr>rsmSecret = [1], rsmTTL = 600 * Second\<rparr>, pTTL = 60 * Second\<rparr>"

definition ex_create :: ctl_call where
  "ex_create = NetCall (CallCreate (ex_svc_env 20) (ex_id 1) ''home'' [] ''10.0.0.0/24'' [])"

definition ex_register :: "byte \<Rightarrow> string \<Rightarrow> ctl_call" where
  "ex_register k key = RegisterCall (ex_svc_env k) (ex_id 1) (ex_id 20) ''laptop'' ''linux'' [] key"

definition ex_s1 :: backend where
  "ex_s1 = the (ctl_step ex_params (start_backend []) ex_create)"

definition ex_s2 :: backend where
  "ex_s2 = the (ctl_step ex_params ex_s1 (ex_register 40 ''k1''))"

lemma ex_s2_reachable: "reachable ex_params ex_s2"
proof -
  have "reachable ex_params ex_s1"
  proof (rule reachable.step [OF reachable.start [of _ "[]"]])
    show "fresh_call (db (start_backend [])) ex_create" by code_simp
    show "ctl_step ex_params (start_backend []) ex_create = Some ex_s1" by (simp add: ex_s1_def ex_create_def)
  qed
  then show ?thesis
  proof (rule reachable.step)
    show "fresh_call (db ex_s1) (ex_register 40 ''k1'')" by code_simp
    have "ctl_step ex_params ex_s1 (ex_register 40 ''k1'') \<noteq> None" by code_simp
    then show "ctl_step ex_params ex_s1 (ex_register 40 ''k1'') = Some ex_s2" by (auto simp: ex_s2_def)
  qed
qed

theorem control_plane_tenancy_witness:
  "tenancy_ok (db ex_s2) \<and> map_option VirtualIP (map_of (devices (db ex_s2)) (ex_id 40)) = Some ''10.0.0.2''"
proof -
  have "map_option VirtualIP (map_of (devices (db ex_s2)) (ex_id 40)) = Some ''10.0.0.2''" by code_simp
  with control_plane_tenancy [OF ex_s2_reachable] show ?thesis by blast
qed

text \<open>
  C13. Registering a device always ends, on every IPv4 network with a prefix of at least one bit: for
  a member with a new public key the device gets the lowest assignable address of the network and can
  be read back, or the call reports \<open>ErrNetworkFull\<close>, exactly when no address is assignable, and
  nothing changes.
\<close>

theorem device_registration_total:
  assumes "map_of (networks (db s)) n = Some nw" "map_of (members (db s)) (n, u) \<noteq> None"
    and "ParseCIDR (CIDR nw) = Some net" "length (NetIP net) = 4" "Mask net ! 0 \<noteq> 0"
    and "TrimSpace name \<noteq> []" "TrimSpace key \<noteq> []" "\<forall>d \<in> snd ` set (devices (db s)). PublicKey d \<noteq> key"
  shows "\<exists>r s'. DeviceService_Register us env u n name os ver key s = Some (r, s') \<and>
           lowest_or_full (assignable (taken_ips n (db s)) net) (Some (map_sum id VirtualIP r)) \<and>
           (case r of Inl e \<Rightarrow> s' = s
            | Inr d \<Rightarrow> deviceRepo_GetByID (dID d) (db s') = Inr d \<and> dUserID d = u \<and> dNetworkID d = n \<and> PublicKey d = key)"
proof -
  have m: "member_or_forbidden n u (db s) = Inr ()" using assms(2) by simp
  have g: "networkRepo_GetByID n (db s) = Inr nw" using assms(1) by (simp add: networkRepo_GetByID_def)
  have k: "deviceRepo_GetByPublicKey key (db s) = Inl ErrNotFound"
    using assms(8) by (simp add: deviceRepo_GetByPublicKey_def find_row_Inl)
  have a: "Register_alloc u n name key s = deviceRepo_NextFreeVirtualIP n (CIDR nw) (db s)"
    using assms(6,7) unfolding Register_alloc_def m g k by simp
  have low: "lowest_or_full (assignable (taken_ips n (db s)) net) (deviceRepo_NextFreeVirtualIP n (CIDR nw) (db s))"
    using assms(3-5) by (rule NextFreeVirtualIP_lowest)
  then consider "deviceRepo_NextFreeVirtualIP n (CIDR nw) (db s) = Some (Inl ErrNetworkFull)"
    | ip where "deviceRepo_NextFreeVirtualIP n (CIDR nw) (db s) = Some (Inr ip)"
    by (auto simp: lowest_or_full_def)
  then show ?thesis
  proof cases
    case 1
    with a low show ?thesis by (simp add: DeviceService_Register_def)
  next
    case (2 ip)
    define d where "d = device_zero\<lparr>dID := eID1 env, dUserID := u, dNetworkID := n, dName := name,
      OS := NormalizeDeviceOS os, OSVersion := ver, PublicKey := key, VirtualIP := ip, dStatus := DeviceStatusUnknown\<rparr>"
    obtain d' st where c: "deviceRepo_Create uuid_Nil (eNow env) d (db s) = (Inr d', st)"
      using assms(8) by (auto simp: deviceRepo_Create_def some_row_iff d_def Let_def)
    have r: "DeviceService_Register us env u n name os ver key s = Some (Inr d',
        Record env (Some u) (Some n) AuditDeviceRegistered ''device'' (us (dID d')) [] [(''virtual_ip'', ip)] (s\<lparr>db := st\<rparr>))"
      unfolding DeviceService_Register_def a 2 option.case sum.case Register_create_def d_def [symmetric] Let_def c
      by simp
    have "VirtualIP d' = ip" "dUserID d' = u" "dNetworkID d' = n" "PublicKey d' = key"
      using tables_deviceRepo_Create [OF c] by (simp_all add: d_def)
    moreover have "deviceRepo_GetByID (dID d') st = Inr d'" using device_repo.read_own_write [OF c] .
    ultimately show ?thesis using r low 2 by simp
  qed
qed

theorem device_registration_total_witness:
  "\<exists>d s'. DeviceService_Register (\<lambda>_. []) (ex_svc_env 50) (ex_id 3) (ex_id 9) ''pc'' ''linux'' [] ''key'' ex_backend = Some (Inr d, s') \<and>
     deviceRepo_GetByID (dID d) (db s') = Inr d \<and> VirtualIP d = ''10.0.0.2''"
proof -
  let ?net = "\<lparr>NetIP = [10, 0, 0, 0], Mask = [255, 255, 255, 0]\<rparr> :: ip_net"
  obtain nw where nw: "map_of (networks (db ex_backend)) (ex_id 9) = Some nw" "CIDR nw = ''10.0.0.0/24''"
    by (simp add: ex_backend_defs)
  have p: "ParseCIDR (CIDR nw) = Some ?net" unfolding nw(2) by code_simp
  have m: "map_of (members (db ex_backend)) (ex_id 9, ex_id 3) \<noteq> None" by (simp add: ex_backend_defs)
  have l: "length (NetIP ?net) = 4" "Mask ?net ! 0 \<noteq> 0" by simp_all
  have nk: "TrimSpace ''pc'' \<noteq> []" "TrimSpace ''key'' \<noteq> []" by code_simp+
  have d: "\<forall>d \<in> snd ` set (devices (db ex_backend)). PublicKey d \<noteq> ''key''" by (simp add: ex_backend_defs)
  obtain r s' where
    r: "DeviceService_Register (\<lambda>_. []) (ex_svc_env 50) (ex_id 3) (ex_id 9) ''pc'' ''linux'' [] ''key'' ex_backend = Some (r, s')"
    and c: "case r of Inl e \<Rightarrow> s' = ex_backend | Inr d \<Rightarrow> deviceRepo_GetByID (dID d) (db s') = Inr d \<and>
      dUserID d = ex_id 3 \<and> dNetworkID d = ex_id 9 \<and> PublicKey d = ''key''"
    using device_registration_total [OF nw(1) m p l nk d, of "\<lambda>_. []" "ex_svc_env 50" "''linux''" "[]"] by blast
  have "map_option (map_sum id VirtualIP \<circ> fst)
      (DeviceService_Register (\<lambda>_. []) (ex_svc_env 50) (ex_id 3) (ex_id 9) ''pc'' ''linux'' [] ''key'' ex_backend) = Some (Inr ''10.0.0.2'')"
    by code_simp
  with r c show ?thesis by (cases r) auto
qed

text \<open>
  C39. Two registrations on one network that run at the same time can get the same address. Both read
  the free address before either creates its row; with different keys both rows are created, in the
  same network and with the same virtual address.
\<close>

theorem concurrent_registrations_share_address:
  assumes "Register_alloc u n name1 key1 s = Some (Inr ip)" "Register_alloc v n name2 key2 s = Some (Inr ip')"
    and "key1 \<noteq> key2" "eID1 env1 \<noteq> uuid_Nil" "eID1 env2 \<noteq> uuid_Nil" "eID1 env1 \<noteq> eID1 env2"
  shows "let (r1, s1) = Register_create us env1 u n name1 os1 ver1 key1 ip s;
             (r2, s2) = Register_create us env2 v n name2 os2 ver2 key2 ip' s1
         in \<exists>d1 d2. r1 = Inr d1 \<and> r2 = Inr d2 \<and> dID d1 \<noteq> dID d2 \<and>
              map_of (devices (db s2)) (dID d1) = Some d1 \<and> map_of (devices (db s2)) (dID d2) = Some d2 \<and>
              dNetworkID d1 = dNetworkID d2 \<and> VirtualIP d1 = VirtualIP d2"
proof -
  have free: "\<forall>d \<in> snd ` set (devices (db s)). PublicKey d \<noteq> key"
    if "Register_alloc w n name key s = Some (Inr j)" for w name key j
    using that
    by (auto simp: Register_alloc_def deviceRepo_GetByPublicKey_def find_row_Inl split: if_splits sum.splits)
  have same: "ip' = ip"
    using assms(1,2) by (auto simp: Register_alloc_def split: if_splits sum.splits)
  define d1 where "d1 = device_zero\<lparr>dID := eID1 env1, dUserID := u, dNetworkID := n, dName := name1,
    OS := NormalizeDeviceOS os1, OSVersion := ver1, PublicKey := key1, VirtualIP := ip, dStatus := DeviceStatusUnknown,
    dCreatedAt := eNow env1, dUpdatedAt := eNow env1\<rparr>"
  define st1 where "st1 = touch ((db s)\<lparr>devices := put (eID1 env1) d1 (devices (db s))\<rparr>)"
  have "fst (Register_create us env1 u n name1 os1 ver1 key1 ip s) = Inr d1"
    "db (snd (Register_create us env1 u n name1 os1 ver1 key1 ip s)) = st1"
    using free [OF assms(1)] assms(4)
    by (auto simp: Register_create_def deviceRepo_Create_def some_row_iff Let_def d1_def st1_def)
  then obtain s1 where s1: "Register_create us env1 u n name1 os1 ver1 key1 ip s = (Inr d1, s1)" "db s1 = st1"
    by (metis prod.collapse)
  have rows: "set (devices st1) \<subseteq> insert (eID1 env1, d1) (set (devices (db s)))"
    using set_put_subset [of "eID1 env1" d1 "devices (db s)"] by (auto simp: st1_def touch_def)
  have free2: "\<forall>d \<in> snd ` set (devices st1). PublicKey d \<noteq> key2"
    using rows free [OF assms(2)] assms(3) by (auto simp: d1_def)
  define d2 where "d2 = device_zero\<lparr>dID := eID1 env2, dUserID := v, dNetworkID := n, dName := name2,
    OS := NormalizeDeviceOS os2, OSVersion := ver2, PublicKey := key2, VirtualIP := ip, dStatus := DeviceStatusUnknown,
    dCreatedAt := eNow env2, dUpdatedAt := eNow env2\<rparr>"
  define st2 where "st2 = touch (st1\<lparr>devices := put (eID1 env2) d2 (devices st1)\<rparr>)"
  have "fst (Register_create us env2 v n name2 os2 ver2 key2 ip' s1) = Inr d2"
    "db (snd (Register_create us env2 v n name2 os2 ver2 key2 ip' s1)) = st2"
    using free2 assms(5) s1(2) same
    by (auto simp: Register_create_def deviceRepo_Create_def some_row_iff Let_def d2_def st2_def)
  then obtain s2 where s2: "Register_create us env2 v n name2 os2 ver2 key2 ip' s1 = (Inr d2, s2)" "db s2 = st2"
    by (metis prod.collapse)
  have "map_of (devices st2) (eID1 env1) = Some d1" "map_of (devices st2) (eID1 env2) = Some d2"
    using assms(6) by (simp_all add: st2_def st1_def touch_def go_map_simps)
  moreover have "dID d1 = eID1 env1" "dID d2 = eID1 env2" "dNetworkID d1 = dNetworkID d2" "VirtualIP d1 = VirtualIP d2"
    by (simp_all add: d1_def d2_def)
  ultimately show ?thesis using s1 s2 assms(6) by simp
qed

theorem concurrent_registrations_share_address_witness:
  "\<exists>d1 d2 s1 s2.
     Register_create (\<lambda>_. []) (ex_svc_env 50) (ex_id 2) (ex_id 9) ''a'' ''linux'' [] ''k1'' ''10.0.0.2'' ex_backend = (Inr d1, s1) \<and>
     Register_create (\<lambda>_. []) (ex_svc_env 60) (ex_id 3) (ex_id 9) ''b'' ''linux'' [] ''k2'' ''10.0.0.2'' s1 = (Inr d2, s2) \<and>
     VirtualIP d1 = VirtualIP d2"
proof -
  have a: "Register_alloc (ex_id 2) (ex_id 9) ''a'' ''k1'' ex_backend = Some (Inr ''10.0.0.2'')"
    "Register_alloc (ex_id 3) (ex_id 9) ''b'' ''k2'' ex_backend = Some (Inr ''10.0.0.2'')"
    by code_simp+
  have "''k1'' \<noteq> ''k2''" "eID1 (ex_svc_env 50) \<noteq> uuid_Nil" "eID1 (ex_svc_env 60) \<noteq> uuid_Nil"
    "eID1 (ex_svc_env 50) \<noteq> eID1 (ex_svc_env 60)"
    by code_simp+
  from concurrent_registrations_share_address [OF a this, of "\<lambda>_. []" "''linux''" "[]" "''linux''" "[]"]
  show ?thesis by (auto split: prod.splits)
qed

section \<open>Access to devices\<close>

definition may_access :: "(uuid \<times> uuid \<rightharpoonup> network_member) \<Rightarrow> uuid \<Rightarrow> device \<Rightarrow> bool" where
  "may_access M u d \<longleftrightarrow> dUserID d = u \<or>
     (\<exists>m. M (dNetworkID d, u) = Some m \<and> (Role m = NetworkRoleOwner \<or> Role m = NetworkRoleAdmin))"

lemma authorizeDeviceAccess_iff:
  "authorizeDeviceAccess i u st = Inr d \<longleftrightarrow> map_of (devices st) i = Some d \<and> may_access (map_of (members st)) u d"
  by (auto simp: authorizeDeviceAccess_def deviceRepo_GetByID_def memberRepo_Get_def may_access_def
      split: sum.splits if_splits)


section \<open>From the control plane to the relay\<close>

lemma relay_claims_for_simps [simp]:
  "rclDeviceID (relay_claims_for us m now jti d r n) = us d"
  "rclRelayID (relay_claims_for us m now jti d r n) = us r"
  "rclNetworkID (relay_claims_for us m now jti d r n) = us n"
  "rcExpiresAt (rclRegistered (relay_claims_for us m now jti d r n)) = Some (NewNumericDate (now + rsmTTL m))"
  by (simp_all add: relay_claims_for_def)

lemma issued_token_verifies:
  assumes "jwt_accepts rclRegistered parse sign (relay_claims_for us m issued jti d r n)"
    and "vsecret v = rsmSecret m" "vrelayID v = [] \<or> vrelayID v = us r" "us d \<noteq> []" "us n \<noteq> []"
    and "RelaySessionManager_Issue sign us m issued jti d r n \<noteq> []" "now < NewNumericDate (issued + rsmTTL m)"
  shows "Verify parse v now (RelaySessionManager_Issue sign us m issued jti d r n) =
           Inr (relay_claims_for us m issued jti d r n)"
proof -
  have "parse (hmac_key (rsmSecret m)) now (RelaySessionManager_Issue sign us m issued jti d r n) =
      Some (relay_claims_for us m issued jti d r n, True)"
    unfolding RelaySessionManager_Issue_def
    using assms(7) by (intro jwt_acceptsD [OF assms(1)]) simp_all
  with assms show ?thesis by (auto simp: Verify_def)
qed

definition has_room :: "string \<Rightarrow> session_table \<Rightarrow> bool" where
  "has_room n t \<longleftrightarrow> map_of (sessions t) n \<noteq> None \<or> maxSessions t \<le> 0 \<or> int (length (sessions t)) < maxSessions t"

lemma Bind_room: "has_room n t \<Longrightarrow> \<exists>t'. Bind now n d addr e t = (Inr (), t')"
  by (auto simp: has_room_def Bind_def split: option.split)

lemma token_binds:
  assumes "jwt_accepts rclRegistered parse sign (relay_claims_for us m issued jti d r n)"
    and "vsecret (verif s) = rsmSecret m" "vrelayID (verif s) = [] \<or> vrelayID (verif s) = us r" "us d \<noteq> []" "us n \<noteq> []"
    and tok: "tok = RelaySessionManager_Issue sign us m issued jti d r n" "tok \<noteq> []" "length tok \<le> 1500"
    and "tokenNow env < NewNumericDate (issued + rsmTTL m)" and room: "has_room (us n) (table s)"
  shows "\<exists>s'. relay_step parse us s (Datagram (client_encodeBind d tok) addr env) = s' \<and>
           sent s' = sent s @ [(EncodeBindAck, addr)] \<and>
           bound (table s') (us n) d = Some \<lparr>bDeviceID = d, bAddr = addr, bLastSeen = tableNow env,
             bExpiresAt = NewNumericDate (issued + rsmTTL m)\<rparr>"
proof -
  have f: "take MaxPacketSize (client_encodeBind d tok) = client_encodeBind d tok"
    using tok(3) by (simp add: client_encodeBind_def MaxPacketSize_def headerLen_def)
  have ne: "client_encodeBind d tok \<noteq> []" and hd: "client_encodeBind d tok ! 0 = FrameBind"
    by (simp_all add: client_encodeBind_def frame_types client_frame_types)
  have dec: "DecodeBind (client_encodeBind d tok) = Inr (d, tok)"
    using bind.accepts_iff [of "client_encodeBind d tok" "(d, tok)"] by (simp add: client_encodeBind_eq)
  let ?c = "relay_claims_for us m issued jti d r n"
  have ver: "Verify parse (verif s) (tokenNow env) tok = Inr ?c"
    using issued_token_verifies [OF assms(1-5), of "tokenNow env"] assms(9) tok by simp
  from Bind_room [OF room] obtain t' where
    b: "Bind (tableNow env) (us n) d addr (NewNumericDate (issued + rsmTTL m)) (table s) = (Inr (), t')" by blast
  have "handlePacket parse us (verif s) env (client_encodeBind d tok) addr (table s) = ([(EncodeBindAck, addr)], t')"
    using hd dec ver b
    by (simp add: handlePacket_def handleBind_def SessionKey_def claims_ExpiresAt_def reply_def)
  then have "relay_step parse us s (Datagram (client_encodeBind d tok) addr env) =
      s\<lparr>table := t', sent := sent s @ [(EncodeBindAck, addr)]\<rparr>"
    using f ne by (simp add: Let_def)
  then show ?thesis using bound_Bind [OF b] by simp
qed

text \<open>
  C17. A relay session that the control plane allocates is one the relay grants. The token issued for a
  device, a relay and a network, presented in the client's BIND frame to that relay before it
  expires, is answered with BIND_ACK, and the device is bound in the session of that network, at the
  sender's address and until the token's expiry, provided the relay shares the secret and has room.
\<close>

theorem issued_relay_token_binds:
  assumes "jwt_accepts rclRegistered parse sign (relay_claims_for us m issued jti d r n)"
    and "vsecret (verif s) = rsmSecret m" "vrelayID (verif s) = [] \<or> vrelayID (verif s) = us r" "us d \<noteq> []" "us n \<noteq> []"
    and "tok = RelaySessionManager_Issue sign us m issued jti d r n" "tok \<noteq> []" "length tok \<le> 1500"
    and "tokenNow env < NewNumericDate (issued + rsmTTL m)" and "has_room (us n) (table s)"
  shows "\<exists>s'. relay_step parse us s (Datagram (client_encodeBind d tok) addr env) = s' \<and>
           sent s' = sent s @ [(EncodeBindAck, addr)] \<and>
           bound (table s') (us n) d = Some \<lparr>bDeviceID = d, bAddr = addr, bLastSeen = tableNow env,
             bExpiresAt = NewNumericDate (issued + rsmTTL m)\<rparr>"
  using assms by (rule token_binds)

definition ex_us :: "uuid \<Rightarrow> string" where
  "ex_us i = string_of_bytes (uuid_bytes i)"

lemma ex_us_nonempty [simp]: "ex_us i \<noteq> []"
proof
  assume "ex_us i = []"
  then have "length (ex_us i) = 0" by simp
  then show False by (simp add: ex_us_def)
qed

definition ex_rsm :: relay_session_manager where
  "ex_rsm = NewRelaySessionManager ''rs'' (600 * Second)"

abbreviation "ex_rc \<equiv> relay_claims_for ex_us ex_rsm 0 ''j'' (ex_id 40) (ex_id 7) (ex_id 9)"

definition ex_node :: relay_state where
  "ex_node = relay_start (NewVerifier ''rs'' (ex_us (ex_id 7))) (60 * Second) 10"

definition ex_udp :: udp_addr where
  "ex_udp = ex_addr 5"

definition ex_call :: call_env where
  "ex_call = \<lparr>tokenNow = 10 * Second, tableNow = 10 * Second, ticks = [], writeOk = True\<rparr>"

lemma ex_node_facts:
  "vsecret (verif ex_node) = rsmSecret ex_rsm" "vrelayID (verif ex_node) = ex_us (ex_id 7)"
  "tokenNow ex_call < NewNumericDate (0 + rsmTTL ex_rsm)" "has_room (ex_us n) (table ex_node)"
  by (simp_all add: ex_node_def relay_start_def NewVerifier_def ex_rsm_def NewRelaySessionManager_def
      ex_call_def NewNumericDate_def has_room_def NewSessionTable_def)

lemma ex_token_facts:
  "RelaySessionManager_Issue ex_jwt_sign ex_us ex_rsm 0 ''j'' d r n \<noteq> []"
  "length (RelaySessionManager_Issue ex_jwt_sign ex_us ex_rsm 0 ''j'' d r n) \<le> 1500"
  by (simp_all add: RelaySessionManager_Issue_def ex_jwt_sign_def SigningMethodHS256_def ex_rsm_def NewRelaySessionManager_def)

theorem issued_relay_token_binds_witness:
  "sent (relay_step (ex_jwt_parse rclRegistered ex_rc) ex_us ex_node (Datagram (client_encodeBind (ex_id 40)
     (RelaySessionManager_Issue ex_jwt_sign ex_us ex_rsm 0 ''j'' (ex_id 40) (ex_id 7) (ex_id 9))) ex_udp ex_call)) =
   sent ex_node @ [(EncodeBindAck, ex_udp)]"
proof -
  have sc: "vrelayID (verif ex_node) = [] \<or> vrelayID (verif ex_node) = ex_us (ex_id 7)" by (simp add: ex_node_facts)
  from issued_relay_token_binds [where addr = ex_udp and d = "ex_id 40" and r = "ex_id 7" and n = "ex_id 9",
      OF ex_jwt_accepts ex_node_facts(1) sc ex_us_nonempty ex_us_nonempty refl ex_token_facts ex_node_facts(3,4)]
  show ?thesis by blast
qed


lemma RequestRelay_grants:
  assumes "up rawDevice = Some d" "up rawNet = Some n" "relayRepo_PickLeastLoaded now region (db s) = Inr r" "store_ok (db s)"
  shows "\<exists>resp s'. CoordinationServer_RequestRelay sign us up m now jti rawDevice rawNet region (Some u) s = (Inr resp, s') \<and>
           rrSessionToken resp = RelaySessionManager_Issue sign us m now jti d (rsID r) n"
proof -
  have "r \<in> snd ` set (relays (db s))"
    using assms(3) pick_loop_none [where now = now and region = region and rss = "map snd (relays (db s))"]
    by (auto simp: relayRepo_PickLeastLoaded_def split: option.splits)
  then obtain k where "map_of (relays (db s)) k = Some r"
    using assms(4) by (auto simp: store_ok_def keyed_def intro: map_of_is_SomeI)
  moreover from store_ok_keys(7) [OF assms(4) this] have "rsID r = k" .
  ultimately obtain st where "relayRepo_IncrementLoad (rsID r) 1 (db s) = (Inr (), st)"
    by (simp add: relayRepo_IncrementLoad_def Let_def)
  with assms show ?thesis
    by (simp add: CoordinationServer_RequestRelay_def CoordinationService_RequestRelay_def)
qed

text \<open>
  C36. A relay session on a network needs no membership of it. Any authenticated user who names a
  network and a device identifier, their own or not, gets a relay token for them as long as some
  relay has room, and that relay binds the user's address as this device into the session of the
  network: the user receives what is relayed to that device and can send to the members that are
  relaying there.
\<close>

theorem relay_session_without_membership:
  assumes "store_ok (db s)" "map_of (members (db s)) (n, u) = None"
    and "up rawDevice = Some d" "up rawNet = Some n" "relayRepo_PickLeastLoaded now region (db s) = Inr r"
    and "jwt_accepts rclRegistered parse sign (relay_claims_for us m now jti d (rsID r) n)"
    and "vsecret (verif node) = rsmSecret m" "vrelayID (verif node) = us (rsID r)" "us d \<noteq> []" "us n \<noteq> []"
    and "RelaySessionManager_Issue sign us m now jti d (rsID r) n \<noteq> []"
      "length (RelaySessionManager_Issue sign us m now jti d (rsID r) n) \<le> 1500"
    and "tokenNow env < NewNumericDate (now + rsmTTL m)" "has_room (us n) (table node)"
  shows "\<exists>resp s'. CoordinationServer_RequestRelay sign us up m now jti rawDevice rawNet region (Some u) s = (Inr resp, s') \<and>
           map_of (members (db s')) (n, u) = None \<and>
           (\<exists>b. bound (table (relay_step parse us node (Datagram (client_encodeBind d (rrSessionToken resp)) addr env))) (us n) d
                = Some b \<and> bAddr b = addr)"
proof -
  from RequestRelay_grants [where up = up, OF assms(3,4,5,1)] obtain resp s' where
    req: "CoordinationServer_RequestRelay sign us up m now jti rawDevice rawNet region (Some u) s = (Inr resp, s')"
    and tok: "rrSessionToken resp = RelaySessionManager_Issue sign us m now jti d (rsID r) n" by blast
  have "tables (db s') = tables (db s)"
  proof (cases "relayRepo_IncrementLoad (rsID r) 1 (db s)")
    case (Pair x st)
    then have "tables st = tables (db s)" using tables_infra(4) [of "rsID r" 1 "db s"] by simp
    with req Pair assms(3-5) show ?thesis
      by (auto simp: CoordinationServer_RequestRelay_def CoordinationService_RequestRelay_def split: sum.splits)
  qed
  then have mem: "map_of (members (db s')) (n, u) = None" using assms(2) by (simp add: tables_def)
  have sc: "vrelayID (verif node) = [] \<or> vrelayID (verif node) = us (rsID r)" using assms(8) by simp
  from token_binds [where addr = addr, OF assms(6,7) sc assms(9,10) refl assms(11-14)] have
    "\<exists>b. bound (table (relay_step parse us node (Datagram (client_encodeBind d (rrSessionToken resp)) addr env))) (us n) d
       = Some b \<and> bAddr b = addr"
    unfolding tok by auto
  with req mem show ?thesis by blast
qed

definition ex_relay_backend :: backend where
  "ex_relay_backend = ex_backend\<lparr>db := (db ex_backend)\<lparr>relays := [(ex_id 7,
     \<lparr>rsID = ex_id 7, Region = ''eu'', Hostname = ''r'', rsPublicKey = [], ControlPort = 1, RelayPort = 2, Capacity = 5,
      CurrentLoad = 0, rsStatus = ''active'', LastHeartbeatAt = Some 0, rsCreatedAt = 0\<rparr>)]\<rparr>\<rparr>"

definition ex_up :: "string \<Rightarrow> uuid option" where
  "ex_up raw = Some (uuid_of_bytes (bytes_of_string raw))"

lemma ex_up_us [simp]: "ex_up (ex_us i) = Some i"
  by (simp add: ex_up_def ex_us_def)

theorem relay_session_without_membership_witness:
  "\<exists>resp s'. CoordinationServer_RequestRelay ex_jwt_sign ex_us ex_up ex_rsm 0 ''j'' (ex_us (ex_id 40)) (ex_us (ex_id 9)) ''eu''
       (Some (ex_id 8)) ex_relay_backend = (Inr resp, s') \<and>
     map_of (members (db s')) (ex_id 9, ex_id 8) = None"
proof -
  have ok: "store_ok (db ex_relay_backend)"
    using ex_backend_ok by (simp add: tenancy_ok_def ex_relay_backend_def store_ok_def keyed_def)
  have mem: "map_of (members (db ex_relay_backend)) (ex_id 9, ex_id 8) = None"
    by (simp add: ex_relay_backend_def ex_backend_defs)
  obtain r where pick: "relayRepo_PickLeastLoaded 0 ''eu'' (db ex_relay_backend) = Inr r" and r: "rsID r = ex_id 7"
    by (simp add: relayRepo_PickLeastLoaded_def ex_relay_backend_def isRelayHealthy_def time_Sub_def relayStaleAfter_def)
  have acc: "jwt_accepts rclRegistered (ex_jwt_parse rclRegistered ex_rc) ex_jwt_sign
      (relay_claims_for ex_us ex_rsm 0 ''j'' (ex_id 40) (rsID r) (ex_id 9))"
    unfolding r by (rule ex_jwt_accepts)
  have sc: "vrelayID (verif ex_node) = ex_us (rsID r)" by (simp add: r ex_node_facts)
  from relay_session_without_membership [where up = ex_up and addr = ex_udp, OF ok mem ex_up_us ex_up_us pick acc
      ex_node_facts(1) sc ex_us_nonempty ex_us_nonempty ex_token_facts ex_node_facts(3,4)]
  show ?thesis by blast
qed

end
