(* ===== verification/Auth_Sessions.thy ===== *)
theory Auth_Sessions
  imports Auth_Service Tenancy
begin

text \<open>
  The session table of the authentication service: what every call of \<open>Auth_Service\<close> does to the
  refresh tokens. \<open>sessions_ok\<close> is the invariant (rows under their identifiers, hashes unique),
  \<open>session_le\<close> the order in which the table evolves: rows are never dropped, keep their hash and
  user, and stay revoked. Every call moves the table up in this order, provided the identifier and
  the token it draws are new (\<open>token_fresh\<close>), and so does every run of calls.
\<close>

section \<open>The session table\<close>

definition sessions_ok :: "(uuid, refresh_token) gomap \<Rightarrow> bool" where
  "sessions_ok m \<longleftrightarrow>
     keyed rtID m \<and>
     (\<forall>i j a b. map_of m i = Some a \<longrightarrow> map_of m j = Some b \<longrightarrow> rtTokenHash a = rtTokenHash b \<longrightarrow> i = j)"

definition session_le :: "(uuid, refresh_token) gomap \<Rightarrow> (uuid, refresh_token) gomap \<Rightarrow> bool" where
  "session_le m m' \<longleftrightarrow>
     (\<forall>i rt. map_of m i = Some rt \<longrightarrow>
        (\<exists>rt'. map_of m' i = Some rt' \<and> rtTokenHash rt' = rtTokenHash rt \<and> rtUserID rt' = rtUserID rt \<and>
           (RevokedAt rt \<noteq> None \<longrightarrow> RevokedAt rt' \<noteq> None)))"

lemma session_le_refl [simp]: "session_le m m"
  by (simp add: session_le_def)

lemma session_le_trans: "session_le m m' \<Longrightarrow> session_le m' m'' \<Longrightarrow> session_le m m''"
  unfolding session_le_def by metis

definition hash_unused :: "string \<Rightarrow> (uuid, refresh_token) gomap \<Rightarrow> bool" where
  "hash_unused h m \<longleftrightarrow> (\<forall>rt \<in> snd ` set m. rtTokenHash rt \<noteq> h)"

text \<open>A call draws a fresh identifier and a token whose hash is not in the table.\<close>

definition token_fresh :: "auth_cfg \<Rightarrow> auth_env \<Rightarrow> (uuid, refresh_token) gomap \<Rightarrow> bool" where
  "token_fresh cfg env m \<longleftrightarrow>
     eID2 (aSvc env) \<noteq> uuid_Nil \<and> map_of m (eID2 (aSvc env)) = None \<and>
     (case NewOpaqueRefreshToken (aRand env) of
        Inl _ \<Rightarrow> True
      | Inr raw \<Rightarrow> hash_unused (HashToken (cSha256 cfg) raw) m)"

lemma GetByHash_Inr:
  assumes "sessions_ok (refresh st)"
  shows "refreshRepo_GetByHash h st = Inr rt \<longleftrightarrow> map_of (refresh st) (rtID rt) = Some rt \<and> rtTokenHash rt = h"
proof
  assume "refreshRepo_GetByHash h st = Inr rt"
  then have "rtTokenHash rt = h" "rt \<in> snd ` set (refresh st)"
    unfolding refreshRepo_GetByHash_def by (auto dest: find_row_Inr)
  then obtain k where k: "(k, rt) \<in> set (refresh st)" "rtTokenHash rt = h" by auto
  with assms have "map_of (refresh st) k = Some rt" "rtID rt = k"
    by (auto simp: sessions_ok_def keyed_def simp del: map_of_eq_Some_iff)
  with k show "map_of (refresh st) (rtID rt) = Some rt \<and> rtTokenHash rt = h" by simp
next
  assume row: "map_of (refresh st) (rtID rt) = Some rt \<and> rtTokenHash rt = h"
  then have mem: "rt \<in> snd ` set (refresh st)" by (force dest: map_of_SomeD)
  obtain rt' where rt': "refreshRepo_GetByHash h st = Inr rt'"
    using mem row unfolding refreshRepo_GetByHash_def
    by (cases "find_row (\<lambda>rt. rtTokenHash rt = h) (refresh st)") (auto simp: find_row_Inl)
  then have "rtTokenHash rt' = h" "rt' \<in> snd ` set (refresh st)"
    unfolding refreshRepo_GetByHash_def by (auto dest: find_row_Inr)
  then obtain k where k: "(k, rt') \<in> set (refresh st)" by auto
  with assms have k': "map_of (refresh st) k = Some rt'"
    by (auto simp: sessions_ok_def keyed_def simp del: map_of_eq_Some_iff)
  with row assms \<open>rtTokenHash rt' = h\<close> have "k = rtID rt" by (auto simp: sessions_ok_def)
  with k' row rt' show "refreshRepo_GetByHash h st = Inr rt" by simp
qed

lemma refresh_Create_sessions:
  assumes ok: "sessions_ok (refresh st)" and c: "refreshRepo_Create i now rt st = (r, st')"
    and new: "rtID rt \<noteq> uuid_Nil" "map_of (refresh st) (rtID rt) = None" "hash_unused (rtTokenHash rt) (refresh st)"
  shows "sessions_ok (refresh st')" "session_le (refresh st) (refresh st')"
proof -
  have R': "refresh st' = put (rtID rt) (rt\<lparr>rtCreatedAt := now\<rparr>) (refresh st)"
    using c new(1) by (auto simp: refreshRepo_Create_def Let_def touch_def)
  have unused: "rtTokenHash a \<noteq> rtTokenHash rt" if "map_of (refresh st) k = Some a" for k a
    using new(3) map_of_SomeD [OF that] by (force simp: hash_unused_def)
  have "keyed rtID (refresh st')" using ok by (auto simp: R' sessions_ok_def)
  then show "sessions_ok (refresh st')"
    using ok unused unfolding sessions_ok_def R' by (auto simp: get_put split: if_splits) metis+
  show "session_le (refresh st) (refresh st')"
    using new(2) by (auto simp: session_le_def R' get_put)
qed

lemma refresh_Revoke_sessions:
  assumes ok: "sessions_ok (refresh st)" and c: "refreshRepo_Revoke now k st = (r, st')"
  shows "sessions_ok (refresh st')" "session_le (refresh st) (refresh st')"
proof -
  have *: "sessions_ok (refresh st') \<and> session_le (refresh st) (refresh st')"
  proof (cases "map_of (refresh st) k")
    case None
    then show ?thesis using c ok by (auto simp: refreshRepo_Revoke_def)
  next
    case (Some rt)
    then have R': "refresh st' = put k (rt\<lparr>RevokedAt := Some now\<rparr>) (refresh st)"
      using c by (auto simp: refreshRepo_Revoke_def touch_def)
    have "rtID rt = k" using ok Some by (auto simp: sessions_ok_def dest: keyed_get)
    then have "keyed rtID (refresh st')" using ok by (auto simp: R' sessions_ok_def)
    then show ?thesis
      using ok Some unfolding sessions_ok_def session_le_def R' by (auto simp: get_put split: if_splits)
  qed
  show "sessions_ok (refresh st')" "session_le (refresh st) (refresh st')" using * by auto
qed

lemma map_of_map_rows: "map_of (map (\<lambda>(k, v). (k, f v)) m) k = map_option f (map_of m k)"
  by (induction m) auto

lemma refresh_RevokeAll_sessions:
  assumes ok: "sessions_ok (refresh st)" and c: "refreshRepo_RevokeAllForUser now u st = (r, st')"
  shows "sessions_ok (refresh st')" "session_le (refresh st) (refresh st')"
proof -
  let ?f = "\<lambda>rt. if rtUserID rt = u \<and> RevokedAt rt = None then rt\<lparr>RevokedAt := Some now\<rparr> else rt"
  have R': "refresh st' = map (\<lambda>(i, rt). (i, ?f rt)) (refresh st)"
    using c by (auto simp: refreshRepo_RevokeAllForUser_def touch_def)
  have get: "map_of (refresh st') i = map_option ?f (map_of (refresh st) i)" for i
    unfolding R' by (rule map_of_map_rows)
  have h: "rtTokenHash (?f a) = rtTokenHash a" for a by simp
  have "keyed rtID (refresh st')" unfolding R' using ok by (intro keyed_map) (auto simp: sessions_ok_def)
  moreover have "i = j" if "map_of (refresh st') i = Some a" "map_of (refresh st') j = Some b" "rtTokenHash a = rtTokenHash b"
    for i j a b
  proof -
    from that(1,2) obtain a0 b0 where "map_of (refresh st) i = Some a0" "a = ?f a0" "map_of (refresh st) j = Some b0" "b = ?f b0"
      unfolding get by blast
    with that(3) ok show "i = j" unfolding h sessions_ok_def by (simp only: h)
  qed
  ultimately show "sessions_ok (refresh st')" unfolding sessions_ok_def by blast
  show "session_le (refresh st) (refresh st')"
    unfolding session_le_def
  proof (intro allI impI)
    fix i rt
    assume "map_of (refresh st) i = Some rt"
    then have "map_of (refresh st') i = Some (?f rt)" by (simp only: get option.map)
    then show "\<exists>rt'. map_of (refresh st') i = Some rt' \<and> rtTokenHash rt' = rtTokenHash rt \<and> rtUserID rt' = rtUserID rt \<and>
        (RevokedAt rt \<noteq> None \<longrightarrow> RevokedAt rt' \<noteq> None)"
      by (intro exI [of _ "?f rt"]) (simp only: simp_thms, auto)
  qed
qed

lemma RevokeAll_revokes:
  assumes c: "refreshRepo_RevokeAllForUser now u st = (r, st')"
    and row: "map_of (refresh st') k = Some rt" and user: "rtUserID rt = u"
  shows "RevokedAt rt \<noteq> None"
proof -
  let ?f = "\<lambda>rt. if rtUserID rt = u \<and> RevokedAt rt = None then rt\<lparr>RevokedAt := Some now\<rparr> else rt"
  have "refresh st' = map (\<lambda>(i, rt). (i, ?f rt)) (refresh st)"
    using c by (auto simp: refreshRepo_RevokeAllForUser_def touch_def)
  then have get: "map_of (refresh st') i = map_option ?f (map_of (refresh st) i)" for i
    by (simp only: map_of_map_rows)
  from row obtain z where z: "rt = ?f z" unfolding get by blast
  show ?thesis
  proof (cases "rtUserID z = u \<and> RevokedAt z = None")
    case True
    then have "rt = z\<lparr>RevokedAt := Some now\<rparr>" unfolding z by (simp only: if_True simp_thms)
    then show ?thesis by simp
  next
    case False
    then have "rt = z" unfolding z by (simp only: if_False)
    with False user show ?thesis by simp
  qed
qed

section \<open>What the other operations leave alone\<close>

lemma refresh_kept:
  "userRepo_Create i now u st = (r, st') \<Longrightarrow> refresh st' = refresh st"
  "userRepo_Update now u st = (r, st') \<Longrightarrow> refresh st' = refresh st"
  "resetRepo_Create i now pr st = (r', st') \<Longrightarrow> refresh st' = refresh st"
  "resetRepo_MarkUsed now k st = (r'', st') \<Longrightarrow> refresh st' = refresh st"
  by (auto simp: userRepo_Create_def userRepo_Update_def resetRepo_Create_def resetRepo_MarkUsed_def Let_def touch_def
      split: if_splits option.splits)

lemma db_audit_user [simp]: "db (audit_user cfg env a u ip meta s) = db s"
  by (simp add: audit_user_def Record_def)

definition allowed_db :: "store \<Rightarrow> store \<Rightarrow> bool" where
  "allowed_db st st' \<longleftrightarrow> (\<exists>l. st' = st\<lparr>limits := l\<rparr>)"

lemma allow_db: "allow now key limit s = (ok, s') \<Longrightarrow> allowed_db (db s) (db s')"
  by (auto simp: allow_def limiter_Allow_def allowed_db_def Let_def)

lemma allow_both_db: "allow_both now k l k' l' s = (ok, s') \<Longrightarrow> allowed_db (db s) (db s')"
  by (auto simp: allow_both_def allow_def limiter_Allow_def allowed_db_def Let_def split: prod.splits bool.splits)

lemma allowed_db_same:
  assumes "allowed_db st st'"
  shows "refresh st' = refresh st" "users st' = users st" "resets st' = resets st" "store_ok st \<Longrightarrow> gomap_ok (limits st') \<Longrightarrow> store_ok st'"
  using assms by (auto simp: allowed_db_def store_ok_def)

section \<open>The calls\<close>

datatype auth_call =
    CallRegister auth_env string string string string
  | CallLogin auth_env string string string string string
  | CallRefresh auth_env string string string
  | CallLogout auth_env string
  | CallEnableMFA auth_env uuid
  | CallVerifyMFA auth_env uuid string
  | CallForgot auth_env string string
  | CallReset auth_env string string
  | CallGoogle auth_env string string string
  | CallClaim auth_env string string string

fun auth_call_env :: "auth_call \<Rightarrow> auth_env" where
  "auth_call_env (CallRegister env _ _ _ _) = env"
| "auth_call_env (CallLogin env _ _ _ _ _) = env"
| "auth_call_env (CallRefresh env _ _ _) = env"
| "auth_call_env (CallLogout env _) = env"
| "auth_call_env (CallEnableMFA env _) = env"
| "auth_call_env (CallVerifyMFA env _ _) = env"
| "auth_call_env (CallForgot env _ _) = env"
| "auth_call_env (CallReset env _ _) = env"
| "auth_call_env (CallGoogle env _ _ _) = env"
| "auth_call_env (CallClaim env _ _ _) = env"

fun auth_step ::
  "auth_cfg \<Rightarrow> pairing_claims jwt_parse \<Rightarrow> (string \<Rightarrow> uuid option) \<Rightarrow> auth_call \<Rightarrow>
     pairing_manager \<times> backend \<Rightarrow> pairing_manager \<times> backend" where
  "auth_step cfg parse up (CallRegister env email pw name ip) (pm, s) =
     (pm, snd (AuthService_Register cfg env email pw name ip s))"
| "auth_step cfg parse up (CallLogin env email pw code ip ua) (pm, s) = (pm, snd (Login cfg env email pw code ip ua s))"
| "auth_step cfg parse up (CallRefresh env raw ip ua) (pm, s) = (pm, snd (Refresh cfg env raw ip ua s))"
| "auth_step cfg parse up (CallLogout env raw) (pm, s) = (pm, snd (Logout cfg env raw s))"
| "auth_step cfg parse up (CallEnableMFA env u) (pm, s) = (pm, snd (EnableMFA cfg env u s))"
| "auth_step cfg parse up (CallVerifyMFA env u code) (pm, s) = (pm, snd (VerifyMFA cfg env u code s))"
| "auth_step cfg parse up (CallForgot env email ip) (pm, s) = (pm, snd (ForgotPassword cfg env email ip s))"
| "auth_step cfg parse up (CallReset env raw pw) (pm, s) = (pm, snd (ResetPassword cfg env raw pw s))"
| "auth_step cfg parse up (CallGoogle env code ip ua) (pm, s) = (pm, snd (GoogleCallback cfg env code ip ua s))"
| "auth_step cfg parse up (CallClaim env tok ip ua) (pm, s) = snd (Pairing_Claim cfg parse up env tok ip ua (pm, s))"

fun auth_run ::
  "auth_cfg \<Rightarrow> pairing_claims jwt_parse \<Rightarrow> (string \<Rightarrow> uuid option) \<Rightarrow> auth_call list \<Rightarrow>
     pairing_manager \<times> backend \<Rightarrow> pairing_manager \<times> backend" where
  "auth_run cfg parse up [] s = s"
| "auth_run cfg parse up (c # cs) s = auth_run cfg parse up cs (auth_step cfg parse up c s)"

fun run_fresh ::
  "auth_cfg \<Rightarrow> pairing_claims jwt_parse \<Rightarrow> (string \<Rightarrow> uuid option) \<Rightarrow> auth_call list \<Rightarrow>
     pairing_manager \<times> backend \<Rightarrow> bool" where
  "run_fresh cfg parse up [] s \<longleftrightarrow> True"
| "run_fresh cfg parse up (c # cs) s \<longleftrightarrow>
     token_fresh cfg (auth_call_env c) (refresh (db (snd s))) \<and> run_fresh cfg parse up cs (auth_step cfg parse up c s)"

section \<open>Every call keeps the session table\<close>

definition keeps_sessions :: "backend \<Rightarrow> backend \<Rightarrow> bool" where
  "keeps_sessions s s' \<longleftrightarrow>
     sessions_ok (refresh (db s')) \<and> session_le (refresh (db s)) (refresh (db s'))"

lemma keeps_sessions_same:
  "sessions_ok (refresh (db s)) \<Longrightarrow> refresh (db s') = refresh (db s) \<Longrightarrow> keeps_sessions s s'"
  by (simp add: keeps_sessions_def)

lemma keeps_sessions_congL: "keeps_sessions s s' \<Longrightarrow> refresh (db s0) = refresh (db s) \<Longrightarrow> keeps_sessions s0 s'"
  by (simp add: keeps_sessions_def)

lemma issueTokenPair_keeps:
  assumes "sessions_ok (refresh (db s))" "token_fresh cfg env (refresh (db s))"
    and "issueTokenPair cfg env u ip ua s = (r, s')"
  shows "keeps_sessions s s'"
proof (cases "NewOpaqueRefreshToken (aRand env)")
  case (Inl e)
  then show ?thesis using assms by (auto simp: issueTokenPair_def intro: keeps_sessions_same)
next
  case (Inr raw)
  let ?rt = "refresh_token_for cfg env u raw ip ua"
  obtain r' st' where c: "refreshRepo_Create uuid_Nil (eNow (aSvc env)) ?rt (db s) = (r', st')" by fastforce
  have new: "rtID ?rt \<noteq> uuid_Nil" "map_of (refresh (db s)) (rtID ?rt) = None"
    "hash_unused (rtTokenHash ?rt) (refresh (db s))"
    using assms(2) Inr by (simp_all add: token_fresh_def refresh_token_for_def)
  have "db s' = st'" using assms(3) Inr c by (auto simp: issueTokenPair_def split: sum.splits)
  then show ?thesis
    using refresh_Create_sessions [OF assms(1) c new] by (simp add: keeps_sessions_def)
qed

lemma Login_keeps:
  assumes "sessions_ok (refresh (db s))" "token_fresh cfg env (refresh (db s))"
    and "Login cfg env email pw code ip ua s = (r, s')"
  shows "keeps_sessions s s'"
proof -
  obtain ok s1 where a: "allow_both (eNow (aSvc env)) (''login:'' @ email) loginPerAccount (''login-ip:'' @ ip) loginPerAddress s = (ok, s1)"
    by fastforce
  have same: "refresh (db s1) = refresh (db s)" using allowed_db_same(1) [OF allow_both_db [OF a]] .
  have issued: "keeps_sessions s s''" if "issueTokenPair cfg env u ip ua s1 = (r2, s2)" "db s'' = db s2" for u r2 s2 s''
    using issueTokenPair_keeps [OF _ _ that(1)] assms(1,2) same that(2) by (simp add: keeps_sessions_def)
  have unchanged: "keeps_sessions s s''" if "db s'' = db s1" for s''
    using assms(1) same that by (auto intro: keeps_sessions_same)
  show ?thesis
    using assms(3) unfolding Login_def a
    by (auto split: sum.splits if_splits prod.splits bool.splits intro: unchanged issued)
qed

lemma Revoke_keeps_fresh:
  assumes rev: "refreshRepo_Revoke now k st = (r, st')" and fresh: "token_fresh cfg env (refresh st)"
  shows "token_fresh cfg env (refresh st')"
proof (cases "map_of (refresh st) k")
  case None
  then show ?thesis using rev fresh by (auto simp: refreshRepo_Revoke_def)
next
  case (Some rt)
  then have R': "refresh st' = put k (rt\<lparr>RevokedAt := Some now\<rparr>) (refresh st)"
    using rev by (auto simp: refreshRepo_Revoke_def touch_def)
  have "hash_unused h (refresh st')" if "hash_unused h (refresh st)" for h
    using that map_of_SomeD [OF Some] set_put_subset [of k "rt\<lparr>RevokedAt := Some now\<rparr>" "refresh st"]
    unfolding hash_unused_def R' by force
  with fresh Some R' show ?thesis by (auto simp: token_fresh_def get_put split: sum.splits)
qed

lemma Refresh_rotate_keeps:
  assumes "sessions_ok (refresh (db s))" "token_fresh cfg env (refresh (db s))"
    and "Refresh_rotate cfg env (rt, u) ip ua s = (r, s')"
  shows "keeps_sessions s s'"
    and "r = Inr x \<Longrightarrow> \<exists>rt'. map_of (refresh (db s')) (rtID rt) = Some rt' \<and> RevokedAt rt' \<noteq> None"
proof -
  obtain r1 st1 where rev: "refreshRepo_Revoke (eNow (aSvc env)) (rtID rt) (db s) = (r1, st1)" by fastforce
  note ok1 = refresh_Revoke_sessions [OF assms(1) rev]
  have "keeps_sessions s s' \<and>
      (r = Inr x \<longrightarrow> (\<exists>rt'. map_of (refresh (db s')) (rtID rt) = Some rt' \<and> RevokedAt rt' \<noteq> None))"
  proof (cases r1)
    case (Inl e)
    then show ?thesis using assms(3) rev ok1 by (auto simp: Refresh_rotate_def keeps_sessions_def)
  next
    case (Inr y)
    then have i: "issueTokenPair cfg env u ip ua (s\<lparr>db := st1\<rparr>) = (r, s')"
      using assms(3) rev by (simp add: Refresh_rotate_def)
    have k: "keeps_sessions (s\<lparr>db := st1\<rparr>) s'"
      using issueTokenPair_keeps [OF _ _ i] ok1(1) Revoke_keeps_fresh [OF rev assms(2)] by simp
    have "\<exists>rt1. map_of (refresh st1) (rtID rt) = Some rt1 \<and> RevokedAt rt1 \<noteq> None"
      using rev Inr by (auto simp: refreshRepo_Revoke_def touch_def get_put split: option.splits)
    with k have "\<exists>rt'. map_of (refresh (db s')) (rtID rt) = Some rt' \<and> RevokedAt rt' \<noteq> None"
      by (fastforce simp: keeps_sessions_def session_le_def)
    then show ?thesis using ok1(2) k by (auto simp: keeps_sessions_def intro: session_le_trans)
  qed
  then show "keeps_sessions s s'"
    and "r = Inr x \<Longrightarrow> \<exists>rt'. map_of (refresh (db s')) (rtID rt) = Some rt' \<and> RevokedAt rt' \<noteq> None" by auto
qed

lemma Refresh_keeps:
  assumes "sessions_ok (refresh (db s))" "token_fresh cfg env (refresh (db s))"
    and "Refresh cfg env raw ip ua s = (r, s')"
  shows "keeps_sessions s s'"
  using assms Refresh_rotate_keeps(1) [OF assms(1,2)]
  by (auto simp: Refresh_def split: sum.splits intro: keeps_sessions_same)

lemma Logout_keeps:
  assumes "sessions_ok (refresh (db s))" "Logout cfg env raw s = (r, s')"
  shows "keeps_sessions s s'"
  using assms refresh_Revoke_sessions [OF assms(1)]
  by (auto simp: Logout_def keeps_sessions_def split: sum.splits if_splits prod.splits)

lemma refresh_untouched:
  "refresh (db (snd (AuthService_Register cfg env email pw name ip s))) = refresh (db s)"
  "refresh (db (snd (EnableMFA cfg env uid s))) = refresh (db s)"
  "refresh (db (snd (VerifyMFA cfg env uid code s))) = refresh (db s)"
  "refresh (db (snd (ForgotPassword cfg env email ip s))) = refresh (db s)"
proof -
  obtain ok s1 where a: "allow (eNow (aSvc env)) (''register-ip:'' @ ip) registerPerAddress s = (ok, s1)" by fastforce
  show "refresh (db (snd (AuthService_Register cfg env email pw name ip s))) = refresh (db s)"
    unfolding AuthService_Register_def a allowed_db_same(1) [OF allow_db [OF a], symmetric]
    by (auto simp: Let_def split: sum.splits prod.splits bool.splits dest: refresh_kept(1))
  show "refresh (db (snd (EnableMFA cfg env uid s))) = refresh (db s)"
    by (auto simp: EnableMFA_def split: sum.splits prod.splits dest: refresh_kept(2))
  show "refresh (db (snd (VerifyMFA cfg env uid code s))) = refresh (db s)"
    by (auto simp: VerifyMFA_def split: sum.splits prod.splits dest: refresh_kept(2))
  obtain ok2 s2 where b:
    "allow_both (eNow (aSvc env)) (''reset:'' @ email) resetPerAccount (''reset-ip:'' @ ip) resetPerAddress s = (ok2, s2)"
    by fastforce
  show "refresh (db (snd (ForgotPassword cfg env email ip s))) = refresh (db s)"
    unfolding ForgotPassword_def b allowed_db_same(1) [OF allow_both_db [OF b], symmetric]
    by (auto split: sum.splits prod.splits bool.splits dest: refresh_kept(3))
qed

lemma ResetPassword_keeps:
  assumes "sessions_ok (refresh (db s))" "ResetPassword cfg env raw pw s = (r, s')"
  shows "keeps_sessions s s'"
proof -
  have same: "keeps_sessions s s''" if "refresh (db s'') = refresh (db s)" for s''
    using assms(1) that by (rule keeps_sessions_same)
  have revoked: "keeps_sessions s s''"
    if "userRepo_Update now u (db s) = (r1, st1)" "resetRepo_MarkUsed now k st1 = (r2, st2)"
      "refreshRepo_RevokeAllForUser now v st2 = (r3, st3)" "db s'' = st3" for now u r1 st1 k r2 st2 v r3 st3 s''
  proof -
    have R2: "refresh st2 = refresh (db s)" using refresh_kept(2) [OF that(1)] refresh_kept(4) [OF that(2)] by simp
    then have "sessions_ok (refresh st2)" using assms(1) by simp
    from refresh_RevokeAll_sessions(1,2) [OF this that(3)] R2 that(4) show ?thesis by (simp add: keeps_sessions_def)
  qed
  have updated: "keeps_sessions s s''" if "userRepo_Update now u (db s) = (r1, st1)" "db s'' = st1" for now u r1 st1 s''
    using refresh_kept(2) [OF that(1)] that(2) by (auto intro: same)
  have marked: "keeps_sessions s s''"
    if "userRepo_Update now u (db s) = (r1, st1)" "resetRepo_MarkUsed now k st1 = (r2, st2)" "db s'' = st2"
    for now u r1 st1 k r2 st2 s''
    using refresh_kept(2) [OF that(1)] refresh_kept(4) [OF that(2)] that(3) by (auto intro: same)
  have "keeps_sessions s (snd (ResetPassword cfg env raw pw s))"
    unfolding ResetPassword_def
    by (auto split: sum.splits if_splits prod.splits intro: same updated marked revoked)
  with assms show ?thesis by simp
qed

lemma google_keeps_refresh:
  "google_account env info s = (r, s') \<Longrightarrow> refresh (db s') = refresh (db s)"
  "google_create cfg env info ip s = (r', s') \<Longrightarrow> refresh (db s') = refresh (db s)"
  by (auto simp: google_account_def google_create_def Let_def
      split: sum.splits if_splits prod.splits dest: refresh_kept(1,2))

lemma GoogleCallback_keeps:
  assumes "sessions_ok (refresh (db s))" "token_fresh cfg env (refresh (db s))"
    and "GoogleCallback cfg env code ip ua s = (r, s')"
  shows "keeps_sessions s s'"
proof -
  have same: "keeps_sessions s s''" if "refresh (db s'') = refresh (db s)" for s''
    using assms(1) that by (rule keeps_sessions_same)
  have issued: "keeps_sessions s s''"
    if "issueTokenPair cfg env u ip ua s1 = (r2, s2)" "refresh (db s1) = refresh (db s)" "db s'' = db s2" for u r2 s1 s2 s''
    using issueTokenPair_keeps [OF _ _ that(1)] assms(1,2) that(2,3) by (simp add: keeps_sessions_def)
  have created: "refresh (db s2) = refresh (db s)"
    if "google_account env info s = (r1, s1)" "google_create cfg env info ip s1 = (r2, s2)" for info r1 s1 r2 s2
    using google_keeps_refresh(1) [OF that(1)] google_keeps_refresh(2) [OF that(2)] by simp
  have "keeps_sessions s (snd (GoogleCallback cfg env code ip ua s))"
    unfolding GoogleCallback_def
    by (auto split: sum.splits option.splits prod.splits intro: same issued created google_keeps_refresh(1))
  with assms show ?thesis by simp
qed

lemma Pairing_Claim_keeps:
  assumes "sessions_ok (refresh (db s))" "token_fresh cfg env (refresh (db s))"
    and "Pairing_Claim cfg parse up env tok ip ua (pm, s) = (r, pm', s')"
  shows "keeps_sessions s s'"
proof -
  have same: "keeps_sessions s s''" if "db s'' = db s" for s''
    using assms(1) that by (auto intro: keeps_sessions_same)
  have issued: "keeps_sessions s s''" if "issueTokenPair cfg env u ip ua s = (r2, s2)" "db s'' = db s2" for u r2 s2 s''
    using issueTokenPair_keeps [OF assms(1,2) that(1)] that(2) by (simp add: keeps_sessions_def)
  have "keeps_sessions s (snd (snd (Pairing_Claim cfg parse up env tok ip ua (pm, s))))"
    unfolding Pairing_Claim_def IssueTokenPairFor_def
    by (auto split: sum.splits option.splits prod.splits intro: same issued)
  with assms show ?thesis by simp
qed

lemmas call_keeps =
  keeps_sessions_same [OF _ refresh_untouched(1)] keeps_sessions_same [OF _ refresh_untouched(2)]
  keeps_sessions_same [OF _ refresh_untouched(3)] keeps_sessions_same [OF _ refresh_untouched(4)]
  Login_keeps [OF _ _ prod.collapse [symmetric]]
  Refresh_keeps [OF _ _ prod.collapse [symmetric]] Logout_keeps [OF _ prod.collapse [symmetric]]
  ResetPassword_keeps [OF _ prod.collapse [symmetric]] GoogleCallback_keeps [OF _ _ prod.collapse [symmetric]]

lemma auth_step_keeps:
  assumes "sessions_ok (refresh (db s))" "token_fresh cfg (auth_call_env c) (refresh (db s))"
    and "auth_step cfg parse up c (pm, s) = (pm', s')"
  shows "keeps_sessions s s'"
proof (cases c)
  case (CallClaim env tok ip ua)
  then show ?thesis
    using Pairing_Claim_keeps [OF assms(1), of cfg env parse up tok ip ua pm] assms(2,3)
    by (cases "Pairing_Claim cfg parse up env tok ip ua (pm, s)") auto
qed (use assms in \<open>auto intro: call_keeps\<close>)

lemma auth_run_keeps:
  "sessions_ok (refresh (db (snd s))) \<Longrightarrow> run_fresh cfg parse up cs s \<Longrightarrow>
     keeps_sessions (snd s) (snd (auth_run cfg parse up cs s))"
proof (induction cs arbitrary: s)
  case Nil
  then show ?case by (simp add: keeps_sessions_def)
next
  case (Cons c cs)
  obtain pm b where s: "s = (pm, b)" by fastforce
  obtain pm' b' where step: "auth_step cfg parse up c s = (pm', b')" by fastforce
  have one: "keeps_sessions b b'" using auth_step_keeps [of b cfg c parse up pm pm' b'] Cons.prems s step by simp
  with Cons.IH [of "(pm', b')"] Cons.prems step
  have "keeps_sessions b' (snd (auth_run cfg parse up cs (pm', b')))" by (simp add: keeps_sessions_def)
  with one step s show ?case by (auto simp: keeps_sessions_def intro: session_le_trans)
qed


section \<open>Spent tokens\<close>

lemma revoked_refused:
  assumes ok: "sessions_ok (refresh (db s))" and row: "map_of (refresh (db s)) k = Some rt" "RevokedAt rt \<noteq> None"
    and h: "rtTokenHash rt = HashToken (cSha256 cfg) raw" and keeps: "keeps_sessions s s'"
  shows "Refresh cfg env raw ip ua s' = (Inl ErrTokenRevoked, s')"
proof -
  from keeps row h obtain rt' where rt': "map_of (refresh (db s')) k = Some rt'" "RevokedAt rt' \<noteq> None"
    "rtTokenHash rt' = HashToken (cSha256 cfg) raw"
    unfolding keeps_sessions_def session_le_def by metis
  have ok': "sessions_ok (refresh (db s'))" using keeps by (simp add: keeps_sessions_def)
  then have "rtID rt' = k" using rt'(1) by (auto simp: sessions_ok_def dest: keyed_get)
  with rt' have "refreshRepo_GetByHash (HashToken (cSha256 cfg) raw) (db s') = Inr rt'"
    by (simp add: GetByHash_Inr [OF ok'])
  with rt'(2) show ?thesis by (simp add: Refresh_def Refresh_check_def)
qed

lemma Refresh_spends:
  assumes ok: "sessions_ok (refresh (db s))" and fresh: "token_fresh cfg env (refresh (db s))"
    and c: "Refresh cfg env raw ip ua s = (Inr r, s')"
  shows "\<exists>k rt. map_of (refresh (db s')) k = Some rt \<and> RevokedAt rt \<noteq> None \<and> rtTokenHash rt = HashToken (cSha256 cfg) raw"
proof -
  obtain rt u where chk: "Refresh_check cfg (eNow (aSvc env)) raw (db s) = Inr (rt, u)"
    and rot: "Refresh_rotate cfg env (rt, u) ip ua s = (Inr r, s')"
    using c by (auto simp: Refresh_def split: sum.splits)
  from chk have "refreshRepo_GetByHash (HashToken (cSha256 cfg) raw) (db s) = Inr rt"
    by (auto simp: Refresh_check_def split: sum.splits if_splits)
  then have row: "map_of (refresh (db s)) (rtID rt) = Some rt" "rtTokenHash rt = HashToken (cSha256 cfg) raw"
    by (simp_all add: GetByHash_Inr [OF ok])
  obtain rt' where rt': "map_of (refresh (db s')) (rtID rt) = Some rt'" "RevokedAt rt' \<noteq> None"
    using Refresh_rotate_keeps(2) [OF ok fresh rot] by blast
  have "rtTokenHash rt' = rtTokenHash rt"
    using Refresh_rotate_keeps(1) [OF ok fresh rot] row(1) rt'(1) by (fastforce simp: keeps_sessions_def session_le_def)
  with row rt' show ?thesis by auto
qed

lemma Logout_spends:
  assumes ok: "sessions_ok (refresh (db s))" and "raw \<noteq> []"
    and known: "refreshRepo_GetByHash (HashToken (cSha256 cfg) raw) (db s) = Inr rt0"
    and c: "Logout cfg env raw s = (r, s')"
  shows "\<exists>k rt. map_of (refresh (db s')) k = Some rt \<and> RevokedAt rt \<noteq> None \<and> rtTokenHash rt = HashToken (cSha256 cfg) raw"
proof -
  have row: "map_of (refresh (db s)) (rtID rt0) = Some rt0" "rtTokenHash rt0 = HashToken (cSha256 cfg) raw"
    using known by (simp_all add: GetByHash_Inr [OF ok])
  then have "map_of (refresh (db s')) (rtID rt0) = Some (rt0\<lparr>RevokedAt := Some (eNow (aSvc env))\<rparr>)"
    using assms by (auto simp: Logout_def refreshRepo_Revoke_def touch_def get_put)
  with row(2) show ?thesis by (intro exI) auto
qed

section \<open>Password resets\<close>

definition resets_ok :: "(uuid, password_reset) gomap \<Rightarrow> bool" where
  "resets_ok m \<longleftrightarrow>
     keyed prID m \<and>
     (\<forall>i j a b. map_of m i = Some a \<longrightarrow> map_of m j = Some b \<longrightarrow> prTokenHash a = prTokenHash b \<longrightarrow> i = j)"

lemma reset_GetByHash_row:
  assumes "keyed prID (resets st)" "resetRepo_GetByHash h st = Inr pr"
  shows "map_of (resets st) (prID pr) = Some pr" "prTokenHash pr = h"
proof -
  obtain k where k: "(k, pr) \<in> set (resets st)" "prTokenHash pr = h"
    using assms(2) unfolding resetRepo_GetByHash_def by (auto dest!: find_row_Inr)
  with assms(1) show "map_of (resets st) (prID pr) = Some pr" "prTokenHash pr = h"
    by (auto simp: keyed_def simp del: map_of_eq_Some_iff)
qed

lemma ResetPassword_parts:
  assumes "ResetPassword cfg env raw pw s = (Inr (), s')"
  obtains pr u h st1 st2 u' where
    "resetRepo_GetByHash (HashToken (cSha256 cfg) raw) (db s) = Inr pr" "UsedAt pr = None"
    "\<not> after (eNow (aSvc env)) (prExpiresAt pr)" "userRepo_GetByID (prUserID pr) (db s) = Inr u"
    "bcryptHash (cFuns cfg) (cCost cfg) (aSalt env) pw = Some h"
    "userRepo_Update (eNow (aSvc env)) (u\<lparr>PasswordHash := h\<rparr>) (db s) = (Inr u', st1)"
    "resetRepo_MarkUsed (eNow (aSvc env)) (prID pr) st1 = (Inr (), st2)"
    "db s' = snd (refreshRepo_RevokeAllForUser (eNow (aSvc env)) (uID u') st2)"
  using assms unfolding ResetPassword_def PasswordHasher_Hash_def
  by (auto split: sum.splits if_splits prod.splits option.splits)

lemma ResetPassword_effect:
  assumes ok: "store_ok (db s)" and c: "ResetPassword cfg env raw pw s = (Inr (), s')"
  obtains pr u h where
    "resetRepo_GetByHash (HashToken (cSha256 cfg) raw) (db s) = Inr pr" "map_of (users (db s)) (prUserID pr) = Some u"
    "bcryptHash (cFuns cfg) (cCost cfg) (aSalt env) pw = Some h"
    "users (db s') = put (prUserID pr) (u\<lparr>PasswordHash := h, uUpdatedAt := eNow (aSvc env)\<rparr>) (users (db s))"
    "resets (db s') = put (prID pr) (pr\<lparr>UsedAt := Some (eNow (aSvc env))\<rparr>) (resets (db s))"
    "\<forall>k rt. map_of (refresh (db s')) k = Some rt \<longrightarrow> rtUserID rt = prUserID pr \<longrightarrow> RevokedAt rt \<noteq> None"
proof -
  obtain pr u h st1 st2 u' where p:
    "resetRepo_GetByHash (HashToken (cSha256 cfg) raw) (db s) = Inr pr"
    "userRepo_GetByID (prUserID pr) (db s) = Inr u"
    "bcryptHash (cFuns cfg) (cCost cfg) (aSalt env) pw = Some h"
    "userRepo_Update (eNow (aSvc env)) (u\<lparr>PasswordHash := h\<rparr>) (db s) = (Inr u', st1)"
    "resetRepo_MarkUsed (eNow (aSvc env)) (prID pr) st1 = (Inr (), st2)"
    "db s' = snd (refreshRepo_RevokeAllForUser (eNow (aSvc env)) (uID u') st2)"
    using ResetPassword_parts [OF c] by metis
  have u: "map_of (users (db s)) (prUserID pr) = Some u" using p(2) by (simp add: userRepo_GetByID_def)
  have id: "uID u = prUserID pr" using store_ok_keys(1) [OF ok u] .
  have one: "users st1 = put (prUserID pr) (u\<lparr>PasswordHash := h, uUpdatedAt := eNow (aSvc env)\<rparr>) (users (db s))"
    "resets st1 = resets (db s)" "uID u' = prUserID pr"
    using p(4) u id by (auto simp: userRepo_Update_def Let_def touch_def)
  have row: "map_of (resets (db s)) (prID pr) = Some pr"
    using reset_GetByHash_row(1) [OF _ p(1)] ok by (simp add: store_ok_def)
  have two: "users st2 = users st1" "resets st2 = put (prID pr) (pr\<lparr>UsedAt := Some (eNow (aSvc env))\<rparr>) (resets (db s))"
    using p(5) row one(2) by (auto simp: resetRepo_MarkUsed_def touch_def)
  obtain r3 where all: "refreshRepo_RevokeAllForUser (eNow (aSvc env)) (prUserID pr) st2 = (r3, db s')"
    using p(6) one(3) by (metis prod.collapse)
  have three: "users (db s') = users st2" "resets (db s') = resets st2"
    using p(6) by (simp_all add: refreshRepo_RevokeAllForUser_def touch_def)
  show ?thesis
  proof (rule that [OF p(1) u p(3)])
    show "users (db s') = put (prUserID pr) (u\<lparr>PasswordHash := h, uUpdatedAt := eNow (aSvc env)\<rparr>) (users (db s))"
      by (simp only: three two one)
    show "resets (db s') = put (prID pr) (pr\<lparr>UsedAt := Some (eNow (aSvc env))\<rparr>) (resets (db s))"
      by (simp only: three two)
    show "\<forall>k rt. map_of (refresh (db s')) k = Some rt \<longrightarrow> rtUserID rt = prUserID pr \<longrightarrow> RevokedAt rt \<noteq> None"
      using RevokeAll_revokes [OF all] by blast
  qed
qed

lemma reset_used_refused:
  assumes ok: "resets_ok (resets st)" and pr: "resetRepo_GetByHash h st = Inr pr"
    and R': "resets (db s) = put (prID pr) (pr\<lparr>UsedAt := Some now\<rparr>) (resets st)" and h: "h = HashToken (cSha256 cfg) raw"
  shows "ResetPassword cfg env raw pw s = (Inl ErrTokenInvalid, s)"
proof -
  have kd: "keyed prID (resets st)" using ok by (simp add: resets_ok_def)
  note row = reset_GetByHash_row [OF kd pr]
  have kd': "keyed prID (resets (db s))" unfolding R' using kd by auto
  have found: "UsedAt pr' \<noteq> None" if "resetRepo_GetByHash h (db s) = Inr pr'" for pr'
  proof -
    note row' = reset_GetByHash_row [OF kd' that]
    have "prID pr' = prID pr"
      using row row' ok unfolding resets_ok_def R' get_put by (metis (no_types, lifting))
    with row'(1) show ?thesis by (auto simp: R' get_put)
  qed
  show ?thesis
  proof (cases "resetRepo_GetByHash h (db s)")
    case (Inl e)
    then have "e = ErrNotFound" by (simp add: resetRepo_GetByHash_def find_row_Inl)
    with Inl show ?thesis by (simp add: ResetPassword_def h)
  next
    case (Inr pr')
    with found [OF Inr] show ?thesis by (auto simp: ResetPassword_def h)
  qed
qed

end
