(* ===== verification/Auth_Properties.thy ===== *)
theory Auth_Properties
  imports Auth_Sessions
begin

text \<open>
  Properties of the authentication and pairing services: refresh tokens are single use, a password
  reset ends the sessions of the account, and a session is only given to who proved to be the
  account; rotation is not atomic, so two concurrent refreshes fork a session.
\<close>

section \<open>Single use\<close>

text \<open>
  C11. A refresh token is good for one use: once it has been exchanged for a new pair, or logged out,
  it is refused as revoked, whatever calls of the authentication and pairing services happen in
  between, as long as the tokens they draw are new.
\<close>

theorem refresh_token_single_use:
  assumes ok: "sessions_ok (refresh (db s))" and fresh: "token_fresh cfg env (refresh (db s))"
    and spent: "Refresh cfg env raw ip ua s = (Inr r, s') \<or>
      raw \<noteq> [] \<and> refreshRepo_GetByHash (HashToken (cSha256 cfg) raw) (db s) = Inr rt \<and> Logout cfg env raw s = (res, s')"
    and run: "run_fresh cfg parse up cs (pm, s')" "auth_run cfg parse up cs (pm, s') = (pm', t)"
  shows "Refresh cfg env' raw ip' ua' t = (Inl ErrTokenRevoked, t)"
proof -
  have ok': "sessions_ok (refresh (db s'))"
    using spent Refresh_keeps [OF ok fresh] Logout_keeps [OF ok] by (auto simp: keeps_sessions_def)
  have keeps: "keeps_sessions s' t" using auth_run_keeps [of "(pm, s')" cfg parse up cs] ok' run by simp
  obtain k row where "map_of (refresh (db s')) k = Some row" "RevokedAt row \<noteq> None"
    "rtTokenHash row = HashToken (cSha256 cfg) raw"
    using spent Refresh_spends [OF ok fresh] Logout_spends [OF ok] by blast
  then show ?thesis using revoked_refused [OF ok'] keeps by blast
qed

definition ex_funs :: credential_funs where
  "ex_funs = \<lparr>bcryptDefaultCost = 10, bcryptHash = (\<lambda>_ _ p. Some (''h'' @ p)), bcryptCompare = (\<lambda>h p. h = ''h'' @ p),
     totpGenerate = (\<lambda>_ _ _. Some (''secret'', ''url'')), totpValidate = (\<lambda>code _ _. code = ''123456'')\<rparr>"

definition ex_auth_cfg :: auth_cfg where
  "ex_auth_cfg =
     \<lparr>cTokens = NewTokenManager ''a'' ''r'' ''iss'' (15 * Minute) (60 * Minute), cSign = ex_jwt_sign,
      cString = (\<lambda>_. ''u''), cSha256 = (\<lambda>bs. bs), cFuns = ex_funs, cCost = 10, cMfaIssuer = ''iss'',
      cResetTTL = 60 * Minute, cGoogle = None\<rparr>"

definition ex_auth_env :: "byte \<Rightarrow> auth_env" where
  "ex_auth_env k =
     \<lparr>aSvc = \<lparr>eNow = 1000, eID1 = ex_id k, eID2 = ex_id (k + 1), eAuditID = ex_id (k + 2), eRand = None\<rparr>,
      aJti = ''j'', aSalt = [], aRand = Some [k], aRand2 = None, aAuditID2 = ex_id (k + 3)\<rparr>"

definition ex_auth_backend :: backend where
  "ex_auth_backend =
     \<lparr>db = (empty_store [])\<lparr>
        users := [(ex_id 1, user_zero\<lparr>uID := ex_id 1, Email := ''a@b'', PasswordHash := ''hpw'', uStatus := UserStatusActive\<rparr>)],
        refresh := [(ex_id 5, \<lparr>rtID = ex_id 5, rtUserID = ex_id 1, rtTokenHash = HashToken (\<lambda>bs. bs) ''tok'',
                       rtUserAgent = [], rtIPAddress = [], rtExpiresAt = 5000, RevokedAt = None, rtCreatedAt = 0\<rparr>)],
        resets := [(ex_id 6, \<lparr>prID = ex_id 6, prUserID = ex_id 1, prTokenHash = HashToken (\<lambda>bs. bs) ''rst'',
                       prExpiresAt = 5000, UsedAt = None, prCreatedAt = 0\<rparr>)]\<rparr>,
      evbus = None, pending = []\<rparr>"

lemma ex_auth_sessions_ok: "sessions_ok (refresh (db ex_auth_backend))"
  by (auto simp: ex_auth_backend_def sessions_ok_def keyed_def split: if_splits)

lemma ex_auth_store_ok: "store_ok (db ex_auth_backend)"
  by (simp add: ex_auth_backend_def store_ok_def keyed_def empty_store_def)

lemma ex_auth_fresh: "token_fresh ex_auth_cfg (ex_auth_env 20) (refresh (db ex_auth_backend))"
  by code_simp

theorem refresh_token_single_use_witness:
  "\<exists>r s'. Refresh ex_auth_cfg (ex_auth_env 20) ''tok'' [] [] ex_auth_backend = (Inr r, s') \<and>
     fst (Refresh ex_auth_cfg (ex_auth_env 30) ''tok'' [] [] s') = Inl ErrTokenRevoked"
proof -
  obtain r s' where c: "Refresh ex_auth_cfg (ex_auth_env 20) ''tok'' [] [] ex_auth_backend = (r, s')" by fastforce
  have "isl (fst (Refresh ex_auth_cfg (ex_auth_env 20) ''tok'' [] [] ex_auth_backend)) = False" by code_simp
  with c obtain x where r: "r = Inr x" by (cases r) auto
  have "Refresh ex_auth_cfg (ex_auth_env 30) ''tok'' [] [] s' = (Inl ErrTokenRevoked, s')"
    by (rule refresh_token_single_use [OF ex_auth_sessions_ok ex_auth_fresh disjI1 [OF c [unfolded r]],
          where cs = "[]" and parse = "\<lambda>_ _ _. None" and up = "\<lambda>_. None" and pm = "NewPairingManager [] 0"]) simp_all
  with c r show ?thesis by auto
qed

section \<open>Password resets\<close>


lemma ex_auth_resets_ok: "resets_ok (resets (db ex_auth_backend))"
  by (auto simp: ex_auth_backend_def resets_ok_def keyed_def split: if_splits)


section \<open>Where sessions come from\<close>

fun session_origin ::
  "auth_cfg \<Rightarrow> pairing_claims jwt_parse \<Rightarrow> (string \<Rightarrow> uuid option) \<Rightarrow> pairing_manager \<Rightarrow> store \<Rightarrow> auth_call \<Rightarrow> uuid \<Rightarrow> bool" where
  "session_origin cfg parse up pm st (CallLogin env email pw code ip ua) uid \<longleftrightarrow>
     (\<exists>u. userRepo_GetByEmail email st = Inr u \<and> uID u = uid \<and> uStatus u \<noteq> UserStatusDisabled \<and>
        bcryptCompare (cFuns cfg) (PasswordHash u) pw \<and>
        (MFAEnabled u \<longrightarrow> code \<noteq> [] \<and> totpValidate (cFuns cfg) code (MFASecret u) (eNow (aSvc env))))"
| "session_origin cfg parse up pm st (CallRefresh env raw ip ua) uid \<longleftrightarrow>
     (\<exists>rt. refreshRepo_GetByHash (HashToken (cSha256 cfg) raw) st = Inr rt \<and> rtUserID rt = uid \<and> RevokedAt rt = None \<and>
        eNow (aSvc env) \<le> rtExpiresAt rt)"
| "session_origin cfg parse up pm st (CallGoogle env code ip ua) uid \<longleftrightarrow>
     (\<exists>g info. cGoogle cfg = Some g \<and> Exchange g code = Inr info \<and>
        ((\<exists>u. map_of (users st) uid = Some u \<and>
            (OAuthProvider u = Some ''google'' \<and> OAuthSubject u = Some (gSub info) \<or> EqualFold (Email u) (gEmail info))) \<or>
         uid = eID1 (aSvc env)))"
| "session_origin cfg parse up pm st (CallClaim env tok ip ua) uid \<longleftrightarrow>
     (\<exists>claims. fst (Consume parse (eNow (aSvc env)) (eNow (aSvc env)) (eNow (aSvc env)) tok pm) = Inr claims \<and>
        up (pcUserID claims) = Some uid)"
| "session_origin cfg parse up pm st _ uid \<longleftrightarrow> False"

lemma issued_row:
  assumes "issueTokenPair cfg env u ip ua s = (r, s')" "map_of (refresh (db s)) k = None" "map_of (refresh (db s')) k = Some rt"
  shows "rtUserID rt = uID u"
  using assms
  by (auto simp: issueTokenPair_def refreshRepo_Create_def refresh_token_for_def Let_def touch_def get_put
      split: sum.splits if_splits)

definition new_row :: "uuid \<Rightarrow> refresh_token \<Rightarrow> backend \<Rightarrow> backend \<Rightarrow> bool" where
  "new_row k rt s s' \<longleftrightarrow> map_of (refresh (db s)) k = None \<and> map_of (refresh (db s')) k = Some rt"

lemma no_new_row: "refresh (db s') = refresh (db s) \<Longrightarrow> \<not> new_row k rt s s'"
  by (auto simp: new_row_def)

lemma Login_origin:
  assumes "new_row k rt s (snd (Login cfg env email pw code ip ua s))"
  shows "session_origin cfg parse up pm (db s) (CallLogin env email pw code ip ua) (rtUserID rt)"
proof -
  obtain ok s1 where a: "allow_both (eNow (aSvc env)) (''login:'' @ email) loginPerAccount (''login-ip:'' @ ip) loginPerAddress s = (ok, s1)"
    by fastforce
  have same: "refresh (db s1) = refresh (db s)" "users (db s1) = users (db s)"
    using allowed_db_same(1,2) [OF allow_both_db [OF a]] by auto
  have get: "userRepo_GetByEmail email (db s1) = userRepo_GetByEmail email (db s)"
    by (simp add: userRepo_GetByEmail_def same)
  have row: "rtUserID rt = uID u" if "issueTokenPair cfg env u ip ua s1 = (r, s2)" "new_row k rt s s3" "db s3 = db s2" for u r s2 s3
    using issued_row [OF that(1)] that(2,3) same by (auto simp: new_row_def)
  show ?thesis
    using assms unfolding Login_def a
    by (auto simp: get same no_new_row PasswordHasher_Verify_def MFAManager_Validate_def
        split: bool.splits sum.splits if_splits prod.splits dest: row)
qed

lemma Refresh_origin:
  assumes users_ok: "keyed uID (users (db s))" and new: "new_row k rt s (snd (Refresh cfg env raw ip ua s))"
  shows "session_origin cfg parse up pm (db s) (CallRefresh env raw ip ua) (rtUserID rt)"
proof -
  obtain r s' where c: "Refresh cfg env raw ip ua s = (r, s')" by fastforce
  show ?thesis
  proof (cases "Refresh_check cfg (eNow (aSvc env)) raw (db s)")
    case (Inl e)
    then show ?thesis using new by (auto simp: Refresh_def new_row_def)
  next
    case (Inr found)
    obtain rt0 u where f: "found = (rt0, u)" by fastforce
    have chk: "refreshRepo_GetByHash (HashToken (cSha256 cfg) raw) (db s) = Inr rt0" "RevokedAt rt0 = None"
      "\<not> after (eNow (aSvc env)) (rtExpiresAt rt0)" "map_of (users (db s)) (rtUserID rt0) = Some u"
      using Inr f by (auto simp: Refresh_check_def userRepo_GetByID_def split: sum.splits if_splits)
    obtain r1 st1 where rev: "refreshRepo_Revoke (eNow (aSvc env)) (rtID rt0) (db s) = (r1, st1)" by fastforce
    have dom: "map_of (refresh st1) k = None" if "map_of (refresh (db s)) k = None"
      using rev that by (auto simp: refreshRepo_Revoke_def touch_def get_put split: option.splits)
    have user: "rtUserID rt = uID u"
    proof (cases r1)
      case (Inl e)
      then show ?thesis using new \<open>Refresh_check cfg (eNow (aSvc env)) raw (db s) = Inr found\<close> f rev dom
        by (auto simp: Refresh_def Refresh_rotate_def new_row_def)
    next
      case (Inr y)
      obtain r2 s2 where i: "issueTokenPair cfg env u ip ua (s\<lparr>db := st1\<rparr>) = (r2, s2)" by fastforce
      have "snd (Refresh cfg env raw ip ua s) = s2"
        using \<open>Refresh_check cfg (eNow (aSvc env)) raw (db s) = Inr found\<close> f rev Inr i
        by (simp add: Refresh_def Refresh_rotate_def)
      then show ?thesis using issued_row [OF i] new dom by (simp add: new_row_def)
    qed
    from chk user users_ok have "uID u = rtUserID rt0" by (auto dest: keyed_get)
    with chk user show ?thesis by (auto simp: after_def)
  qed
qed

lemma google_account_user:
  assumes "keyed uID (users (db s))" "google_account env info s = (Inr (Some u), s')"
  shows "\<exists>v. map_of (users (db s)) (uID u) = Some v \<and>
     (OAuthProvider v = Some ''google'' \<and> OAuthSubject v = Some (gSub info) \<or> EqualFold (Email v) (gEmail info))"
proof -
  have get: "map_of (users (db s)) (uID v) = Some v" if "v \<in> snd ` set (users (db s))" for v
    using assms(1) that by (auto simp: keyed_def simp del: map_of_eq_Some_iff)
  have found: "map_of (users (db s)) (uID v) = Some v \<and> P v" if "find_row P (users (db s)) = Inr v" for P v
    using find_row_Inr [OF that] get by blast
  have upd: "uID u = uID v" if "userRepo_Update now v st = (Inr u, st')" for now v st st' and u :: user
    using that by (auto simp: userRepo_Update_def Let_def split: option.splits)
  have "fst (google_account env info s) = Inr (Some u)" using assms(2) by simp
  then show ?thesis
    by (auto simp: google_account_def userRepo_GetByOAuthSubject_def userRepo_GetByEmail_def
        split: sum.splits if_splits prod.splits dest!: found upd)
qed

lemma google_create_user: "google_create cfg env info ip s = (Inr u, s') \<Longrightarrow> eID1 (aSvc env) \<noteq> uuid_Nil \<Longrightarrow> uID u = eID1 (aSvc env)"
  by (auto simp: google_create_def userRepo_Create_def Let_def split: sum.splits if_splits)

lemma Google_origin:
  assumes "keyed uID (users (db s))" "eID1 (aSvc env) \<noteq> uuid_Nil" "new_row k rt s (snd (GoogleCallback cfg env code ip ua s))"
  shows "session_origin cfg parse up pm (db s) (CallGoogle env code ip ua) (rtUserID rt)"
proof -
  obtain g info where g: "cGoogle cfg = Some g" "Exchange g code = Inr info"
    using assms(3) by (auto simp: GoogleCallback_def new_row_def split: option.splits sum.splits)
  obtain r1 s1 where a: "google_account env info s = (r1, s1)" by fastforce
  note same1 = google_keeps_refresh(1) [OF a]
  obtain found where r1: "r1 = Inr found"
    using assms(3) same1 a g by (cases r1) (auto simp: GoogleCallback_def new_row_def)
  obtain r2 s2 where m: "(case found of Some u \<Rightarrow> (Inr u, s1) | None \<Rightarrow> google_create cfg env info ip s1) = (r2, s2)" by fastforce
  have same2: "refresh (db s2) = refresh (db s)"
    using m same1 google_keeps_refresh(2) [of cfg env info ip s1] by (auto split: option.splits)
  obtain u where r2: "r2 = Inr u"
    using assms(3) same2 a g r1 m by (cases r2) (auto simp: GoogleCallback_def new_row_def)
  obtain r3 s3 where i: "issueTokenPair cfg env u ip ua s2 = (r3, s3)" by fastforce
  have "db (snd (GoogleCallback cfg env code ip ua s)) = db s3"
    using a g r1 m r2 i by (cases r3) (simp_all add: GoogleCallback_def)
  then have "rtUserID rt = uID u" using issued_row [OF i] assms(3) same2 by (auto simp: new_row_def)
  moreover have "(\<exists>v. map_of (users (db s)) (uID u) = Some v \<and>
      (OAuthProvider v = Some ''google'' \<and> OAuthSubject v = Some (gSub info) \<or> EqualFold (Email v) (gEmail info))) \<or>
      uID u = eID1 (aSvc env)"
  proof (cases found)
    case None
    then show ?thesis using google_create_user assms(2) m r2 by simp
  next
    case (Some v)
    then show ?thesis using google_account_user [OF assms(1)] a r1 m r2 by simp
  qed
  ultimately show ?thesis using g by auto
qed

lemma Claim_origin:
  assumes "keyed uID (users (db s))" "new_row k rt s (snd (snd (Pairing_Claim cfg parse up env tok ip ua (pm, s))))"
  shows "session_origin cfg parse up pm (db s) (CallClaim env tok ip ua) (rtUserID rt)"
proof -
  have row: "i = rtUserID rt"
    if "issueTokenPair cfg env u ip ua s = (r, s2)" "userRepo_GetByID i (db s) = Inr u" "new_row k rt s s3" "db s3 = db s2" for u i r s2 s3
  proof -
    have "uID u = i" using assms(1) that(2) by (auto simp: userRepo_GetByID_def dest: keyed_get)
    with issued_row [OF that(1)] that(3,4) show ?thesis by (auto simp: new_row_def)
  qed
  show ?thesis
    using assms(2) unfolding Pairing_Claim_def IssueTokenPairFor_def
    by (auto simp: no_new_row split: sum.splits option.splits prod.splits intro: row)
qed

lemma Reset_dom: "dom (map_of (refresh (db (snd (ResetPassword cfg env raw pw s))))) = dom (map_of (refresh (db s)))"
proof -
  have "refresh (db (snd (ResetPassword cfg env raw pw s))) = refresh (db s) \<or>
      (\<exists>f. refresh (db (snd (ResetPassword cfg env raw pw s))) = map (\<lambda>(i, rt). (i, f rt)) (refresh (db s)))"
    by (auto simp: ResetPassword_def userRepo_Update_def resetRepo_MarkUsed_def refreshRepo_RevokeAllForUser_def
        touch_def Let_def split: sum.split option.split)
  then show ?thesis by (auto simp: map_of_map_rows simp del: map_of_eq_Some_iff)
qed

lemma no_new_session:
  "\<not> new_row k rt s (snd (AuthService_Register cfg env email pw name ip s))"
  "\<not> new_row k rt s (snd (Logout cfg env raw s))"
  "\<not> new_row k rt s (snd (EnableMFA cfg env uid s))"
  "\<not> new_row k rt s (snd (VerifyMFA cfg env uid code s))"
  "\<not> new_row k rt s (snd (ForgotPassword cfg env email ip s))"
  "\<not> new_row k rt s (snd (ResetPassword cfg env raw pw s))"
proof -
  have dom: "\<not> new_row k rt s s'" if "dom (map_of (refresh (db s'))) = dom (map_of (refresh (db s)))" for s'
    using that by (auto simp: new_row_def dom_def)
  show "\<not> new_row k rt s (snd (AuthService_Register cfg env email pw name ip s))"
    using refresh_untouched(1) by (rule no_new_row)
  show "\<not> new_row k rt s (snd (EnableMFA cfg env uid s))" using refresh_untouched(2) by (rule no_new_row)
  show "\<not> new_row k rt s (snd (VerifyMFA cfg env uid code s))" using refresh_untouched(3) by (rule no_new_row)
  show "\<not> new_row k rt s (snd (ForgotPassword cfg env email ip s))" using refresh_untouched(4) by (rule no_new_row)
  show "\<not> new_row k rt s (snd (Logout cfg env raw s))"
    by (auto simp: Logout_def refreshRepo_Revoke_def touch_def new_row_def get_put split: sum.splits option.splits)
  show "\<not> new_row k rt s (snd (ResetPassword cfg env raw pw s))"
    by (rule dom, rule Reset_dom)
qed

lemma rotate_effect:
  assumes row: "map_of (refresh (db s)) (rtID rt) = Some rt0" and id: "eID2 (aSvc env) \<notin> {uuid_Nil, rtID rt}"
    and rand: "aRand env = Some bs" and c: "Refresh_rotate cfg env (rt, u) ip ua s = (res, t)"
  shows "\<exists>r. res = Inr r"
    and "\<exists>live. map_of (refresh (db t)) (eID2 (aSvc env)) = Some live \<and> RevokedAt live = None \<and> rtUserID live = uID u"
    and "\<exists>rt1. map_of (refresh (db t)) (rtID rt) = Some rt1"
    and "k \<notin> {rtID rt, eID2 (aSvc env)} \<Longrightarrow> map_of (refresh (db t)) k = map_of (refresh (db s)) k"
  using assms
  by (auto simp: Refresh_rotate_def refreshRepo_Revoke_def issueTokenPair_def NewOpaqueRefreshToken_def
      refreshRepo_Create_def refresh_token_for_def Let_def touch_def get_put)

text \<open>
  C7. Sessions are only given to who proved to be the account: if a call of the authentication or
  pairing service adds a session, then for a login the password, the account's status and, when
  enabled, the second factor were checked; for a refresh the token was stored for that user,
  unrevoked and unexpired; for Google the account is the one linked to the profile, the one with its
  email address, or the one just created; for a pairing the redeemed token names that user. No other
  call adds a session.
\<close>

theorem session_origins:
  assumes ok: "store_ok (db s)" and id: "eID1 (aSvc (auth_call_env c)) \<noteq> uuid_Nil"
    and step: "auth_step cfg parse up c (pm, s) = (pm', s')"
    and new: "map_of (refresh (db s)) k = None" "map_of (refresh (db s')) k = Some rt"
  shows "session_origin cfg parse up pm (db s) c (rtUserID rt)"
proof -
  have users: "keyed uID (users (db s))" using ok by (simp add: store_ok_def)
  have row: "new_row k rt s (snd (auth_step cfg parse up c (pm, s)))" using step new by (simp add: new_row_def)
  show ?thesis
  proof (cases c)
    case (CallLogin env email pw code ip ua)
    with row show ?thesis by (simp only: auth_step.simps snd_conv Login_origin)
  next
    case (CallRefresh env raw ip ua)
    with row show ?thesis by (simp only: auth_step.simps snd_conv Refresh_origin [OF users])
  next
    case (CallGoogle env code ip ua)
    with row id have "eID1 (aSvc env) \<noteq> uuid_Nil" "new_row k rt s (snd (GoogleCallback cfg env code ip ua s))" by simp_all
    then show ?thesis unfolding CallGoogle by (rule Google_origin [OF users])
  next
    case (CallClaim env tok ip ua)
    with row show ?thesis by (simp only: auth_step.simps Claim_origin [OF users])
  qed (use row in \<open>simp_all add: no_new_session\<close>)
qed

theorem session_origins_witness:
  "session_origin ex_auth_cfg (\<lambda>_ _ _. None) (\<lambda>_. None) (NewPairingManager [] 0) (db ex_auth_backend)
     (CallLogin (ex_auth_env 20) ''A@b'' ''pw'' [] [] []) (ex_id 1)"
proof -
  let ?c = "CallLogin (ex_auth_env 20) ''A@b'' ''pw'' [] [] []"
  obtain pm' s' where step:
    "auth_step ex_auth_cfg (\<lambda>_ _ _. None) (\<lambda>_. None) ?c (NewPairingManager [] 0, ex_auth_backend) = (pm', s')" by fastforce
  have "map_option rtUserID (map_of (refresh (db (snd (auth_step ex_auth_cfg (\<lambda>_ _ _. None) (\<lambda>_. None) ?c
      (NewPairingManager [] 0, ex_auth_backend))))) (ex_id 21)) = Some (ex_id 1)" by code_simp
  then obtain rt where rt: "map_of (refresh (db s')) (ex_id 21) = Some rt" "rtUserID rt = ex_id 1"
    unfolding step snd_conv by blast
  have "map_of (refresh (db ex_auth_backend)) (ex_id 21) = None" "eID1 (aSvc (auth_call_env ?c)) \<noteq> uuid_Nil"
    by code_simp+
  from session_origins [OF ex_auth_store_ok this(2) step this(1) rt(1)] rt(2) show ?thesis by simp
qed

section \<open>Concurrent refreshes\<close>

text \<open>
  Rotation is not atomic: two requests that both look a refresh token up before either of them
  revokes it both get a new pair, so that one token becomes two live sessions.
\<close>

theorem concurrent_refresh_forks_session:
  assumes chk: "Refresh_check cfg (eNow (aSvc env)) raw (db s) = Inr (rt, u)"
      "Refresh_check cfg (eNow (aSvc env')) raw (db s) = Inr (rt, u)"
    and ok: "store_ok (db s)"
    and ids: "eID2 (aSvc env) \<notin> {uuid_Nil, rtID rt}" "eID2 (aSvc env') \<notin> {uuid_Nil, rtID rt, eID2 (aSvc env)}"
    and rand: "aRand env = Some bs" "aRand env' = Some bs'"
    and first: "Refresh_rotate cfg env (rt, u) ip ua s = (res, t)"
    and second: "Refresh_rotate cfg env' (rt, u) ip' ua' t = (res', t')"
  shows "\<exists>r r' live live'. res = Inr r \<and> res' = Inr r' \<and>
     map_of (refresh (db t')) (eID2 (aSvc env)) = Some live \<and> RevokedAt live = None \<and> rtUserID live = uID u \<and>
     map_of (refresh (db t')) (eID2 (aSvc env')) = Some live' \<and> RevokedAt live' = None \<and> rtUserID live' = uID u"
proof -
  have "rt \<in> snd ` set (refresh (db s))"
    using chk(1) unfolding Refresh_check_def refreshRepo_GetByHash_def
    by (auto split: sum.splits if_splits dest: find_row_Inr)
  with ok have row: "map_of (refresh (db s)) (rtID rt) = Some rt"
    by (auto simp: store_ok_def keyed_def simp del: map_of_eq_Some_iff)
  note one = rotate_effect [OF row ids(1) rand(1) first]
  from one(3) obtain rt1 where row1: "map_of (refresh (db t)) (rtID rt) = Some rt1" by blast
  note two = rotate_effect [OF row1 _ rand(2) second]
  show ?thesis using one two ids by auto
qed

theorem concurrent_refresh_forks_session_witness:
  "\<exists>t r r' t'. Refresh_rotate ex_auth_cfg (ex_auth_env 20)
       (projr (Refresh_check ex_auth_cfg 1000 ''tok'' (db ex_auth_backend))) [] [] ex_auth_backend = (Inr r, t) \<and>
     Refresh_rotate ex_auth_cfg (ex_auth_env 30)
       (projr (Refresh_check ex_auth_cfg 1000 ''tok'' (db ex_auth_backend))) [] [] t = (Inr r', t')"
proof -
  have "\<not> isl (Refresh_check ex_auth_cfg 1000 ''tok'' (db ex_auth_backend))"
    "rtID (fst (projr (Refresh_check ex_auth_cfg 1000 ''tok'' (db ex_auth_backend)))) = ex_id 5" by code_simp+
  then obtain rt u where c: "Refresh_check ex_auth_cfg 1000 ''tok'' (db ex_auth_backend) = Inr (rt, u)" and i: "rtID rt = ex_id 5"
    by (cases "Refresh_check ex_auth_cfg 1000 ''tok'' (db ex_auth_backend)") auto
  have env: "eNow (aSvc (ex_auth_env k)) = 1000" "eID2 (aSvc (ex_auth_env k)) = ex_id (k + 1)" "aRand (ex_auth_env k) = Some [k]" for k
    by (simp_all add: ex_auth_env_def)
  obtain res t where first: "Refresh_rotate ex_auth_cfg (ex_auth_env 20) (rt, u) [] [] ex_auth_backend = (res, t)" by fastforce
  obtain res' t' where second: "Refresh_rotate ex_auth_cfg (ex_auth_env 30) (rt, u) [] [] t = (res', t')" by fastforce
  have nil: "ex_id k \<noteq> uuid_Nil" if "k \<noteq> 0" for k
    using that by (simp add: ex_id_def uuid_Nil_def numeral_eq_Suc)
  have "\<exists>r r'. res = Inr r \<and> res' = Inr r'"
    using concurrent_refresh_forks_session [OF _ _ ex_auth_store_ok _ _ env(3) env(3) first second, unfolded env, OF c c]
    by (simp add: i nil)
  with first second c show ?thesis by auto
qed

end
