(* ===== verification/Http_Properties.thy ===== *)
theory Http_Properties
  imports Http_Server Control_Plane_Properties Auth_Properties
begin

text \<open>
  Properties of the REST API: which requests reach a service without credentials, on whose behalf a
  request acts, what it may change, and what a response discloses.
\<close>

section \<open>Authentication\<close>

text \<open>The user an accepted access token of the request names.\<close>

definition token_user :: "http_cfg \<Rightarrow> gotime \<Rightarrow> http_request \<Rightarrow> uuid option" where
  "token_user cfg now r =
     (if bearerToken r = [] then None
      else case hTokens cfg now (bearerToken r) of
             Inl _ \<Rightarrow> None
           | Inr claims \<Rightarrow> hParse cfg (acUserID claims))"

text \<open>The routes the router serves without an access token.\<close>

definition public_routes :: "route list" where
  "public_routes =
     [R_register, R_login, R_refresh, R_logout, R_forgot, R_reset, R_oauthRedirect, R_oauthCallback,
      R_pairClaim, R_relayRegister, R_relayHeartbeat, R_healthz, R_readyz]"

definition public_request :: "http_cfg \<Rightarrow> http_request \<Rightarrow> bool" where
  "public_request cfg r =
     (case find_route (routes cfg) (hqMethod r) (hqPath r) of
        None \<Rightarrow> False
      | Some (rt, vs) \<Rightarrow> rt \<in> set public_routes)"

lemma token_user_values [simp]: "token_user cfg now (r\<lparr>hqPathValue := vs\<rparr>) = token_user cfg now r"
  by (simp add: token_user_def bearerToken_def cong: option.case_cong)

lemma protect_rejects:
  "token_user cfg (eNow (aSvc env)) r = None \<Longrightarrow>
   \<exists>code msg. protect cfg env h r s = Some (writeError 401 code msg, s)"
  by (auto simp: protect_def Authenticate_def token_user_def Let_def split: sum.splits option.splits if_splits)

lemma protect_accepts:
  "token_user cfg (eNow (aSvc env)) r = Some u \<Longrightarrow> \<exists>e. protect cfg env h r s = h (WithUserID r u e) s"
  by (auto simp: protect_def Authenticate_def token_user_def Let_def split: sum.splits option.splits if_splits)

lemma not_public_protected: "rt \<notin> set public_routes \<Longrightarrow> \<exists>h. serve cfg env rt = protect cfg env h"
  by (cases rt) (auto simp: public_routes_def)

lemma NewRouter_cors: "NewRouter cfg env r s = CORS (hOrigins cfg) (mux cfg env) r s"
  by (simp add: NewRouter_def chain_def)

lemma NewRouter_state:
  assumes "NewRouter cfg env r s = Some (resp, s')"
  shows "s' = s \<or> (\<exists>resp' rt vs. find_route (routes cfg) (hqMethod r) (hqPath r) = Some (rt, vs) \<and>
           serve cfg env rt (r\<lparr>hqPathValue := vs\<rparr>) s = Some (resp', s'))"
  using assms by (auto simp: NewRouter_cors CORS_def Let_def mux_def split: if_splits option.splits)

lemma NewRouter_answer:
  assumes "mux cfg env r s = Some (resp, s')"
  shows "\<exists>resp'. NewRouter cfg env r s = Some (resp', if hqMethod r = ''OPTIONS'' then s else s') \<and>
    (hpStatus resp' = 204 \<and> hpBody resp' = NoBody \<or>
     hpStatus resp' = hpStatus resp \<and> hpBody resp' = hpBody resp)"
  using assms by (simp add: NewRouter_cors CORS_def Let_def with_headers_def no_content_def)

text \<open>
  C4. A request without an accepted access token (none, one the parser rejects, or one whose subject is
  not a UUID) to a route that is not one of the thirteen public ones gets an answer, changes nothing, and
  the answer carries no data of the store: it is a preflight reply, a 401 envelope, or the 404 or 405 of
  the mux.
\<close>
theorem no_token_no_access:
  assumes none: "token_user cfg (eNow (aSvc env)) r = None"
    and guarded: "\<not> public_request cfg r"
  shows "\<exists>resp. NewRouter cfg env r s = Some (resp, s) \<and>
    ((hpStatus resp = 204 \<and> hpBody resp = NoBody) \<or>
     (hpStatus resp = 401 \<and> (\<exists>code msg. hpBody resp = ErrorEnvelope code (Text msg))) \<or>
     (hpStatus resp \<in> {404, 405} \<and> (\<exists>t. hpBody resp = PlainText t)))"
proof -
  have "\<exists>resp. mux cfg env r s = Some (resp, s) \<and>
    ((hpStatus resp = 401 \<and> (\<exists>code msg. hpBody resp = ErrorEnvelope code (Text msg))) \<or>
     (hpStatus resp \<in> {404, 405} \<and> (\<exists>t. hpBody resp = PlainText t)))"
  proof (cases "find_route (routes cfg) (hqMethod r) (hqPath r)")
    case None
    then show ?thesis by (simp add: mux_def plain_def)
  next
    case (Some x)
    then obtain rt vs where rt: "find_route (routes cfg) (hqMethod r) (hqPath r) = Some (rt, vs)" by (cases x) auto
    from guarded rt have "rt \<notin> set public_routes" by (simp add: public_request_def)
    from not_public_protected [OF this] obtain h where h: "serve cfg env rt = protect cfg env h" by blast
    from protect_rejects [of cfg env "r\<lparr>hqPathValue := vs\<rparr>" h s] none obtain code msg
      where "protect cfg env h (r\<lparr>hqPathValue := vs\<rparr>) s = Some (writeError 401 code msg, s)" by auto
    with rt h show ?thesis by (simp add: mux_def writeError_def writeJSON_def)
  qed
  then obtain resp where m: "mux cfg env r s = Some (resp, s)" and
    shape: "(hpStatus resp = 401 \<and> (\<exists>code msg. hpBody resp = ErrorEnvelope code (Text msg))) \<or>
     (hpStatus resp \<in> {404, 405} \<and> (\<exists>t. hpBody resp = PlainText t))" by blast
  from NewRouter_answer [OF m] shape show ?thesis by (elim exE conjE disjE) auto
qed

section \<open>On whose behalf a request acts\<close>

text \<open>What a request that names the user \<open>u\<close> may do to the server, and when it carries the relay secret
  (\<open>relay\<close>): nothing, one call of the account services (those that take a user take \<open>u\<close>), one call of the
  network or device services as \<open>u\<close>, an audit row, or a change of the relay table.\<close>

fun auth_caller :: "auth_call \<Rightarrow> uuid option" where
  "auth_caller (CallEnableMFA env u) = Some u"
| "auth_caller (CallVerifyMFA env u code) = Some u"
| "auth_caller _ = None"

fun net_env :: "net_call \<Rightarrow> svc_env" where
  "net_env (CallCreate env u name desc cidr dns) = env"
| "net_env (CallUpdate env i u name desc cidr dns) = env"
| "net_env (CallDelete env i u) = env"
| "net_env (CallJoin env u code) = env"
| "net_env (CallRotateInvite env i u) = env"
| "net_env (CallUpdateMemberRole env i u v r) = env"
| "net_env (CallRemoveMember env i u v) = env"

inductive request_effect :: "http_cfg \<Rightarrow> auth_env \<Rightarrow> uuid option \<Rightarrow> bool \<Rightarrow> hstate \<Rightarrow> hstate \<Rightarrow> bool"
  for cfg env actor relay where
  nothing: "request_effect cfg env actor relay s s"
| account: "auth_call_env c = env \<Longrightarrow> auth_caller c \<in> {None, actor} \<Longrightarrow>
    request_effect cfg env actor relay s (auth_step (hAuth cfg) (hPairParse cfg) (hParse cfg) c s)"
| network: "actor = Some (net_caller c) \<Longrightarrow> net_env c = aSvc env \<Longrightarrow>
    request_effect cfg env actor relay (pm, b) (pm, net_step (hString cfg) b c)"
| device_added: "actor = Some u \<Longrightarrow>
    DeviceService_Register (hString cfg) (aSvc env) u n name os ver key b = Some (res, b') \<Longrightarrow>
    request_effect cfg env actor relay (pm, b) (pm, b')"
| device_removed: "actor = Some u \<Longrightarrow>
    request_effect cfg env actor relay (pm, b) (pm, snd (DeviceService_Delete (hString cfg) (aSvc env) d u b))"
| device_seen: "actor = Some u \<Longrightarrow>
    request_effect cfg env actor relay (pm, b)
      (pm, snd (DeviceService_Heartbeat (eNow (aSvc env)) d u p1 p2 nt b1 b2 b))"
| pairing_code: "actor = Some u \<Longrightarrow>
    request_effect cfg env actor relay (pm, b)
      (pm, Record (aSvc env) (Some u) None AuditPairingStarted ''user'' (hString cfg u) [] [] b)"
| relay_registered: "relay \<Longrightarrow> relayRepo_Upsert i now rs (db b) = (rs', st) \<Longrightarrow>
    request_effect cfg env actor relay (pm, b) (pm, b\<lparr>db := st\<rparr>)"
| relay_seen: "relay \<Longrightarrow> relayRepo_Heartbeat now i ld (db b) = (res', st) \<Longrightarrow>
    request_effect cfg env actor relay (pm, b) (pm, b\<lparr>db := st\<rparr>)"

lemma respond_state: "respond_with ok pm x = Some (resp, s') \<Longrightarrow> s' = (pm, snd x)"
  by (auto simp: respond_with_def split: prod.splits sum.splits)

text \<open>The rules with the calls spelled out, in the form the handlers produce.\<close>

lemmas account_effects =
  request_effect.account [where c = "CallRegister _ _ _ _ _" and s = "(_, _)", simplified]
  request_effect.account [where c = "CallLogin _ _ _ _ _ _" and s = "(_, _)", simplified]
  request_effect.account [where c = "CallRefresh _ _ _ _" and s = "(_, _)", simplified]
  request_effect.account [where c = "CallLogout _ _" and s = "(_, _)", simplified]
  request_effect.account [where c = "CallForgot _ _ _" and s = "(_, _)", simplified]
  request_effect.account [where c = "CallReset _ _ _" and s = "(_, _)", simplified]
  request_effect.account [where c = "CallGoogle _ _ _ _" and s = "(_, _)", simplified]
  request_effect.account [where c = "CallClaim _ _ _ _" and s = "(_, _)", simplified]
  request_effect.account [where c = "CallEnableMFA _ _" and s = "(_, _)", simplified]
  request_effect.account [where c = "CallVerifyMFA _ _ _" and s = "(_, _)", simplified]

lemmas network_effects =
  request_effect.network [where c = "CallCreate _ _ _ _ _ _", simplified]
  request_effect.network [where c = "CallUpdate _ _ _ _ _ _ _", simplified]
  request_effect.network [where c = "CallDelete _ _ _", simplified]
  request_effect.network [where c = "CallJoin _ _ _", simplified]
  request_effect.network [where c = "CallRotateInvite _ _ _", simplified]
  request_effect.network [where c = "CallUpdateMemberRole _ _ _ _ _", simplified]
  request_effect.network [where c = "CallRemoveMember _ _ _ _", simplified]

lemma user_of_context [simp]:
  "UserIDFromContext (WithUserID r u e) = Some u" "requireUser (WithUserID r u e) = Inr u"
  by (simp_all add: UserIDFromContext_def WithUserID_def requireUser_def)

lemma public_handler_effects:
  "AuthHandler_register cfg env r s = Some (resp, s') \<Longrightarrow> request_effect cfg env a rel s s'"
  "AuthHandler_login cfg env r s = Some (resp, s') \<Longrightarrow> request_effect cfg env a rel s s'"
  "AuthHandler_refresh cfg env r s = Some (resp, s') \<Longrightarrow> request_effect cfg env a rel s s'"
  "AuthHandler_logout cfg env r s = Some (resp, s') \<Longrightarrow> request_effect cfg env a rel s s'"
  "AuthHandler_resetPassword cfg env r s = Some (resp, s') \<Longrightarrow> request_effect cfg env a rel s s'"
  by (auto simp: AuthHandler_register_def AuthHandler_login_def AuthHandler_refresh_def AuthHandler_logout_def
      AuthHandler_resetPassword_def Let_def split: prod.splits if_splits
      dest!: respond_state intro: request_effect.nothing account_effects)

lemma call_effects:
  "ForgotPassword (hAuth cfg) env email ip b = (res, b') \<Longrightarrow> request_effect cfg env a rel (pm, b) (pm, b')"
  "Pairing_Claim (hAuth cfg) (hPairParse cfg) (hParse cfg) env tok ip ua s = (res', s') \<Longrightarrow>
   request_effect cfg env a rel s s'"
  using account_effects(5) [of env env cfg a rel pm b email ip]
    account_effects(8) [of env env cfg a rel "fst s" "snd s" tok ip ua]
  by simp_all

lemma other_public_handler_effects:
  "AuthHandler_forgotPassword cfg env r s = Some (resp, s') \<Longrightarrow> request_effect cfg env a rel s s'"
  "AuthHandler_oauthRedirect cfg env r s = Some (resp, s') \<Longrightarrow> request_effect cfg env a rel s s'"
  "AuthHandler_oauthCallback cfg env r s = Some (resp, s') \<Longrightarrow> request_effect cfg env a rel s s'"
  "PairingHandler_claim cfg env r s = Some (resp, s') \<Longrightarrow> request_effect cfg env a rel s s'"
proof -
  show "AuthHandler_forgotPassword cfg env r s = Some (resp, s') \<Longrightarrow> request_effect cfg env a rel s s'"
    by (auto simp: AuthHandler_forgotPassword_def Let_def split: prod.splits if_splits
        intro: request_effect.nothing call_effects)
  show "AuthHandler_oauthRedirect cfg env r s = Some (resp, s') \<Longrightarrow> request_effect cfg env a rel s s'"
    by (auto simp: AuthHandler_oauthRedirect_def request_effect.nothing split: option.splits sum.splits if_splits)
  show "AuthHandler_oauthCallback cfg env r s = Some (resp, s') \<Longrightarrow> request_effect cfg env a rel s s'"
    by (auto simp: AuthHandler_oauthCallback_def Let_def split: prod.splits if_splits
        dest!: respond_state intro: request_effect.nothing account_effects)
  show "PairingHandler_claim cfg env r s = Some (resp, s') \<Longrightarrow> request_effect cfg env a rel s s'"
    by (auto simp: PairingHandler_claim_def Let_def split: prod.splits if_splits sum.splits
        intro: request_effect.nothing call_effects)
qed

lemma Pairing_Start_state:
  "Pairing_Start cfg sign up env u n pm b = (res, b') \<Longrightarrow>
   b' = b \<or> b' = Record (aSvc env) (Some u) None AuditPairingStarted ''user'' (cString cfg u) [] [] b"
  by (auto simp: Pairing_Start_def split: sum.splits prod.splits)

lemma account_handler_effects:
  "AuthHandler_enableMFA cfg env (WithUserID r u e) s = Some (resp, s') \<Longrightarrow> request_effect cfg env (Some u) rel s s'"
  "AuthHandler_verifyMFA cfg env (WithUserID r u e) s = Some (resp, s') \<Longrightarrow> request_effect cfg env (Some u) rel s s'"
  "PairingHandler_start cfg env (WithUserID r u e) s = Some (resp, s') \<Longrightarrow> request_effect cfg env (Some u) rel s s'"
proof -
  show "AuthHandler_enableMFA cfg env (WithUserID r u e) s = Some (resp, s') \<Longrightarrow> request_effect cfg env (Some u) rel s s'"
    "AuthHandler_verifyMFA cfg env (WithUserID r u e) s = Some (resp, s') \<Longrightarrow> request_effect cfg env (Some u) rel s s'"
    by (auto simp: AuthHandler_enableMFA_def AuthHandler_verifyMFA_def split: prod.splits if_splits
        dest!: respond_state intro: request_effect.nothing account_effects)
  show "PairingHandler_start cfg env (WithUserID r u e) s = Some (resp, s') \<Longrightarrow> request_effect cfg env (Some u) rel s s'"
  proof -
    assume h: "PairingHandler_start cfg env (WithUserID r u e) s = Some (resp, s')"
    obtain pm b where s: "s = (pm, b)" by (cases s)
    from h have "s' = s \<or> (\<exists>n. s' = (pm, snd (Pairing_Start (hAuth cfg) (hPairSign cfg) (hParse cfg) env u n pm b)))"
      by (auto simp: PairingHandler_start_def s split: prod.splits if_splits dest!: respond_state)
    then show "request_effect cfg env (Some u) rel s s'"
    proof (elim disjE exE)
      fix n assume "s' = (pm, snd (Pairing_Start (hAuth cfg) (hPairSign cfg) (hParse cfg) env u n pm b))"
      with Pairing_Start_state [OF prod.collapse [symmetric], of "hAuth cfg" "hPairSign cfg" "hParse cfg" env u n pm b]
      show ?thesis by (auto simp: s intro: request_effect.nothing request_effect.pairing_code)
    qed (simp add: request_effect.nothing)
  qed
qed

lemma network_handler_effects:
  "NetworkHandler_list cfg env (WithUserID r u e) s = Some (resp, s') \<Longrightarrow> request_effect cfg env (Some u) rel s s'"
  "NetworkHandler_create cfg env (WithUserID r u e) s = Some (resp, s') \<Longrightarrow> request_effect cfg env (Some u) rel s s'"
  "NetworkHandler_join cfg env (WithUserID r u e) s = Some (resp, s') \<Longrightarrow> request_effect cfg env (Some u) rel s s'"
  "NetworkHandler_get cfg env (WithUserID r u e) s = Some (resp, s') \<Longrightarrow> request_effect cfg env (Some u) rel s s'"
  "NetworkHandler_update cfg env (WithUserID r u e) s = Some (resp, s') \<Longrightarrow> request_effect cfg env (Some u) rel s s'"
  "NetworkHandler_delete cfg env (WithUserID r u e) s = Some (resp, s') \<Longrightarrow> request_effect cfg env (Some u) rel s s'"
  "NetworkHandler_rotateInvite cfg env (WithUserID r u e) s = Some (resp, s') \<Longrightarrow> request_effect cfg env (Some u) rel s s'"
  "NetworkHandler_listMembers cfg env (WithUserID r u e) s = Some (resp, s') \<Longrightarrow> request_effect cfg env (Some u) rel s s'"
  by (auto simp: NetworkHandler_list_def NetworkHandler_create_def NetworkHandler_join_def NetworkHandler_get_def
      NetworkHandler_update_def NetworkHandler_delete_def NetworkHandler_rotateInvite_def NetworkHandler_listMembers_def
      split: prod.splits if_splits sum.splits dest!: respond_state intro: request_effect.nothing network_effects)

lemma member_handler_effects:
  "NetworkHandler_updateMemberRole cfg env (WithUserID r u e) s = Some (resp, s') \<Longrightarrow> request_effect cfg env (Some u) rel s s'"
  "NetworkHandler_removeMember cfg env (WithUserID r u e) s = Some (resp, s') \<Longrightarrow> request_effect cfg env (Some u) rel s s'"
  "NetworkHandler_listDevices cfg env (WithUserID r u e) s = Some (resp, s') \<Longrightarrow> request_effect cfg env (Some u) rel s s'"
  by (auto simp: NetworkHandler_updateMemberRole_def NetworkHandler_removeMember_def NetworkHandler_listDevices_def
      split: prod.splits if_splits sum.splits dest!: respond_state intro: request_effect.nothing network_effects)

lemma registerDevice_effect:
  "NetworkHandler_registerDevice cfg env (WithUserID r u e) s = Some (resp, s') \<Longrightarrow> request_effect cfg env (Some u) rel s s'"
  by (auto simp: NetworkHandler_registerDevice_def split: prod.splits if_splits sum.splits option.splits
      dest!: respond_state intro: request_effect.nothing request_effect.device_added)

lemma device_handler_effects:
  "DeviceHandler_get cfg env (WithUserID r u e) s = Some (resp, s') \<Longrightarrow> request_effect cfg env (Some u) rel s s'"
  "DeviceHandler_delete cfg env (WithUserID r u e) s = Some (resp, s') \<Longrightarrow> request_effect cfg env (Some u) rel s s'"
  "DeviceHandler_heartbeat cfg env (WithUserID r u e) s = Some (resp, s') \<Longrightarrow> request_effect cfg env (Some u) rel s s'"
  "DeviceHandler_listPeers cfg env (WithUserID r u e) s = Some (resp, s') \<Longrightarrow> request_effect cfg env (Some u) rel s s'"
  by (auto simp: DeviceHandler_get_def DeviceHandler_delete_def DeviceHandler_heartbeat_def DeviceHandler_listPeers_def Let_def
      split: prod.splits sum.splits dest!: respond_state
      intro: request_effect.nothing request_effect.device_removed request_effect.device_seen)

lemma logs_handler_effects:
  "LogsHandler_auditLogs cfg env (WithUserID r u e) s = Some (resp, s') \<Longrightarrow> request_effect cfg env (Some u) rel s s'"
  "LogsHandler_connectionLogs cfg env (WithUserID r u e) s = Some (resp, s') \<Longrightarrow> request_effect cfg env (Some u) rel s s'"
  "LogsHandler_dashboardStats cfg env (WithUserID r u e) s = Some (resp, s') \<Longrightarrow> request_effect cfg env (Some u) rel s s'"
  by (auto simp: LogsHandler_auditLogs_def LogsHandler_connectionLogs_def LogsHandler_dashboardStats_def
      split: prod.splits sum.splits dest!: respond_state intro: request_effect.nothing)

lemma relay_handler_effects:
  "RelayHandler_register cfg env secret r s = Some (resp, s') \<Longrightarrow>
   request_effect cfg env a (RelayHandler_authorize secret r) s s'"
  "RelayHandler_heartbeat cfg env secret r s = Some (resp, s') \<Longrightarrow>
   request_effect cfg env a (RelayHandler_authorize secret r) s s'"
proof -
  show "RelayHandler_register cfg env secret r s = Some (resp, s') \<Longrightarrow>
    request_effect cfg env a (RelayHandler_authorize secret r) s s'"
    by (auto simp: RelayHandler_register_def request_effect.nothing split: prod.splits if_splits
        intro: request_effect.relay_registered)
  show "RelayHandler_heartbeat cfg env secret r s = Some (resp, s') \<Longrightarrow>
    request_effect cfg env a (RelayHandler_authorize secret r) s s'"
    by (auto simp: RelayHandler_heartbeat_def request_effect.nothing split: prod.splits if_splits option.splits
        dest!: respond_state intro: request_effect.relay_seen)
qed


lemmas protected_effects =
  account_handler_effects network_handler_effects member_handler_effects registerDevice_effect
  device_handler_effects logs_handler_effects

lemma protect_effect:
  assumes "protect cfg env h r s = Some (resp, s')"
    and "\<And>u e. token_user cfg (eNow (aSvc env)) r = Some u \<Longrightarrow> h (WithUserID r u e) s = Some (resp, s') \<Longrightarrow>
           request_effect cfg env (Some u) rel s s'"
  shows "request_effect cfg env (token_user cfg (eNow (aSvc env)) r) rel s s'"
proof (cases "token_user cfg (eNow (aSvc env)) r")
  case None
  with protect_rejects [OF this, of h s] assms(1) show ?thesis by (auto intro: request_effect.nothing)
next
  case (Some u)
  with protect_accepts [OF this, of h s] assms show ?thesis by auto
qed

lemma authorize_values [simp]:
  "RelayHandler_authorize secret (r\<lparr>hqPathValue := vs\<rparr>) = RelayHandler_authorize secret r"
  by (simp add: RelayHandler_authorize_def)

lemma serve_effect:
  assumes "serve cfg env rt r s = Some (resp, s')"
  shows "request_effect cfg env (token_user cfg (eNow (aSvc env)) r) (RelayHandler_authorize (relay_secret cfg) r) s s'"
  using assms
  by (cases rt)
    (simp_all add: public_handler_effects other_public_handler_effects relay_handler_effects request_effect.nothing,
     (erule protect_effect, erule protected_effects)+)

text \<open>
  C3. Whatever a request to the API changes, it changes through at most one call of a service: a call of the
  account services, of the network service or of the device service, or an audit row or the relay table.
  Every call that acts for a user acts for the user named by the accepted access token of that request, and
  the relay table only changes when the request carries the relay secret.
\<close>
theorem request_acts_as_token_user:
  assumes "NewRouter cfg env r s = Some (resp, s')"
  shows "request_effect cfg env (token_user cfg (eNow (aSvc env)) r) (RelayHandler_authorize (relay_secret cfg) r) s s'"
  using NewRouter_state [OF assms]
proof (elim disjE exE conjE)
  fix resp' rt vs
  assume "serve cfg env rt (r\<lparr>hqPathValue := vs\<rparr>) s = Some (resp', s')"
  from serve_effect [OF this] show ?thesis by simp
qed (simp add: request_effect.nothing)

section \<open>The invariant of the server\<close>

text \<open>The account services leave the tables of networks, members and devices and the bus alone.\<close>

definition keeps_tenancy :: "backend \<Rightarrow> backend \<Rightarrow> bool" where
  "keeps_tenancy s s' \<longleftrightarrow> tables (db s') = tables (db s) \<and> evbus s' = evbus s \<and> (store_ok (db s) \<longrightarrow> store_ok (db s'))"

lemma keeps_tenancy_refl [simp]: "keeps_tenancy s s"
  by (simp add: keeps_tenancy_def)

lemma keeps_tenancy_trans: "keeps_tenancy s s' \<Longrightarrow> keeps_tenancy s' s'' \<Longrightarrow> keeps_tenancy s s''"
  by (simp add: keeps_tenancy_def)

lemma keeps_tenancy_ok: "keeps_tenancy s s' \<Longrightarrow> ctl_ok s \<Longrightarrow> ctl_ok s'"
  by (auto simp: keeps_tenancy_def ctl_ok_def tenancy_ok_tables)


definition keeps_store :: "store \<Rightarrow> store \<Rightarrow> bool" where
  "keeps_store st st' \<longleftrightarrow> tables st' = tables st \<and> (store_ok st \<longrightarrow> store_ok st')"

lemma tables_touch [simp]: "tables (touch st) = tables st"
  by (simp add: tables_def touch_def)

lemma account_tables:
  "tables (snd (userRepo_Create i now u st)) = tables st" "tables (snd (userRepo_Update now u st)) = tables st"
  "tables (snd (refreshRepo_Create i now rt st)) = tables st" "tables (snd (refreshRepo_Revoke now k st)) = tables st"
  "tables (snd (refreshRepo_RevokeAllForUser now k st)) = tables st"
  "tables (snd (resetRepo_Create i now pr st)) = tables st" "tables (snd (resetRepo_MarkUsed now k st)) = tables st"
  "tables (snd (limiter_Allow now key limit window st)) = tables st"
  "tables (snd (relayRepo_Upsert i now rs st)) = tables st" "tables (snd (relayRepo_Heartbeat now k ld st)) = tables st"
  by (auto simp: userRepo_Create_def userRepo_Update_def refreshRepo_Create_def refreshRepo_Revoke_def
      refreshRepo_RevokeAllForUser_def resetRepo_Create_def resetRepo_MarkUsed_def limiter_Allow_def
      relayRepo_Upsert_def relayRepo_Heartbeat_def Let_def tables_def touch_def split: option.split)

lemma account_ops_keep:
  "userRepo_Create i now u st = (r1, st') \<Longrightarrow> keeps_store st st'"
  "userRepo_Update now u st = (r1, st') \<Longrightarrow> keeps_store st st'"
  "refreshRepo_Create i now rt st = (r2, st') \<Longrightarrow> keeps_store st st'"
  "refreshRepo_Revoke now k st = (r3, st') \<Longrightarrow> keeps_store st st'"
  "refreshRepo_RevokeAllForUser now k st = (r3, st') \<Longrightarrow> keeps_store st st'"
  "resetRepo_Create i now pr st = (r4, st') \<Longrightarrow> keeps_store st st'"
  "resetRepo_MarkUsed now k st = (r3, st') \<Longrightarrow> keeps_store st st'"
  "limiter_Allow now key limit window st = (ok, st') \<Longrightarrow> keeps_store st st'"
  "relayRepo_Upsert i now rs st = (rs', st') \<Longrightarrow> keeps_store st st'"
  "relayRepo_Heartbeat now k ld st = (r3, st') \<Longrightarrow> keeps_store st st'"
  unfolding keeps_store_def
  by (metis account_tables snd_conv user_ops_ok refresh_ops_ok reset_ops_ok infra_ops_ok)+

lemma keeps_tenancy_db: "keeps_store (db s) st \<Longrightarrow> keeps_tenancy s (s\<lparr>db := st\<rparr>)"
  by (simp add: keeps_tenancy_def keeps_store_def)

lemma keeps_tenancy_Record [simp]: "keeps_tenancy s (Record env a n act t i ip meta s') = keeps_tenancy s s'"
  by (simp add: keeps_tenancy_def Record_def)

lemma keeps_tenancy_audit [simp]: "keeps_tenancy s (audit_user cfg env act u ip meta s') = keeps_tenancy s s'"
  by (simp add: audit_user_def)

lemma allow_keeps: "allow now key limit s = (ok, s') \<Longrightarrow> keeps_tenancy s s'"
  by (auto simp: allow_def split: prod.splits intro: keeps_tenancy_db account_ops_keep)

lemma allow_both_keeps: "allow_both now k l k' l' s = (ok, s') \<Longrightarrow> keeps_tenancy s s'"
  by (auto simp: allow_both_def split: prod.splits bool.splits intro: keeps_tenancy_trans allow_keeps)

lemma issueTokenPair_keeps_tenancy: "issueTokenPair cfg env u ip ua s = (r, s') \<Longrightarrow> keeps_tenancy s s'"
  by (auto simp: issueTokenPair_def Let_def split: prod.splits sum.splits intro: keeps_tenancy_db account_ops_keep)

lemma Login_keeps_tenancy: "keeps_tenancy s (snd (Login cfg env email pw code ip ua s))"
  by (auto simp: Login_def split: prod.splits bool.splits sum.splits
      dest: allow_both_keeps issueTokenPair_keeps_tenancy intro: keeps_tenancy_trans)

lemma Register_keeps_tenancy: "keeps_tenancy s (snd (AuthService_Register cfg env email pw name ip s))"
  by (auto simp: AuthService_Register_def Let_def split: prod.splits bool.splits sum.splits
      dest!: allow_keeps account_ops_keep keeps_tenancy_db intro: keeps_tenancy_trans)


lemma session_calls_keep_tenancy:
  "keeps_tenancy s (snd (Refresh cfg env raw ip ua s))"
  "keeps_tenancy s (snd (Logout cfg env raw s))"
proof -
  show "keeps_tenancy s (snd (Refresh cfg env raw ip ua s))"
    by (auto simp: Refresh_def Refresh_rotate_def split: prod.splits sum.splits
        dest!: account_ops_keep keeps_tenancy_db
        intro: keeps_tenancy_trans issueTokenPair_keeps_tenancy [OF prod.collapse [symmetric]])
  show "keeps_tenancy s (snd (Logout cfg env raw s))"
    by (auto simp: Logout_def split: prod.splits sum.splits dest!: account_ops_keep keeps_tenancy_db)
qed

lemma factor_calls_keep_tenancy:
  "keeps_tenancy s (snd (EnableMFA cfg env u s))"
  "keeps_tenancy s (snd (VerifyMFA cfg env u code s))"
  "keeps_tenancy s (snd (ForgotPassword cfg env email ip s))"
  by (auto simp: EnableMFA_def VerifyMFA_def ForgotPassword_def Let_def split: prod.splits bool.splits sum.splits
      dest!: allow_both_keeps account_ops_keep keeps_tenancy_db intro: keeps_tenancy_trans)

lemma keeps_store_trans: "keeps_store st st' \<Longrightarrow> keeps_store st' st'' \<Longrightarrow> keeps_store st st''"
  by (simp add: keeps_store_def)

lemma ResetPassword_keeps_tenancy: "keeps_tenancy s (snd (ResetPassword cfg env raw pw s))"
  by (auto simp: ResetPassword_def split: prod.splits sum.splits
      dest!: account_ops_keep intro!: keeps_tenancy_db intro: keeps_store_trans)

lemma google_keeps_tenancy:
  "google_account env info s = (r, s') \<Longrightarrow> keeps_tenancy s s'"
  "google_create cfg env info ip s = (r', s') \<Longrightarrow> keeps_tenancy s s'"
  by (auto simp: google_account_def google_create_def Let_def split: prod.splits sum.splits if_splits
      dest!: account_ops_keep keeps_tenancy_db)

lemma GoogleCallback_keeps_tenancy: "keeps_tenancy s (snd (GoogleCallback cfg env code ip ua s))"
  by (auto simp: GoogleCallback_def split: prod.splits sum.splits option.splits
      dest!: google_keeps_tenancy issueTokenPair_keeps_tenancy)
    (meson keeps_tenancy_trans)+

lemma Pairing_Claim_keeps_tenancy: "keeps_tenancy (snd s) (snd (snd (Pairing_Claim cfg parse up env tok ip ua s)))"
  by (cases s) (auto simp: Pairing_Claim_def IssueTokenPairFor_def split: prod.splits sum.splits option.splits
      dest: issueTokenPair_keeps_tenancy)

lemma auth_step_keeps_tenancy: "keeps_tenancy (snd s) (snd (auth_step cfg parse up c s))"
proof (cases s)
  case (Pair pm b)
  then show ?thesis using Pairing_Claim_keeps_tenancy [of s]
    by (cases c) (simp_all add: Login_keeps_tenancy Register_keeps_tenancy session_calls_keep_tenancy
        factor_calls_keep_tenancy ResetPassword_keeps_tenancy GoogleCallback_keeps_tenancy)
qed

text \<open>What the server relies on \<open>uuid.New\<close> for.\<close>

definition fresh_env :: "svc_env \<Rightarrow> store \<Rightarrow> bool" where
  "fresh_env env st \<longleftrightarrow>
     eID1 env \<noteq> uuid_Nil \<and> map_of (networks st) (eID1 env) = None \<and> map_of (devices st) (eID1 env) = None"

lemma request_effect_ok:
  assumes "request_effect cfg env a rel s s'" "fresh_env (aSvc env) (db (snd s))" "ctl_ok (snd s)"
  shows "ctl_ok (snd s')"
  using assms
proof (induction rule: request_effect.induct)
  case (account c s)
  then show ?case using keeps_tenancy_ok [OF auth_step_keeps_tenancy] by blast
next
  case (network c pm b)
  then have "fresh_call (db b) (NetCall c)" by (cases c) (auto simp: fresh_env_def)
  then show ?case
    using ctl_step_ok [of b "NetCall c" "\<lparr>pString = hString cfg, pParse = hParse cfg, pSign = undefined,
        pRelay = undefined, pTTL = 0\<rparr>" "net_step (hString cfg) b c"] network.prems by simp
next
  case (device_added u n name os ver key b res b' pm)
  then show ?case
    using ctl_step_ok [of b "RegisterCall (aSvc env) u n name os ver key"
        "\<lparr>pString = hString cfg, pParse = hParse cfg, pSign = undefined, pRelay = undefined, pTTL = 0\<rparr>" b']
    by (simp add: fresh_env_def)
next
  case (device_removed u pm b d)
  then show ?case by (simp add: ctl_ok_def DeviceService_Delete_tenancy device_calls_evbus)
next
  case (device_seen u pm b d p1 p2 nt b1 b2)
  then show ?case by (simp add: ctl_ok_def DeviceService_Heartbeat_tenancy device_calls_evbus)
next
  case (pairing_code u pm b)
  then show ?case by (simp add: ctl_ok_def Record_def)
next
  case (relay_registered i now rs b rs' st pm)
  then show ?case using keeps_tenancy_ok [OF keeps_tenancy_db [OF account_ops_keep(9)]] by auto
next
  case (relay_seen now i ld b res' st pm)
  then show ?case using keeps_tenancy_ok [OF keeps_tenancy_db [OF account_ops_keep(10)]] by auto
qed simp

text \<open>The whole server: requests to the API, calls of the coordination service and the background steps of
  the control plane, one after the other, from an empty store.\<close>

inductive server_reachable :: "http_cfg \<Rightarrow> ctl_params \<Rightarrow> hstate \<Rightarrow> bool" for cfg P where
  start: "server_reachable cfg P (pm, start_backend p)"
| request: "server_reachable cfg P s \<Longrightarrow> fresh_env (aSvc env) (db (snd s)) \<Longrightarrow>
    NewRouter cfg env r s = Some (resp, s') \<Longrightarrow> server_reachable cfg P s'"
| call: "server_reachable cfg P (pm, b) \<Longrightarrow> fresh_call (db b) c \<Longrightarrow> ctl_step P b c = Some b' \<Longrightarrow>
    server_reachable cfg P (pm, b')"

lemma server_reachable_ok: "server_reachable cfg P s \<Longrightarrow> ctl_ok (snd s)"
proof (induction rule: server_reachable.induct)
  case (request s env r resp s')
  from NewRouter_state [OF request.hyps(3)] show ?case
  proof (elim disjE exE conjE)
    fix resp' rt vs
    assume "serve cfg env rt (r\<lparr>hqPathValue := vs\<rparr>) s = Some (resp', s')"
    from request_effect_ok [OF serve_effect [OF this] request.hyps(2) request.IH] show ?thesis .
  qed (simp add: request.IH)
qed (auto intro: start_ok ctl_step_ok)



section \<open>Cross-origin requests\<close>

definition plain_headers :: "http_response \<Rightarrow> bool" where
  "plain_headers resp \<longleftrightarrow> fst ` set (hpHeader resp) \<subseteq> {''Content-Type'', ''Location''}"

lemma plain_writes [simp]:
  "plain_headers (writeJSON st b)" "plain_headers (writeError st code msg)" "plain_headers no_content"
  "plain_headers (writeDomainError e)" "plain_headers (plain st t)"
  "plain_headers (clear_state_cookie resp) = plain_headers resp"
proof -
  show w: "plain_headers (writeJSON st b)" for st b by (simp add: plain_headers_def writeJSON_def)
  show e: "plain_headers (writeError st code msg)" for st code msg by (simp add: writeError_def w)
  show "plain_headers no_content" "plain_headers (plain st t)" "plain_headers (clear_state_cookie resp) = plain_headers resp"
    by (simp_all add: plain_headers_def no_content_def plain_def clear_state_cookie_def)
  show "plain_headers (writeDomainError e)" by (cases e) (simp_all add: writeDomainError_def w e)
qed

lemma respond_headers: "respond_with ok pm x = Some (resp, s') \<Longrightarrow> (\<And>v. plain_headers (ok v)) \<Longrightarrow> plain_headers resp"
  by (auto simp: respond_with_def split: prod.splits sum.splits)

lemma context_headers:
  "requireUser r = Inl resp \<Longrightarrow> plain_headers resp" "pathUUID cfg r name = Inl resp \<Longrightarrow> plain_headers resp"
  "optionalNetworkID cfg r = Inl resp \<Longrightarrow> plain_headers resp"
  by (auto simp: requireUser_def pathUUID_def optionalNetworkID_def Let_def split: option.splits if_splits)

lemma account_headers:
  "AuthHandler_register cfg env r s = Some (resp, s') \<Longrightarrow> plain_headers resp"
  "AuthHandler_login cfg env r s = Some (resp, s') \<Longrightarrow> plain_headers resp"
  "AuthHandler_refresh cfg env r s = Some (resp, s') \<Longrightarrow> plain_headers resp"
  "AuthHandler_logout cfg env r s = Some (resp, s') \<Longrightarrow> plain_headers resp"
  "AuthHandler_resetPassword cfg env r s = Some (resp, s') \<Longrightarrow> plain_headers resp"
  "AuthHandler_forgotPassword cfg env r s = Some (resp, s') \<Longrightarrow> plain_headers resp"
  by (auto simp: AuthHandler_register_def AuthHandler_login_def AuthHandler_refresh_def AuthHandler_logout_def
      AuthHandler_resetPassword_def AuthHandler_forgotPassword_def Let_def split: prod.splits if_splits elim!: respond_headers)

lemma oauth_headers:
  "AuthHandler_oauthRedirect cfg env r s = Some (resp, s') \<Longrightarrow> plain_headers resp"
  "AuthHandler_oauthCallback cfg env r s = Some (resp, s') \<Longrightarrow> plain_headers resp"
  "PairingHandler_claim cfg env r s = Some (resp, s') \<Longrightarrow> plain_headers resp"
proof -
  show "AuthHandler_oauthRedirect cfg env r s = Some (resp, s') \<Longrightarrow> plain_headers resp"
    by (auto simp: AuthHandler_oauthRedirect_def split: option.splits sum.splits if_splits) (simp add: plain_headers_def)
  show "AuthHandler_oauthCallback cfg env r s = Some (resp, s') \<Longrightarrow> plain_headers resp"
    by (auto simp: AuthHandler_oauthCallback_def Let_def split: prod.splits if_splits elim!: respond_headers)
  show "PairingHandler_claim cfg env r s = Some (resp, s') \<Longrightarrow> plain_headers resp"
    by (auto simp: PairingHandler_claim_def Let_def split: prod.splits if_splits sum.splits)
qed

lemma session_headers:
  "AuthHandler_enableMFA cfg env r s = Some (resp, s') \<Longrightarrow> plain_headers resp"
  "AuthHandler_verifyMFA cfg env r s = Some (resp, s') \<Longrightarrow> plain_headers resp"
  "PairingHandler_start cfg env r s = Some (resp, s') \<Longrightarrow> plain_headers resp"
  by (auto simp: AuthHandler_enableMFA_def AuthHandler_verifyMFA_def PairingHandler_start_def
      split: prod.splits if_splits option.splits elim!: respond_headers)

lemma network_headers:
  "NetworkHandler_list cfg env r s = Some (resp, s') \<Longrightarrow> plain_headers resp"
  "NetworkHandler_create cfg env r s = Some (resp, s') \<Longrightarrow> plain_headers resp"
  "NetworkHandler_join cfg env r s = Some (resp, s') \<Longrightarrow> plain_headers resp"
  "NetworkHandler_get cfg env r s = Some (resp, s') \<Longrightarrow> plain_headers resp"
  "NetworkHandler_update cfg env r s = Some (resp, s') \<Longrightarrow> plain_headers resp"
  "NetworkHandler_delete cfg env r s = Some (resp, s') \<Longrightarrow> plain_headers resp"
  "NetworkHandler_rotateInvite cfg env r s = Some (resp, s') \<Longrightarrow> plain_headers resp"
  "NetworkHandler_listMembers cfg env r s = Some (resp, s') \<Longrightarrow> plain_headers resp"
  by (auto simp: NetworkHandler_list_def NetworkHandler_create_def NetworkHandler_join_def NetworkHandler_get_def
      NetworkHandler_update_def NetworkHandler_delete_def NetworkHandler_rotateInvite_def NetworkHandler_listMembers_def
      context_headers split: prod.splits if_splits sum.splits elim!: respond_headers)

lemma member_headers:
  "NetworkHandler_updateMemberRole cfg env r s = Some (resp, s') \<Longrightarrow> plain_headers resp"
  "NetworkHandler_removeMember cfg env r s = Some (resp, s') \<Longrightarrow> plain_headers resp"
  "NetworkHandler_listDevices cfg env r s = Some (resp, s') \<Longrightarrow> plain_headers resp"
  "NetworkHandler_registerDevice cfg env r s = Some (resp, s') \<Longrightarrow> plain_headers resp"
  by (auto simp: NetworkHandler_updateMemberRole_def NetworkHandler_removeMember_def NetworkHandler_listDevices_def
      NetworkHandler_registerDevice_def context_headers split: prod.splits if_splits sum.splits option.splits
      elim!: respond_headers)

lemma device_headers:
  "DeviceHandler_get cfg env r s = Some (resp, s') \<Longrightarrow> plain_headers resp"
  "DeviceHandler_delete cfg env r s = Some (resp, s') \<Longrightarrow> plain_headers resp"
  "DeviceHandler_heartbeat cfg env r s = Some (resp, s') \<Longrightarrow> plain_headers resp"
  "DeviceHandler_listPeers cfg env r s = Some (resp, s') \<Longrightarrow> plain_headers resp"
  "LogsHandler_auditLogs cfg env r s = Some (resp, s') \<Longrightarrow> plain_headers resp"
  "LogsHandler_connectionLogs cfg env r s = Some (resp, s') \<Longrightarrow> plain_headers resp"
  "LogsHandler_dashboardStats cfg env r s = Some (resp, s') \<Longrightarrow> plain_headers resp"
  by (auto simp: DeviceHandler_get_def DeviceHandler_delete_def DeviceHandler_heartbeat_def DeviceHandler_listPeers_def
      LogsHandler_auditLogs_def LogsHandler_connectionLogs_def LogsHandler_dashboardStats_def Let_def context_headers
      split: prod.splits sum.splits elim!: respond_headers)

lemma relay_headers:
  "RelayHandler_register cfg env secret r s = Some (resp, s') \<Longrightarrow> plain_headers resp"
  "RelayHandler_heartbeat cfg env secret r s = Some (resp, s') \<Longrightarrow> plain_headers resp"
  by (auto simp: RelayHandler_register_def RelayHandler_heartbeat_def split: prod.splits if_splits option.splits
      elim!: respond_headers)

lemmas handler_headers =
  account_headers oauth_headers session_headers network_headers member_headers device_headers relay_headers

lemma protect_headers:
  assumes "protect cfg env h r s = Some (resp, s')" "\<And>r'. h r' s = Some (resp, s') \<Longrightarrow> plain_headers resp"
  shows "plain_headers resp"
proof (cases "token_user cfg (eNow (aSvc env)) r")
  case None
  with protect_rejects [OF this, of h s] assms(1) show ?thesis by auto
next
  case (Some u)
  with protect_accepts [OF this, of h s] assms show ?thesis by auto
qed

lemma serve_headers: "serve cfg env rt r s = Some (resp, s') \<Longrightarrow> plain_headers resp"
  by (cases rt) (auto elim!: protect_headers dest: handler_headers)

lemma mux_headers: "mux cfg env r s = Some (resp, s') \<Longrightarrow> plain_headers resp"
  by (auto simp: mux_def split: option.splits if_splits dest: serve_headers)

text \<open>The origins credentials are granted to: the entries of the configuration other than the wildcard.\<close>

definition listed_origin :: "http_cfg \<Rightarrow> string \<Rightarrow> bool" where
  "listed_origin cfg origin \<longleftrightarrow> origin \<in> set (hOrigins cfg) \<and> origin \<noteq> ''*'' \<and> origin \<noteq> []"

lemma NewRouter_headers:
  assumes "NewRouter cfg env r s = Some (resp, s')"
  shows "\<exists>hs. hpHeader resp = cors_headers (hOrigins cfg) (Get (hqHeader r) ''Origin'') @ hs \<and>
    fst ` set hs \<subseteq> {''Content-Type'', ''Location''}"
proof (cases "hqMethod r = ''OPTIONS''")
  case True
  with assms show ?thesis by (auto simp: NewRouter_cors CORS_def Let_def with_headers_def no_content_def)
next
  case False
  with assms obtain resp' where m: "mux cfg env r s = Some (resp', s')"
    and resp: "resp = with_headers (cors_headers (hOrigins cfg) (Get (hqHeader r) ''Origin'')) resp'"
    by (auto simp: NewRouter_cors CORS_def Let_def)
  from mux_headers [OF m] show ?thesis by (simp add: resp with_headers_def plain_headers_def)
qed


lemma other_header:
  "fst ` set hs \<subseteq> {''Content-Type'', ''Location''} \<Longrightarrow> k \<notin> {''Content-Type'', ''Location''} \<Longrightarrow> map_of hs k = None"
  by (subst map_of_eq_None_iff) blast

lemma cors_headers_cases:
  "listed_origin cfg origin \<Longrightarrow> \<exists>hs. cors_headers (hOrigins cfg) origin =
     (''Access-Control-Allow-Origin'', origin) # (''Vary'', ''Origin'') # (''Access-Control-Allow-Credentials'', ''true'') # hs"
  "\<not> listed_origin cfg origin \<Longrightarrow> origin \<noteq> [] \<Longrightarrow> ''*'' \<in> set (hOrigins cfg) \<Longrightarrow>
   cors_headers (hOrigins cfg) origin = cors_headers [''*''] ''x''"
  "\<not> listed_origin cfg origin \<Longrightarrow> origin = [] \<or> ''*'' \<notin> set (hOrigins cfg) \<Longrightarrow> cors_headers (hOrigins cfg) origin = []"
  by (auto simp: cors_headers_def Let_def listed_origin_def)

lemma wildcard_headers:
  "map_of (cors_headers [''*''] ''x'') ''Access-Control-Allow-Credentials'' = None"
  "map_of (cors_headers [''*''] ''x'') ''Access-Control-Allow-Origin'' = Some ''*''"
  by code_simp+

text \<open>
  C28. Credentials are granted to an explicitly listed origin and to no other: a response carries
  \<open>Access-Control-Allow-Credentials\<close> exactly when the request's origin is an entry of the configured list
  other than the wildcard, and the origin allowed is then that one. With the wildcard configured, any other
  origin gets the literal \<open>*\<close> and no credentials.
\<close>
theorem credentials_only_for_listed_origins:
  assumes "NewRouter cfg env r s = Some (resp, s')"
  defines "origin \<equiv> Get (hqHeader r) ''Origin''"
  shows "map_of (hpHeader resp) ''Access-Control-Allow-Credentials'' = (if listed_origin cfg origin then Some ''true'' else None)
    \<and> map_of (hpHeader resp) ''Access-Control-Allow-Origin'' =
        (if listed_origin cfg origin then Some origin
         else if origin \<noteq> [] \<and> ''*'' \<in> set (hOrigins cfg) then Some ''*'' else None)"
proof -
  obtain hs where hs: "hpHeader resp = cors_headers (hOrigins cfg) origin @ hs"
    and other: "fst ` set hs \<subseteq> {''Content-Type'', ''Location''}"
    using NewRouter_headers [OF assms(1)] by (auto simp: origin_def)
  have "map_of hs ''Access-Control-Allow-Credentials'' = None" "map_of hs ''Access-Control-Allow-Origin'' = None"
    using other_header [OF other] by simp_all
  then show ?thesis
    using cors_headers_cases [of cfg origin] by (auto simp: hs wildcard_headers map_add_def)
qed

section \<open>What a response discloses\<close>

text \<open>
  C29. Unless the server is configured to show reset tokens, the answer to a password-reset request says
  nothing about the accounts: for one request it is the same in any two states of the server, whether the
  address is registered, unknown or over its budget, and whatever the database or the random source did.
\<close>
theorem forgot_password_reveals_nothing:
  assumes "\<not> hExpose cfg"
  shows "map_option fst (AuthHandler_forgotPassword cfg env r s) = map_option fst (AuthHandler_forgotPassword cfg env' r s') \<and>
    AuthHandler_forgotPassword cfg env r s \<noteq> None"
  using assms by (simp add: AuthHandler_forgotPassword_def Let_def split: prod.split)

text \<open>An error the domain does not name is answered with a fixed envelope: nothing of its text reaches the caller.\<close>

lemma internal_errors_opaque: "writeDomainError (ErrOther a) = writeDomainError (ErrOther b)"
  by (simp add: writeDomainError_def)

text \<open>
  C38. The log listings do not look at the caller unless they are asked for one network: any user with an
  access token gets the newest rows of every network, audit and connection logs alike, also of networks the
  user is no member of. With a network given, the rows are those of that network and only its members get
  them.
\<close>
theorem unscoped_logs_readable_by_all:
  assumes "token_user cfg (eNow (aSvc env)) r = Some u"
    and "find_route (routes cfg) (hqMethod r) (hqPath r) = Some (R_auditLogs, vs)" "hqMethod r \<noteq> ''OPTIONS''"
  shows "(Get (hqQuery r) ''networkId'' = [] \<longrightarrow>
      (\<exists>resp. NewRouter cfg env r (pm, b) = Some (resp, pm, b) \<and> hpStatus resp = 200 \<and>
         hpBody resp = AuditLogsBody (toAuditLogDTOs (hString cfg)
           (page (auditLogs (db b)) (clampLimit (fst (pagination r))) (snd (pagination r)) (\<lambda>_. True)))))
    \<and> (\<forall>nid. Get (hqQuery r) ''networkId'' \<noteq> [] \<longrightarrow> hParse cfg (Get (hqQuery r) ''networkId'') = Some nid \<longrightarrow>
         map_of (members (db b)) (nid, u) = None \<longrightarrow>
      (\<exists>resp. NewRouter cfg env r (pm, b) = Some (resp, pm, b) \<and> hpStatus resp = 403))"
proof -
  from protect_accepts [of cfg env "r\<lparr>hqPathValue := vs\<rparr>" u "LogsHandler_auditLogs cfg env" "(pm, b)"] assms(1)
  obtain e where p: "protect cfg env (LogsHandler_auditLogs cfg env) (r\<lparr>hqPathValue := vs\<rparr>) (pm, b) =
      LogsHandler_auditLogs cfg env (WithUserID (r\<lparr>hqPathValue := vs\<rparr>) u e) (pm, b)" by auto
  define r' where "r' = WithUserID (r\<lparr>hqPathValue := vs\<rparr>) u e"
  have r': "requireUser r' = Inr u" "hqQuery r' = hqQuery r" "pagination r' = pagination r"
    by (simp_all add: r'_def) (simp_all add: WithUserID_def pagination_def)
  have m: "mux cfg env r (pm, b) = LogsHandler_auditLogs cfg env r' (pm, b)"
    by (simp add: mux_def assms(2) p r'_def)
  have NR: "NewRouter cfg env r (pm, b) = map_option (\<lambda>(resp, s'). (with_headers
      (cors_headers (hOrigins cfg) (Get (hqHeader r) ''Origin'')) resp, s')) (LogsHandler_auditLogs cfg env r' (pm, b))"
    using assms(3) by (simp add: NewRouter_cors CORS_def m)
  have off: "0 \<le> snd (pagination r)"
    by (auto simp: pagination_def Let_def split: option.split)
  note unfold = NR LogsHandler_auditLogs_def optionalNetworkID_def r' Let_def respond_with_def AuditLogs_def case_prod_beta
    auditLogRepo_List_def with_headers_def writeJSON_def
  show ?thesis
  proof (intro conjI impI allI)
    assume "Get (hqQuery r) ''networkId'' = []"
    with off show "\<exists>resp. NewRouter cfg env r (pm, b) = Some (resp, pm, b) \<and> hpStatus resp = 200 \<and>
      hpBody resp = AuditLogsBody (toAuditLogDTOs (hString cfg)
        (page (auditLogs (db b)) (clampLimit (fst (pagination r))) (snd (pagination r)) (\<lambda>_. True)))"
      by (simp add: unfold)
  next
    fix nid
    assume "Get (hqQuery r) ''networkId'' \<noteq> []" "hParse cfg (Get (hqQuery r) ''networkId'') = Some nid"
      "map_of (members (db b)) (nid, u) = None"
    then show "\<exists>resp. NewRouter cfg env r (pm, b) = Some (resp, pm, b) \<and> hpStatus resp = 403"
      by (simp add: unfold memberRepo_Get_def row_or_not_found_def writeDomainError_def)
  qed
qed


section \<open>Relay registration\<close>

lemma Upsert_row:
  "relayRepo_Upsert i now rs st = (rs', st') \<Longrightarrow>
   LastHeartbeatAt rs' = LastHeartbeatAt rs \<and> CurrentLoad rs' = CurrentLoad rs \<and> map_of (relays st') (rsID rs') = Some rs'"
  by (auto simp: relayRepo_Upsert_def Let_def touch_def get_put simp del: map_of_eq_Some_iff split: option.splits if_splits)

text \<open>
  A relay that registers again loses its heartbeat and its load: the row \<open>register\<close> leaves behind is not
  healthy at any time and counts no sessions, so the allocator does not pick the relay until it sends a
  heartbeat, whatever it had reported before.
\<close>
theorem reregistered_relay_not_picked:
  assumes "RelayHandler_register cfg env secret r (pm, b) = Some (resp, pm', b')" "hpStatus resp = 200"
  shows "\<exists>k row. map_of (relays (db b')) k = Some row \<and> hpBody resp = StringsBody [(''relayId'', hString cfg (rsID row))] \<and>
    CurrentLoad row = 0 \<and> LastHeartbeatAt row = None \<and>
    (\<forall>t region. relayRepo_PickLeastLoaded t region (db b') \<noteq> Inr row)"
proof -
  obtain failed req where dec: "decodeJSON relayRegisterRequest_fields (hqBody r) relayRegisterRequest_zero = (failed, req)"
    by (rule prod.exhaust)
  obtain relay st where up: "relayRepo_Upsert (eID1 (aSvc env)) (eNow (aSvc env)) (relay_row req) (db b) = (relay, st)"
    by (rule prod.exhaust)
  have err: "hpStatus (writeError n code msg) = n" for n code msg by (simp add: writeError_def writeJSON_def)
  from assms have ok: "RelayHandler_authorize secret r" "\<not> failed" "\<not> (rlHostname req = [] \<or> rlRelayPort req \<le> 0)"
    by (auto simp: RelayHandler_register_def dec err simp del: de_Morgan_disj split: if_split_asm)
  from assms(1) have b': "b' = b\<lparr>db := st\<rparr>" and body: "hpBody resp = StringsBody [(''relayId'', hString cfg (rsID relay))]"
    by (auto simp: RelayHandler_register_def dec up ok writeJSON_def simp del: de_Morgan_disj)
  have row: "LastHeartbeatAt relay = None" "CurrentLoad relay = 0" "map_of (relays st) (rsID relay) = Some relay"
    using Upsert_row [OF up] by (simp_all add: relay_row_def)
  have "relayRepo_PickLeastLoaded t region st \<noteq> Inr relay" for t region
    using pick_loop_none [where now = t and region = region and rss = "map snd (relays st)"] row(1)
    by (auto simp: relayRepo_PickLeastLoaded_def eligible_def isRelayHealthy_def split: option.splits)
  with row body show ?thesis by (intro exI [of _ "rsID relay"] exI [of _ relay]) (simp add: b')
qed

section \<open>Examples\<close>

definition ex_http_cfg :: http_cfg where
  "ex_http_cfg =
     \<lparr>hAuth = ex_auth_cfg,
      hAccess = (\<lambda>_ _ _ raw. if raw = ''good''
                   then Some (access_claims_for (\<lambda>_. ''u'') (cTokens ex_auth_cfg) 0 ''j'' (ex_id 1) ''a@b'', True) else None),
      hParse = (\<lambda>x. if x = ''u'' then Some (ex_id 1) else if x = ''n'' then Some (ex_id 20) else None),
      hPairSign = (\<lambda>_ _ _. []), hPairParse = (\<lambda>_ _ _. None), hPairing = True, hExpose = False,
      hRelaySecret = Some ''s'', hOrigins = [''https://admin'', ''*''], hWindow = 0\<rparr>"

text \<open>The mux prefers the more specific of several matching patterns. No request matches two patterns of the
  table under one method, so that taking the first is the same.\<close>

fun overlap :: "segment list \<Rightarrow> segment list \<Rightarrow> bool" where
  "overlap [] [] = True"
| "overlap (Lit a # ps) (Lit b # qs) = (a = b \<and> overlap ps qs)"
| "overlap (_ # ps) (_ # qs) = overlap ps qs"
| "overlap _ _ = False"

lemma match_path_iffs:
  "match_path [] x \<noteq> None \<longleftrightarrow> x = []"
  "match_path (Lit l # ps) x \<noteq> None \<longleftrightarrow> (\<exists>xs. x = l # xs \<and> match_path ps xs \<noteq> None)"
  "match_path (Wild w # ps) x \<noteq> None \<longleftrightarrow> (\<exists>y ys. x = y # ys \<and> y \<noteq> [] \<and> match_path ps ys \<noteq> None)"
  by (cases x; simp)+

lemma match_path_step:
  "match_path (a # ps) x \<noteq> None \<Longrightarrow> \<exists>y ys. x = y # ys \<and> (\<forall>l. a = Lit l \<longrightarrow> y = l) \<and> match_path ps ys \<noteq> None"
  by (cases a) (auto simp only: match_path_iffs segment.inject segment.distinct)

lemma match_overlap: "match_path p x \<noteq> None \<Longrightarrow> match_path q x \<noteq> None \<Longrightarrow> overlap p q"
proof (induction p arbitrary: x q)
  case Nil
  then have "x = []" using match_path_iffs(1) by blast
  with Nil(2) show ?case using match_path_step [of "hd q" "tl q" x] by (cases q) auto
next
  case (Cons a ps)
  obtain y ys where y: "x = y # ys" "\<forall>l. a = Lit l \<longrightarrow> y = l" "match_path ps ys \<noteq> None"
    using match_path_step [OF Cons.prems(1)] by blast
  from Cons.prems(2) y(1) match_path_iffs(1) [of x] obtain b qs where q: "q = b # qs" by (cases q) auto
  obtain z zs where z: "x = z # zs" "\<forall>l. b = Lit l \<longrightarrow> z = l" "match_path qs zs \<noteq> None"
    using match_path_step [OF Cons.prems(2) [unfolded q]] by blast
  with y have "overlap ps qs" using Cons.IH by simp
  with y z show ?case by (cases a; cases b) (simp_all add: q)
qed

definition unambiguous :: "route_row list \<Rightarrow> bool" where
  "unambiguous rs \<longleftrightarrow>
     list_all (\<lambda>(m, p, rt). list_all (\<lambda>(m', p', rt'). m = m' \<longrightarrow> overlap p p' \<longrightarrow> rt = rt') rs) rs"

lemma ex_routes_all: "set (routes cfg) \<subseteq> set (routes ex_http_cfg)"
  by (auto simp: routes_def ex_http_cfg_def)

lemma routes_unambiguous:
  assumes "(m, p, rt) \<in> set (routes cfg)" "(m, p', rt') \<in> set (routes cfg)"
    and "match_path p x \<noteq> None" "match_path p' x \<noteq> None"
  shows "rt = rt'"
proof -
  have "unambiguous (routes ex_http_cfg)" by code_simp
  then have "\<forall>a \<in> set (routes ex_http_cfg). \<forall>b \<in> set (routes ex_http_cfg).
      fst a = fst b \<longrightarrow> overlap (fst (snd a)) (fst (snd b)) \<longrightarrow> snd (snd a) = snd (snd b)"
    by (simp add: unambiguous_def list_all_iff split_def)
  from this [rule_format, OF subsetD [OF ex_routes_all assms(1)] subsetD [OF ex_routes_all assms(2)]]
  show ?thesis using match_overlap [OF assms(3,4)] by simp
qed

definition ex_http_env :: "byte \<Rightarrow> auth_env" where
  "ex_http_env k = (ex_auth_env 1)\<lparr>aSvc := ex_svc_env k\<rparr>"

definition ex_request :: "string \<Rightarrow> string list \<Rightarrow> string \<Rightarrow> (int \<times> json) option \<Rightarrow> http_request" where
  "ex_request method segs token body =
     \<lparr>hqMethod = method, hqPath = segs, hqHeader = [(''Authorization'', ''Bearer '' @ token), (''Origin'', ''https://evil'')],
      hqQuery = [], hqCookie = [], hqBody = body, hqContentLength = 0, hqRemoteAddr = ''1.2.3.4:5'', hqTLS = False,
      hqPathValue = [], hqUser = None\<rparr>"

definition ex_create_request :: http_request where
  "ex_create_request = ex_request ''POST'' [''api'', ''v1'', ''networks''] ''good''
     (Some (40, JObject [(''name'', JString ''home''), (''cidr'', JString ''10.0.0.0/24'')]))"

definition ex_device_request :: http_request where
  "ex_device_request = ex_request ''POST'' [''api'', ''v1'', ''networks'', ''n'', ''devices''] ''good''
     (Some (40, JObject [(''name'', JString ''laptop''), (''PublicKey'', JString ''k1'')]))"

definition ex_pm :: pairing_manager where
  "ex_pm = NewPairingManager ''p'' (5 * Minute)"

definition ex_h1 :: hstate where
  "ex_h1 = snd (the (NewRouter ex_http_cfg (ex_http_env 20) ex_create_request (ex_pm, start_backend [])))"

definition ex_h2 :: hstate where
  "ex_h2 = snd (the (NewRouter ex_http_cfg (ex_http_env 40) ex_device_request ex_h1))"

lemma ex_h1_step: "NewRouter ex_http_cfg (ex_http_env 20) ex_create_request (ex_pm, start_backend []) \<noteq> None"
  by code_simp

lemma ex_h2_step: "NewRouter ex_http_cfg (ex_http_env 40) ex_device_request ex_h1 \<noteq> None"
  by code_simp


lemma ex_h2_reachable: "server_reachable ex_http_cfg ex_params ex_h2"
proof -
  obtain resp1 where 1: "NewRouter ex_http_cfg (ex_http_env 20) ex_create_request (ex_pm, start_backend []) = Some (resp1, ex_h1)"
    using ex_h1_step by (auto simp: ex_h1_def)
  obtain resp2 where 2: "NewRouter ex_http_cfg (ex_http_env 40) ex_device_request ex_h1 = Some (resp2, ex_h2)"
    using ex_h2_step by (auto simp: ex_h2_def)
  have "fresh_env (aSvc (ex_http_env 20)) (db (snd (ex_pm, start_backend [])))" by code_simp
  from server_reachable.request [OF server_reachable.start this 1] have r1: "server_reachable ex_http_cfg ex_params ex_h1" .
  have "fresh_env (aSvc (ex_http_env 40)) (db (snd ex_h1))" by code_simp
  from server_reachable.request [OF r1 this 2] show ?thesis .
qed



definition ex_delete_request :: http_request where
  "ex_delete_request = ex_request ''DELETE'' [''api'', ''v1'', ''networks'', ''n''] ''bad'' None"

theorem no_token_no_access_witness:
  "map_option snd (NewRouter ex_http_cfg (ex_http_env 60) ex_delete_request ex_h2) = Some ex_h2"
proof -
  have none: "token_user ex_http_cfg (eNow (aSvc (ex_http_env 60))) ex_delete_request = None" by code_simp
  have "\<not> public_request ex_http_cfg ex_delete_request" by code_simp
  from no_token_no_access [where s = ex_h2, OF none this]
  obtain resp where "NewRouter ex_http_cfg (ex_http_env 60) ex_delete_request ex_h2 = Some (resp, ex_h2)" by blast
  then show ?thesis by simp
qed

theorem request_acts_as_token_user_witness:
  "request_effect ex_http_cfg (ex_http_env 40) (Some (ex_id 1)) False ex_h1 ex_h2 \<and> ex_h1 \<noteq> ex_h2"
proof -
  obtain resp2 where 2: "NewRouter ex_http_cfg (ex_http_env 40) ex_device_request ex_h1 = Some (resp2, ex_h2)"
    using ex_h2_step by (auto simp: ex_h2_def)
  have u: "token_user ex_http_cfg (eNow (aSvc (ex_http_env 40))) ex_device_request = Some (ex_id 1)"
    "RelayHandler_authorize (relay_secret ex_http_cfg) ex_device_request = False" by code_simp+
  have "length (devices (db (snd ex_h1))) = 0" "length (devices (db (snd ex_h2))) = 1" by code_simp+
  then have "ex_h1 \<noteq> ex_h2" by auto
  with request_acts_as_token_user [OF 2] u show ?thesis by simp
qed

theorem credentials_only_for_listed_origins_witness:
  "\<exists>resp. NewRouter ex_http_cfg (ex_http_env 40) ex_device_request ex_h1 = Some (resp, ex_h2) \<and>
     map_of (hpHeader resp) ''Access-Control-Allow-Credentials'' = None \<and>
     map_of (hpHeader resp) ''Access-Control-Allow-Origin'' = Some ''*''"
proof -
  obtain resp2 where 2: "NewRouter ex_http_cfg (ex_http_env 40) ex_device_request ex_h1 = Some (resp2, ex_h2)"
    using ex_h2_step by (auto simp: ex_h2_def)
  have "Get (hqHeader ex_device_request) ''Origin'' = ''https://evil''" "\<not> listed_origin ex_http_cfg ''https://evil''"
    "''*'' \<in> set (hOrigins ex_http_cfg)" by code_simp+
  with credentials_only_for_listed_origins [OF 2] 2 show ?thesis by auto
qed

definition ex_forgot_request :: http_request where
  "ex_forgot_request = ex_request ''POST'' [] [] (Some (20, JObject [(''email'', JString '' A@b '')]))"

theorem forgot_password_reveals_nothing_witness:
  "map_option fst (AuthHandler_forgotPassword ex_http_cfg (ex_auth_env 70) ex_forgot_request (ex_pm, ex_auth_backend)) =
   map_option fst (AuthHandler_forgotPassword ex_http_cfg (ex_auth_env 70) ex_forgot_request (ex_pm, start_backend [])) \<and>
   length (resets (db (snd (snd (the (AuthHandler_forgotPassword ex_http_cfg (ex_auth_env 70) ex_forgot_request
     (ex_pm, ex_auth_backend))))))) = 2"
proof -
  have e: "\<not> hExpose ex_http_cfg" by code_simp
  have "length (resets (db (snd (snd (the (AuthHandler_forgotPassword ex_http_cfg (ex_auth_env 70) ex_forgot_request
     (ex_pm, ex_auth_backend))))))) = 2" by code_simp
  with forgot_password_reveals_nothing [OF e] show ?thesis by blast
qed

definition ex_log_backend :: backend where
  "ex_log_backend = (start_backend [])\<lparr>db := (empty_store [])\<lparr>
     auditLogs := [\<lparr>alID = ex_id 7, ActorUserID = Some (ex_id 2), alNetworkID = Some (ex_id 20), Action = AuditNetworkCreate,
       TargetType = None, TargetID = None, alIPAddress = None, alMetadata = [], alCreatedAt = 5\<rparr>]\<rparr>\<rparr>"

definition ex_logs_request :: http_request where
  "ex_logs_request = ex_request ''GET'' [''api'', ''v1'', ''logs'', ''audit''] ''good'' None"

theorem unscoped_logs_readable_by_all_witness:
  "map_of (members (db ex_log_backend)) (ex_id 20, ex_id 1) = None \<and>
   (\<exists>resp ls. NewRouter ex_http_cfg (ex_http_env 40) ex_logs_request (ex_pm, ex_log_backend) = Some (resp, ex_pm, ex_log_backend) \<and>
      hpBody resp = AuditLogsBody ls \<and> length ls = 1)"
proof -
  have u: "token_user ex_http_cfg (eNow (aSvc (ex_http_env 40))) ex_logs_request = Some (ex_id 1)" by code_simp
  have rt: "find_route (routes ex_http_cfg) (hqMethod ex_logs_request) (hqPath ex_logs_request) = Some (R_auditLogs, [])"
    "hqMethod ex_logs_request \<noteq> ''OPTIONS''" by code_simp+
  have q: "Get (hqQuery ex_logs_request) ''networkId'' = []" by code_simp
  have "length (toAuditLogDTOs (hString ex_http_cfg) (page (auditLogs (db ex_log_backend))
      (clampLimit (fst (pagination ex_logs_request))) (snd (pagination ex_logs_request)) (\<lambda>_. True))) = 1" by code_simp
  moreover have "map_of (members (db ex_log_backend)) (ex_id 20, ex_id 1) = None" by code_simp
  ultimately show ?thesis using unscoped_logs_readable_by_all [where pm = ex_pm and b = ex_log_backend, OF u rt] q by blast
qed

definition ex_fleet_backend :: backend where
  "ex_fleet_backend = (start_backend [])\<lparr>db := (empty_store [])\<lparr>relays := [(ex_id 3, (ex_relay 3 ''eu'' 2)\<lparr>RelayPort := 1\<rparr>)]\<rparr>\<rparr>"

definition ex_relay_request :: http_request where
  "ex_relay_request = ex_request ''POST'' [''internal'', ''relay'', ''register''] ''s''
     (Some (60, JObject [(''hostname'', JString ''h''), (''relayPort'', JNumber ''1'')]))"

theorem reregistered_relay_not_picked_witness:
  "relayRepo_PickLeastLoaded 1001 ''eu'' (db ex_fleet_backend) = Inr ((ex_relay 3 ''eu'' 2)\<lparr>RelayPort := 1\<rparr>) \<and>
   (\<exists>resp b' k row. RelayHandler_register ex_http_cfg (ex_http_env 40) ''s'' ex_relay_request (ex_pm, ex_fleet_backend) =
        Some (resp, ex_pm, b') \<and> map_of (relays (db b')) k = Some row \<and> length (relays (db b')) = 1 \<and>
        relayRepo_PickLeastLoaded 1001 ''eu'' (db b') \<noteq> Inr row)"
proof -
  define x where "x = the (RelayHandler_register ex_http_cfg (ex_http_env 40) ''s'' ex_relay_request (ex_pm, ex_fleet_backend))"
  have "RelayHandler_register ex_http_cfg (ex_http_env 40) ''s'' ex_relay_request (ex_pm, ex_fleet_backend) \<noteq> None" by code_simp
  then have r: "RelayHandler_register ex_http_cfg (ex_http_env 40) ''s'' ex_relay_request (ex_pm, ex_fleet_backend) =
      Some (fst x, fst (snd x), snd (snd x))" by (auto simp: x_def)
  have v: "hpStatus (fst x) = 200" "fst (snd x) = ex_pm" "length (relays (db (snd (snd x)))) = 1"
    unfolding x_def by code_simp+
  have p: "relayRepo_PickLeastLoaded 1001 ''eu'' (db ex_fleet_backend) = Inr ((ex_relay 3 ''eu'' 2)\<lparr>RelayPort := 1\<rparr>)"
    by (simp add: relayRepo_PickLeastLoaded_def ex_fleet_backend_def ex_relay_def isRelayHealthy_def
        relayStaleAfter_def time_Sub_def)
  from reregistered_relay_not_picked [OF r v(1)] r v p show ?thesis by auto
qed

end
