(* ===== verification/Client_Host.thy ===== *)
theory Client_Host
  imports Go_Net Go_Strings
begin

text \<open>
  What a client changes on its host in exit-node mode: the routes of
  \<open>client/internal/netroute/netroute.go\<close> and \<open>netroute_linux.go\<close>, the firewall table of
  \<open>client/internal/killswitch/killswitch.go\<close> and \<open>killswitch_linux.go\<close>, and the peer configurations it
  hands to WireGuard (\<open>client/internal/wireguard/wireguard.go\<close>).

  The programs behind these calls (\<open>ip\<close>, \<open>nft\<close>, wireguard-go) are not modelled: a \<open>world\<close> is a function \<open>outcome\<close>
  that says whether the next command fails, and with which output, and the log of the commands issued
  so far with their outcome. A Go \<open>error\<close> is a \<open>string option\<close>.
\<close>

section \<open>Commands\<close>

type_synonym go_error = "string option"

record peer_config =
  pcPublicKey :: string
  pcEndpoint :: "udp_addr option"
  pcAllowedIPs :: "ip_net list"
  pcKeepalive :: int

datatype host_cmd =
    IpRoute "string list"
  | NftLoad string
  | NftDelete
  | DevUpsert peer_config
  | DevRemove string

record world =
  outcome :: "nat \<Rightarrow> host_cmd \<Rightarrow> string option"
  wlog :: "(host_cmd \<times> bool) list"

definition exec :: "host_cmd \<Rightarrow> world \<Rightarrow> go_error \<times> world" where
  "exec c w =
     (let r = outcome w (length (wlog w)) c in (r, w\<lparr>wlog := wlog w @ [(c, r = None)]\<rparr>))"

fun join_words :: "string list \<Rightarrow> string" where
  "join_words [] = []"
| "join_words [w] = w"
| "join_words (w # ws) = w @ '' '' @ join_words ws"

section \<open>Routes\<close>

record default_route =
  Gateway :: "bytes option"
  dfInterface :: string

definition ErrNoDefaultRoute :: string where
  "ErrNoDefaultRoute = ''netroute: host has no default route''"

definition splitDefault :: "string list" where
  "splitDefault = [''0.0.0.0/1'', ''128.0.0.0/1'']"

definition splitDefaultV6 :: "string list" where
  "splitDefaultV6 = [''::/1'', ''8000::/1'']"

definition hostPrefix :: "bytes \<Rightarrow> string" where
  "hostPrefix ip = (if IP_To4 ip \<noteq> None then IP_String ip @ ''/32'' else IP_String ip @ ''/128'')"

definition run_ip :: "string list \<Rightarrow> world \<Rightarrow> go_error \<times> world" where
  "run_ip args w =
     (case exec (IpRoute args) w of
        (None, w) \<Rightarrow> (None, w)
      | (Some out, w) \<Rightarrow> (Some (''netroute: ip '' @ join_words args @ '': '' @ TrimSpace out), w))"

definition isNoSuchProcess :: "string \<Rightarrow> bool" where
  "isNoSuchProcess s \<longleftrightarrow>
     str_contains s ''No such process'' \<or> str_contains s ''Cannot find device'' \<or> str_contains s ''not found''"

text \<open>\<open>strings.Fields\<close>.\<close>

definition Fields :: "string \<Rightarrow> string list" where
  "Fields s = filter (\<lambda>w. w \<noteq> []) (split_on CHR '' '' (map (\<lambda>c. if is_space c then CHR '' '' else c) s))"

fun scan_fields :: "string list \<Rightarrow> default_route \<Rightarrow> default_route" where
  "scan_fields (k # v # r) d =
     (if k = ''via'' then scan_fields (v # r) (d\<lparr>Gateway := ParseIP v\<rparr>)
      else if k = ''dev'' then scan_fields (v # r) (d\<lparr>dfInterface := v\<rparr>)
      else scan_fields (v # r) d)"
| "scan_fields _ d = d"

fun parse_default_lines :: "string list \<Rightarrow> string + default_route" where
  "parse_default_lines [] = Inl ErrNoDefaultRoute"
| "parse_default_lines (l # ls) =
     (let fields = Fields l in
      if length fields < 5 \<or> hd fields \<noteq> ''default'' then parse_default_lines ls
      else let d = scan_fields fields \<lparr>Gateway = None, dfInterface = []\<rparr>
           in if Gateway d \<noteq> None \<and> dfInterface d \<noteq> [] then Inr d else parse_default_lines ls)"

definition parseLinuxDefault :: "string \<Rightarrow> string + default_route" where
  "parseLinuxDefault out = parse_default_lines (split_on (CHR 0x0A) out)"

text \<open>\<open>Snapshot\<close> on the output of \<open>ip -4 route show default\<close>, which is \<open>None\<close> when the command fails.\<close>

definition Snapshot :: "string option \<Rightarrow> string + default_route" where
  "Snapshot out = (case out of None \<Rightarrow> Inl ''netroute: read default route'' | Some s \<Rightarrow> parseLinuxDefault s)"

definition PinEndpoint :: "bytes \<Rightarrow> default_route \<Rightarrow> world \<Rightarrow> go_error \<times> world" where
  "PinEndpoint ip via w =
     (case Gateway via of
        None \<Rightarrow> (Some ErrNoDefaultRoute, w)
      | Some gw \<Rightarrow>
          if dfInterface via = [] then (Some ErrNoDefaultRoute, w)
          else run_ip [''route'', ''replace'', hostPrefix ip, ''via'', IP_String gw, ''dev'', dfInterface via] w)"

definition UnpinEndpoint :: "bytes \<Rightarrow> world \<Rightarrow> go_error \<times> world" where
  "UnpinEndpoint ip w =
     (case run_ip [''route'', ''del'', hostPrefix ip] w of
        (None, w) \<Rightarrow> (None, w)
      | (Some e, w) \<Rightarrow> if \<not> isNoSuchProcess e then (Some e, w) else (None, w))"

definition route_family :: "string \<Rightarrow> string" where
  "route_family prefix = (if str_contains prefix '':'' then ''-6'' else ''-4'')"

fun capture_loop :: "string \<Rightarrow> string list \<Rightarrow> world \<Rightarrow> go_error \<times> world" where
  "capture_loop iface [] w = (None, w)"
| "capture_loop iface (prefix # ps) w =
     (case run_ip [route_family prefix, ''route'', ''replace'', prefix, ''dev'', iface] w of
        (None, w) \<Rightarrow> capture_loop iface ps w
      | (Some e, w) \<Rightarrow> if route_family prefix = ''-6'' then capture_loop iface ps w else (Some e, w))"

definition CaptureDefault :: "string \<Rightarrow> world \<Rightarrow> go_error \<times> world" where
  "CaptureDefault iface w = capture_loop iface (splitDefault @ splitDefaultV6) w"

fun release_loop :: "string \<Rightarrow> string list \<Rightarrow> go_error \<Rightarrow> world \<Rightarrow> go_error \<times> world" where
  "release_loop iface [] firstErr w = (firstErr, w)"
| "release_loop iface (prefix # ps) firstErr w =
     (case run_ip [route_family prefix, ''route'', ''del'', prefix, ''dev'', iface] w of
        (None, w) \<Rightarrow> release_loop iface ps firstErr w
      | (Some e, w) \<Rightarrow>
          if isNoSuchProcess e \<or> route_family prefix = ''-6'' then release_loop iface ps firstErr w
          else release_loop iface ps (if firstErr = None then Some e else firstErr) w)"

definition ReleaseDefault :: "string \<Rightarrow> world \<Rightarrow> go_error \<times> world" where
  "ReleaseDefault iface w = release_loop iface (splitDefault @ splitDefaultV6) None w"

section \<open>The kill switch\<close>

text \<open>A \<open>netip.AddrPort\<close> is its address bytes and port, a \<open>netip.Prefix\<close> its address bytes and length;
  they are valid when the address has 4 or 16 bytes.\<close>

record policy =
  plInterface :: string
  plEndpoints :: "(bytes \<times> nat) list"
  plLocalNetworks :: "(bytes \<times> nat) list"
  AllowLAN :: bool

definition tableName :: string where
  "tableName = ''nexusvpn_killswitch''"

definition Unmap :: "bytes \<Rightarrow> bytes" where
  "Unmap ip = (case IP_To4 ip of Some v4 \<Rightarrow> v4 | None \<Rightarrow> ip)"

definition addr_valid :: "bytes \<Rightarrow> bool" where
  "addr_valid ip \<longleftrightarrow> length ip = 4 \<or> length ip = 16"

definition prefix_valid :: "bytes \<times> nat \<Rightarrow> bool" where
  "prefix_valid n \<longleftrightarrow> addr_valid (fst n) \<and> snd n \<le> 8 * length (fst n)"

definition prefix_string :: "bytes \<times> nat \<Rightarrow> string" where
  "prefix_string n = IP_String (fst n) @ ''/'' @ itoa (snd n)"

definition quoted :: "string \<Rightarrow> string" where
  "quoted s = [CHR 0x22] @ s @ [CHR 0x22]"

text \<open>A rule of the chain is a match and a verdict. \<open>MDaddr\<close> with no length is a single address.\<close>

datatype nft_match =
    MEstablished
  | MOif string
  | MUdpPorts "nat list"
  | MDaddrUdp bytes nat
  | MDaddr bytes "nat option"
  | MTcpUdp

datatype nft_verdict = Accept | Reject | Drop

type_synonym nft_rule = "nft_match \<times> nft_verdict"

definition family_word :: "bytes \<Rightarrow> string" where
  "family_word ip = (if length ip = 4 then ''ip daddr '' else ''ip6 daddr '')"

fun comma_list :: "nat list \<Rightarrow> string" where
  "comma_list [] = []"
| "comma_list [n] = itoa n"
| "comma_list (n # ns) = itoa n @ '', '' @ comma_list ns"

fun match_text :: "nft_match \<Rightarrow> string" where
  "match_text MEstablished = ''ct state established,related''"
| "match_text (MOif name) = ''oifname '' @ quoted name"
| "match_text (MUdpPorts [n]) = ''udp dport '' @ itoa n"
| "match_text (MUdpPorts ns) = ''udp dport { '' @ comma_list ns @ '' }''"
| "match_text (MDaddrUdp ip port) = family_word ip @ IP_String ip @ '' udp dport '' @ itoa port"
| "match_text (MDaddr ip None) = family_word ip @ IP_String ip"
| "match_text (MDaddr ip (Some n)) = family_word ip @ prefix_string (ip, n)"
| "match_text MTcpUdp = ''meta l4proto { tcp, udp }''"

fun verdict_text :: "nft_verdict \<Rightarrow> string" where
  "verdict_text Accept = ''accept''"
| "verdict_text Reject = ''reject''"
| "verdict_text Drop = ''drop''"

definition rule_text :: "nft_rule \<Rightarrow> string" where
  "rule_text r = match_text (fst r) @ '' '' @ verdict_text (snd r)"

definition endpoint_rule :: "bytes \<times> nat \<Rightarrow> nft_rule" where
  "endpoint_rule ep = (MDaddrUdp (Unmap (fst ep)) (snd ep), Accept)"

definition lan_rule :: "bytes \<times> nat \<Rightarrow> nft_rule" where
  "lan_rule n = (MDaddr (fst n) (Some (snd n)), Accept)"

text \<open>The rules of the chain: those for IPv4 endpoints come before those for IPv6, whose address is not a
  mapped one, so that \<open>Unmap\<close> is the identity on it.\<close>

definition chain_rules :: "policy \<Rightarrow> nft_rule list" where
  "chain_rules p =
     [(MEstablished, Accept), (MOif ''lo'', Accept), (MOif (plInterface p), Accept),
      (MUdpPorts [67, 68], Accept), (MUdpPorts [546], Accept)] @
     (let eps = filter (\<lambda>ep. addr_valid (fst ep)) (plEndpoints p)
      in map endpoint_rule (filter (\<lambda>ep. length (Unmap (fst ep)) = 4) eps) @
         map endpoint_rule (filter (\<lambda>ep. length (Unmap (fst ep)) \<noteq> 4) eps)) @
     (if AllowLAN p then
        map lan_rule (filter prefix_valid (plLocalNetworks p)) @
        [(MDaddr [224, 0, 0, 0] (Some 4), Accept), (MDaddr [255, 255, 255, 255] None, Accept),
         (MDaddr (255 # replicate 15 0) (Some 8), Accept)]
      else []) @
     [(MTcpUdp, Reject)]"

definition newline :: string where
  "newline = [CHR 0x0A]"

definition buildChains :: "policy \<Rightarrow> string" where
  "buildChains p =
     ''  chain output {'' @ newline @ ''    type filter hook output priority filter; policy drop;'' @ newline @
     concat (map (\<lambda>r. ''    '' @ rule_text r @ newline) (chain_rules p)) @ ''  }'' @ newline"

definition Engage :: "bool \<Rightarrow> policy \<Rightarrow> world \<Rightarrow> go_error \<times> world" where
  "Engage nftFound p w =
     (if plInterface p = [] then (Some ''killswitch: no tunnel interface to permit'', w)
      else if \<not> nftFound then (Some ''killswitch: nftables is required but `nft` was not found'', w)
      else let ruleset = ''table inet '' @ tableName @ '' {'' @ newline @ buildChains p @ ''}'' @ newline
           in case exec (NftLoad (''delete table inet '' @ tableName @ newline @ ruleset)) w of
                (None, w) \<Rightarrow> (None, w)
              | (Some out, w) \<Rightarrow>
                  (case exec (NftLoad ruleset) w of
                     (None, w) \<Rightarrow> (None, w)
                   | (Some out2, w) \<Rightarrow>
                       (Some (''killswitch: load ruleset: '' @ TrimSpace out2 @ '' (after: '' @ TrimSpace out @ '')''), w)))"

definition Release :: "bool \<Rightarrow> world \<Rightarrow> go_error \<times> world" where
  "Release nftFound w =
     (if \<not> nftFound then (None, w)
      else case exec NftDelete w of
        (None, w) \<Rightarrow> (None, w)
      | (Some out, w) \<Rightarrow>
          if str_contains out ''No such file or directory'' \<or> str_contains out ''does not exist'' then (None, w)
          else (Some (''killswitch: delete table: '' @ TrimSpace out), w))"

text \<open>\<open>Engaged\<close> on the output of \<open>nft list tables inet\<close>, which is \<open>None\<close> when the command fails.\<close>

definition Engaged :: "bool \<Rightarrow> string option \<Rightarrow> string + bool" where
  "Engaged nftFound out =
     (if \<not> nftFound then Inr False
      else case out of None \<Rightarrow> Inl ''killswitch: list tables'' | Some o1 \<Rightarrow> Inr (str_contains o1 tableName))"

text \<open>\<open>netip.ParseAddrPort\<close>: an address, in brackets when it is an IPv6 one, a colon and a 16-bit port.\<close>

definition ParseAddrPort :: "string \<Rightarrow> (bytes \<times> nat) option" where
  "ParseAddrPort s =
     (let ip = rev (tl (dropWhile (\<lambda>c. c \<noteq> CHR '':'') (rev s)));
          port = rev (takeWhile (\<lambda>c. c \<noteq> CHR '':'') (rev s));
          bracketed = (ip \<noteq> [] \<and> hd ip = CHR ''['')
      in if CHR '':'' \<notin> set s \<or> ip = [] \<or> bracketed \<and> (length ip < 2 \<or> last ip \<noteq> CHR '']'') then None
         else case dtoi port of
           None \<Rightarrow> None
         | Some n \<Rightarrow>
             if n > 65535 then None
             else (case ParseAddr (if bracketed then butlast (tl ip) else ip) of
                     None \<Rightarrow> None
                   | Some (a, zone) \<Rightarrow> if bracketed \<longleftrightarrow> length a = 16 then Some (a, n) else None))"

definition parseEndpoint :: "string \<Rightarrow> (bytes \<times> nat) option" where
  "parseEndpoint s = ParseAddrPort s"

definition ParseEndpoints :: "string list \<Rightarrow> (bytes \<times> nat) list" where
  "ParseEndpoints addrs = List.map_filter parseEndpoint addrs"

record host_iface =
  ifName :: string
  ifUp :: bool
  ifAddrs :: "(bytes \<times> nat) list option"

definition masked :: "bytes \<times> nat \<Rightarrow> bytes \<times> nat" where
  "masked n = (mask_ip (fst n) (CIDRMask (snd n) (length (fst n))), snd n)"

text \<open>\<open>DefaultLocalNetworks\<close> over the interfaces of the host: an interface whose addresses cannot be
  read has none, and of an address its bytes and the length of its mask are given.\<close>

definition DefaultLocalNetworks :: "string \<Rightarrow> host_iface list \<Rightarrow> (bytes \<times> nat) list" where
  "DefaultLocalNetworks exclude ifaces =
     concat (map (\<lambda>i.
       if ifName i = exclude \<or> \<not> ifUp i then []
       else case ifAddrs i of
         None \<Rightarrow> []
       | Some addrs \<Rightarrow>
           filter prefix_valid (map (\<lambda>(ip, ones). if ones \<le> 8 * length (Unmap ip) then masked (Unmap ip, ones) else (Unmap ip, ones))
             (filter (\<lambda>(ip, ones). addr_valid ip) addrs))) ifaces)"

section \<open>WireGuard peers\<close>

definition ParseAllowedIP :: "string \<Rightarrow> string + ip_net" where
  "ParseAllowedIP s =
     (if CHR ''/'' \<notin> set s then
        (case ParseAddr s of
           None \<Rightarrow> Inl ''parse address''
         | Some (a, zone) \<Rightarrow>
             (case ParseCIDR (s @ ''/'' @ itoa (if length a = 16 then 128 else 32)) of
                None \<Rightarrow> Inl ''parse CIDR'' | Some n \<Rightarrow> Inr n))
      else case ParseCIDR s of None \<Rightarrow> Inl ''parse CIDR'' | Some n \<Rightarrow> Inr n)"

definition UpsertPeer :: "peer_config \<Rightarrow> world \<Rightarrow> go_error \<times> world" where
  "UpsertPeer cfg w = exec (DevUpsert cfg) w"

definition UpdateEndpoint :: "string \<Rightarrow> udp_addr \<Rightarrow> world \<Rightarrow> go_error \<times> world" where
  "UpdateEndpoint key ep w =
     UpsertPeer \<lparr>pcPublicKey = key, pcEndpoint = Some ep, pcAllowedIPs = [], pcKeepalive = 0\<rparr> w"

definition RemovePeer :: "string \<Rightarrow> world \<Rightarrow> go_error \<times> world" where
  "RemovePeer key w = exec (DevRemove key) w"

end
