(* ===== verification/Client_Disco.thy ===== *)
theory Client_Disco
  imports Prelude
begin

text \<open>
  Peer discovery on WireGuard's socket, \<open>client/internal/disco\<close>: the ping and pong packets
  (\<open>disco.go\<close>), the bind that takes them out of the batches WireGuard receives, and the prober that
  answers pings and measures round trips (\<open>bind.go\<close>). The socket below the bind is wireguard-go's; a
  receive is the count and the slices it returned.
\<close>

section \<open>Disco packets\<close>

definition Magic :: bytes where
  "Magic = [0x4e, 0x58, 0x64, 0x69, 0x73, 0x63]"

definition TypePing :: byte where
  "TypePing = 1"

definition TypePong :: byte where
  "TypePong = 2"

definition TxIDLen :: nat where
  "TxIDLen = 8"

definition PacketLen :: nat where
  "PacketLen = length Magic + 1 + TxIDLen + 16"

lemmas disco_consts = Magic_def TypePing_def TypePong_def TxIDLen_def PacketLen_def

text \<open>A \<open>TxID\<close> is \<open>[8]byte\<close>: the first eight bytes of what is copied into a zeroed array.\<close>

type_synonym txid = bytes

definition to_txid :: "bytes \<Rightarrow> txid" where
  "to_txid bs = take TxIDLen (bs @ replicate TxIDLen 0)"

datatype disco_error = ErrNotDisco

record disco_msg =
  dmType :: byte
  dmTxID :: txid
  dmSender :: uuid

definition IsDisco :: "bytes \<Rightarrow> bool" where
  "IsDisco b \<longleftrightarrow> length Magic \<le> length b \<and> take (length Magic) b = Magic"

definition disco_Encode :: "byte \<Rightarrow> txid \<Rightarrow> uuid \<Rightarrow> bytes" where
  "disco_Encode msgType txID sender = Magic @ [msgType] @ to_txid txID @ uuid_bytes sender"

definition disco_Decode :: "bytes \<Rightarrow> disco_error + disco_msg" where
  "disco_Decode b =
     (if \<not> IsDisco b \<or> length b < PacketLen then Inl ErrNotDisco
      else let msg = \<lparr>dmType = b ! length Magic, dmTxID = to_txid (drop (length Magic + 1) b),
                      dmSender = uuid_of_bytes (drop (length Magic + 1 + TxIDLen) b)\<rparr>
           in if dmType msg \<noteq> TypePing \<and> dmType msg \<noteq> TypePong then Inl ErrNotDisco else Inr msg)"

definition txIDKey :: "txid \<Rightarrow> 64 word" where
  "txIDKey i = foldl (\<lambda>acc b. acc * 256 + ucast b) 0 i"

section \<open>Demultiplexing received batches\<close>

text \<open>\<open>copy(dst, src)\<close> on two slices that do not overlap.\<close>

definition copy_into :: "bytes \<Rightarrow> bytes \<Rightarrow> bytes" where
  "copy_into dst src = take (length dst) src @ drop (length src) dst"

text \<open>The loop of \<open>intercept\<close> at the indices still to visit. The buffers, sizes and endpoints are the
  caller's slices, which it compacts in place; a disco packet goes to \<open>out\<close>, the calls of \<open>dispatch\<close> in
  order.\<close>

fun intercept_loop ::
  "nat list \<Rightarrow> nat \<Rightarrow> bytes list \<times> nat list \<times> 'ep list \<Rightarrow> (bytes \<times> 'ep) list \<Rightarrow>
     nat \<times> (bytes list \<times> nat list \<times> 'ep list) \<times> (bytes \<times> 'ep) list" where
  "intercept_loop [] kept bufs out = (kept, bufs, out)"
| "intercept_loop (i # is) kept (packets, sizes, eps) out =
     (let pkt = take (sizes ! i) (packets ! i) in
      if IsDisco pkt then intercept_loop is kept (packets, sizes, eps) (out @ [(pkt, eps ! i)])
      else if kept \<noteq> i then
        intercept_loop is (kept + 1)
          (packets[kept := copy_into (packets ! kept) pkt], sizes[kept := sizes ! i], eps[kept := eps ! i]) out
      else intercept_loop is (kept + 1) (packets, sizes, eps) out)"

text \<open>A receive function returns an error or a count and the filled slices.\<close>

definition intercept ::
  "('err + nat) \<Rightarrow> bytes list \<times> nat list \<times> 'ep list \<Rightarrow>
     ('err + nat) \<times> (bytes list \<times> nat list \<times> 'ep list) \<times> (bytes \<times> 'ep) list" where
  "intercept r bufs =
     (case r of
        Inl err \<Rightarrow> (Inl err, bufs, [])
      | Inr n \<Rightarrow> (case intercept_loop [0..<n] 0 bufs [] of (kept, bufs, out) \<Rightarrow> (Inr kept, bufs, out)))"

section \<open>Probes\<close>

text \<open>A \<open>netip.AddrPort\<close> by its bytes and port; the zero value is \<open>no_addr\<close>. Sending over WireGuard's
  socket is a datagram of the list a call returns; \<open>ep_ok\<close> says which addresses the bind can parse.\<close>

type_synonym addr_port = "bytes \<times> nat"

definition no_addr :: addr_port where
  "no_addr = ([], 0)"

record inflight_ping =
  ipPeer :: addr_port
  ipSent :: gotime

record probe_result =
  pbAddr :: addr_port
  pbRTT :: duration
  pbAt :: gotime

record prober =
  selfID :: uuid
  inflight :: "(64 word, inflight_ping) gomap"
  results :: "(uuid, probe_result) gomap"

definition NewProber :: "uuid \<Rightarrow> prober" where
  "NewProber i = \<lparr>selfID = i, inflight = [], results = []\<rparr>"

definition SetSelfID :: "uuid \<Rightarrow> prober \<Rightarrow> prober" where
  "SetSelfID i p = p\<lparr>selfID := i\<rparr>"

definition SendDisco :: "(addr_port \<Rightarrow> bool) \<Rightarrow> bytes \<Rightarrow> addr_port \<Rightarrow> (bytes \<times> addr_port) list" where
  "SendDisco ep_ok payload addr = (if ep_ok addr then [(payload, addr)] else [])"

definition Ping ::
  "(addr_port \<Rightarrow> bool) \<Rightarrow> txid option \<Rightarrow> gotime \<Rightarrow> addr_port \<Rightarrow> prober \<Rightarrow> (bytes \<times> addr_port) list \<times> prober" where
  "Ping ep_ok newTxID now addr p =
     (case newTxID of
        None \<Rightarrow> ([], p)
      | Some txID \<Rightarrow>
          let p = p\<lparr>inflight := put (txIDKey txID) \<lparr>ipPeer = addr, ipSent = now\<rparr> (inflight p)\<rparr>
          in (SendDisco ep_ok (disco_Encode TypePing txID (selfID p)) addr, p))"

text \<open>\<open>since\<close> and \<open>now\<close> are the two clock readings of a pong.\<close>

definition onPacket ::
  "(addr_port \<Rightarrow> bool) \<Rightarrow> gotime \<Rightarrow> gotime \<Rightarrow> disco_msg \<Rightarrow> addr_port \<Rightarrow> prober \<Rightarrow> (bytes \<times> addr_port) list \<times> prober" where
  "onPacket ep_ok since now msg from p =
     (if dmType msg = TypePing then (SendDisco ep_ok (disco_Encode TypePong (dmTxID msg) (selfID p)) from, p)
      else if dmType msg = TypePong then
        (case map_of (inflight p) (txIDKey (dmTxID msg)) of
           None \<Rightarrow> ([], p)
         | Some ping \<Rightarrow>
             ([], p\<lparr>inflight := del (txIDKey (dmTxID msg)) (inflight p),
                    results := put (dmSender msg) \<lparr>pbAddr = from, pbRTT = time_Sub since (ipSent ping), pbAt = now\<rparr>
                                 (results p)\<rparr>))
      else ([], p))"

text \<open>\<open>dst\<close> is the remote address of an endpoint, when it has one that parses.\<close>

definition dispatch ::
  "('ep \<Rightarrow> addr_port option) \<Rightarrow> (addr_port \<Rightarrow> bool) \<Rightarrow> gotime \<Rightarrow> gotime \<Rightarrow> bytes \<Rightarrow> 'ep \<Rightarrow> prober \<Rightarrow>
     (bytes \<times> addr_port) list \<times> prober" where
  "dispatch dst ep_ok since now pkt ep p =
     (case disco_Decode pkt of
        Inl _ \<Rightarrow> ([], p)
      | Inr msg \<Rightarrow> onPacket ep_ok since now msg (case dst ep of None \<Rightarrow> no_addr | Some a \<Rightarrow> a) p)"

definition prober_Result :: "uuid \<Rightarrow> prober \<Rightarrow> probe_result option" where
  "prober_Result peer p = map_of (results p) peer"

definition Forget :: "uuid \<Rightarrow> prober \<Rightarrow> prober" where
  "Forget peer p = p\<lparr>results := del peer (results p)\<rparr>"

definition ExpireInflight :: "duration \<Rightarrow> gotime \<Rightarrow> prober \<Rightarrow> prober" where
  "ExpireInflight maxAge now p =
     (let cutoff = now - maxAge
      in p\<lparr>inflight := filter (\<lambda>(key, ping). \<not> ipSent ping < cutoff) (inflight p)\<rparr>)"

section \<open>The codec\<close>

lemma length_Magic [simp]: "length Magic = 6"
  by (simp add: Magic_def)

lemma length_to_txid [simp]: "length (to_txid bs) = TxIDLen"
  by (simp add: to_txid_def)

lemma to_txid_append: "length i = TxIDLen \<Longrightarrow> to_txid (i @ bs) = i"
  by (simp add: to_txid_def)

lemma to_txid_id [simp]: "length i = TxIDLen \<Longrightarrow> to_txid i = i"
  by (simp add: to_txid_def)

lemma IsDisco_Encode: "IsDisco (disco_Encode ty i s)"
  by (simp add: IsDisco_def disco_Encode_def)

lemma wireguard_not_disco: "pkt \<noteq> [] \<Longrightarrow> hd pkt \<in> {1, 2, 3, 4} \<Longrightarrow> \<not> IsDisco pkt"
  by (cases pkt) (auto simp: IsDisco_def Magic_def)

lemma Decode_Encode:
  "length i = TxIDLen \<Longrightarrow> ty \<in> {TypePing, TypePong} \<Longrightarrow>
     disco_Decode (disco_Encode ty i s @ rest) = Inr \<lparr>dmType = ty, dmTxID = i, dmSender = s\<rparr>"
  by (auto simp: disco_Decode_def disco_Encode_def IsDisco_def PacketLen_def to_txid_append nth_append Let_def
      uuid_of_bytes_def uuid_bytes_inverse)

lemma Decode_exact:
  assumes "disco_Decode b = Inr m"
  shows "take PacketLen b = disco_Encode (dmType m) (dmTxID m) (dmSender m)" "dmType m \<in> {TypePing, TypePong}"
proof -
  have len: "PacketLen \<le> length b" and magic: "take 6 b = Magic"
    using assms by (auto simp: disco_Decode_def IsDisco_def split: if_splits)
  have m: "m = \<lparr>dmType = b ! 6, dmTxID = to_txid (drop 7 b), dmSender = uuid_of_bytes (drop 15 b)\<rparr>"
    and ty: "dmType m \<in> {TypePing, TypePong}"
    using assms by (auto simp: disco_Decode_def TxIDLen_def Let_def split: if_splits)
  have tx: "to_txid (drop 7 b) = take 8 (drop 7 b)" using len by (simp add: to_txid_def disco_consts)
  have id: "uuid_bytes (uuid_of_bytes (drop 15 b)) = take 16 (drop 15 b)" using len by (simp add: disco_consts)
  have "take PacketLen b = take 6 b @ [b ! 6] @ take 8 (drop 7 b) @ take 16 (drop 15 b)"
  proof -
    have "take 31 b = take 6 b @ take 1 (drop 6 b) @ take 8 (drop 7 b) @ take 16 (drop 15 b)"
      by (simp add: take_add [symmetric] numeral_eq_Suc flip: append_assoc)
    then show ?thesis using len by (simp add: disco_consts take_Suc_conv_app_nth hd_drop_conv_nth take_Suc)
  qed
  then show "take PacketLen b = disco_Encode (dmType m) (dmTxID m) (dmSender m)"
    using len by (simp add: m disco_Encode_def magic tx disco_consts to_txid_def)
  show "dmType m \<in> {TypePing, TypePong}" by (rule ty)
qed

section \<open>Demultiplexing\<close>

definition packet_at :: "bytes list \<times> nat list \<times> 'ep list \<Rightarrow> nat \<Rightarrow> bytes \<times> 'ep" where
  "packet_at bufs i = (case bufs of (packets, sizes, eps) \<Rightarrow> (take (sizes ! i) (packets ! i), eps ! i))"

text \<open>The slices a receive function gets from wireguard-go: as many sizes and endpoints as buffers, all
  buffers of one size, which no packet exceeds.\<close>

definition batch_ok :: "nat \<Rightarrow> bytes list \<times> nat list \<times> 'ep list \<Rightarrow> nat \<Rightarrow> bool" where
  "batch_ok cap bufs n \<longleftrightarrow>
     (case bufs of (packets, sizes, eps) \<Rightarrow>
        n \<le> length packets \<and> length sizes = length packets \<and> length eps = length packets \<and>
        (\<forall>b \<in> set packets. length b = cap) \<and> (\<forall>i < n. sizes ! i \<le> cap))"

lemma length_copy_into: "length src \<le> length dst \<Longrightarrow> length (copy_into dst src) = length dst"
  by (simp add: copy_into_def)

lemma take_copy_into: "length src \<le> length dst \<Longrightarrow> take (length src) (copy_into dst src) = src"
  by (simp add: copy_into_def)

lemma batch_move:
  assumes ok: "batch_ok cap (P, S, E) n" and "k < i" "i < n"
  defines "B \<equiv> (P[k := copy_into (P ! k) (take (S ! i) (P ! i))], S[k := S ! i], E[k := E ! i])"
  shows "batch_ok cap B n" "packet_at B j = (if j = k then packet_at (P, S, E) i else packet_at (P, S, E) j)"
proof -
  have len: "length (P ! k) = cap" "length (P ! i) = cap" "S ! i \<le> cap" "k < length P" "i < length P"
    using ok assms(2,3) by (auto simp: batch_ok_def)
  then have c: "length (copy_into (P ! k) (take (S ! i) (P ! i))) = cap"
    "take (S ! i) (copy_into (P ! k) (take (S ! i) (P ! i))) = take (S ! i) (P ! i)"
    using length_copy_into [of "take (S ! i) (P ! i)" "P ! k"] take_copy_into [of "take (S ! i) (P ! i)" "P ! k"] by auto
  show "batch_ok cap B n"
    using ok c(1) len assms(2,3) by (auto simp: B_def batch_ok_def nth_list_update dest!: set_update_subset_insert [THEN subsetD])
  show "packet_at B j = (if j = k then packet_at (P, S, E) i else packet_at (P, S, E) j)"
    using ok c(2) len by (auto simp: B_def packet_at_def batch_ok_def)
qed

lemma intercept_loop_partitions:
  assumes "batch_ok cap bufs n" "kept \<le> i" "i \<le> n" "intercept_loop [i..<n] kept bufs out = (kept', bufs', out')"
  shows "map (packet_at bufs') [0..<kept'] =
           map (packet_at bufs) [0..<kept] @ filter (\<lambda>(pkt, ep). \<not> IsDisco pkt) (map (packet_at bufs) [i..<n]) \<and>
         out' = out @ filter (\<lambda>(pkt, ep). IsDisco pkt) (map (packet_at bufs) [i..<n])"
  using assms
proof (induction "n - i" arbitrary: i kept bufs out)
  case 0
  then show ?case by simp
next
  case (Suc d)
  obtain P S E where b: "bufs = (P, S, E)" by (cases bufs) auto
  have i: "i < n" "d = n - Suc i" "[i..<n] = i # [Suc i..<n]" using Suc.hyps(2) by (auto simp: upt_conv_Cons)
  let ?pkt = "take (S ! i) (P ! i)"
  have at: "packet_at bufs i = (?pkt, E ! i)" by (simp add: b packet_at_def)
  consider (disco) "IsDisco ?pkt" | (stay) "\<not> IsDisco ?pkt" "kept = i" | (move) "\<not> IsDisco ?pkt" "kept < i"
    using Suc.prems(2) by linarith
  then show ?case
  proof cases
    case disco
    then have "intercept_loop [Suc i..<n] kept bufs (out @ [(?pkt, E ! i)]) = (kept', bufs', out')"
      using Suc.prems(4) by (simp add: i(3) b)
    from Suc.hyps(1) [OF i(2) Suc.prems(1) _ _ this] Suc.prems(2) i(1) disco at show ?thesis by (simp add: i(3))
  next
    case stay
    then have "intercept_loop [Suc i..<n] (Suc i) bufs out = (kept', bufs', out')"
      using Suc.prems(4) by (simp add: i(3) b)
    from Suc.hyps(1) [OF i(2) Suc.prems(1) _ _ this] i(1) stay at show ?thesis by (simp add: i(3))
  next
    case move
    let ?B = "(P[kept := copy_into (P ! kept) ?pkt], S[kept := S ! i], E[kept := E ! i])"
    have run: "intercept_loop [Suc i..<n] (Suc kept) ?B out = (kept', bufs', out')"
      using Suc.prems(4) move by (simp add: i(3) b)
    note mv = batch_move [OF Suc.prems(1) [unfolded b] move(2) i(1)]
    have "map (packet_at ?B) [Suc i..<n] = map (packet_at bufs) [Suc i..<n]"
      "map (packet_at ?B) [0..<Suc kept] = map (packet_at bufs) [0..<kept] @ [packet_at bufs i]"
      using mv(2) move(2) by (auto simp: b)
    with Suc.hyps(1) [OF i(2) mv(1) _ _ run] move i(1) at show ?thesis by (simp add: i(3))
  qed
qed

text \<open>
  C26. The demultiplexer loses, duplicates and reorders nothing: after a receive of \<open>n\<close> packets
  WireGuard is told a count under which its slices hold, in order and with their endpoints, exactly
  the packets that are not disco packets, although the slices are compacted in place; the disco
  packets go to the handler in order; and a WireGuard message, which starts with a type of 1 to 4,
  is never taken for a disco packet.
\<close>

theorem intercept_partitions:
  assumes "batch_ok cap bufs n" "intercept (Inr n :: 'err + nat) bufs = (r, bufs', out)"
  shows "\<exists>kept. r = Inr kept \<and>
     map (packet_at bufs') [0..<kept] = filter (\<lambda>(pkt, ep). \<not> IsDisco pkt) (map (packet_at bufs) [0..<n]) \<and>
     out = filter (\<lambda>(pkt, ep). IsDisco pkt) (map (packet_at bufs) [0..<n]) \<and>
     (\<forall>i < n. fst (packet_at bufs i) \<noteq> [] \<and> hd (fst (packet_at bufs i)) \<in> {1, 2, 3, 4} \<longrightarrow>
        packet_at bufs i \<in> set (map (packet_at bufs') [0..<kept]))"
proof -
  obtain kept where run: "intercept_loop [0..<n] 0 bufs [] = (kept, bufs', out)" and r: "r = Inr kept"
    using assms(2) by (auto simp: intercept_def split: prod.splits)
  note part = intercept_loop_partitions [OF assms(1) le0 le0 run, simplified]
  have wg: "packet_at bufs i \<in> set (map (packet_at bufs') [0..<kept])"
    if "i < n" "fst (packet_at bufs i) \<noteq> []" "hd (fst (packet_at bufs i)) \<in> {1, 2, 3, 4}" for i
    using wireguard_not_disco [OF that(2,3)] that(1) by (subst part [THEN conjunct1]) (auto simp: split_def)
  show ?thesis
    by (intro exI [of _ kept] conjI allI impI r part [THEN conjunct1] part [THEN conjunct2]) (blast intro: wg)
qed

theorem intercept_partitions_witness:
  "\<exists>kept bufs' out. intercept (Inr 3 :: unit + nat)
       ([disco_Encode 1 [] uuid_Nil, [4, 0, 0, 0] @ replicate 27 0, [1, 0, 0, 0] @ replicate 27 0], [31, 6, 5], [''a'', ''b'', ''c'']) =
       (Inr kept, bufs', out) \<and>
     map (packet_at bufs') [0..<kept] = [([4, 0, 0, 0, 0, 0], ''b''), ([1, 0, 0, 0, 0], ''c'')]"
proof -
  let ?B = "([disco_Encode 1 [] uuid_Nil, [4, 0, 0, 0] @ replicate 27 0, [1, 0, 0, 0] @ replicate 27 0], [31, 6, 5], [''a'', ''b'', ''c''])"
  have ok: "batch_ok 31 ?B 3"
    by (auto simp: batch_ok_def disco_Encode_def TxIDLen_def less_Suc_eq numeral_eq_Suc)
  obtain r bufs' out where c: "intercept (Inr 3 :: unit + nat) ?B = (r, bufs', out)" by (metis prod_cases3)
  have "filter (\<lambda>(pkt, ep). \<not> IsDisco pkt) (map (packet_at ?B) [0..<3]) = [([4, 0, 0, 0, 0, 0], ''b''), ([1, 0, 0, 0, 0], ''c'')]"
    by code_simp
  with intercept_partitions [OF ok c] c show ?thesis by auto
qed

end
