(* ===== verification/Client_Stun.thy ===== *)
theory Client_Stun
  imports Client_Host Client_Disco
begin

text \<open>
  How a client learns its public endpoint and reaches for its peers: the STUN client
  \<open>client/internal/stun\<close> (\<open>client.go\<close>, \<open>nat.go\<close>) and the hole punching of
  \<open>client/internal/holepunch\<close>. STUN messages are those of \<open>pion/stun\<close>, which is not part of the
  sources: a record \<open>pion\<close> of what the client calls of it. What a socket delivers after the \<open>n\<close>-th
  request is a script of reads; the end of a script is the read deadline.
\<close>

section \<open>Binding requests\<close>

record stun_message =
  smTransactionID :: bytes
  smSuccess :: bool
  smXorMapped :: "(bytes \<times> nat) option"
  smMapped :: "(bytes \<times> nat) option"

record pion =
  IsMessage :: "bytes \<Rightarrow> bool"
  Decode :: "bytes \<Rightarrow> stun_message option"

datatype read_event = ReadPacket bytes udp_addr | ReadTimeout | ReadError string

record binding_result =
  brMapped :: addr_port
  brFrom :: addr_port

record stun_io =
  ioResolve :: "string \<Rightarrow> bool"
  ioCtxErr :: "nat \<Rightarrow> go_error"
  ioTransactionID :: "nat \<Rightarrow> bytes option"
  ioSend :: "nat \<Rightarrow> string \<Rightarrow> bool"
  ioReads :: "nat \<Rightarrow> string \<Rightarrow> bytes option \<Rightarrow> read_event list"

definition DefaultRetries :: nat where "DefaultRetries = 2"

definition ErrTimeout :: string where "ErrTimeout = ''stun: request timed out''"

definition udpAddrToAddrPort :: "udp_addr \<Rightarrow> string + addr_port" where
  "udpAddrToAddrPort a =
     (if addr_valid (IP a) then Inr (Unmap (IP a), Port a mod 65536) else Inl ''stun: invalid source IP'')"

definition mapped_address :: "stun_message \<Rightarrow> string + addr_port" where
  "mapped_address resp =
     (case smXorMapped resp of
        Some (ip, port) \<Rightarrow>
          if addr_valid ip then Inr (Unmap ip, port mod 65536) else Inl ''stun: invalid XOR-MAPPED-ADDRESS IP''
      | None \<Rightarrow>
          (case smMapped resp of
             None \<Rightarrow> Inl ''stun: response has no mapped address''
           | Some (ip, port) \<Rightarrow>
               if addr_valid ip then Inr (Unmap ip, port mod 65536) else Inl ''stun: invalid MAPPED-ADDRESS IP''))"

definition answer_of :: "stun_message \<Rightarrow> udp_addr \<Rightarrow> string + binding_result" where
  "answer_of resp from =
     (if \<not> smSuccess resp then Inl ''stun: error response from server''
      else case mapped_address resp of
        Inl e \<Rightarrow> Inl e
      | Inr mapped \<Rightarrow>
          (case udpAddrToAddrPort from of Inl e \<Rightarrow> Inl e | Inr src \<Rightarrow> Inr \<lparr>brMapped = mapped, brFrom = src\<rparr>))"

fun awaitResponse :: "pion \<Rightarrow> bytes \<Rightarrow> read_event list \<Rightarrow> string + binding_result" where
  "awaitResponse lib want [] = Inl ErrTimeout"
| "awaitResponse lib want (ReadTimeout # es) = Inl ErrTimeout"
| "awaitResponse lib want (ReadError e # es) = Inl e"
| "awaitResponse lib want (ReadPacket pkt from # es) =
     (let buf = take 1500 pkt in
      if \<not> IsMessage lib buf then awaitResponse lib want es
      else case Decode lib buf of
        None \<Rightarrow> awaitResponse lib want es
      | Some resp \<Rightarrow> if smTransactionID resp \<noteq> want then awaitResponse lib want es else answer_of resp from)"

fun binding_attempts ::
  "pion \<Rightarrow> stun_io \<Rightarrow> string \<Rightarrow> bytes option \<Rightarrow> nat \<Rightarrow> string \<Rightarrow> nat \<Rightarrow> (string + binding_result) \<times> nat" where
  "binding_attempts lib io server attr 0 lastErr n = (Inl lastErr, n)"
| "binding_attempts lib io server attr (Suc k) lastErr n =
     (case ioCtxErr io n of
        Some e \<Rightarrow> (Inl e, n)
      | None \<Rightarrow>
          (case ioTransactionID io n of
             None \<Rightarrow> (Inl ''stun: build request'', n)
           | Some tx \<Rightarrow>
               if \<not> ioSend io n server then (Inl ''stun: send'', n)
               else case awaitResponse lib tx (ioReads io n server attr) of
                 Inr r \<Rightarrow> (Inr r, Suc n)
               | Inl e \<Rightarrow> binding_attempts lib io server attr k e (Suc n)))"

definition bindingRequest ::
  "pion \<Rightarrow> stun_io \<Rightarrow> nat \<Rightarrow> string \<Rightarrow> bytes option \<Rightarrow> nat \<Rightarrow> (string + binding_result) \<times> nat" where
  "bindingRequest lib io retries server attr n =
     (if \<not> ioResolve io server then (Inl ''stun: resolve'', n)
      else binding_attempts lib io server attr (Suc retries) ErrTimeout n)"

definition Binding :: "pion \<Rightarrow> stun_io \<Rightarrow> nat \<Rightarrow> string \<Rightarrow> nat \<Rightarrow> (string + binding_result) \<times> nat" where
  "Binding lib io retries server n = bindingRequest lib io retries server None n"

definition change_flags :: "bool \<Rightarrow> bool \<Rightarrow> bytes" where
  "change_flags changeIP changePort = [0, 0, 0, (if changeIP then 4 else 0) OR (if changePort then 2 else 0)]"

definition bindingWithChangeRequest ::
  "pion \<Rightarrow> stun_io \<Rightarrow> nat \<Rightarrow> string \<Rightarrow> bool \<Rightarrow> bool \<Rightarrow> nat \<Rightarrow> (string + binding_result) \<times> nat" where
  "bindingWithChangeRequest lib io retries server changeIP changePort n =
     bindingRequest lib io retries server (Some (change_flags changeIP changePort)) n"

section \<open>Classification\<close>

datatype nat_type =
  NATUnknown | NATOpen | NATFullCone | NATRestrictedCone | NATPortRestrictedCone | NATSymmetric

definition NATType_String :: "nat_type \<Rightarrow> string" where
  "NATType_String t =
     (case t of
        NATOpen \<Rightarrow> ''open''
      | NATFullCone \<Rightarrow> ''full_cone''
      | NATRestrictedCone \<Rightarrow> ''restricted_cone''
      | NATPortRestrictedCone \<Rightarrow> ''port_restricted_cone''
      | NATSymmetric \<Rightarrow> ''symmetric''
      | NATUnknown \<Rightarrow> ''unknown'')"

record classify_result =
  crType :: nat_type
  crPublicAddr :: addr_port
  crLocalAddr :: addr_port

definition addrPortIPEqual :: "addr_port \<Rightarrow> addr_port \<Rightarrow> bool" where
  "addrPortIPEqual a b \<longleftrightarrow> Unmap (fst a) = Unmap (fst b) \<and> snd a = snd b"

definition Classify ::
  "pion \<Rightarrow> stun_io \<Rightarrow> nat \<Rightarrow> udp_addr \<Rightarrow> string \<Rightarrow> string \<Rightarrow> string + classify_result" where
  "Classify lib io retries local primaryServer secondaryServer =
     (case udpAddrToAddrPort local of
        Inl e \<Rightarrow> Inl e
      | Inr localAddr \<Rightarrow>
          (case Binding lib io retries primaryServer 0 of
             (Inl e, n) \<Rightarrow> Inl (''stun: primary server unreachable: '' @ e)
           | (Inr res1, n) \<Rightarrow>
               let result = (\<lambda>ty. Inr \<lparr>crType = ty, crPublicAddr = brMapped res1, crLocalAddr = localAddr\<rparr>);
                   (test2, n) = bindingWithChangeRequest lib io retries primaryServer True True n
               in if addrPortIPEqual (brMapped res1) localAddr
                  then result (if isl test2 then NATPortRestrictedCone else NATOpen)
                  else if \<not> isl test2 then result NATFullCone
                  else let (res2, n) = (if secondaryServer \<noteq> [] then Binding lib io retries secondaryServer n else (Inl [], n))
                       in if \<not> isl res2 \<and> brMapped (projr res2) \<noteq> brMapped res1 then result NATSymmetric
                          else if \<not> isl (fst (bindingWithChangeRequest lib io retries primaryServer False True n))
                          then result NATRestrictedCone
                          else result NATPortRestrictedCone))"

section \<open>Hole punching\<close>

record candidate =
  cnAddr :: udp_addr
  cnType :: string
  cnPriority :: "32 word"

definition by_priority :: "candidate list \<Rightarrow> candidate list" where
  "by_priority cs = sort_key (\<lambda>c. - int (unat (cnPriority c))) cs"

definition pollFresh :: "gotime \<Rightarrow> gotime option \<Rightarrow> bool" where
  "pollFresh before poll = (case poll of None \<Rightarrow> False | Some ts \<Rightarrow> before < ts)"

text \<open>The polls of one punch, the immediate one and one per tick until the context is done, each with what
  the checker answered. The result carries the probes sent.\<close>

fun punch_loop :: "gotime \<Rightarrow> udp_addr list \<Rightarrow> gotime option list \<Rightarrow> bool \<times> udp_addr list" where
  "punch_loop before addrs [] = (False, [])"
| "punch_loop before addrs (p # ps) =
     (if pollFresh before p then (True, addrs)
      else case punch_loop before addrs ps of (ok, sent) \<Rightarrow> (ok, addrs @ sent))"

record punch_result =
  prSuccess :: bool
  prAttempted :: "candidate list"
  prProbes :: "udp_addr list"

definition Punch :: "gotime \<Rightarrow> candidate list \<Rightarrow> gotime option list \<Rightarrow> punch_result" where
  "Punch before cs polls =
     (let ordered = by_priority cs in
      if ordered = [] then \<lparr>prSuccess = False, prAttempted = [], prProbes = []\<rparr>
      else case punch_loop before (map cnAddr ordered) polls of
        (ok, sent) \<Rightarrow> \<lparr>prSuccess = ok, prAttempted = ordered, prProbes = sent\<rparr>)"

section \<open>Classification is exact\<close>

text \<open>What a NAT does with the requests: the endpoint each server sees, and which replies it lets back in.
  A server that honours CHANGE-REQUEST answers from another address and port, or from another port.\<close>

datatype nat_filter = FilterNone | FilterAddress | FilterAddressPort

record nat_box =
  nbMapped :: "string \<Rightarrow> addr_port"
  nbFilter :: nat_filter

definition nat_passes :: "nat_filter \<Rightarrow> bytes option \<Rightarrow> bool" where
  "nat_passes f attr =
     (case attr of
        None \<Rightarrow> True
      | Some flags \<Rightarrow> if flags = change_flags True True then f = FilterNone else f \<noteq> FilterAddressPort)"

definition nat_class :: "addr_port \<Rightarrow> nat_box \<Rightarrow> string \<Rightarrow> string \<Rightarrow> nat_type" where
  "nat_class local nb p s =
     (if nbMapped nb p = local then (if nbFilter nb = FilterNone then NATOpen else NATPortRestrictedCone)
      else if nbFilter nb = FilterNone then NATFullCone
      else if s \<noteq> [] \<and> nbMapped nb s \<noteq> nbMapped nb p then NATSymmetric
      else if nbFilter nb = FilterAddress then NATRestrictedCone
      else NATPortRestrictedCone)"

definition stray :: "pion \<Rightarrow> bytes \<Rightarrow> read_event \<Rightarrow> bool" where
  "stray lib tx e =
     (case e of
        ReadPacket p from \<Rightarrow>
          \<not> IsMessage lib (take 1500 p) \<or>
          (case Decode lib (take 1500 p) of None \<Rightarrow> True | Some r \<Rightarrow> smTransactionID r \<noteq> tx)
      | _ \<Rightarrow> False)"

definition answer :: "pion \<Rightarrow> bytes \<Rightarrow> addr_port \<Rightarrow> read_event \<Rightarrow> bool" where
  "answer lib tx m e =
     (case e of
        ReadPacket p from \<Rightarrow>
          IsMessage lib (take 1500 p) \<and> addr_valid (IP from) \<and>
          (case Decode lib (take 1500 p) of
             None \<Rightarrow> False
           | Some r \<Rightarrow> smTransactionID r = tx \<and> smSuccess r \<and> mapped_address r = Inr m)
      | _ \<Rightarrow> False)"

definition silent :: "pion \<Rightarrow> bytes \<Rightarrow> read_event list \<Rightarrow> bool" where
  "silent lib tx es = list_all (stray lib tx) (takeWhile (\<lambda>e. e \<noteq> ReadTimeout) es)"

fun answered :: "pion \<Rightarrow> bytes \<Rightarrow> addr_port \<Rightarrow> read_event list \<Rightarrow> bool" where
  "answered lib tx m [] = False"
| "answered lib tx m (e # es) = (answer lib tx m e \<or> stray lib tx e \<and> answered lib tx m es)"

definition behind :: "pion \<Rightarrow> stun_io \<Rightarrow> nat \<Rightarrow> nat_box \<Rightarrow> bool" where
  "behind lib io retries nb =
     ((\<forall>s. ioResolve io s) \<and> (\<forall>n. ioCtxErr io n = None \<and> ioTransactionID io n \<noteq> None) \<and> (\<forall>n s. ioSend io n s) \<and>
      (\<forall>s attr n. silent lib (the (ioTransactionID io n)) (ioReads io n s attr) \<or>
         nat_passes (nbFilter nb) attr \<and> answered lib (the (ioTransactionID io n)) (nbMapped nb s) (ioReads io n s attr)) \<and>
      (\<forall>s attr n. nat_passes (nbFilter nb) attr \<longrightarrow>
         (\<exists>j \<le> retries. answered lib (the (ioTransactionID io (n + j))) (nbMapped nb s) (ioReads io (n + j) s attr))))"

lemma await_silent: "silent lib tx es \<Longrightarrow> awaitResponse lib tx es = Inl ErrTimeout"
proof (induction es)
  case (Cons e es)
  then show ?case
    by (cases e) (auto simp: silent_def stray_def Let_def split: option.splits if_splits)
qed simp

lemma await_answered: "answered lib tx m es \<Longrightarrow> \<exists>r. awaitResponse lib tx es = Inr r \<and> brMapped r = m"
proof (induction es)
  case (Cons e es)
  then show ?case
    by (cases e)
      (auto simp: answer_def stray_def Let_def answer_of_def udpAddrToAddrPort_def split: option.splits if_splits)
qed simp

lemma attempts_silent:
  assumes "behind lib io retries nb" "\<not> nat_passes (nbFilter nb) attr"
  shows "isl (fst (binding_attempts lib io s attr k e n))"
proof (induction k arbitrary: e n)
  case (Suc k)
  obtain tx where "ioCtxErr io n = None" "ioTransactionID io n = Some tx" "ioSend io n s"
    "silent lib tx (ioReads io n s attr)"
    using assms unfolding behind_def by (metis option.exhaust_sel)
  then show ?case
    using Suc.IH by (simp add: await_silent)
qed simp

lemma attempts_answered:
  assumes "behind lib io retries nb" "nat_passes (nbFilter nb) attr"
    "answered lib (the (ioTransactionID io (n + j))) (nbMapped nb s) (ioReads io (n + j) s attr)" "j < k"
  shows "\<exists>r n'. binding_attempts lib io s attr k e n = (Inr r, n') \<and> brMapped r = nbMapped nb s"
  using assms(3,4)
proof (induction k arbitrary: e n j)
  case (Suc k)
  obtain tx where io: "ioCtxErr io n = None" "ioTransactionID io n = Some tx" "ioSend io n s"
    "silent lib tx (ioReads io n s attr) \<or> answered lib tx (nbMapped nb s) (ioReads io n s attr)"
    using assms(1) unfolding behind_def by (metis option.exhaust_sel)
  show ?case
  proof (cases "answered lib tx (nbMapped nb s) (ioReads io n s attr)")
    case True
    then show ?thesis
      using await_answered [OF True] io by auto
  next
    case False
    then have "j \<noteq> 0"
      using Suc.prems io(2) by (cases j) auto
    then obtain i where "j = Suc i" by (cases j) auto
    then show ?thesis
      using Suc.IH [of "Suc n" i ErrTimeout] Suc.prems io False by (simp add: await_silent)
  qed
qed simp

lemma binding_behind:
  assumes "behind lib io retries nb"
  shows "isl (fst (bindingRequest lib io retries s attr n)) \<longleftrightarrow> \<not> nat_passes (nbFilter nb) attr"
    and "nat_passes (nbFilter nb) attr \<Longrightarrow> brMapped (projr (fst (bindingRequest lib io retries s attr n))) = nbMapped nb s"
proof -
  have resolve: "ioResolve io s"
    using assms by (simp add: behind_def)
  have ok: "\<exists>r n'. bindingRequest lib io retries s attr n = (Inr r, n') \<and> brMapped r = nbMapped nb s"
    if pass: "nat_passes (nbFilter nb) attr"
  proof -
    obtain j where "j \<le> retries"
      "answered lib (the (ioTransactionID io (n + j))) (nbMapped nb s) (ioReads io (n + j) s attr)"
      using assms pass unfolding behind_def by blast
    then show ?thesis
      using attempts_answered [OF assms pass, of n j s "Suc retries" ErrTimeout] resolve by (simp add: bindingRequest_def)
  qed
  show "isl (fst (bindingRequest lib io retries s attr n)) \<longleftrightarrow> \<not> nat_passes (nbFilter nb) attr"
    using ok attempts_silent [OF assms, of attr s] resolve
    by (auto simp: bindingRequest_def simp del: binding_attempts.simps)
  show "nat_passes (nbFilter nb) attr \<Longrightarrow> brMapped (projr (fst (bindingRequest lib io retries s attr n))) = nbMapped nb s"
    using ok by force
qed

lemma change_flags_inject [simp]: "change_flags False True \<noteq> change_flags True True"
  by (simp add: change_flags_def)


definition sample_pion :: pion where
  "sample_pion = \<lparr>IsMessage = (\<lambda>b. take 1 b = [1]),
     Decode = (\<lambda>b. Some \<lparr>smTransactionID = take 1 (drop 1 b), smSuccess = True,
                   smXorMapped = Some (drop 2 b, 4000), smMapped = None\<rparr>)\<rparr>"

definition sample_box :: nat_box where
  "sample_box = \<lparr>nbMapped = (\<lambda>s. ([203, 0, 113, 7], 4000)), nbFilter = FilterAddress\<rparr>"

definition sample_io :: stun_io where
  "sample_io = \<lparr>ioResolve = (\<lambda>s. True), ioCtxErr = (\<lambda>n. None), ioTransactionID = (\<lambda>n. Some [of_nat n]),
     ioSend = (\<lambda>n s. True),
     ioReads = (\<lambda>n s attr. ReadPacket [9] \<lparr>IP = [1, 2, 3, 4], Port = 5, Zone = []\<rparr> #
       (if nat_passes FilterAddress attr then
          [ReadPacket [1, of_nat n, 203, 0, 113, 7] \<lparr>IP = [1, 2, 3, 4], Port = 3478, Zone = []\<rparr>]
        else []))\<rparr>"


section \<open>Punching\<close>

lemma punch_loop_success: "fst (punch_loop before as ps) \<longleftrightarrow> (\<exists>p \<in> set ps. pollFresh before p)"
  by (induction ps) (auto split: prod.splits)

lemma by_priority_empty [simp]: "by_priority cs = [] \<longleftrightarrow> cs = []"
  by (metis by_priority_def length_0_conv length_sort)

lemma Punch_success:
  "prSuccess (Punch before cs ps) \<longleftrightarrow> cs \<noteq> [] \<and> (\<exists>p \<in> set ps. pollFresh before p)"
  using punch_loop_success [of before "map cnAddr (by_priority cs)" ps]
  by (auto simp: Punch_def Let_def split: prod.splits)

end
