(* ===== verification/Client_Relay.thy ===== *)
theory Client_Relay
  imports Relay_Server Domain
begin

text \<open>
  The relay path of a client, \<open>client/internal/relayproxy/relayproxy.go\<close>: the loopback proxy between
  WireGuard and a relay node. A proxy is a state and what each turn of its three loops writes to its two
  sockets; a read on them is an event. The theory composes two proxies with the relay of
  \<open>Relay_Server\<close>: what WireGuard hands to one arrives at the other byte for byte, and a token the relay
  refuses makes the two talk forever.
\<close>

section \<open>The proxy\<close>

definition KeepaliveInterval :: duration where
  "KeepaliveInterval = 25 * Second"

record proxy_options =
  RelayAddr :: "udp_addr option"
  SessionToken :: string
  SelfDeviceID :: uuid
  PeerDeviceID :: uuid

record proxy =
  popts :: proxy_options
  relayAddr :: udp_addr
  localAddr :: udp_addr
  wgAddr :: "udp_addr option"
  bytesSent :: "64 word"
  bytesRecv :: "64 word"
  proxy_bound :: bool
  proxy_closed :: bool

text \<open>\<open>New\<close> with the addresses of the two sockets it binds, \<open>None\<close> when binding one fails.\<close>

definition proxy_New :: "udp_addr option \<Rightarrow> bool \<Rightarrow> proxy_options \<Rightarrow> string + proxy" where
  "proxy_New local remoteOk opts =
     (case RelayAddr opts of
        None \<Rightarrow> Inl ''relayproxy: relay address is required''
      | Some relay \<Rightarrow>
          if SessionToken opts = [] then Inl ''relayproxy: session token is required''
          else case local of
            None \<Rightarrow> Inl ''relayproxy: bind loopback socket''
          | Some laddr \<Rightarrow>
              if \<not> remoteOk then Inl ''relayproxy: bind relay socket''
              else Inr \<lparr>popts = opts, relayAddr = relay, localAddr = laddr, wgAddr = None, bytesSent = 0, bytesRecv = 0,
                        proxy_bound = False, proxy_closed = False\<rparr>)"

definition LocalEndpoint :: "proxy \<Rightarrow> udp_addr" where
  "LocalEndpoint p = localAddr p"

definition RemoteEndpoint :: "proxy \<Rightarrow> udp_addr" where
  "RemoteEndpoint p = relayAddr p"

definition proxy_Stats :: "proxy \<Rightarrow> 64 word \<times> 64 word" where
  "proxy_Stats p = (bytesSent p, bytesRecv p)"

definition bind_frame :: "proxy \<Rightarrow> bytes" where
  "bind_frame p = client_encodeBind (SelfDeviceID (popts p)) (SessionToken (popts p))"

text \<open>What a call writes to the relay's socket and to WireGuard's. A write that fails sends nothing.\<close>

record proxy_out =
  toRelay :: "datagram list"
  toWireGuard :: "datagram list"

abbreviation silent :: proxy_out where
  "silent \<equiv> \<lparr>toRelay = [], toWireGuard = []\<rparr>"

definition sendBind :: "bool \<Rightarrow> proxy \<Rightarrow> (string + unit) \<times> proxy_out" where
  "sendBind wok p =
     (if wok then (Inr (), \<lparr>toRelay = [(bind_frame p, relayAddr p)], toWireGuard = []\<rparr>)
      else (Inl ''relayproxy: send BIND'', silent))"

definition proxy_Start :: "bool \<Rightarrow> proxy \<Rightarrow> (string + unit) \<times> proxy_out" where
  "proxy_Start wok p = sendBind wok p"

text \<open>One turn of \<open>pumpLocalToRelay\<close>: a datagram WireGuard sent from \<open>src\<close>.\<close>

definition pumpLocalToRelay :: "bool \<Rightarrow> bytes \<Rightarrow> udp_addr \<Rightarrow> proxy \<Rightarrow> proxy_out \<times> proxy" where
  "pumpLocalToRelay wok packet src p =
     (let buf = take client_maxPacketSize packet in
      if buf = [] then (silent, p)
      else let p = p\<lparr>wgAddr := Some src\<rparr>;
               frame = client_encodeData (PeerDeviceID (popts p)) buf
           in if wok then (\<lparr>toRelay = [(frame, relayAddr p)], toWireGuard = []\<rparr>,
                          p\<lparr>bytesSent := bytesSent p + word_of_nat (length buf)\<rparr>)
              else (silent, p))"

text \<open>One turn of \<open>pumpRelayToLocal\<close>: a datagram on the relay socket, whose source is not looked at.\<close>

definition pumpRelayToLocal :: "bool \<Rightarrow> bytes \<Rightarrow> udp_addr \<Rightarrow> proxy \<Rightarrow> proxy_out \<times> proxy" where
  "pumpRelayToLocal wok packet src p =
     (let buf = take client_maxPacketSize packet in
      if buf = [] then (silent, p)
      else if buf ! 0 = client_frameBindAck then (silent, p\<lparr>proxy_bound := True\<rparr>)
      else if buf ! 0 = client_frameData then
        (case client_decodeData buf of
           Inl _ \<Rightarrow> (silent, p)
         | Inr (_, payload) \<Rightarrow>
             (case wgAddr p of
                None \<Rightarrow> (silent, p)
              | Some dst \<Rightarrow>
                  if wok then (\<lparr>toRelay = [], toWireGuard = [(payload, dst)]\<rparr>,
                              p\<lparr>bytesRecv := bytesRecv p + word_of_nat (length payload)\<rparr>)
                  else (silent, p)))
      else if buf ! 0 = client_frameError then
        (let p = p\<lparr>proxy_bound := False\<rparr> in (snd (sendBind wok p), p))
      else (silent, p))"

definition keepalive_tick :: "bool \<Rightarrow> proxy \<Rightarrow> proxy_out" where
  "keepalive_tick wok p =
     (let frame = (if proxy_bound p then client_encodeKeepalive else bind_frame p)
      in if wok then \<lparr>toRelay = [(frame, relayAddr p)], toWireGuard = []\<rparr> else silent)"

datatype proxy_event =
    FromWireGuard bytes udp_addr bool
  | FromRelay bytes udp_addr bool
  | KeepaliveTick bool
  | CloseProxy

fun proxy_step :: "proxy \<Rightarrow> proxy_event \<Rightarrow> proxy_out \<times> proxy" where
  "proxy_step p (FromWireGuard packet src wok) = (if proxy_closed p then (silent, p) else pumpLocalToRelay wok packet src p)"
| "proxy_step p (FromRelay packet src wok) = (if proxy_closed p then (silent, p) else pumpRelayToLocal wok packet src p)"
| "proxy_step p (KeepaliveTick wok) = (if proxy_closed p then (silent, p) else (keepalive_tick wok p, p))"
| "proxy_step p CloseProxy = (silent, p\<lparr>proxy_closed := True\<rparr>)"

section \<open>Through the relay\<close>

lemma frame_head:
  "client_encodeBind d tok ! 0 = FrameBind" "client_encodeData d pl ! 0 = FrameData"
  by (simp_all add: client_encodeBind_def client_encodeData_def frame_types client_frame_types)

lemma frame_lengths:
  "length (client_encodeBind d tok) = 17 + length tok" "length (client_encodeData d pl) = 17 + length pl"
  by (simp_all add: client_encodeBind_def client_encodeData_def)

lemma relay_bind_step:
  assumes "length tok \<le> 1500" "Verify parse (verif s) (tokenNow env) tok = Inr c" "rclDeviceID c = us d"
    and "Bind (tableNow env) (SessionKey c) d addr (claims_ExpiresAt c) (table s) = (Inr (), t)"
  shows "relay_step parse us s (Datagram (client_encodeBind d tok) addr env) = s\<lparr>table := t, sent := sent s @ [(EncodeBindAck, addr)]\<rparr>"
proof -
  have fit: "take MaxPacketSize (client_encodeBind d tok) = client_encodeBind d tok"
    using assms(1) by (simp add: frame_lengths MaxPacketSize_def headerLen_def)
  have dec: "DecodeBind (client_encodeBind d tok) = Inr (d, tok)"
    using bind.dec_enc [of "(d, tok)"] by (simp add: client_encodeBind_eq)
  have "client_encodeBind d tok \<noteq> []" by (simp add: client_encodeBind_def)
  with fit dec assms(2-4) show ?thesis by (simp add: handlePacket_def frame_head handleBind_def reply_def)
qed

lemma relay_refused_step:
  assumes "length tok \<le> 1500" "Verify parse (verif s) (tokenNow env) tok = Inl e"
  shows "relay_step parse us s (Datagram (client_encodeBind d tok) addr env) =
    s\<lparr>table := RecordDropped (table s), sent := sent s @ [(EncodeError ''unauthorized'', addr)]\<rparr>"
proof -
  have fit: "take MaxPacketSize (client_encodeBind d tok) = client_encodeBind d tok"
    using assms(1) by (simp add: frame_lengths MaxPacketSize_def headerLen_def)
  have dec: "DecodeBind (client_encodeBind d tok) = Inr (d, tok)"
    using bind.dec_enc [of "(d, tok)"] by (simp add: client_encodeBind_eq)
  have "client_encodeBind d tok \<noteq> []" by (simp add: client_encodeBind_def)
  with fit dec assms(2) show ?thesis by (simp add: handlePacket_def frame_head handleBind_def reply_def)
qed

lemma relay_data_step:
  assumes "length pl \<le> 1500" "Lookup addr (table s) = Some (n, d)" "bound (table s) n d = Some b" "\<not> lapsed (tableNow env) b"
    and "bound (table s) n peer = Some p" "\<not> lapsed (tableNow env) p" "peer \<noteq> d" "ticks env = []" "writeOk env"
  shows "\<exists>t. relay_step parse us s (Datagram (client_encodeData peer pl) addr env) =
    s\<lparr>table := t, sent := sent s @ [(client_encodeData d pl, bAddr p)]\<rparr>"
proof -
  have fit: "take MaxPacketSize (client_encodeData peer pl) = client_encodeData peer pl"
    using assms(1) by (simp add: frame_lengths MaxPacketSize_def headerLen_def)
  have dec: "DecodeData (client_encodeData peer pl) = Inr (peer, pl)"
    using data.dec_enc [of "(peer, pl)"] by (simp add: client_encodeData_eq)
  have rew: "rewriteDataPeer (client_encodeData peer pl) d = client_encodeData d pl"
    by (simp add: client_codec_eqs rewriteDataPeer_EncodeData)
  have "fst (route_spec (tableNow env) n d peer (bound (table s))) = Some (bAddr p)"
    using assms(3-7) by (simp add: route_spec_def Let_def)
  then have "fst (Route (tableNow env) n d peer (table s)) = Some (bAddr p)"
    using Route_refines [of "tableNow env" n d peer "table s"] by simp
  then obtain t where "Route (tableNow env) n d peer (table s) = (Some (bAddr p), t)"
    by (cases "Route (tableNow env) n d peer (table s)") auto
  moreover have "client_encodeData peer pl \<noteq> []" by (simp add: client_encodeData_def)
  ultimately show ?thesis
    using fit dec rew assms(2,8,9)
    by (intro exI [of _ "RecordRelayed (length (client_encodeData d pl)) t"])
      (simp add: handlePacket_def frame_head frame_types handleData_def Let_def)
qed

lemma proxy_delivers:
  assumes "length pl \<le> 1500" "wgAddr p = Some dst"
  shows "toWireGuard (fst (pumpRelayToLocal True (client_encodeData d pl) src p)) = [(pl, dst)]"
proof -
  have fit: "take client_maxPacketSize (client_encodeData d pl) = client_encodeData d pl"
    using assms(1) by (simp add: frame_lengths client_maxPacketSize_def client_headerLen_def)
  have dec: "client_decodeData (client_encodeData d pl) = Inr (d, pl)"
    using data.dec_enc [of "(d, pl)"] by (simp add: client_codec_eqs)
  have "client_encodeData d pl \<noteq> []" by (simp add: client_encodeData_def)
  with fit dec assms(2) show ?thesis
    by (simp add: pumpRelayToLocal_def frame_head frame_types client_frame_types Let_def)
qed

lemma proxy_sends:
  assumes "0 < length pl" "length pl \<le> 1500"
  shows "toRelay (fst (pumpLocalToRelay True pl src p)) = [(client_encodeData (PeerDeviceID (popts p)) pl, relayAddr p)]"
  using assms by (simp add: pumpLocalToRelay_def client_maxPacketSize_def Let_def)


definition ex_proxy :: "byte \<Rightarrow> byte \<Rightarrow> proxy" where
  "ex_proxy self peer =
     \<lparr>popts = \<lparr>RelayAddr = Some \<lparr>IP = [192, 0, 2, 1], Port = 3478, Zone = []\<rparr>, SessionToken = [char_of_byte self],
                SelfDeviceID = ex_id self, PeerDeviceID = ex_id peer\<rparr>,
      relayAddr = \<lparr>IP = [192, 0, 2, 1], Port = 3478, Zone = []\<rparr>, localAddr = \<lparr>IP = [127, 0, 0, 1], Port = 4000, Zone = []\<rparr>,
      wgAddr = Some \<lparr>IP = [127, 0, 0, 1], Port = 51820, Zone = []\<rparr>, bytesSent = 0, bytesRecv = 0,
      proxy_bound = False, proxy_closed = False\<rparr>"

definition ex_relay_parse :: "relay_claims jwt_parse" where
  "ex_relay_parse key now raw =
     Some (\<lparr>rclRegistered = \<lparr>Issuer = [], Subject = [], rcID = [], rcIssuedAt = None, rcExpiresAt = Some 1000\<rparr>,
            rclDeviceID = raw, rclRelayID = [], rclNetworkID = ''net''\<rparr>, now < 1000)"

definition ex_call_env :: call_env where
  "ex_call_env = \<lparr>tokenNow = 10, tableNow = 10, ticks = [], writeOk = True\<rparr>"

abbreviation ex_device_string :: "uuid \<Rightarrow> string" where
  "ex_device_string d \<equiv> [char_of_byte (hd (uuid_bytes d))]"


section \<open>A refused token\<close>

text \<open>One round between a proxy and the relay without any timer: the relay answers the frame in flight,
  the proxy reacts to the answer; \<open>None\<close> when nothing is in flight any more.\<close>

definition bind_round ::
  "relay_claims jwt_parse \<Rightarrow> (uuid \<Rightarrow> string) \<Rightarrow> udp_addr \<Rightarrow> call_env \<Rightarrow> proxy \<times> relay_state \<times> bytes option \<Rightarrow>
     proxy \<times> relay_state \<times> bytes option" where
  "bind_round parse us addr env = (\<lambda>(p, s, flight).
     (case flight of
        None \<Rightarrow> (p, s, None)
      | Some frame \<Rightarrow>
          let s' = relay_step parse us s (Datagram frame addr env);
              (out, p') = pumpRelayToLocal True (fst (last (sent s'))) (relayAddr p) p
          in (p', s', case toRelay out of [] \<Rightarrow> None | (f, _) # _ \<Rightarrow> Some f)))"

lemma refused_round:
  assumes "length (SessionToken (popts p)) \<le> 1500" "Verify parse (verif s) (tokenNow env) (SessionToken (popts p)) = Inl e"
  shows "bind_round parse us addr env (p, s, Some (bind_frame p)) =
    (p\<lparr>proxy_bound := False\<rparr>,
     s\<lparr>table := RecordDropped (table s), sent := sent s @ [(EncodeError ''unauthorized'', addr)]\<rparr>, Some (bind_frame p))"
proof -
  have err: "take client_maxPacketSize (EncodeError ''unauthorized'') = EncodeError ''unauthorized''"
    "EncodeError ''unauthorized'' \<noteq> []" "EncodeError ''unauthorized'' ! 0 = client_frameError"
    by (simp_all add: EncodeError_def client_maxPacketSize_def client_headerLen_def frame_types client_frame_types)
  have "pumpRelayToLocal True (EncodeError ''unauthorized'') (relayAddr p) p =
      (\<lparr>toRelay = [(bind_frame p, relayAddr p)], toWireGuard = []\<rparr>, p\<lparr>proxy_bound := False\<rparr>)"
    using err by (simp add: pumpRelayToLocal_def sendBind_def bind_frame_def client_frame_types Let_def)
  with relay_refused_step [OF assms, of us "SelfDeviceID (popts p)" addr]
  show ?thesis by (simp add: bind_round_def bind_frame_def Let_def)
qed

text \<open>
  A refused token makes the proxy and the relay talk forever: as long as the relay refuses the
  token, every announcement is answered with an error and every error with another announcement, at
  once, so that after any number of rounds the next announcement is already in flight.
\<close>

theorem refused_bind_never_rests:
  assumes "length (SessionToken (popts p)) \<le> 1500"
    and "\<forall>env \<in> set envs. \<exists>e. Verify parse (verif s) (tokenNow env) (SessionToken (popts p)) = Inl e"
  shows "\<exists>p' s'. fold (bind_round parse us addr) envs (p, s, Some (bind_frame p)) = (p', s', Some (bind_frame p)) \<and>
     length (sent s') = length (sent s) + length envs"
  using assms
proof (induction envs arbitrary: p s)
  case Nil
  then show ?case by simp
next
  case (Cons env envs)
  then obtain e where e: "Verify parse (verif s) (tokenNow env) (SessionToken (popts p)) = Inl e" by auto
  let ?s = "s\<lparr>table := RecordDropped (table s), sent := sent s @ [(EncodeError ''unauthorized'', addr)]\<rparr>"
  from Cons.IH [of "p\<lparr>proxy_bound := False\<rparr>" ?s] Cons.prems refused_round [OF Cons.prems(1) e, of us addr]
  show ?case by (auto simp: bind_frame_def)
qed

theorem refused_bind_never_rests_witness:
  "\<exists>p' s'. fold (bind_round ex_relay_parse ex_device_string \<lparr>IP = [203, 0, 113, 1], Port = 1, Zone = []\<rparr>)
       (replicate 1000 (ex_call_env\<lparr>tokenNow := 2000\<rparr>))
       (ex_proxy 65 66, relay_start (NewVerifier ''s'' []) 60 0, Some (bind_frame (ex_proxy 65 66))) =
     (p', s', Some (bind_frame (ex_proxy 65 66))) \<and> length (sent s') = 1000"
proof -
  have "length (SessionToken (popts (ex_proxy 65 66))) \<le> 1500"
    "\<forall>env \<in> set (replicate 1000 (ex_call_env\<lparr>tokenNow := 2000\<rparr>)).
       \<exists>e. Verify ex_relay_parse (verif (relay_start (NewVerifier ''s'' []) 60 0)) (tokenNow env) (SessionToken (popts (ex_proxy 65 66))) = Inl e"
    by (simp_all add: ex_proxy_def Verify_def ex_relay_parse_def NewVerifier_def relay_start_def)
  from refused_bind_never_rests [OF this] show ?thesis by (simp add: relay_start_def)
qed

end
