(* ===== verification/Client_Tunnel.thy ===== *)
theory Client_Tunnel
  imports Client_Stun Client_Relay Grpc_Server
begin

text \<open>
  The tunnel of a client, \<open>client/internal/tunnel\<close>: its peers and how they are reached (\<open>peer.go\<close>,
  \<open>tunnel.go\<close>), exit-node mode with its routes and firewall (\<open>exit.go\<close>), and the phase the interface
  shows (\<open>state.go\<close>). The tunnel holds the log of what it did to its host (\<open>Client_Host\<close>).

  A goroutine the code spawns to negotiate a path is an entry of \<open>spawned\<close>, the device it is for; it runs as a
  call of \<open>negotiate\<close>. What the control plane, the hole punching and the sockets answered is an argument.
  An error text is modelled without the values formatted into it, and logging is left out. The router is the Linux one, the kill switch the nftables one.
\<close>

section \<open>Types\<close>

datatype connection_mode = ModeConnecting | ModeDirect | ModeRelay | ModeOffline

datatype tunnel_phase = StateIdle | StateHandshaking | StateActive | StateDropped

definition HandshakeStaleAfter :: duration where "HandshakeStaleAfter = 3 * Minute"
definition keepaliveSeconds :: int where "keepaliveSeconds = 25"
definition PeerSilentAfter :: duration where "PeerSilentAfter = 75 * Second"

record tpeer =
  tpDeviceID :: uuid
  tpDeviceName :: string
  tpDeviceOS :: string
  tpExitNode :: bool
  tpPublicKey :: string
  tpVirtualIP :: string
  tpRemote :: "udp_addr option"
  tpLocalCandidate :: "udp_addr option"
  tpMode :: connection_mode
  tpProxy :: "proxy option"
  tpLastAttempt :: gotime
  tpLastRx :: "64 word"
  tpLastRxMove :: gotime

record exit_state =
  exDeviceID :: uuid
  exPrior :: default_route
  exPinned :: "bytes list"
  exCaptured :: bool
  exLocked :: bool

text \<open>The zero time of the code is \<open>0\<close>. \<open>wg_stats\<close> is what the WireGuard device reports of one peer.\<close>

record discovery_result =
  drPublicEndpoint :: "udp_addr option"
  drLocalEndpoint :: "udp_addr option"
  drNATType :: nat_type

record wg_stats =
  wsEndpoint :: string
  wsLastHandshake :: gotime
  wsRxBytes :: "64 word"
  wsTxBytes :: "64 word"

record tunnel_options =
  toNetworkID :: string
  toDeviceName :: string
  toOS :: string
  toOSVersion :: string
  toClientVersion :: string
  toPublicKey :: string
  toPreferredRegion :: string
  toAdvertiseExitNode :: bool
  toHeartbeatInterval :: duration
  toMonitorInterval :: duration
  toRenegotiateInterval :: duration
  toHasRouter :: bool
  toHasSwitch :: bool
  toPaths :: "prober option"

record tunnel =
  tHasRouter :: bool
  tHasSwitch :: bool
  tNftFound :: bool
  tInterface :: string
  tOpts :: tunnel_options
  tDeviceID :: string
  tNetworkID :: string
  tNetworkName :: string
  tVirtualIP :: string
  tCIDR :: string
  tDNSServers :: "string list"
  tDiscovery :: discovery_result
  tPeers :: "(uuid, tpeer) gomap"
  tExit :: exit_state
  tPhase :: tunnel_phase
  tActiveSince :: gotime
  tHeartbeat :: duration
  tMonitor :: duration
  tRenegotiate :: duration
  tStarted :: bool
  tPaths :: "prober option"
  spawned :: "uuid list"
  host :: world

definition DefaultHeartbeatInterval :: duration where "DefaultHeartbeatInterval = 20 * Second"
definition DefaultMonitorInterval :: duration where "DefaultMonitorInterval = 15 * Second"
definition DefaultRenegotiateInterval :: duration where "DefaultRenegotiateInterval = 30 * Second"
definition defaultStreamRetryBase :: duration where "defaultStreamRetryBase = Second"
definition defaultStreamRetryMax :: duration where "defaultStreamRetryMax = 30 * Second"

definition orDefault :: "duration \<Rightarrow> duration \<Rightarrow> duration" where
  "orDefault v def = (if v \<le> 0 then def else v)"

definition no_exit :: exit_state where
  "no_exit = \<lparr>exDeviceID = uuid_Nil, exPrior = \<lparr>Gateway = None, dfInterface = []\<rparr>, exPinned = [],
     exCaptured = False, exLocked = False\<rparr>"

text \<open>\<open>iface\<close> is the name of the WireGuard device, \<open>nft\<close> whether the \<open>nft\<close> program is found.\<close>

definition tunnel_New :: "string \<Rightarrow> bool \<Rightarrow> world \<Rightarrow> tunnel_options \<Rightarrow> string + tunnel" where
  "tunnel_New iface nft w opts =
     (if toNetworkID opts = [] then Inl ''tunnel: a network ID is required''
      else if toPublicKey opts = [] then Inl ''tunnel: a device public key is required''
      else Inr \<lparr>tHasRouter = toHasRouter opts, tHasSwitch = toHasSwitch opts, tNftFound = nft, tInterface = iface,
        tOpts = opts, tDeviceID = [], tNetworkID = toNetworkID opts, tNetworkName = [], tVirtualIP = [], tCIDR = [],
        tDNSServers = [], tDiscovery = \<lparr>drPublicEndpoint = None, drLocalEndpoint = None, drNATType = NATUnknown\<rparr>,
        tPeers = [], tExit = no_exit, tPhase = StateIdle, tActiveSince = 0,
        tHeartbeat = orDefault (toHeartbeatInterval opts) DefaultHeartbeatInterval,
        tMonitor = orDefault (toMonitorInterval opts) DefaultMonitorInterval,
        tRenegotiate = orDefault (toRenegotiateInterval opts) DefaultRenegotiateInterval,
        tStarted = False, tPaths = toPaths opts, spawned = [], host = w\<rparr>)"

definition on_host :: "(world \<Rightarrow> 'a \<times> world) \<Rightarrow> tunnel \<Rightarrow> 'a \<times> tunnel" where
  "on_host f t = (case f (host t) of (r, w) \<Rightarrow> (r, t\<lparr>host := w\<rparr>))"

definition set_peer :: "uuid \<Rightarrow> tpeer \<Rightarrow> tunnel \<Rightarrow> tunnel" where
  "set_peer i p t = t\<lparr>tPeers := put i p (tPeers t)\<rparr>"

section \<open>Phases\<close>

definition setState :: "gotime \<Rightarrow> tunnel_phase \<Rightarrow> tunnel \<Rightarrow> tunnel" where
  "setState now next t =
     (if tPhase t = next then t
      else t\<lparr>tPhase := next, tActiveSince := (if next = StateActive then now else tActiveSince t)\<rparr>)"

definition ActiveSince :: "tunnel \<Rightarrow> gotime" where
  "ActiveSince t = (if tPhase t \<noteq> StateActive then 0 else tActiveSince t)"

definition ExitNode :: "tunnel \<Rightarrow> uuid \<times> bool" where
  "ExitNode t = (exDeviceID (tExit t), exDeviceID (tExit t) \<noteq> uuid_Nil)"

definition reachable_mode :: "connection_mode \<Rightarrow> bool" where
  "reachable_mode m \<longleftrightarrow> m = ModeDirect \<or> m = ModeRelay"

fun exit_reachable :: "uuid \<Rightarrow> tpeer list \<Rightarrow> bool" where
  "exit_reachable exitID [] = False"
| "exit_reachable exitID (pr # prs) =
     (if tpDeviceID pr \<noteq> exitID then exit_reachable exitID prs else reachable_mode (tpMode pr))"

definition observeHealth :: "gotime \<Rightarrow> tunnel \<Rightarrow> tunnel" where
  "observeHealth now t =
     (case ExitNode t of (exitID, hasExit) \<Rightarrow>
        if \<not> hasExit then (if tPhase t = StateHandshaking then setState now StateActive t else t)
        else if tPeers t = [] then (if tPhase t = StateActive then setState now StateDropped t else t)
        else if exit_reachable exitID (map snd (tPeers t)) then setState now StateActive t
        else if tPhase t = StateActive then setState now StateDropped t
        else t)"

section \<open>Presence\<close>

text \<open>\<open>stats\<close> is what \<open>PeerStats\<close> answers for a public key, \<open>None\<close> when it fails or knows no such peer.\<close>

definition observe_peer :: "gotime \<Rightarrow> wg_stats option \<Rightarrow> tpeer \<Rightarrow> tpeer" where
  "observe_peer now st pr =
     (case st of
        None \<Rightarrow> pr
      | Some ws \<Rightarrow>
          let pr = (if wsRxBytes ws \<noteq> tpLastRx pr then pr\<lparr>tpLastRx := wsRxBytes ws, tpLastRxMove := now\<rparr> else pr);
              present = (tpLastRxMove pr \<noteq> 0 \<and> time_Sub now (tpLastRxMove pr) < PeerSilentAfter)
          in if present \<and> tpMode pr = ModeOffline
             then pr\<lparr>tpMode := (if tpProxy pr \<noteq> None then ModeRelay else ModeDirect)\<rparr>
             else if \<not> present \<and> tpMode pr \<noteq> ModeOffline \<and> tpMode pr \<noteq> ModeConnecting
             then pr\<lparr>tpMode := ModeOffline\<rparr>
             else pr)"

definition observePeerModes :: "gotime \<Rightarrow> (string \<Rightarrow> wg_stats option) \<Rightarrow> tunnel \<Rightarrow> tunnel" where
  "observePeerModes now stats t =
     t\<lparr>tPeers := map (\<lambda>(i, pr). (i, observe_peer now (stats (tpPublicKey pr)) pr)) (tPeers t)\<rparr>"

section \<open>Peers\<close>

definition endpointFromProto :: "proto_endpoint option \<Rightarrow> udp_addr option" where
  "endpointFromProto ep =
     (case ep of
        None \<Rightarrow> None
      | Some e \<Rightarrow>
          if epIp e = [] \<or> epPort e = 0 then None
          else case ParseIP (epIp e) of None \<Rightarrow> None | Some ip \<Rightarrow> Some \<lparr>IP = ip, Port = unat (epPort e), Zone = []\<rparr>)"

definition endpointToProto :: "udp_addr option \<Rightarrow> proto_endpoint option" where
  "endpointToProto a =
     map_option (\<lambda>a. \<lparr>epIp = IP_String (IP a), epPort = word_of_nat (Port a), epProtocol = ''udp''\<rparr>) a"

definition allowedIPsFor :: "string \<Rightarrow> string + ip_net list" where
  "allowedIPsFor virtualIP =
     (if virtualIP = [] then Inl ''tunnel: peer has no virtual IP''
      else case ParseIP virtualIP of
        None \<Rightarrow> Inl ''tunnel: malformed virtual IP''
      | Some ip \<Rightarrow>
          (case IP_To4 ip of
             Some v4 \<Rightarrow> Inr [\<lparr>NetIP = v4, Mask = CIDRMask 32 4\<rparr>]
           | None \<Rightarrow> Inr [\<lparr>NetIP = ip, Mask = CIDRMask 128 16\<rparr>]))"

definition refresh_peer :: "proto_peer \<Rightarrow> tpeer \<Rightarrow> tpeer" where
  "refresh_peer p existing =
     existing\<lparr>tpDeviceName := ppDeviceName p, tpDeviceOS := (if ppOs p \<noteq> [] then ppOs p else tpDeviceOS existing),
       tpExitNode := ppExitNode p,
       tpRemote := (case endpointFromProto (ppEndpoint p) of Some ep \<Rightarrow> Some ep | None \<Rightarrow> tpRemote existing)\<rparr>"

definition new_peer :: "uuid \<Rightarrow> proto_peer \<Rightarrow> tpeer" where
  "new_peer i p =
     \<lparr>tpDeviceID = i, tpDeviceName = ppDeviceName p, tpDeviceOS = ppOs p, tpExitNode = ppExitNode p,
      tpPublicKey = ppPublicKey p, tpVirtualIP = ppVirtualIp p, tpRemote = endpointFromProto (ppEndpoint p),
      tpLocalCandidate = None, tpMode = ModeConnecting, tpProxy = None, tpLastAttempt = 0, tpLastRx = 0, tpLastRxMove = 0\<rparr>"

definition addPeer :: "(string \<Rightarrow> uuid option) \<Rightarrow> proto_peer \<Rightarrow> tunnel \<Rightarrow> go_error \<times> tunnel" where
  "addPeer up p t =
     (case up (ppDeviceId p) of
        None \<Rightarrow> (Some ''tunnel: malformed peer device id'', t)
      | Some i \<Rightarrow>
          if ppPublicKey p = [] then (Some ''tunnel: peer has no public key'', t)
          else case allowedIPsFor (ppVirtualIp p) of
            Inl e \<Rightarrow> (Some e, t)
          | Inr allowed \<Rightarrow>
              (case map_of (tPeers t) i of
                 Some existing \<Rightarrow> (None, set_peer i (refresh_peer p existing) t)
               | None \<Rightarrow>
                   let pr = new_peer i p
                   in case on_host (UpsertPeer \<lparr>pcPublicKey = tpPublicKey pr, pcEndpoint = tpRemote pr, pcAllowedIPs = allowed,
                              pcKeepalive = keepaliveSeconds\<rparr>) (set_peer i pr t) of
                        (Some e, t) \<Rightarrow> (Some (''tunnel: add wireguard peer: '' @ e), t)
                      | (None, t) \<Rightarrow> (None, t\<lparr>spawned := spawned t @ [i]\<rparr>)))"

definition removePeer :: "uuid \<Rightarrow> tunnel \<Rightarrow> tunnel" where
  "removePeer i t =
     (case map_of (tPeers t) i of
        None \<Rightarrow> t
      | Some pr \<Rightarrow> snd (on_host (RemovePeer (tpPublicKey pr)) (t\<lparr>tPeers := del i (tPeers t)\<rparr>)))"

definition setMode :: "uuid \<Rightarrow> connection_mode \<Rightarrow> tunnel \<Rightarrow> tunnel" where
  "setMode i m t = (case map_of (tPeers t) i of None \<Rightarrow> t | Some pr \<Rightarrow> set_peer i (pr\<lparr>tpMode := m\<rparr>) t)"

section \<open>Negotiating a path\<close>

text \<open>The answers one negotiation gets: what the control plane returns for the candidates published, the handshake times the
  device reported before and during punching, the relay allocation with the address its name resolves to,
  and how setting the proxy up went.\<close>

record negotiation =
  ngExchange :: "proto_candidate list \<Rightarrow> proto_candidate list option"
  ngBefore :: gotime
  ngPolls :: "gotime option list"
  ngCancelled :: bool
  ngRelay :: "relay_response option"
  ngRelayAddr :: "udp_addr option"
  ngLocal :: "udp_addr option"
  ngRemoteOk :: bool
  ngStartOk :: bool

definition peer_candidates :: "proto_candidate list \<Rightarrow> candidate list" where
  "peer_candidates cs =
     List.map_filter (\<lambda>c. map_option (\<lambda>a. \<lparr>cnAddr = a, cnType = cdType c,
         cnPriority = (if cdPriority c = 0 then 50 else cdPriority c)\<rparr>) (endpointFromProto (cdEndpoint c))) cs"

definition last_host :: "candidate list \<Rightarrow> udp_addr option \<Rightarrow> udp_addr option" where
  "last_host cs old = foldl (\<lambda>a c. if cnType c = ''host'' then Some (cnAddr c) else a) old cs"

definition own_candidates :: "tunnel \<Rightarrow> proto_candidate list" where
  "own_candidates t =
     (case drPublicEndpoint (tDiscovery t) of
        None \<Rightarrow> []
      | Some a \<Rightarrow> [\<lparr>cdEndpoint = endpointToProto (Some a), cdType = ''srflx'', cdPriority = 100\<rparr>]) @
     (case drLocalEndpoint (tDiscovery t) of
        None \<Rightarrow> []
      | Some a \<Rightarrow> [\<lparr>cdEndpoint = endpointToProto (Some a), cdType = ''host'', cdPriority = 200\<rparr>])"

definition exchangeCandidates :: "negotiation \<Rightarrow> tunnel \<Rightarrow> candidate list option" where
  "exchangeCandidates ng t = map_option peer_candidates (ngExchange ng (own_candidates t))"

definition tryDirect :: "negotiation \<Rightarrow> uuid \<Rightarrow> tunnel \<Rightarrow> bool \<times> tunnel" where
  "tryDirect ng i t =
     (case map_of (tPeers t) i of
        None \<Rightarrow> (False, t)
      | Some pr \<Rightarrow>
          let cs = (case exchangeCandidates ng t of None \<Rightarrow> [] | Some cs \<Rightarrow> cs);
              pr = pr\<lparr>tpLocalCandidate := last_host cs (tpLocalCandidate pr)\<rparr>;
              cs = cs @ (case tpRemote pr of None \<Rightarrow> [] | Some a \<Rightarrow> [\<lparr>cnAddr = a, cnType = ''srflx'', cnPriority = 100\<rparr>])
          in if cs = [] \<or> \<not> prSuccess (Punch (ngBefore ng) cs (ngPolls ng)) then (False, set_peer i pr t)
             else (True, set_peer i (pr\<lparr>tpMode := ModeDirect, tpProxy := None\<rparr>) t))"

definition fallBackToRelay :: "(string \<Rightarrow> uuid option) \<Rightarrow> negotiation \<Rightarrow> uuid \<Rightarrow> tunnel \<Rightarrow> tunnel" where
  "fallBackToRelay up ng i t =
     (case map_of (tPeers t) i of
        None \<Rightarrow> t
      | Some pr \<Rightarrow>
          (case (ngRelay ng, ngRelayAddr ng, up (tDeviceID t)) of
             (Some alloc, Some addr, Some self) \<Rightarrow>
               (case proxy_New (ngLocal ng) (ngRemoteOk ng)
                       \<lparr>RelayAddr = Some addr, SessionToken = rrSessionToken alloc, SelfDeviceID = self,
                        PeerDeviceID = tpDeviceID pr\<rparr> of
                  Inl _ \<Rightarrow> setMode i ModeOffline t
                | Inr px \<Rightarrow>
                    if isl (fst (proxy_Start (ngStartOk ng) px)) then setMode i ModeOffline t
                    else case allowedIPsFor (tpVirtualIP pr) of
                      Inl _ \<Rightarrow> t
                    | Inr allowed \<Rightarrow>
                        (case on_host (UpsertPeer \<lparr>pcPublicKey = tpPublicKey pr, pcEndpoint = Some (LocalEndpoint px),
                                 pcAllowedIPs = allowed, pcKeepalive = keepaliveSeconds\<rparr>) t of
                           (Some _, t) \<Rightarrow> setMode i ModeOffline t
                         | (None, t) \<Rightarrow> set_peer i (pr\<lparr>tpProxy := Some px, tpMode := ModeRelay\<rparr>) t))
           | _ \<Rightarrow> setMode i ModeOffline t))"

definition negotiate :: "(string \<Rightarrow> uuid option) \<Rightarrow> gotime \<Rightarrow> negotiation \<Rightarrow> uuid \<Rightarrow> tunnel \<Rightarrow> tunnel" where
  "negotiate up now ng i t =
     (case map_of (tPeers t) i of
        None \<Rightarrow> t
      | Some pr \<Rightarrow>
          if tpLastAttempt pr \<noteq> 0 \<and> time_Sub now (tpLastAttempt pr) < tRenegotiate t then t
          else case tryDirect ng i (set_peer i (pr\<lparr>tpLastAttempt := now\<rparr>) t) of
            (True, t) \<Rightarrow> t
          | (False, t) \<Rightarrow> if ngCancelled ng then t else fallBackToRelay up ng i t)"

section \<open>Topology updates\<close>

definition handleEndpointChange :: "(string \<Rightarrow> uuid option) \<Rightarrow> uuid \<Rightarrow> proto_peer \<Rightarrow> tunnel \<Rightarrow> tunnel" where
  "handleEndpointChange up i p t =
     (case map_of (tPeers t) i of
        None \<Rightarrow> snd (addPeer up p t)
      | Some pr \<Rightarrow>
          (case endpointFromProto (ppEndpoint p) of
             None \<Rightarrow> t
           | Some ep \<Rightarrow>
               let moved = (case tpRemote pr of None \<Rightarrow> True | Some old \<Rightarrow> UDPAddr_String old \<noteq> UDPAddr_String ep)
               in if \<not> moved then t
                  else let t = set_peer i (pr\<lparr>tpRemote := Some ep\<rparr>) t
                       in if tpMode pr \<noteq> ModeDirect then t\<lparr>spawned := spawned t @ [i]\<rparr>
                          else case on_host (UpdateEndpoint (tpPublicKey pr) ep) t of
                            (None, t) \<Rightarrow> t
                          | (Some _, t) \<Rightarrow> t\<lparr>spawned := spawned t @ [i]\<rparr>))"

text \<open>\<open>None\<close> stands for an update type the client does not know.\<close>

definition applyPeerUpdate ::
  "(string \<Rightarrow> uuid option) \<Rightarrow> peer_update_type option \<Rightarrow> proto_peer option \<Rightarrow> tunnel \<Rightarrow> tunnel" where
  "applyPeerUpdate up ty peer t =
     (case peer of
        None \<Rightarrow> t
      | Some p \<Rightarrow>
          (case up (ppDeviceId p) of
             None \<Rightarrow> t
           | Some i \<Rightarrow>
               if ppDeviceId p = tDeviceID t then t
               else case ty of
                 Some PEER_UPDATE_LEFT \<Rightarrow> removePeer i t
               | Some PEER_UPDATE_ENDPOINT_CHANGED \<Rightarrow> handleEndpointChange up i p t
               | Some PEER_UPDATE_STATUS_CHANGED \<Rightarrow> handleEndpointChange up i p t
               | _ \<Rightarrow> snd (addPeer up p t)))"

section \<open>Exit nodes\<close>

definition exitAllowedIPs :: "string list" where
  "exitAllowedIPs = [''0.0.0.0/0'', ''::/0'']"

fun parseAllowedIPs :: "string list \<Rightarrow> string + ip_net list" where
  "parseAllowedIPs [] = Inr []"
| "parseAllowedIPs (c # cs) =
     (case ParseAllowedIP c of
        Inl e \<Rightarrow> Inl e
      | Inr n \<Rightarrow> (case parseAllowedIPs cs of Inl e \<Rightarrow> Inl e | Inr ns \<Rightarrow> Inr (n # ns)))"

definition updatePeerAllowedIPs :: "tpeer \<Rightarrow> ip_net list \<Rightarrow> tunnel \<Rightarrow> go_error \<times> tunnel" where
  "updatePeerAllowedIPs pr allowed t =
     apfst (map_option (\<lambda>e. ''tunnel: update allowed IPs: '' @ e))
       (on_host (UpsertPeer \<lparr>pcPublicKey = tpPublicKey pr,
          pcEndpoint = (case tpProxy pr of Some px \<Rightarrow> Some (LocalEndpoint px) | None \<Rightarrow> tpRemote pr),
          pcAllowedIPs = allowed, pcKeepalive = keepaliveSeconds\<rparr>) t)"

definition widenPeer :: "tpeer \<Rightarrow> tunnel \<Rightarrow> go_error \<times> tunnel" where
  "widenPeer pr t =
     (case parseAllowedIPs exitAllowedIPs of Inl e \<Rightarrow> (Some e, t) | Inr allowed \<Rightarrow> updatePeerAllowedIPs pr allowed t)"

definition narrowPeer :: "tpeer \<Rightarrow> tunnel \<Rightarrow> go_error \<times> tunnel" where
  "narrowPeer pr t =
     (case allowedIPsFor (tpVirtualIP pr) of Inl e \<Rightarrow> (Some e, t) | Inr allowed \<Rightarrow> updatePeerAllowedIPs pr allowed t)"

definition IsLoopback :: "bytes \<Rightarrow> bool" where
  "IsLoopback ip \<longleftrightarrow>
     (case IP_To4 ip of Some v4 \<Rightarrow> hd v4 = 127 | None \<Rightarrow> ip = replicate 15 0 @ [1])"

definition transport_addr :: "tpeer \<Rightarrow> udp_addr option" where
  "transport_addr pr = (case tpProxy pr of Some px \<Rightarrow> Some (RemoteEndpoint px) | None \<Rightarrow> tpRemote pr)"

definition usable_addr :: "udp_addr option \<Rightarrow> bool" where
  "usable_addr a \<longleftrightarrow> (case a of None \<Rightarrow> False | Some a \<Rightarrow> IP a \<noteq> [] \<and> \<not> IsLoopback (IP a))"

fun add_endpoints :: "udp_addr option list \<Rightarrow> string list \<Rightarrow> bytes list \<Rightarrow> bytes list" where
  "add_endpoints [] seen out = out"
| "add_endpoints (a # as) seen out =
     (if \<not> usable_addr a then add_endpoints as seen out
      else let ip = IP (the a) in
           if IP_String ip \<in> set seen then add_endpoints as seen out
           else add_endpoints as (IP_String ip # seen) (out @ [ip]))"

definition transportEndpoints :: "tunnel \<Rightarrow> bytes list" where
  "transportEndpoints t = add_endpoints (map (\<lambda>(i, pr). transport_addr pr) (tPeers t)) [] []"

fun add_addr_ports :: "udp_addr option list \<Rightarrow> (bytes \<times> nat) list \<Rightarrow> (bytes \<times> nat) list" where
  "add_addr_ports [] out = out"
| "add_addr_ports (a # as) out =
     (if \<not> usable_addr a \<or> \<not> addr_valid (IP (the a)) then add_addr_ports as out
      else let ap = (Unmap (IP (the a)), Port (the a) mod 65536) in
           if ap \<in> set out then add_addr_ports as out else add_addr_ports as (out @ [ap]))"

definition transportAddrPorts :: "tunnel \<Rightarrow> (bytes \<times> nat) list" where
  "transportAddrPorts t = add_addr_ports (map (\<lambda>(i, pr). transport_addr pr) (tPeers t)) []"

fun unpinAll :: "bytes list \<Rightarrow> world \<Rightarrow> world" where
  "unpinAll [] w = w"
| "unpinAll (ip # ips) w = unpinAll ips (snd (UnpinEndpoint ip w))"

text \<open>\<open>ifaces\<close> are the interfaces of the host, \<open>None\<close> when they cannot be listed.\<close>

definition engageKillSwitch :: "host_iface list option \<Rightarrow> string \<Rightarrow> bool \<Rightarrow> tunnel \<Rightarrow> go_error \<times> tunnel" where
  "engageKillSwitch ifaces iface allowLAN t =
     (if \<not> tHasSwitch t then (Some ''tunnel: no kill switch is available on this platform build'', t)
      else case (if allowLAN then map_option (DefaultLocalNetworks iface) ifaces else Some []) of
        None \<Rightarrow> (Some ''killswitch: list interfaces'', t)
      | Some locals \<Rightarrow>
          (case on_host (Engage (tNftFound t) \<lparr>plInterface = iface, plEndpoints = transportAddrPorts t,
                   plLocalNetworks = locals, AllowLAN = allowLAN\<rparr>) t of
             (Some e, t) \<Rightarrow> (Some e, t)
           | (None, t) \<Rightarrow> (None, t\<lparr>tExit := (tExit t)\<lparr>exLocked := True\<rparr>\<rparr>)))"

definition first_error :: "go_error \<Rightarrow> go_error \<Rightarrow> go_error" where
  "first_error a b = (if a = None then b else a)"

text \<open>The four steps of \<open>ClearExitNode\<close> on the recorded state: the kill switch, the captured default, the pins, the peer.\<close>

definition clear_switch :: "exit_state \<Rightarrow> tunnel \<Rightarrow> go_error \<times> tunnel" where
  "clear_switch st t = (if exLocked st \<and> tHasSwitch t then on_host (Release (tNftFound t)) t else (None, t))"

definition clear_default :: "exit_state \<Rightarrow> tunnel \<Rightarrow> go_error \<times> tunnel" where
  "clear_default st t = (if exCaptured st \<and> tHasRouter t then on_host (ReleaseDefault (tInterface t)) t else (None, t))"

definition clear_pins :: "exit_state \<Rightarrow> tunnel \<Rightarrow> tunnel" where
  "clear_pins st t = (if tHasRouter t then t\<lparr>host := unpinAll (exPinned st) (host t)\<rparr> else t)"

definition clear_peer :: "exit_state \<Rightarrow> tunnel \<Rightarrow> go_error \<times> tunnel" where
  "clear_peer st t =
     (if exDeviceID st \<noteq> uuid_Nil then
        (case map_of (tPeers t) (exDeviceID st) of None \<Rightarrow> (None, t) | Some pr \<Rightarrow> narrowPeer pr t)
      else (None, t))"

definition ClearExitNode :: "tunnel \<Rightarrow> go_error \<times> tunnel" where
  "ClearExitNode t =
     (let st = tExit t;
          t = t\<lparr>tExit := st\<lparr>exDeviceID := uuid_Nil, exPinned := [], exCaptured := False, exLocked := False\<rparr>\<rparr>
      in if exDeviceID st = uuid_Nil \<and> \<not> exCaptured st \<and> \<not> exLocked st then (None, t)
         else let (e1, t) = clear_switch st t;
                  (e2, t) = clear_default st t;
                  (e3, t) = clear_peer st (clear_pins st t)
              in (first_error (first_error e1 e2) e3, t))"

fun pin_loop :: "default_route \<Rightarrow> bytes list \<Rightarrow> bytes list \<Rightarrow> world \<Rightarrow> (string \<times> bytes list + bytes list) \<times> world" where
  "pin_loop prior [] pinned w = (Inr pinned, w)"
| "pin_loop prior (ip # ips) pinned w =
     (case PinEndpoint ip prior w of
        (Some e, w) \<Rightarrow> (Inl (e, pinned), w)
      | (None, w) \<Rightarrow> pin_loop prior ips (pinned @ [ip]) w)"

record exit_options =
  eoKillSwitch :: bool
  eoAllowLAN :: bool

definition undo_exit :: "bytes list \<Rightarrow> tpeer \<Rightarrow> tunnel \<Rightarrow> tunnel" where
  "undo_exit pinned pr t = snd (narrowPeer pr (t\<lparr>host := unpinAll pinned (host t)\<rparr>))"

definition SetExitNode ::
  "string option \<Rightarrow> host_iface list option \<Rightarrow> uuid \<Rightarrow> exit_options \<Rightarrow> tunnel \<Rightarrow> go_error \<times> tunnel" where
  "SetExitNode snap ifaces i opts t =
     (if \<not> tHasRouter t then (Some ''tunnel: exit-node mode needs a router'', t)
      else case map_of (tPeers t) i of
        None \<Rightarrow> (Some ''tunnel: not a peer on this network'', t)
      | Some pr \<Rightarrow>
          (case ClearExitNode t of
             (Some e, t) \<Rightarrow> (Some e, t)
           | (None, t) \<Rightarrow>
               (case Snapshot snap of
                  Inl e \<Rightarrow> (Some (''tunnel: exit-node mode needs a working default route: '' @ e), t)
                | Inr prior \<Rightarrow>
                    (case widenPeer pr t of
                       (Some e, t) \<Rightarrow> (Some e, t)
                     | (None, t) \<Rightarrow>
                         (case on_host (pin_loop prior (transportEndpoints t) []) t of
                            (Inl (e, pinned), t) \<Rightarrow> (Some (''tunnel: pin around the tunnel: '' @ e), undo_exit pinned pr t)
                          | (Inr pinned, t) \<Rightarrow>
                              (case on_host (CaptureDefault (tInterface t)) t of
                                 (Some e, t) \<Rightarrow> (Some (''tunnel: capture the default route: '' @ e), undo_exit pinned pr t)
                               | (None, t) \<Rightarrow>
                                   let t = t\<lparr>tExit := (tExit t)\<lparr>exDeviceID := i, exPrior := prior, exPinned := pinned,
                                              exCaptured := True\<rparr>\<rparr>
                                   in if eoKillSwitch opts then
                                        (case engageKillSwitch ifaces (tInterface t) (eoAllowLAN opts) t of
                                           (Some e, t) \<Rightarrow>
                                             (Some (''tunnel: exit node is up but the kill switch did not engage: '' @ e), t)
                                         | (None, t) \<Rightarrow> (None, t))
                                      else (None, t)))))))"

section \<open>Registration, discovery and heartbeats\<close>

definition STUNDiscoverer_Discover :: "string + classify_result \<Rightarrow> string + discovery_result" where
  "STUNDiscoverer_Discover c =
     (case c of
        Inl e \<Rightarrow> Inl e
      | Inr r \<Rightarrow>
          let endpoint = (\<lambda>a. if addr_valid (fst a) then Some \<lparr>IP = fst a, Port = snd a, Zone = []\<rparr> else None)
          in Inr \<lparr>drPublicEndpoint = endpoint (crPublicAddr r), drLocalEndpoint = endpoint (crLocalAddr r),
                  drNATType = crType r\<rparr>)"

text \<open>\<open>disc\<close> is what the discoverer answers, \<open>None\<close> when there is none.\<close>

definition runDiscovery :: "(string + discovery_result) option \<Rightarrow> tunnel \<Rightarrow> tunnel" where
  "runDiscovery disc t = (case disc of Some (Inr r) \<Rightarrow> t\<lparr>tDiscovery := r\<rparr> | _ \<Rightarrow> t)"

definition tunnel_natTypeToProto :: "nat_type \<Rightarrow> nat_proto" where
  "tunnel_natTypeToProto t =
     (case t of
        NATOpen \<Rightarrow> NAT_TYPE_OPEN
      | NATFullCone \<Rightarrow> NAT_TYPE_FULL_CONE
      | NATRestrictedCone \<Rightarrow> NAT_TYPE_RESTRICTED_CONE
      | NATPortRestrictedCone \<Rightarrow> NAT_TYPE_PORT_RESTRICTED_CONE
      | NATSymmetric \<Rightarrow> NAT_TYPE_SYMMETRIC
      | NATUnknown \<Rightarrow> NAT_TYPE_UNSPECIFIED)"

definition registration_request :: "tunnel \<Rightarrow> register_request" where
  "registration_request t =
     \<lparr>rqNetworkId = tNetworkID t, rqDevicePublicKey = toPublicKey (tOpts t), rqDeviceName = toDeviceName (tOpts t),
      rqOs = toOS (tOpts t), rqOsVersion = toOSVersion (tOpts t), rqClientVersion = toClientVersion (tOpts t),
      rqAdvertiseExitNode = toAdvertiseExitNode (tOpts t)\<rparr>"

definition adopt_registration :: "register_response \<Rightarrow> tunnel \<Rightarrow> tunnel" where
  "adopt_registration resp t =
     t\<lparr>tDeviceID := rpDeviceId resp, tVirtualIP := rpAssignedVirtualIp resp, tCIDR := rpNetworkCidr resp,
       tDNSServers := rpDnsServers resp\<rparr>"

text \<open>\<open>rpc\<close> is the control plane's answer to a request.\<close>

definition Register ::
  "(register_request \<Rightarrow> string + register_response) \<Rightarrow> tunnel \<Rightarrow> (string + register_response) \<times> tunnel" where
  "Register rpc t =
     (case rpc (registration_request t) of
        Inl e \<Rightarrow> (Inl (''tunnel: register device: '' @ e), t)
      | Inr resp \<Rightarrow> (Inr resp, adopt_registration resp t))"

definition addPeers :: "(string \<Rightarrow> uuid option) \<Rightarrow> proto_peer list \<Rightarrow> tunnel \<Rightarrow> tunnel" where
  "addPeers up ps t = fold (\<lambda>p t. snd (addPeer up p t)) ps t"

definition UseCachedRegistration :: "(string \<Rightarrow> uuid option) \<Rightarrow> register_response option \<Rightarrow> tunnel \<Rightarrow> tunnel" where
  "UseCachedRegistration up resp t =
     (case resp of None \<Rightarrow> t | Some resp \<Rightarrow> addPeers up (rpExistingPeers resp) (adopt_registration resp t))"

text \<open>\<open>Start\<close> up to its loops, and after they have ended.\<close>

definition Start_begin ::
  "(string \<Rightarrow> uuid option) \<Rightarrow> gotime \<Rightarrow> (register_request \<Rightarrow> string + register_response) \<Rightarrow>
     (string + discovery_result) option \<Rightarrow> tunnel \<Rightarrow> go_error \<times> tunnel" where
  "Start_begin up now rpc disc t =
     (let alreadyRegistered = (tDeviceID t \<noteq> []) in
      if tStarted t then (Some ''tunnel: already started'', t)
      else let t = setState now StateHandshaking (t\<lparr>tStarted := True\<rparr>) in
           case (if alreadyRegistered then (Inr [], t)
                 else case Register rpc t of (Inl e, t) \<Rightarrow> (Inl e, t) | (Inr resp, t) \<Rightarrow> (Inr (rpExistingPeers resp), t)) of
             (Inl e, t) \<Rightarrow> (Some e, t)
           | (Inr existingPeers, t) \<Rightarrow> (None, addPeers up existingPeers (runDiscovery disc t)))"

definition shutdownPeers :: "tunnel \<Rightarrow> tunnel" where
  "shutdownPeers t = t\<lparr>tPeers := []\<rparr>"

definition Start_end :: "gotime \<Rightarrow> tunnel \<Rightarrow> tunnel" where
  "Start_end now t = setState now StateIdle (shutdownPeers (snd (ClearExitNode t)))"

definition sendHeartbeat ::
  "wg_stats list option \<Rightarrow> (heartbeat_request \<Rightarrow> unit + int) \<Rightarrow> duration \<Rightarrow> tunnel \<Rightarrow> duration" where
  "sendHeartbeat stats rpc fallback t =
     (if tDeviceID t = [] then fallback
      else let ss = (case stats of None \<Rightarrow> [] | Some ss \<Rightarrow> ss) in
           case rpc \<lparr>hbDeviceId = tDeviceID t, hbPublicEndpoint = endpointToProto (drPublicEndpoint (tDiscovery t)),
                     hbPrivateEndpoint = endpointToProto (drLocalEndpoint (tDiscovery t)),
                     hbNatType = tunnel_natTypeToProto (drNATType (tDiscovery t)),
                     hbBytesSent = sum_list (map wsTxBytes ss), hbBytesReceived = sum_list (map wsRxBytes ss)\<rparr> of
             Inl _ \<Rightarrow> fallback
           | Inr secs \<Rightarrow> if secs > 0 then secs * Second else fallback)"

text \<open>One round of \<open>peerUpdateLoop\<close> on a registered device: the stream could not be opened, or it was
  opened and delivered these updates before it broke.\<close>

datatype stream_round =
  StreamFailed
| StreamServed "(peer_update_type option \<times> proto_peer option) list"

definition consumeStream ::
  "(string \<Rightarrow> uuid option) \<Rightarrow> (peer_update_type option \<times> proto_peer option) list \<Rightarrow> tunnel \<Rightarrow> tunnel" where
  "consumeStream up us t = fold (\<lambda>(ty, p) t. applyPeerUpdate up ty p t) us t"

definition peerUpdateLoop_round ::
  "(string \<Rightarrow> uuid option) \<Rightarrow> stream_round \<Rightarrow> duration \<Rightarrow> tunnel \<Rightarrow> duration \<times> tunnel" where
  "peerUpdateLoop_round up r backoff t =
     (if tDeviceID t = [] then (backoff, t)
      else case r of
        StreamFailed \<Rightarrow> (min (backoff * 2) defaultStreamRetryMax, t)
      | StreamServed us \<Rightarrow> (defaultStreamRetryBase, consumeStream up us t))"

section \<open>Renegotiation\<close>

text \<open>The context of the probes: which addresses the socket can send to, the transaction identifiers drawn for
  a peer's targets, and the clock.\<close>

definition probe_targets :: "tpeer \<Rightarrow> udp_addr list" where
  "probe_targets pr = (case tpRemote pr of None \<Rightarrow> [] | Some a \<Rightarrow> [a]) @ (case tpLocalCandidate pr of None \<Rightarrow> [] | Some a \<Rightarrow> [a])"

fun ping_targets ::
  "(addr_port \<Rightarrow> bool) \<Rightarrow> (nat \<Rightarrow> txid option) \<Rightarrow> gotime \<Rightarrow> nat \<Rightarrow> udp_addr list \<Rightarrow> prober \<Rightarrow> prober" where
  "ping_targets ep_ok tx now k [] p = p"
| "ping_targets ep_ok tx now k (a # as) p =
     (if \<not> addr_valid (IP a) then ping_targets ep_ok tx now (Suc k) as p
      else ping_targets ep_ok tx now (Suc k) as (snd (Ping ep_ok (tx k) now (Unmap (IP a), Port a mod 65536) p)))"

definition probeForDirectPath ::
  "(addr_port \<Rightarrow> bool) \<Rightarrow> (nat \<Rightarrow> txid option) \<Rightarrow> gotime \<Rightarrow> uuid \<Rightarrow> tpeer \<Rightarrow> tunnel \<Rightarrow> tunnel" where
  "probeForDirectPath ep_ok tx now i pr t =
     (case tPaths t of
        None \<Rightarrow> t
      | Some p \<Rightarrow>
          (case prober_Result (tpDeviceID pr) p of
             Some res \<Rightarrow>
               if time_Sub now (pbAt res) < tMonitor t * 2
               then (set_peer i (pr\<lparr>tpLastAttempt := 0\<rparr>) t)\<lparr>spawned := spawned t @ [i]\<rparr>
               else t\<lparr>tPaths := Some (ping_targets ep_ok tx now 0 (probe_targets pr) p)\<rparr>
           | None \<Rightarrow> t\<lparr>tPaths := Some (ping_targets ep_ok tx now 0 (probe_targets pr) p)\<rparr>))"

definition check_peer ::
  "(addr_port \<Rightarrow> bool) \<Rightarrow> (nat \<Rightarrow> txid option) \<Rightarrow> gotime \<Rightarrow> (string \<Rightarrow> wg_stats option) \<Rightarrow> uuid \<Rightarrow> tunnel \<Rightarrow> tunnel" where
  "check_peer ep_ok tx now stats i t =
     (case map_of (tPeers t) i of
        None \<Rightarrow> t
      | Some pr \<Rightarrow>
          (case stats (tpPublicKey pr) of
             None \<Rightarrow> t
           | Some ws \<Rightarrow>
               if wsLastHandshake ws \<noteq> 0 \<and> time_Sub now (wsLastHandshake ws) < HandshakeStaleAfter
               then (if tpMode pr = ModeRelay then probeForDirectPath ep_ok tx now i pr t else t)
               else if time_Sub now (tpLastAttempt pr) < tRenegotiate t then t
               else t\<lparr>spawned := spawned t @ [i]\<rparr>))"

definition checkPeerHealth ::
  "(addr_port \<Rightarrow> bool) \<Rightarrow> (uuid \<Rightarrow> nat \<Rightarrow> txid option) \<Rightarrow> gotime \<Rightarrow> (string \<Rightarrow> wg_stats option) \<Rightarrow> tunnel \<Rightarrow> tunnel" where
  "checkPeerHealth ep_ok tx now stats t =
     fold (\<lambda>i. check_peer ep_ok (tx i) now stats i) (map fst (tPeers t)) t"

text \<open>What \<open>monitorLoop\<close> does when one of its two tickers fires.\<close>

datatype monitor_tick =
  ObserveTick gotime "string \<Rightarrow> wg_stats option"
| RenegotiateTick "addr_port \<Rightarrow> bool" "uuid \<Rightarrow> nat \<Rightarrow> txid option" gotime "string \<Rightarrow> wg_stats option"

definition monitorLoop_tick :: "monitor_tick \<Rightarrow> tunnel \<Rightarrow> tunnel" where
  "monitorLoop_tick tick t =
     (case tick of
        ObserveTick now stats \<Rightarrow> observeHealth now (observePeerModes now stats t)
      | RenegotiateTick ep_ok tx now stats \<Rightarrow> observeHealth now (checkPeerHealth ep_ok tx now stats t))"

section \<open>Status\<close>

record peer_status =
  psDeviceID :: string
  psDeviceName :: string
  psOS :: string
  psExitNode :: bool
  psPublicKey :: string
  psVirtualIP :: string
  psMode :: connection_mode
  psEndpoint :: string
  psLastHandshake :: gotime
  psBytesSent :: "64 word"
  psBytesReceived :: "64 word"
  psLatencyMs :: int

definition peer_snapshot ::
  "(uuid \<Rightarrow> string) \<Rightarrow> (string \<Rightarrow> wg_stats option) \<Rightarrow> prober option \<Rightarrow> tpeer \<Rightarrow> peer_status" where
  "peer_snapshot us stats paths pr =
     (let status = \<lparr>psDeviceID = us (tpDeviceID pr), psDeviceName = tpDeviceName pr, psOS = tpDeviceOS pr,
            psExitNode = tpExitNode pr, psPublicKey = tpPublicKey pr, psVirtualIP = tpVirtualIP pr, psMode = tpMode pr,
            psEndpoint = (case tpRemote pr of None \<Rightarrow> [] | Some a \<Rightarrow> UDPAddr_String a), psLastHandshake = 0,
            psBytesSent = 0, psBytesReceived = 0,
            psLatencyMs = (case Option.bind paths (prober_Result (tpDeviceID pr)) of
                             None \<Rightarrow> -1
                           | Some res \<Rightarrow> sgn (pbRTT res) * (\<bar>pbRTT res\<bar> div 1000000))\<rparr>
      in case stats (tpPublicKey pr) of
           None \<Rightarrow> status
         | Some ws \<Rightarrow>
             status\<lparr>psLastHandshake := wsLastHandshake ws, psBytesSent := wsTxBytes ws, psBytesReceived := wsRxBytes ws,
                    psEndpoint := (if wsEndpoint ws \<noteq> [] then wsEndpoint ws else psEndpoint status)\<rparr>)"

record tunnel_status =
  stConnected :: bool
  stState :: tunnel_phase
  stNetworkID :: string
  stNetworkName :: string
  stDeviceID :: string
  stInterfaceName :: string
  stVirtualIP :: string
  stCIDR :: string
  stNATType :: string
  stPublicEndpoint :: string
  stPeers :: "peer_status list"
  stExitNodeID :: string
  stKillSwitchEngaged :: bool
  stActiveSince :: gotime

definition Status :: "(uuid \<Rightarrow> string) \<Rightarrow> (string \<Rightarrow> wg_stats option) \<Rightarrow> tunnel \<Rightarrow> tunnel_status" where
  "Status us stats t =
     \<lparr>stConnected = (tDeviceID t \<noteq> []), stState = tPhase t, stNetworkID = tNetworkID t, stNetworkName = tNetworkName t,
      stDeviceID = tDeviceID t, stInterfaceName = tInterface t, stVirtualIP = tVirtualIP t, stCIDR = tCIDR t,
      stNATType = NATType_String (drNATType (tDiscovery t)),
      stPublicEndpoint = (case drPublicEndpoint (tDiscovery t) of None \<Rightarrow> [] | Some a \<Rightarrow> UDPAddr_String a),
      stPeers = map (\<lambda>(i, pr). peer_snapshot us stats (tPaths t) pr) (tPeers t),
      stExitNodeID = (case ExitNode t of (i, has) \<Rightarrow> if has then us i else []),
      stKillSwitchEngaged = exLocked (tExit t), stActiveSince = ActiveSince t\<rparr>"

end
