(* ===== verification/Client_Exit.thy ===== *)
theory Client_Exit
  imports Client_Tunnel
begin

text \<open>
  What exit-node mode does to the host: the routes and peer configurations a log of commands leaves behind,
  the logs of \<open>SetExitNode\<close> and \<open>ClearExitNode\<close> on their success and error paths, and from them that
  a successful call captures everything in the right order, that a failed one is undone, and the one
  failure that is not.
\<close>

section \<open>The host as the log leaves it\<close>

text \<open>The routes installed and the configuration of a WireGuard peer, as the successful commands of a log
  leave them. A peer's configuration follows the device's protocol: allowed addresses are replaced when an
  update names some, the keepalive always.\<close>

definition route_cmd :: "string list \<Rightarrow> string set \<Rightarrow> string set" where
  "route_cmd args R =
     (case dropWhile (\<lambda>a. a \<noteq> ''route'') args of
        _ # verb # prefix # _ \<Rightarrow> if verb = ''replace'' then insert prefix R else if verb = ''del'' then R - {prefix} else R
      | _ \<Rightarrow> R)"

definition routes_step :: "host_cmd \<times> bool \<Rightarrow> string set \<Rightarrow> string set" where
  "routes_step e R = (case e of (IpRoute args, True) \<Rightarrow> route_cmd args R | _ \<Rightarrow> R)"

definition host_routes :: "world \<Rightarrow> string set" where
  "host_routes w = fold routes_step (wlog w) {}"

definition allowed_step :: "string \<Rightarrow> host_cmd \<times> bool \<Rightarrow> ip_net list option \<Rightarrow> ip_net list option" where
  "allowed_step key e A =
     (case e of
        (DevUpsert cfg, True) \<Rightarrow> if pcPublicKey cfg = key \<and> pcAllowedIPs cfg \<noteq> [] then Some (pcAllowedIPs cfg) else A
      | (DevRemove k, True) \<Rightarrow> if k = key then None else A
      | _ \<Rightarrow> A)"

definition peer_allowed :: "string \<Rightarrow> world \<Rightarrow> ip_net list option" where
  "peer_allowed key w = fold (allowed_step key) (wlog w) None"

definition keepalive_step :: "string \<Rightarrow> host_cmd \<times> bool \<Rightarrow> int \<Rightarrow> int" where
  "keepalive_step key e k =
     (case e of
        (DevUpsert cfg, True) \<Rightarrow> if pcPublicKey cfg = key then pcKeepalive cfg else k
      | (DevRemove k', True) \<Rightarrow> if k' = key then 0 else k
      | _ \<Rightarrow> k)"

definition peer_keepalive :: "string \<Rightarrow> world \<Rightarrow> int" where
  "peer_keepalive key w = fold (keepalive_step key) (wlog w) 0"

section \<open>Commands and the log\<close>

lemma exec_simps [simp]:
  "fst (exec c w) = outcome w (length (wlog w)) c"
  "wlog (snd (exec c w)) = wlog w @ [(c, outcome w (length (wlog w)) c = None)]"
  "outcome (snd (exec c w)) = outcome w"
  by (simp_all add: exec_def Let_def)

lemma run_ip_simps [simp]:
  "fst (run_ip args w) = None \<longleftrightarrow> outcome w (length (wlog w)) (IpRoute args) = None"
  "snd (run_ip args w) = snd (exec (IpRoute args) w)"
  by (auto simp: run_ip_def exec_def Let_def split: option.splits)

lemma run_ipD:
  "run_ip args w = (r, w') \<Longrightarrow>
     wlog w' = wlog w @ [(IpRoute args, r = None)] \<and> outcome w' = outcome w \<and>
     (r = None \<longleftrightarrow> outcome w (length (wlog w)) (IpRoute args) = None)"
  using run_ip_simps [of args w] by force

lemma routes_step_dev [simp]: "routes_step (DevUpsert cfg, b) R = R" "routes_step (IpRoute args, False) R = R"
  by (simp_all add: routes_step_def split: bool.splits)

lemma allowed_step_ip [simp]: "allowed_step key (IpRoute args, b) A = A"
  by (simp add: allowed_step_def)

definition pin_cmd :: "default_route \<Rightarrow> bytes \<Rightarrow> host_cmd" where
  "pin_cmd via ip = IpRoute [''route'', ''replace'', hostPrefix ip, ''via'', IP_String (the (Gateway via)), ''dev'', dfInterface via]"

definition unpin_cmd :: "bytes \<Rightarrow> host_cmd" where
  "unpin_cmd ip = IpRoute [''route'', ''del'', hostPrefix ip]"

definition capture_cmd :: "string \<Rightarrow> string \<Rightarrow> host_cmd" where
  "capture_cmd iface prefix = IpRoute [route_family prefix, ''route'', ''replace'', prefix, ''dev'', iface]"

lemma route_family_not_route [simp]: "route_family p \<noteq> ''route''"
  by (simp add: route_family_def)

lemma routes_step_cmds [simp]:
  "routes_step (pin_cmd via ip, True) R = insert (hostPrefix ip) R"
  "routes_step (unpin_cmd ip, True) R = R - {hostPrefix ip}"
  "routes_step (capture_cmd iface p, True) R = insert p R"
  "routes_step (pin_cmd via ip, False) R = R"
  "routes_step (unpin_cmd ip, False) R = R"
  "routes_step (capture_cmd iface p, False) R = R"
  by (simp_all add: routes_step_def pin_cmd_def unpin_cmd_def capture_cmd_def route_cmd_def)

lemma allowed_step_cmds [simp]:
  "allowed_step key (pin_cmd via ip, b) A = A" "allowed_step key (unpin_cmd ip, b) A = A"
  "allowed_step key (capture_cmd iface p, b) A = A"
  by (simp_all add: pin_cmd_def unpin_cmd_def capture_cmd_def)

lemma PinEndpoint_ok:
  "PinEndpoint ip via w = (None, w') \<Longrightarrow> wlog w' = wlog w @ [(pin_cmd via ip, True)] \<and> outcome w' = outcome w"
  by (auto simp: PinEndpoint_def pin_cmd_def dest!: run_ipD split: option.splits if_splits)

lemma PinEndpoint_err:
  "PinEndpoint ip via w = (Some e, w') \<Longrightarrow>
     (wlog w' = wlog w \<or> wlog w' = wlog w @ [(pin_cmd via ip, False)]) \<and> outcome w' = outcome w"
  by (auto simp: PinEndpoint_def pin_cmd_def dest!: run_ipD split: option.splits if_splits)

lemma pin_loop_ok:
  "pin_loop via ips pinned w = (Inr ps, w') \<Longrightarrow>
     ps = pinned @ ips \<and> wlog w' = wlog w @ map (\<lambda>ip. (pin_cmd via ip, True)) ips \<and> outcome w' = outcome w"
proof (induction ips arbitrary: pinned w)
  case (Cons ip ips)
  then obtain w1 where w1: "PinEndpoint ip via w = (None, w1)" "pin_loop via ips (pinned @ [ip]) w1 = (Inr ps, w')"
    by (auto split: prod.splits option.splits)
  show ?case
    using Cons.IH [OF w1(2)] PinEndpoint_ok [OF w1(1)] by simp
qed simp

lemma pin_loop_err:
  "pin_loop via ips pinned w = (Inl (e, ps), w') \<Longrightarrow>
     \<exists>done fs. ps = pinned @ done \<and> set done \<subseteq> set ips \<and> list_all (\<lambda>x. \<exists>ip. x = (pin_cmd via ip, False)) fs \<and>
       wlog w' = wlog w @ map (\<lambda>ip. (pin_cmd via ip, True)) done @ fs \<and> outcome w' = outcome w"
proof (induction ips arbitrary: pinned w)
  case (Cons ip ips)
  obtain r w1 where w1: "PinEndpoint ip via w = (r, w1)"
    by fastforce
  show ?case
  proof (cases r)
    case None
    then have "pin_loop via ips (pinned @ [ip]) w1 = (Inl (e, ps), w')"
      using Cons.prems w1 by simp
    from Cons.IH [OF this] obtain dn fs where ih: "ps = (pinned @ [ip]) @ dn" "set dn \<subseteq> set ips"
      "list_all (\<lambda>x. \<exists>ip. x = (pin_cmd via ip, False)) fs"
      "wlog w' = wlog w1 @ map (\<lambda>ip. (pin_cmd via ip, True)) dn @ fs" "outcome w' = outcome w1"
      by (elim exE conjE)
    show ?thesis
      by (rule exI [of _ "ip # dn"], rule exI [of _ fs]) (use ih PinEndpoint_ok [of ip via w w1] w1 None in auto)
  next
    case (Some e')
    then have same: "ps = pinned" "w' = w1"
      using Cons.prems w1 by simp_all
    from Some obtain fs where "list_all (\<lambda>x. \<exists>ip. x = (pin_cmd via ip, False)) fs" "wlog w1 = wlog w @ fs" "outcome w1 = outcome w"
      using PinEndpoint_err [of ip via w e' w1] w1 by fastforce
    then show ?thesis
      unfolding same by (intro exI [of _ "[] :: bytes list"] exI [of _ fs]) simp
  qed
qed simp

lemma UnpinEndpoint_log [simp]:
  "wlog (snd (UnpinEndpoint ip w)) = wlog w @ [(unpin_cmd ip, outcome w (length (wlog w)) (unpin_cmd ip) = None)]"
  "outcome (snd (UnpinEndpoint ip w)) = outcome w"
  by (auto simp: UnpinEndpoint_def unpin_cmd_def dest!: run_ipD split: prod.splits option.splits)

lemma unpinAll_log:
  "(\<And>n ip. outcome w n (unpin_cmd ip) = None) \<Longrightarrow>
     wlog (unpinAll ips w) = wlog w @ map (\<lambda>ip. (unpin_cmd ip, True)) ips \<and> outcome (unpinAll ips w) = outcome w"
  by (induction ips arbitrary: w) simp_all

lemma fold_pins: "fold routes_step (map (\<lambda>ip. (pin_cmd via ip, True)) ips) R = R \<union> hostPrefix ` set ips"
  by (induction ips arbitrary: R) auto

lemma fold_unpins: "fold routes_step (map (\<lambda>ip. (unpin_cmd ip, True)) ips) R = R - hostPrefix ` set ips"
  by (induction ips arbitrary: R) auto

lemma fold_allowed_cmds [simp]:
  "fold (allowed_step key) (map (\<lambda>ip. (pin_cmd via ip, b)) ips) A = A"
  "fold (allowed_step key) (map (\<lambda>ip. (unpin_cmd ip, b)) ips) A = A"
  by (induction ips) simp_all

text \<open>\<open>CaptureDefault\<close> installs both halves of the IPv4 space or fails; the halves of the IPv6 space are tried.\<close>

lemma capture_step [simp]:
  "capture_loop iface (p # ps) w =
     (if outcome w (length (wlog w)) (capture_cmd iface p) = None \<or> route_family p = ''-6''
      then capture_loop iface ps (snd (exec (capture_cmd iface p) w))
      else (Some (the (fst (run_ip [route_family p, ''route'', ''replace'', p, ''dev'', iface] w))), snd (exec (capture_cmd iface p) w)))"
  using run_ip_simps [of "[route_family p, ''route'', ''replace'', p, ''dev'', iface]" w]
  by (cases "run_ip [route_family p, ''route'', ''replace'', p, ''dev'', iface] w")
    (auto simp: capture_cmd_def split: option.splits)

lemma route_families [simp]:
  "route_family ''0.0.0.0/1'' = ''-4''" "route_family ''128.0.0.0/1'' = ''-4''"
  "route_family ''::/1'' = ''-6''" "route_family ''8000::/1'' = ''-6''"
  by (simp_all add: route_family_def str_contains_def upt_rec)

lemma CaptureDefault_ok:
  assumes "CaptureDefault iface w = (None, w')"
  shows "\<exists>a b. wlog w' = wlog w @ [(capture_cmd iface ''0.0.0.0/1'', True), (capture_cmd iface ''128.0.0.0/1'', True),
      (capture_cmd iface ''::/1'', a), (capture_cmd iface ''8000::/1'', b)]"
    and "outcome w' = outcome w"
  using assms
  by (simp_all add: CaptureDefault_def splitDefault_def splitDefaultV6_def del: capture_loop.simps(2) split: if_splits) auto

declare capture_loop.simps(2) [simp del]

section \<open>Entering and leaving exit-node mode\<close>

lemma on_host_frame [simp]:
  "tPeers (snd (on_host f t)) = tPeers t" "tInterface (snd (on_host f t)) = tInterface t"
  "tHasRouter (snd (on_host f t)) = tHasRouter t" "tHasSwitch (snd (on_host f t)) = tHasSwitch t"
  "tExit (snd (on_host f t)) = tExit t" "tPhase (snd (on_host f t)) = tPhase t"
  "tNftFound (snd (on_host f t)) = tNftFound t"
  "host (snd (on_host f t)) = snd (f (host t))" "fst (on_host f t) = fst (f (host t))"
  by (simp_all add: on_host_def split: prod.splits)

lemma on_hostD: "on_host f t = (r, t') \<Longrightarrow> \<exists>w. f (host t) = (r, w) \<and> t' = t\<lparr>host := w\<rparr>"
  by (auto simp: on_host_def split: prod.splits)

lemma updatePeer_frame [simp]:
  "tPeers (snd (updatePeerAllowedIPs pr a t)) = tPeers t" "tInterface (snd (updatePeerAllowedIPs pr a t)) = tInterface t"
  "tExit (snd (updatePeerAllowedIPs pr a t)) = tExit t" "tPhase (snd (updatePeerAllowedIPs pr a t)) = tPhase t"
  by (simp_all add: updatePeerAllowedIPs_def)

lemma narrow_frame [simp]:
  "tPeers (snd (narrowPeer pr t)) = tPeers t" "tInterface (snd (narrowPeer pr t)) = tInterface t"
  "tExit (snd (narrowPeer pr t)) = tExit t" "tPhase (snd (narrowPeer pr t)) = tPhase t"
  by (simp_all add: narrowPeer_def split: sum.splits)

lemmas clear_steps = clear_switch_def clear_default_def clear_pins_def clear_peer_def

lemma clear_steps_frame [simp]:
  "tPeers (snd (clear_switch st t)) = tPeers t" "tPeers (snd (clear_default st t)) = tPeers t"
  "tPeers (clear_pins st t) = tPeers t" "tPeers (snd (clear_peer st t)) = tPeers t"
  "tInterface (snd (clear_switch st t)) = tInterface t" "tInterface (snd (clear_default st t)) = tInterface t"
  "tInterface (clear_pins st t) = tInterface t" "tInterface (snd (clear_peer st t)) = tInterface t"
  "tExit (snd (clear_switch st t)) = tExit t" "tExit (snd (clear_default st t)) = tExit t"
  "tExit (clear_pins st t) = tExit t" "tExit (snd (clear_peer st t)) = tExit t"
  "tPhase (snd (clear_switch st t)) = tPhase t" "tPhase (snd (clear_default st t)) = tPhase t"
  "tPhase (clear_pins st t) = tPhase t" "tPhase (snd (clear_peer st t)) = tPhase t"
  by (simp_all add: clear_steps split: option.split)

lemma clear_frame [simp]:
  "tPeers (snd (ClearExitNode t)) = tPeers t" "tInterface (snd (ClearExitNode t)) = tInterface t"
  "tPhase (snd (ClearExitNode t)) = tPhase t"
  "exDeviceID (tExit (snd (ClearExitNode t))) = uuid_Nil" "\<not> exCaptured (tExit (snd (ClearExitNode t)))"
  "\<not> exLocked (tExit (snd (ClearExitNode t)))" "exPinned (tExit (snd (ClearExitNode t))) = []"
  by (simp_all add: ClearExitNode_def Let_def split_beta)

lemma parse_exit:
  "parseAllowedIPs exitAllowedIPs =
     Inr [\<lparr>NetIP = replicate 4 0, Mask = replicate 4 0\<rparr>, \<lparr>NetIP = replicate 16 0, Mask = replicate 16 0\<rparr>]"
  by code_simp

abbreviation everything :: "ip_net list" where
  "everything \<equiv> [\<lparr>NetIP = replicate 4 0, Mask = replicate 4 0\<rparr>, \<lparr>NetIP = replicate 16 0, Mask = replicate 16 0\<rparr>]"

definition peer_cfg :: "tpeer \<Rightarrow> ip_net list \<Rightarrow> peer_config" where
  "peer_cfg pr a = \<lparr>pcPublicKey = tpPublicKey pr,
     pcEndpoint = (case tpProxy pr of Some px \<Rightarrow> Some (LocalEndpoint px) | None \<Rightarrow> tpRemote pr),
     pcAllowedIPs = a, pcKeepalive = keepaliveSeconds\<rparr>"

lemma peer_cfg_simps [simp]:
  "pcPublicKey (peer_cfg pr a) = tpPublicKey pr" "pcAllowedIPs (peer_cfg pr a) = a"
  by (simp_all add: peer_cfg_def)

lemma updatePeerD:
  "updatePeerAllowedIPs pr a t = (r, t') \<Longrightarrow>
     \<exists>w. wlog w = wlog (host t) @ [(DevUpsert (peer_cfg pr a), r = None)] \<and> outcome w = outcome (host t) \<and> t' = t\<lparr>host := w\<rparr> \<and>
       (r = None \<longleftrightarrow> outcome (host t) (length (wlog (host t))) (DevUpsert (peer_cfg pr a)) = None)"
  unfolding updatePeerAllowedIPs_def UpsertPeer_def peer_cfg_def [symmetric]
  by (rule exI [of _ "snd (exec (DevUpsert (peer_cfg pr a)) (host t))"]) (auto simp: on_host_def split_beta)

lemma transport_host [simp]: "transportEndpoints (t\<lparr>host := w\<rparr>) = transportEndpoints t"
  by (simp add: transportEndpoints_def)

lemma transport_peers: "tPeers t = tPeers t' \<Longrightarrow> transportEndpoints t = transportEndpoints t'"
  by (simp add: transportEndpoints_def)

lemma EngageD:
  "Engage nft p w = (r, w') \<Longrightarrow> \<exists>post. wlog w' = wlog w @ post \<and> list_all (\<lambda>(c, ok). \<exists>s. c = NftLoad s) post"
  by (auto simp: Engage_def Let_def exec_def split: if_splits option.splits prod.splits)

lemma engageD:
  assumes "engageKillSwitch ifaces iface lan t = (r, t')"
  shows "\<exists>post. wlog (host t') = wlog (host t) @ post \<and> list_all (\<lambda>(c, ok). \<exists>s. c = NftLoad s) post"
    and "tPeers t' = tPeers t" and "tExit t' = (if r = None then (tExit t)\<lparr>exLocked := True\<rparr> else tExit t)"
  using assms
  by (auto simp: engageKillSwitch_def split: if_splits option.splits prod.splits dest!: on_hostD EngageD)

text \<open>A successful \<open>SetExitNode\<close>, step by step.\<close>

lemma SetExitNode_okE:
  assumes "SetExitNode snap ifaces i opts t = (None, t')"
  obtains pr c prior u p q where
    "map_of (tPeers t) i = Some pr" "ClearExitNode t = (None, c)" "Snapshot snap = Inr prior"
    "widenPeer pr c = (None, u)" "on_host (pin_loop prior (transportEndpoints u) []) u = (Inr (transportEndpoints u), p)"
    "on_host (CaptureDefault (tInterface p)) p = (None, q)"
    "\<exists>post. wlog (host t') = wlog (host q) @ post \<and> list_all (\<lambda>(c, ok). \<exists>s. c = NftLoad s) post"
    "exDeviceID (tExit t') = i" "exPinned (tExit t') = transportEndpoints u" "exCaptured (tExit t')"
    "tPeers t' = tPeers q" "exLocked (tExit t') = (eoKillSwitch opts \<or> exLocked (tExit q))"
proof -
  from assms obtain pr where "tHasRouter t" and pr: "map_of (tPeers t) i = Some pr"
    by (cases "map_of (tPeers t) i") (auto simp: SetExitNode_def split: if_splits)
  with assms obtain c where c: "ClearExitNode t = (None, c)"
    by (cases "ClearExitNode t", cases "fst (ClearExitNode t)") (auto simp: SetExitNode_def)
  with assms \<open>tHasRouter t\<close> pr obtain prior where prior: "Snapshot snap = Inr prior"
    by (cases "Snapshot snap") (auto simp: SetExitNode_def)
  with assms \<open>tHasRouter t\<close> pr c obtain u where u: "widenPeer pr c = (None, u)"
    by (cases "widenPeer pr c", cases "fst (widenPeer pr c)") (auto simp: SetExitNode_def)
  with assms \<open>tHasRouter t\<close> pr c prior obtain ps p where "on_host (pin_loop prior (transportEndpoints u) []) u = (Inr ps, p)"
    by (cases "on_host (pin_loop prior (transportEndpoints u) []) u",
        cases "fst (on_host (pin_loop prior (transportEndpoints u) []) u)") (auto simp: SetExitNode_def simp del: on_host_frame)
  moreover from this have "ps = transportEndpoints u"
    by (auto dest!: on_hostD pin_loop_ok)
  ultimately have p: "on_host (pin_loop prior (transportEndpoints u) []) u = (Inr (transportEndpoints u), p)"
    by simp
  with assms \<open>tHasRouter t\<close> pr c prior u obtain q where q: "on_host (CaptureDefault (tInterface p)) p = (None, q)"
    by (cases "on_host (CaptureDefault (tInterface p)) p", cases "fst (on_host (CaptureDefault (tInterface p)) p)")
      (auto simp: SetExitNode_def simp del: on_host_frame)
  define q' where "q' = q\<lparr>tExit := (tExit q)\<lparr>exDeviceID := i, exPrior := prior, exPinned := transportEndpoints u, exCaptured := True\<rparr>\<rparr>"
  have t': "if eoKillSwitch opts then engageKillSwitch ifaces (tInterface q') (eoAllowLAN opts) q' = (None, t') else t' = q'"
    using assms \<open>tHasRouter t\<close> pr c prior u p q by (auto simp: SetExitNode_def q'_def split: prod.splits option.splits)
  show thesis
  proof (rule that [OF pr c prior u p q])
    show "\<exists>post. wlog (host t') = wlog (host q) @ post \<and> list_all (\<lambda>(c, ok). \<exists>s. c = NftLoad s) post"
      using t' engageD(1) [of ifaces "tInterface q'" "eoAllowLAN opts" q' None t'] by (auto simp: q'_def split: if_splits)
  qed (use t' engageD(2,3) [of ifaces "tInterface q'" "eoAllowLAN opts" q' None t'] in \<open>auto simp: q'_def split: if_splits\<close>)
qed

lemma routes_nft: "list_all (\<lambda>(c, ok). \<exists>s. c = NftLoad s) post \<Longrightarrow> fold routes_step post R = R"
  by (induction post arbitrary: R) (auto simp: routes_step_def)

lemma allowed_nft: "list_all (\<lambda>(c, ok). \<exists>s. c = NftLoad s) post \<Longrightarrow> fold (allowed_step key) post A = A"
  by (induction post arbitrary: A) (auto simp: allowed_step_def)

lemma allowed_upsert:
  "a \<noteq> [] \<Longrightarrow> allowed_step (tpPublicKey pr) (DevUpsert (peer_cfg pr a), True) A = Some a"
  by (simp add: allowed_step_def)

lemma allowed_after:
  assumes "list_all (\<lambda>(c, ok). \<exists>s. c = NftLoad s) post" "a \<noteq> []"
  shows "fold (allowed_step (tpPublicKey pr)) (pre @ [(DevUpsert (peer_cfg pr a), True)] @ map (\<lambda>ip. (pin_cmd via ip, True)) ips @
    [(capture_cmd iface x, True), (capture_cmd iface y, True), (capture_cmd iface z, d), (capture_cmd iface v, b)] @ post) A = Some a"
  using assms by (simp add: allowed_nft allowed_upsert)

lemma routes_after:
  assumes "list_all (\<lambda>(c, ok). \<exists>s. c = NftLoad s) post"
  shows "{x, y} \<union> hostPrefix ` set ips \<subseteq>
    fold routes_step (pre @ [(DevUpsert cfg, True)] @ map (\<lambda>ip. (pin_cmd via ip, True)) ips @
      [(capture_cmd iface x, True), (capture_cmd iface y, True), (capture_cmd iface z, d), (capture_cmd iface v, b)] @ post) R"
  using assms by (cases d; cases b) (auto simp: routes_nft fold_pins)

lemma widenD:
  "widenPeer pr t = (r, t') \<Longrightarrow> \<exists>w. wlog w = wlog (host t) @ [(DevUpsert (peer_cfg pr everything), r = None)] \<and>
     outcome w = outcome (host t) \<and> t' = t\<lparr>host := w\<rparr>"
  by (auto simp: widenPeer_def parse_exit dest!: updatePeerD)

text \<open>
  C19. Exit-node mode carries everything, and is entered in the order the tunnel depends on. When
  \<open>SetExitNode\<close> reports no error, the chosen peer is the recorded exit node, WireGuard may send it the
  whole of both address spaces, both halves of the IPv4 space are routed into the tunnel, and the address
  of every transport endpoint keeps a route around it. The commands were the peer's widening, then every
  pin, and only then the capture of the default; the kill switch is on if it was asked for.
\<close>
theorem exit_node_captures_all:
  assumes "SetExitNode snap ifaces i opts t = (None, t')" "i \<noteq> uuid_Nil"
  shows "ExitNode t' = (i, True) \<and> (\<exists>pr prior pre post.
     map_of (tPeers t) i = Some pr \<and> Snapshot snap = Inr prior \<and>
     peer_allowed (tpPublicKey pr) (host t') = Some everything \<and>
     {''0.0.0.0/1'', ''128.0.0.0/1''} \<union> hostPrefix ` set (transportEndpoints t') \<subseteq> host_routes (host t') \<and>
     wlog (host t') = pre @ [(DevUpsert (peer_cfg pr everything), True)] @
       map (\<lambda>ip. (pin_cmd prior ip, True)) (transportEndpoints t') @
       [(capture_cmd (tInterface t) ''0.0.0.0/1'', True), (capture_cmd (tInterface t) ''128.0.0.0/1'', True)] @ post) \<and>
     (eoKillSwitch opts \<longrightarrow> exLocked (tExit t'))"
proof -
  obtain pr c prior u p q where s: "map_of (tPeers t) i = Some pr" "ClearExitNode t = (None, c)" "Snapshot snap = Inr prior"
    "widenPeer pr c = (None, u)" "on_host (pin_loop prior (transportEndpoints u) []) u = (Inr (transportEndpoints u), p)"
    "on_host (CaptureDefault (tInterface p)) p = (None, q)"
    "\<exists>post. wlog (host t') = wlog (host q) @ post \<and> list_all (\<lambda>(c, ok). \<exists>s. c = NftLoad s) post"
    "exDeviceID (tExit t') = i" "tPeers t' = tPeers q" "exLocked (tExit t') = (eoKillSwitch opts \<or> exLocked (tExit q))"
    using assms(1) by (rule SetExitNode_okE)
  obtain post where post: "wlog (host t') = wlog (host q) @ post" "list_all (\<lambda>(c, ok). \<exists>s. c = NftLoad s) post"
    using s(7) by blast
  obtain w where w: "wlog w = wlog (host c) @ [(DevUpsert (peer_cfg pr everything), True)]" "u = c\<lparr>host := w\<rparr>"
    using widenD [OF s(4)] by auto
  obtain v where v: "pin_loop prior (transportEndpoints u) [] w = (Inr (transportEndpoints u), v)" "p = u\<lparr>host := v\<rparr>"
    using on_hostD [OF s(5)] w(2) by auto
  obtain x where x: "CaptureDefault (tInterface p) v = (None, x)" "q = p\<lparr>host := x\<rparr>"
    using on_hostD [OF s(6)] v(2) by auto
  have "tPeers t' = tPeers u"
    by (simp add: s(9) x(2) v(2))
  then have ends: "transportEndpoints t' = transportEndpoints u"
    by (rule transport_peers)
  have iface: "tInterface p = tInterface t"
    using clear_frame(2) [of t] by (simp add: v(2) w(2) s(2))
  obtain a b where cap: "wlog x = wlog v @ [(capture_cmd (tInterface t) ''0.0.0.0/1'', True),
      (capture_cmd (tInterface t) ''128.0.0.0/1'', True), (capture_cmd (tInterface t) ''::/1'', a),
      (capture_cmd (tInterface t) ''8000::/1'', b)]"
    using CaptureDefault_ok(1) [OF x(1)] iface by auto
  have "host q = x"
    by (simp add: x(2))
  then have log: "wlog (host t') = wlog (host c) @ [(DevUpsert (peer_cfg pr everything), True)] @
      map (\<lambda>ip. (pin_cmd prior ip, True)) (transportEndpoints u) @
      [(capture_cmd (tInterface t) ''0.0.0.0/1'', True), (capture_cmd (tInterface t) ''128.0.0.0/1'', True),
       (capture_cmd (tInterface t) ''::/1'', a), (capture_cmd (tInterface t) ''8000::/1'', b)] @ post"
    using post(1) cap pin_loop_ok [OF v(1)] w(1) by simp
  have "peer_allowed (tpPublicKey pr) (host t') = Some everything"
    unfolding peer_allowed_def log by (rule allowed_after [OF post(2)]) simp
  moreover have "{''0.0.0.0/1'', ''128.0.0.0/1''} \<union> hostPrefix ` set (transportEndpoints t') \<subseteq> host_routes (host t')"
    unfolding host_routes_def log ends by (rule routes_after [OF post(2)])
  moreover have "ExitNode t' = (i, True)" "eoKillSwitch opts \<longrightarrow> exLocked (tExit t')"
    using assms(2) by (simp_all add: ExitNode_def s(8,10))
  moreover have "\<exists>pre post. wlog (host t') = pre @ [(DevUpsert (peer_cfg pr everything), True)] @
       map (\<lambda>ip. (pin_cmd prior ip, True)) (transportEndpoints t') @
       [(capture_cmd (tInterface t) ''0.0.0.0/1'', True), (capture_cmd (tInterface t) ''128.0.0.0/1'', True)] @ post"
    unfolding log ends
    by (rule exI [of _ "wlog (host c)"],
        rule exI [of _ "[(capture_cmd (tInterface t) ''::/1'', a), (capture_cmd (tInterface t) ''8000::/1'', b)] @ post"]) simp
  ultimately show ?thesis
    using s(1,3) by blast
qed

definition exit_idle :: "tunnel \<Rightarrow> bool" where
  "exit_idle t \<longleftrightarrow> exDeviceID (tExit t) = uuid_Nil \<and> \<not> exCaptured (tExit t) \<and> \<not> exLocked (tExit t)"

lemma clear_idle:
  "exit_idle t \<Longrightarrow> ClearExitNode t =
     (None, t\<lparr>tExit := (tExit t)\<lparr>exDeviceID := uuid_Nil, exPinned := [], exCaptured := False, exLocked := False\<rparr>\<rparr>)"
  by (simp add: ClearExitNode_def exit_idle_def Let_def)

lemma narrow_log:
  assumes "\<And>n cfg. outcome (host t) n (DevUpsert cfg) = None" "allowedIPsFor (tpVirtualIP pr) = Inr a"
  shows "wlog (host (snd (narrowPeer pr t))) = wlog (host t) @ [(DevUpsert (peer_cfg pr a), True)]"
proof -
  obtain r t' where u: "updatePeerAllowedIPs pr a t = (r, t')"
    by fastforce
  show ?thesis
    using updatePeerD [OF u] assms u by (auto simp: narrowPeer_def)
qed

lemma undo_log:
  assumes "\<And>n ip. outcome (host t) n (unpin_cmd ip) = None" "\<And>n cfg. outcome (host t) n (DevUpsert cfg) = None"
    "allowedIPsFor (tpVirtualIP pr) = Inr a"
  shows "wlog (host (undo_exit pinned pr t)) =
     wlog (host t) @ map (\<lambda>ip. (unpin_cmd ip, True)) pinned @ [(DevUpsert (peer_cfg pr a), True)]"
    and "tExit (undo_exit pinned pr t) = tExit t"
  using narrow_log [of "t\<lparr>host := unpinAll pinned (host t)\<rparr>" pr a] unpinAll_log [of "host t" pinned] assms
  by (simp_all add: undo_exit_def)

lemma CaptureDefault_err:
  assumes "CaptureDefault iface w = (Some e, w')" "\<And>n. outcome w n (capture_cmd iface ''128.0.0.0/1'') = None"
  shows "wlog w' = wlog w @ [(capture_cmd iface ''0.0.0.0/1'', False)]" "outcome w' = outcome w"
  using assms
  by (simp_all add: CaptureDefault_def splitDefault_def splitDefaultV6_def split: if_splits) auto

lemma routes_failed_pins: "list_all (\<lambda>x. \<exists>ip. x = (pin_cmd via ip, False)) fs \<Longrightarrow> fold routes_step fs R = R"
  by (induction fs arbitrary: R) auto

lemma routes_undone:
  assumes "list_all (\<lambda>x. \<exists>ip. x = (pin_cmd via ip, False)) fs" "hostPrefix ` set pinned \<inter> fold routes_step pre R = {}"
    "xs = [] \<or> xs = [(capture_cmd iface p, False)]"
  shows "fold routes_step ((pre @ [(DevUpsert cfg, True)] @ map (\<lambda>ip. (pin_cmd via ip, True)) pinned @ fs @ xs) @
       map (\<lambda>ip. (unpin_cmd ip, True)) pinned @ [(DevUpsert cfg', True)]) R = fold routes_step pre R"
  using assms by (auto simp: fold_pins fold_unpins routes_failed_pins)

lemma allowed_narrowed:
  "a \<noteq> [] \<Longrightarrow> fold (allowed_step (tpPublicKey pr))
     (pre @ map (\<lambda>ip. (unpin_cmd ip, True)) ips @ [(DevUpsert (peer_cfg pr a), True)]) A = Some a"
  by (simp add: allowed_upsert)

lemma allowedIPsFor_nonempty: "allowedIPsFor s = Inr a \<Longrightarrow> a \<noteq> []"
  by (auto simp: allowedIPsFor_def split: if_splits option.splits)

text \<open>The two ways \<open>SetExitNode\<close> can fail once the peer is widened.\<close>

lemma SetExitNode_errE:
  assumes err: "SetExitNode snap ifaces i opts t = (Some e, t')" and idle: "exit_idle t" and ks: "\<not> eoKillSwitch opts"
    and pr: "map_of (tPeers t) i = Some pr"
    and dev: "\<And>n cfg. outcome (host t) n (DevUpsert cfg) = None"
    and half: "\<And>n. outcome (host t) n (capture_cmd (tInterface t) ''128.0.0.0/1'') = None"
  obtains "host t' = host t" "exit_idle t'"
  | u via pinned fs xs where "t' = undo_exit pinned pr u" "exit_idle u" "set pinned \<subseteq> set (transportEndpoints t)"
      "list_all (\<lambda>x. \<exists>ip. x = (pin_cmd via ip, False)) fs" "xs = [] \<or> xs = [(capture_cmd (tInterface t) ''0.0.0.0/1'', False)]"
      "wlog (host u) = wlog (host t) @ [(DevUpsert (peer_cfg pr everything), True)] @
         map (\<lambda>ip. (pin_cmd via ip, True)) pinned @ fs @ xs"
      "outcome (host u) = outcome (host t)"
proof -
  define c where "c = t\<lparr>tExit := (tExit t)\<lparr>exDeviceID := uuid_Nil, exPinned := [], exCaptured := False, exLocked := False\<rparr>\<rparr>"
  have c: "ClearExitNode t = (None, c)" "host c = host t" "exit_idle c" "tPeers c = tPeers t" "tInterface c = tInterface t"
    using clear_idle [OF idle] by (simp_all add: c_def exit_idle_def)
  have ends: "transportEndpoints c = transportEndpoints t"
    by (rule transport_peers) (rule c(4))
  show thesis
  proof (cases "tHasRouter t \<and> \<not> isl (Snapshot snap)")
    case False
    then have "t' = t \<or> t' = c"
      using err pr c(1) by (cases "Snapshot snap") (auto simp: SetExitNode_def split: if_splits)
    then show thesis
      using that(1) c(2,3) idle by auto
  next
    case True
    then obtain prior where prior: "tHasRouter t" "Snapshot snap = Inr prior"
      by (cases "Snapshot snap") auto
    obtain r u where u: "widenPeer pr c = (r, u)"
      by fastforce
    obtain w where w: "wlog w = wlog (host t) @ [(DevUpsert (peer_cfg pr everything), r = None)]"
      "outcome w = outcome (host t)" "u = c\<lparr>host := w\<rparr>"
      using widenD [OF u] c(2) by auto
    have r: "r = None"
      using u dev c(2) by (auto simp: widenPeer_def parse_exit dest!: updatePeerD)
    obtain x v where v: "pin_loop prior (transportEndpoints t) [] w = (x, v)"
      by fastforce
    show thesis
    proof (cases x)
      case (Inl ep)
      obtain e' ps where ep: "ep = (e', ps)" by fastforce
      obtain dn fs where d: "ps = dn" "set dn \<subseteq> set (transportEndpoints t)"
        "list_all (\<lambda>x. \<exists>ip. x = (pin_cmd prior ip, False)) fs"
        "wlog v = wlog w @ map (\<lambda>ip. (pin_cmd prior ip, True)) dn @ fs" "outcome v = outcome w"
        using pin_loop_err [OF v [unfolded Inl ep]] by auto
      have "t' = undo_exit ps pr (u\<lparr>host := v\<rparr>)"
        using err prior pr c(1) u r v Inl ep w(3) ends by (simp add: SetExitNode_def on_host_def)
      moreover have "exit_idle (u\<lparr>host := v\<rparr>)"
        using c(3) by (simp add: w(3) exit_idle_def)
      ultimately show thesis
        using that(2) [of ps "u\<lparr>host := v\<rparr>" prior fs "[]"] d w(1,2) r by simp
    next
      case (Inr ps)
      have p: "ps = transportEndpoints t" "wlog v = wlog w @ map (\<lambda>ip. (pin_cmd prior ip, True)) ps" "outcome v = outcome w"
        using pin_loop_ok [OF v [unfolded Inr]] by auto
      obtain y z where z: "CaptureDefault (tInterface t) v = (y, z)"
        by fastforce
      show thesis
      proof (cases y)
        case None
        then show thesis
          using err prior pr c(1,5) u r v z Inr w(3) ends ks by (simp add: SetExitNode_def on_host_def Let_def)
      next
        case (Some e')
        have k: "wlog z = wlog v @ [(capture_cmd (tInterface t) ''0.0.0.0/1'', False)]" "outcome z = outcome v"
          using CaptureDefault_err [OF z [unfolded Some]] half p(3) w(2) by simp_all
        have "t' = undo_exit ps pr (u\<lparr>host := z\<rparr>)"
          using err prior pr c(1,5) u r v z Inr Some w(3) ends by (simp add: SetExitNode_def on_host_def)
        moreover have "exit_idle (u\<lparr>host := z\<rparr>)"
          using c(3) by (simp add: w(3) exit_idle_def)
        ultimately show thesis
          using that(2) [of ps "u\<lparr>host := z\<rparr>" prior "[]" "[(capture_cmd (tInterface t) ''0.0.0.0/1'', False)]"] p k w(1,2) r
          by simp
      qed
    qed
  qed
qed

text \<open>
  C20. A failed exit node is undone. Starting without an exit node, on a host that accepts route deletions and
  WireGuard updates and has no routes of its own to the transport endpoints, a \<open>SetExitNode\<close> that
  fails before the second half of the default route is tried leaves the host's routes and the peer's
  allowed addresses as they were, and records no exit node.
\<close>
theorem failed_exit_node_undone:
  assumes "SetExitNode snap ifaces i opts t = (Some e, t')" "exit_idle t" "\<not> eoKillSwitch opts"
    and "map_of (tPeers t) i = Some pr" "allowedIPsFor (tpVirtualIP pr) = Inr a"
    and "peer_allowed (tpPublicKey pr) (host t) = Some a"
    and "\<And>n ip. outcome (host t) n (unpin_cmd ip) = None" "\<And>n cfg. outcome (host t) n (DevUpsert cfg) = None"
    and "\<And>n. outcome (host t) n (capture_cmd (tInterface t) ''128.0.0.0/1'') = None"
    and "hostPrefix ` set (transportEndpoints t) \<inter> host_routes (host t) = {}"
  shows "exit_idle t' \<and> host_routes (host t') = host_routes (host t) \<and> peer_allowed (tpPublicKey pr) (host t') = Some a"
  using assms(1,2,3,4,8,9)
proof (rule SetExitNode_errE)
  fix u via pinned fs xs
  assume u: "t' = undo_exit pinned pr u" "exit_idle u" "set pinned \<subseteq> set (transportEndpoints t)"
    "list_all (\<lambda>x. \<exists>ip. x = (pin_cmd via ip, False)) fs" "xs = [] \<or> xs = [(capture_cmd (tInterface t) ''0.0.0.0/1'', False)]"
    "wlog (host u) = wlog (host t) @ [(DevUpsert (peer_cfg pr everything), True)] @
       map (\<lambda>ip. (pin_cmd via ip, True)) pinned @ fs @ xs" "outcome (host u) = outcome (host t)"
  have log: "wlog (host t') = wlog (host u) @ map (\<lambda>ip. (unpin_cmd ip, True)) pinned @ [(DevUpsert (peer_cfg pr a), True)]"
    "tExit t' = tExit u"
    unfolding u(1) using assms(5,7,8) u(7) by (simp_all add: undo_log)
  have "hostPrefix ` set pinned \<inter> fold routes_step (wlog (host t)) {} = {}"
    using u(3) assms(10) by (auto simp: host_routes_def)
  then have "host_routes (host t') = host_routes (host t)"
    unfolding host_routes_def log(1) u(6) using u(4,5) by (intro routes_undone)
  moreover have "peer_allowed (tpPublicKey pr) (host t') = Some a"
    unfolding peer_allowed_def log(1) by (rule allowed_narrowed) (rule allowedIPsFor_nonempty [OF assms(5)])
  ultimately show ?thesis
    using u(2) log(2) by (simp add: exit_idle_def)
qed (use assms(6) in auto)

lemma Snapshot_gateway: "Snapshot s = Inr d \<Longrightarrow> Gateway d \<noteq> None \<and> dfInterface d \<noteq> []"
proof -
  have "parse_default_lines ls = Inr d \<Longrightarrow> Gateway d \<noteq> None \<and> dfInterface d \<noteq> []" for ls
    by (induction ls) (auto simp: Let_def split: if_splits)
  then show "Snapshot s = Inr d \<Longrightarrow> Gateway d \<noteq> None \<and> dfInterface d \<noteq> []"
    by (auto simp: Snapshot_def parseLinuxDefault_def split: option.splits)
qed

lemma hostPrefix_not_half [simp]: "hostPrefix ip \<noteq> ''0.0.0.0/1''"
proof
  assume "hostPrefix ip = ''0.0.0.0/1''"
  then have "last (hostPrefix ip) = CHR ''1''"
    by simp
  then show False
    by (simp add: hostPrefix_def split: if_splits)
qed

lemma pin_loop_succeeds:
  assumes "\<And>n ip. outcome w n (pin_cmd via ip) = None" "Gateway via \<noteq> None" "dfInterface via \<noteq> []"
  shows "\<exists>v. pin_loop via ips pinned w = (Inr (pinned @ ips), v)"
  using assms(1)
proof (induction ips arbitrary: pinned w)
  case (Cons ip ips)
  obtain r v where v: "PinEndpoint ip via w = (r, v)"
    by fastforce
  have "r = None"
    using v assms(2,3) Cons.prems by (auto simp: PinEndpoint_def pin_cmd_def dest!: run_ipD)
  moreover from this v have "outcome v = outcome w"
    using PinEndpoint_ok by blast
  ultimately show ?case
    using Cons.IH [of v "pinned @ [ip]"] Cons.prems v by simp
qed simp

lemma routes_unpins_half:
  assumes "''0.0.0.0/1'' \<in> R"
  shows "''0.0.0.0/1'' \<in> fold routes_step (map (\<lambda>ip. (unpin_cmd ip, True)) ips) R"
proof -
  have "''0.0.0.0/1'' \<notin> hostPrefix ` set ips"
    by (metis hostPrefix_not_half imageE)
  with assms show ?thesis
    unfolding fold_unpins by (rule DiffI)
qed

lemma narrow_routes: "host_routes (host (snd (narrowPeer pr t))) = host_routes (host t)"
proof -
  have "host_routes (host (snd (updatePeerAllowedIPs pr a t))) = host_routes (host t)" for a
    using updatePeerD [of pr a t] by (cases "updatePeerAllowedIPs pr a t") (auto simp: host_routes_def)
  then show ?thesis
    by (simp add: narrowPeer_def split: sum.splits)
qed

lemma half_capture:
  assumes "\<And>n. outcome w n (capture_cmd iface ''0.0.0.0/1'') = None"
    "\<And>n. outcome w n (capture_cmd iface ''128.0.0.0/1'') = Some out"
  shows "\<exists>e v. CaptureDefault iface w = (Some e, v) \<and> outcome v = outcome w \<and>
     wlog v = wlog w @ [(capture_cmd iface ''0.0.0.0/1'', True), (capture_cmd iface ''128.0.0.0/1'', False)]"
  using assms by (simp add: CaptureDefault_def splitDefault_def)

lemma capture_cmd_inject [simp]:
  "capture_cmd iface ''0.0.0.0/1'' \<noteq> capture_cmd iface ''128.0.0.0/1''"
  "pin_cmd via ip \<noteq> capture_cmd iface p" "unpin_cmd ip \<noteq> capture_cmd iface p" "DevUpsert cfg \<noteq> capture_cmd iface p"
  by (simp_all add: capture_cmd_def pin_cmd_def unpin_cmd_def route_family_def str_contains_def)

text \<open>
  A half-captured default route is left behind. When installing the second half of the IPv4 space
  is the step that fails, \<open>SetExitNode\<close> reports an error and records no exit node, but the first half stays
  routed into the tunnel, and \<open>ClearExitNode\<close> then issues no command at all: half of the address space is
  lost until something else removes the route. The comment on \<open>SetExitNode\<close> says that the steps
  before a failed one are undone.
\<close>
theorem half_captured_default_stays:
  assumes "exit_idle t" "tHasRouter t" "map_of (tPeers t) i = Some pr" "Snapshot snap = Inr prior"
    and "\<And>n c. outcome (host t) n c = (if c = capture_cmd (tInterface t) ''128.0.0.0/1'' then Some e else None)"
  shows "\<exists>e' t'. SetExitNode snap ifaces i opts t = (Some e', t') \<and> exit_idle t' \<and>
     ''0.0.0.0/1'' \<in> host_routes (host t') \<and> host (snd (ClearExitNode t')) = host t'"
proof -
  define c where "c = t\<lparr>tExit := (tExit t)\<lparr>exDeviceID := uuid_Nil, exPinned := [], exCaptured := False, exLocked := False\<rparr>\<rparr>"
  have c: "ClearExitNode t = (None, c)" "host c = host t" "exit_idle c" "tPeers c = tPeers t" "tInterface c = tInterface t"
    using clear_idle [OF assms(1)] by (simp_all add: c_def exit_idle_def)
  obtain r u where u: "widenPeer pr c = (r, u)"
    by fastforce
  obtain w where w: "wlog w = wlog (host t) @ [(DevUpsert (peer_cfg pr everything), r = None)]"
    "outcome w = outcome (host t)" "u = c\<lparr>host := w\<rparr>"
    using widenD [OF u] c(2) by auto
  have r: "r = None"
    using u c(2) assms(5) by (auto simp: widenPeer_def parse_exit dest!: updatePeerD)
  have ends: "transportEndpoints c = transportEndpoints t"
    by (rule transport_peers) (rule c(4))
  obtain v where v: "pin_loop prior (transportEndpoints t) [] w = (Inr (transportEndpoints t), v)"
    using pin_loop_succeeds [of w prior "transportEndpoints t" "[]"] Snapshot_gateway [OF assms(4)] w(2) assms(5) by auto
  have vo: "outcome v = outcome (host t)"
    using pin_loop_ok [OF v] w(2) by simp
  then obtain e' z where z: "CaptureDefault (tInterface t) v = (Some e', z)" "outcome z = outcome v"
    "wlog z = wlog v @ [(capture_cmd (tInterface t) ''0.0.0.0/1'', True), (capture_cmd (tInterface t) ''128.0.0.0/1'', False)]"
    using half_capture [of v "tInterface t" e] assms(5) by auto
  define t' where "t' = undo_exit (transportEndpoints t) pr (u\<lparr>host := z\<rparr>)"
  have set: "fst (SetExitNode snap ifaces i opts t) \<noteq> None \<and> snd (SetExitNode snap ifaces i opts t) = t'"
    using assms(2,3,4) c(1,5) u r v z(1) w(3) ends by (simp add: SetExitNode_def on_host_def t'_def)
  have "''0.0.0.0/1'' \<in> host_routes z"
    by (simp add: host_routes_def z(3))
  then have "''0.0.0.0/1'' \<in> host_routes (unpinAll (transportEndpoints t) z)"
    using unpinAll_log [of z "transportEndpoints t"] assms(5) z(2) vo by (simp add: host_routes_def routes_unpins_half)
  then have "''0.0.0.0/1'' \<in> host_routes (host t')"
    by (simp add: t'_def undo_exit_def narrow_routes)
  moreover have idle: "exit_idle t'"
    using c(3) by (simp add: t'_def undo_exit_def exit_idle_def w(3))
  moreover have "host (snd (ClearExitNode t')) = host t'"
    by (simp add: clear_idle [OF idle])
  ultimately show ?thesis
    using set by (cases "SetExitNode snap ifaces i opts t") auto
qed

section \<open>A tunnel with one peer\<close>

definition sample_uuid :: "string \<Rightarrow> uuid option" where
  "sample_uuid s = (if s = [] then None else Some (uuid_of_bytes (bytes_of_string s)))"

definition sample_options :: tunnel_options where
  "sample_options = \<lparr>toNetworkID = ''n'', toDeviceName = ''laptop'', toOS = ''linux'', toOSVersion = [], toClientVersion = [],
     toPublicKey = ''k'', toPreferredRegion = [], toAdvertiseExitNode = False, toHeartbeatInterval = 0, toMonitorInterval = 0,
     toRenegotiateInterval = 0, toHasRouter = True, toHasSwitch = True, toPaths = None\<rparr>"

definition sample_exit :: proto_peer where
  "sample_exit = (peer_stub ''b'')\<lparr>ppPublicKey := ''kb'', ppVirtualIp := ''10.77.0.2'', ppExitNode := True,
     ppEndpoint := Some \<lparr>epIp = ''198.51.100.7'', epPort = 51820, epProtocol = ''udp''\<rparr>\<rparr>"

definition sample_response :: register_response where
  "sample_response = \<lparr>rpDeviceId = ''a'', rpAssignedVirtualIp = ''10.77.0.1'', rpNetworkCidr = ''10.77.0.0/24'', rpDnsServers = [],
     rpExistingPeers = [sample_exit]\<rparr>"

definition sample_tunnel :: "(nat \<Rightarrow> host_cmd \<Rightarrow> string option) \<Rightarrow> tunnel" where
  "sample_tunnel out =
     observeHealth 1 (snd (Start_begin sample_uuid 1 (\<lambda>_. Inr sample_response) None
       (projr (tunnel_New ''nexus0'' True \<lparr>outcome = out, wlog = []\<rparr> sample_options))))"

definition sample_route :: string where
  "sample_route = ''default via 192.168.1.1 dev eth0 proto dhcp''"

definition sample_exit_id :: uuid where
  "sample_exit_id = uuid_of_bytes (bytes_of_string ''b'')"

abbreviation sample_set :: "bool \<Rightarrow> tunnel \<Rightarrow> go_error \<times> tunnel" where
  "sample_set lock t \<equiv> SetExitNode (Some sample_route) None sample_exit_id \<lparr>eoKillSwitch = lock, eoAllowLAN = False\<rparr> t"

lemma set_peer_simps [simp]:
  "tPeers (set_peer i pr t) = put i pr (tPeers t)" "tExit (set_peer i pr t) = tExit t" "tPhase (set_peer i pr t) = tPhase t"
  "host (set_peer i pr t) = host t" "spawned (set_peer i pr t) = spawned t"
  by (simp_all add: set_peer_def)

lemma addPeer_outcome: "outcome (host (snd (addPeer up p t))) = outcome (host t)"
  by (auto simp: addPeer_def Let_def UpsertPeer_def on_host_def exec_def split: option.splits sum.splits prod.splits)

lemma sample_outcome: "outcome (host (sample_tunnel out)) = out"
proof -
  have "host (observeHealth now t) = host t" for now t
    by (auto simp: observeHealth_def setState_def split: prod.splits)
  then show ?thesis
    by (simp add: sample_tunnel_def Start_begin_def tunnel_New_def sample_options_def Register_def sample_response_def
        addPeers_def addPeer_outcome runDiscovery_def adopt_registration_def setState_def Let_def)
qed

definition deny :: "host_cmd \<Rightarrow> nat \<Rightarrow> host_cmd \<Rightarrow> string option" where
  "deny c n c' = (if c' = c then Some ''denied'' else None)"

lemma exit_node_captures_all_witness:
  "ExitNode (snd (sample_set True (sample_tunnel (\<lambda>n c. None)))) = (sample_exit_id, True) \<and>
   exLocked (tExit (snd (sample_set True (sample_tunnel (\<lambda>n c. None)))))"
proof -
  have "fst (sample_set True (sample_tunnel (\<lambda>n c. None))) = None" "sample_exit_id \<noteq> uuid_Nil"
    by code_simp+
  then show ?thesis
    using exit_node_captures_all [of "Some sample_route" None sample_exit_id "\<lparr>eoKillSwitch = True, eoAllowLAN = False\<rparr>"
        "sample_tunnel (\<lambda>n c. None)" "snd (sample_set True (sample_tunnel (\<lambda>n c. None)))"]
    by (simp add: prod_eq_iff)
qed


lemma failed_exit_node_undone_witness:
  "let t = sample_tunnel (deny (capture_cmd ''nexus0'' ''0.0.0.0/1'')); (e, t') = sample_set False t
   in e \<noteq> None \<and> exit_idle t' \<and> host_routes (host t') = host_routes (host t) \<and>
      peer_allowed ''kb'' (host t') = Some [\<lparr>NetIP = [10, 77, 0, 2], Mask = [255, 255, 255, 255]\<rparr>]"
proof -
  define t where "t = sample_tunnel (deny (capture_cmd ''nexus0'' ''0.0.0.0/1''))"
  obtain e t' where set: "sample_set False t = (e, t')"
    by fastforce
  have "fst (sample_set False t) \<noteq> None"
    unfolding t_def by code_simp
  then obtain e' where e: "e = Some e'"
    using set by auto
  have pr: "map_of (tPeers t) sample_exit_id = Some (new_peer sample_exit_id sample_exit)"
    "allowedIPsFor (tpVirtualIP (new_peer sample_exit_id sample_exit)) = Inr [\<lparr>NetIP = [10, 77, 0, 2], Mask = [255, 255, 255, 255]\<rparr>]"
    "peer_allowed (tpPublicKey (new_peer sample_exit_id sample_exit)) (host t) = Some [\<lparr>NetIP = [10, 77, 0, 2], Mask = [255, 255, 255, 255]\<rparr>]"
    "exit_idle t" "tInterface t = ''nexus0''" "hostPrefix ` set (transportEndpoints t) \<inter> host_routes (host t) = {}"
    "tpPublicKey (new_peer sample_exit_id sample_exit) = ''kb''"
    unfolding t_def by code_simp+
  have "exit_idle t' \<and> host_routes (host t') = host_routes (host t) \<and>
      peer_allowed ''kb'' (host t') = Some [\<lparr>NetIP = [10, 77, 0, 2], Mask = [255, 255, 255, 255]\<rparr>]"
    using failed_exit_node_undone [OF set [unfolded e] pr(4) _ pr(1,2,3) _ _ _ pr(6)] pr(5,7)
    by (simp add: t_def sample_outcome deny_def capture_cmd_inject(1) [symmetric])
  then show ?thesis
    using set e by (simp add: t_def [symmetric])
qed

lemma half_captured_default_stays_witness:
  "let t' = snd (sample_set False (sample_tunnel (deny (capture_cmd ''nexus0'' ''128.0.0.0/1''))))
   in exit_idle t' \<and> ''0.0.0.0/1'' \<in> host_routes (host t') \<and> host (snd (ClearExitNode t')) = host t'"
proof -
  define t where "t = sample_tunnel (deny (capture_cmd ''nexus0'' ''128.0.0.0/1''))"
  have pr: "exit_idle t" "tHasRouter t" "map_of (tPeers t) sample_exit_id = Some (new_peer sample_exit_id sample_exit)"
    "Snapshot (Some sample_route) = Inr \<lparr>Gateway = Some (v4InV6Prefix @ [192, 168, 1, 1]), dfInterface = ''eth0''\<rparr>"
    "tInterface t = ''nexus0''"
    unfolding t_def by code_simp+
  have "outcome (host t) n c = (if c = capture_cmd (tInterface t) ''128.0.0.0/1'' then Some ''denied'' else None)" for n c
    using pr(5) by (simp add: t_def sample_outcome deny_def)
  from half_captured_default_stays [OF pr(1-4) this, of None "\<lparr>eoKillSwitch = False, eoAllowLAN = False\<rparr>"]
  show ?thesis
    by (auto simp: t_def [symmetric] Let_def)
qed

end
