(* ===== verification/Client_Tunnel_Properties.thy ===== *)
theory Client_Tunnel_Properties
  imports Client_Exit
begin

text \<open>
  The tunnel as a state machine: the invariant of its peers and its exit state, kept by every operation of
  \<open>Client_Tunnel\<close>; the phases a frontend shows; registration; and the paths a peer's configuration
  takes through negotiation.
\<close>

section \<open>The invariant of a tunnel\<close>

definition peer_ok :: "uuid \<Rightarrow> tpeer \<Rightarrow> bool" where
  "peer_ok i pr \<longleftrightarrow>
     tpDeviceID pr = i \<and> tpPublicKey pr \<noteq> [] \<and> \<not> isl (allowedIPsFor (tpVirtualIP pr)) \<and>
     (tpMode pr = ModeRelay \<longrightarrow> tpProxy pr \<noteq> None) \<and> (tpMode pr = ModeDirect \<longrightarrow> tpProxy pr = None)"

definition peers_ok :: "(uuid, tpeer) gomap \<Rightarrow> bool" where
  "peers_ok m \<longleftrightarrow> gomap_ok m \<and> list_all (\<lambda>(i, pr). peer_ok i pr) m"

definition exit_ok :: "exit_state \<Rightarrow> bool" where
  "exit_ok x \<longleftrightarrow>
     (exCaptured x \<longleftrightarrow> exDeviceID x \<noteq> uuid_Nil) \<and> (exLocked x \<longrightarrow> exCaptured x) \<and> (\<not> exCaptured x \<longrightarrow> exPinned x = [])"

definition tunnel_ok :: "tunnel \<Rightarrow> bool" where
  "tunnel_ok t \<longleftrightarrow> peers_ok (tPeers t) \<and> exit_ok (tExit t)"

lemma peers_ok_put: "peers_ok m \<Longrightarrow> peer_ok i pr \<Longrightarrow> peers_ok (put i pr m)"
  unfolding peers_ok_def list_all_iff using set_put_subset [of i pr m] by fastforce

lemma peers_ok_del: "peers_ok m \<Longrightarrow> peers_ok (del i m)"
  unfolding peers_ok_def list_all_iff by (auto simp: set_del_iff)

lemma peers_okD: "peers_ok m \<Longrightarrow> map_of m i = Some pr \<Longrightarrow> peer_ok i pr"
  unfolding peers_ok_def list_all_iff by (auto dest: map_of_SomeD)

lemma set_peer_ok [intro]: "tunnel_ok t \<Longrightarrow> peer_ok i pr \<Longrightarrow> tunnel_ok (set_peer i pr t)"
  by (simp add: tunnel_ok_def peers_ok_put)

lemma tunnel_ok_cong: "tPeers t' = tPeers t \<Longrightarrow> tExit t' = tExit t \<Longrightarrow> tunnel_ok t' = tunnel_ok t"
  by (simp add: tunnel_ok_def)

lemma tunnel_ok_fields [simp]:
  "tunnel_ok (t\<lparr>host := w\<rparr>) = tunnel_ok t" "tunnel_ok (t\<lparr>spawned := s\<rparr>) = tunnel_ok t" "tunnel_ok (t\<lparr>tPaths := p\<rparr>) = tunnel_ok t"
  "tunnel_ok (t\<lparr>tStarted := b\<rparr>) = tunnel_ok t" "tunnel_ok (t\<lparr>tDiscovery := d\<rparr>) = tunnel_ok t"
  "tunnel_ok (snd (on_host f t)) = tunnel_ok t" "tunnel_ok (setState now st t) = tunnel_ok t"
  "tunnel_ok (adopt_registration resp t) = tunnel_ok t"
  by (simp_all add: tunnel_ok_def setState_def adopt_registration_def)

lemma on_host_ok: "on_host f t = (r, t') \<Longrightarrow> tunnel_ok t' = tunnel_ok t"
  by (metis snd_conv tunnel_ok_fields(6))

lemma peer_ok_updates [simp]:
  "peer_ok i (pr\<lparr>tpLastAttempt := n\<rparr>) = peer_ok i pr" "peer_ok i (pr\<lparr>tpLocalCandidate := a\<rparr>) = peer_ok i pr"
  "peer_ok i (pr\<lparr>tpRemote := r\<rparr>) = peer_ok i pr" "peer_ok i (refresh_peer p pr) = peer_ok i pr"
  "peer_ok i (pr\<lparr>tpLastRx := x, tpLastRxMove := n\<rparr>) = peer_ok i pr"
  by (simp_all add: peer_ok_def refresh_peer_def)

lemma peer_ok_mode: "peer_ok i pr \<Longrightarrow> m \<noteq> ModeRelay \<Longrightarrow> m \<noteq> ModeDirect \<Longrightarrow> peer_ok i (pr\<lparr>tpMode := m\<rparr>)"
  by (simp add: peer_ok_def)

lemma setMode_ok: "tunnel_ok t \<Longrightarrow> tunnel_ok (setMode i ModeOffline t)"
  by (auto simp: setMode_def tunnel_ok_def split: option.splits intro!: peers_ok_put peer_ok_mode dest: peers_okD)

lemma observe_peer_ok: "peer_ok i pr \<Longrightarrow> peer_ok i (observe_peer now st pr)"
  by (auto simp: observe_peer_def peer_ok_def Let_def split: option.splits)

lemma observePeerModes_ok: "tunnel_ok t \<Longrightarrow> tunnel_ok (observePeerModes now stats t)"
  by (auto simp: observePeerModes_def tunnel_ok_def peers_ok_def list_all_iff observe_peer_ok comp_def split_beta)

lemma observeHealth_frame [simp]:
  "tPeers (observeHealth now t) = tPeers t" "tExit (observeHealth now t) = tExit t"
  by (auto simp: observeHealth_def setState_def split: prod.splits)

lemma addPeer_ok:
  assumes "tunnel_ok t"
  shows "tunnel_ok (snd (addPeer up p t))"
proof (cases "up (ppDeviceId p)")
  case (Some i)
  show ?thesis
  proof (cases "ppPublicKey p = [] \<or> isl (allowedIPsFor (ppVirtualIp p))")
    case True
    then show ?thesis
      using Some assms by (cases "allowedIPsFor (ppVirtualIp p)") (auto simp: addPeer_def)
  next
    case False
    then obtain a where a: "allowedIPsFor (ppVirtualIp p) = Inr a" "ppPublicKey p \<noteq> []"
      by (cases "allowedIPsFor (ppVirtualIp p)") auto
    show ?thesis
    proof (cases "map_of (tPeers t) i")
      case None
      have "peer_ok i (new_peer i p)"
        using a by (simp add: peer_ok_def new_peer_def)
      then have "tunnel_ok (set_peer i (new_peer i p) t)"
        using assms by blast
      then show ?thesis
        using Some a None by (auto simp: addPeer_def Let_def split: prod.splits option.splits dest!: on_host_ok)
    next
      case (Some pr)
      have "peer_ok i pr"
        using assms Some by (auto simp: tunnel_ok_def dest: peers_okD)
      then show ?thesis
        using assms Some a \<open>up (ppDeviceId p) = Some i\<close> by (auto simp: addPeer_def)
    qed
  qed
qed (simp add: addPeer_def assms)

lemma removePeer_ok: "tunnel_ok t \<Longrightarrow> tunnel_ok (removePeer i t)"
  by (simp add: removePeer_def tunnel_ok_def peers_ok_del split: option.splits)

lemma tryDirect_ok: "tunnel_ok t \<Longrightarrow> tunnel_ok (snd (tryDirect ng i t))"
  by (auto simp: tryDirect_def Let_def tunnel_ok_def split: option.splits intro!: peers_ok_put dest: peers_okD)
    (auto simp: peer_ok_def dest: peers_okD)

lemma fallBack_ok:
  assumes "tunnel_ok t"
  shows "tunnel_ok (fallBackToRelay up ng i t)"
  using assms
  by (auto simp: fallBackToRelay_def setMode_ok split: option.splits sum.splits prod.splits dest!: on_host_ok)
    (auto simp: tunnel_ok_def on_host_def peer_ok_def intro!: peers_ok_put dest: peers_okD split: prod.splits)

lemma negotiate_ok: "tunnel_ok t \<Longrightarrow> tunnel_ok (negotiate up now ng i t)"
  using tryDirect_ok [of "set_peer i _ t" ng i] fallBack_ok
  by (auto simp: negotiate_def split: option.splits prod.splits bool.splits)
    (metis peer_ok_updates(1) peers_okD set_peer_ok snd_conv tryDirect_ok tunnel_ok_def)+

lemma handleEndpointChange_ok:
  assumes "tunnel_ok t"
  shows "tunnel_ok (handleEndpointChange up i p t)"
proof (cases "map_of (tPeers t) i")
  case (Some pr)
  have "tunnel_ok (set_peer i (pr\<lparr>tpRemote := r\<rparr>) t)" for r
    using assms Some by (auto simp: tunnel_ok_def intro!: peers_ok_put dest: peers_okD)
  then show ?thesis
    using Some assms
    by (auto simp: handleEndpointChange_def Let_def split: option.splits prod.splits dest!: on_host_ok)
qed (simp add: handleEndpointChange_def assms addPeer_ok)

lemma applyPeerUpdate_ok: "tunnel_ok t \<Longrightarrow> tunnel_ok (applyPeerUpdate up ty p t)"
  by (auto simp: applyPeerUpdate_def removePeer_ok handleEndpointChange_ok addPeer_ok split: option.splits peer_update_type.splits)

lemma addPeers_ok: "tunnel_ok t \<Longrightarrow> tunnel_ok (addPeers up ps t)"
  by (induction ps arbitrary: t) (simp_all add: addPeers_def addPeer_ok)

lemma consumeStream_ok: "tunnel_ok t \<Longrightarrow> tunnel_ok (consumeStream up us t)"
  by (induction us arbitrary: t) (auto simp: consumeStream_def applyPeerUpdate_ok split_beta)

lemma check_peer_ok: "tunnel_ok t \<Longrightarrow> tunnel_ok (check_peer ep_ok tx now stats i t)"
  by (auto simp: check_peer_def probeForDirectPath_def split: option.splits)
    (auto simp: tunnel_ok_def intro!: peers_ok_put dest: peers_okD)

lemma checkPeerHealth_ok: "tunnel_ok t \<Longrightarrow> tunnel_ok (checkPeerHealth ep_ok tx now stats t)"
proof -
  have "tunnel_ok t \<Longrightarrow> tunnel_ok (fold (\<lambda>i. check_peer ep_ok (tx i) now stats i) is t)" for "is" t
    by (induction "is" arbitrary: t) (simp_all add: check_peer_ok)
  then show "tunnel_ok t \<Longrightarrow> tunnel_ok (checkPeerHealth ep_ok tx now stats t)"
    by (simp add: checkPeerHealth_def)
qed

lemma observeHealth_ok [simp]: "tunnel_ok (observeHealth now t) = tunnel_ok t"
  by (rule tunnel_ok_cong) simp_all

lemma monitorLoop_tick_ok: "tunnel_ok t \<Longrightarrow> tunnel_ok (monitorLoop_tick tick t)"
  by (simp add: monitorLoop_tick_def observePeerModes_ok checkPeerHealth_ok split: monitor_tick.split)

lemma ClearExitNode_ok: "tunnel_ok t \<Longrightarrow> tunnel_ok (snd (ClearExitNode t))"
  by (simp add: tunnel_ok_def exit_ok_def)

lemma widen_frame [simp]:
  "tPeers (snd (widenPeer pr t)) = tPeers t" "tExit (snd (widenPeer pr t)) = tExit t" "tPhase (snd (widenPeer pr t)) = tPhase t"
  by (simp_all add: widenPeer_def parse_exit)

lemma undo_frame [simp]:
  "tPeers (undo_exit ps pr t) = tPeers t" "tExit (undo_exit ps pr t) = tExit t"
  by (simp_all add: undo_exit_def)

lemma SetExitNode_ok:
  assumes "tunnel_ok t" "i \<noteq> uuid_Nil"
  shows "tunnel_ok (snd (SetExitNode snap ifaces i opts t))"
proof -
  obtain e c where c: "ClearExitNode t = (e, c)" by fastforce
  have "tunnel_ok c" "exDeviceID (tExit c) = uuid_Nil" "\<not> exCaptured (tExit c)" "\<not> exLocked (tExit c)" "exPinned (tExit c) = []"
    using ClearExitNode_ok [OF assms(1)] clear_frame(4-7) [of t] c by simp_all
  note C = this
  show ?thesis
  proof (cases "map_of (tPeers t) i")
    case (Some pr)
    obtain r u where u: "widenPeer pr c = (r, u)" by fastforce
    have U: "tPeers u = tPeers c" "tExit u = tExit c"
      using widen_frame [of pr c] u by simp_all
    have P: "tPeers p = tPeers c \<and> tExit p = tExit c" if "on_host f u = (x, p)" for f x p
      using on_hostD [OF that] U by auto
    have Q: "tPeers q = tPeers p \<and> tExit q = tExit p" if "on_host f p = (x, q)" for f x p q
      using on_hostD [OF that] by auto
    have K: "tPeers k = tPeers q \<and> tExit k = (if x = None then (tExit q)\<lparr>exLocked := True\<rparr> else tExit q)"
      if "engageKillSwitch ifaces iface lan q = (x, k)" for iface lan q x k
      using engageD(2,3) [OF that] by simp
    show ?thesis
      using C U assms Some c u
      by (auto simp: SetExitNode_def Let_def tunnel_ok_def exit_ok_def split: prod.splits option.splits sum.splits
          dest!: K P Q)
  qed (simp add: SetExitNode_def assms)
qed

text \<open>What can happen to a tunnel: the calls of its owner, the updates of the control plane, the ticks of the
  monitor and the negotiations it spawned, in any order.\<close>

inductive tunnel_step :: "tunnel \<Rightarrow> tunnel \<Rightarrow> bool" where
  step_register: "Register rpc t = (r, t') \<Longrightarrow> tunnel_step t t'"
| step_cached: "tunnel_step t (UseCachedRegistration up resp t)"
| step_start: "Start_begin up now rpc disc t = (r, t') \<Longrightarrow> tunnel_step t t'"
| step_update: "tunnel_step t (applyPeerUpdate up ty p t)"
| step_tick: "tunnel_step t (monitorLoop_tick tick t)"
| step_negotiate: "i \<in> set (spawned t) \<Longrightarrow> tunnel_step t ((negotiate up now ng i t)\<lparr>spawned := remove1 i (spawned t)\<rparr>)"
| step_exit: "i \<noteq> uuid_Nil \<Longrightarrow> SetExitNode snap ifaces i opts t = (r, t') \<Longrightarrow> tunnel_step t t'"
| step_clear: "ClearExitNode t = (r, t') \<Longrightarrow> tunnel_step t t'"
| step_stop: "tunnel_step t (Start_end now t)"

inductive tunnel_reachable :: "tunnel \<Rightarrow> bool" where
  reach_new: "tunnel_New iface nft w opts = Inr t \<Longrightarrow> tunnel_reachable t"
| reach_step: "tunnel_reachable t \<Longrightarrow> tunnel_step t t' \<Longrightarrow> tunnel_reachable t'"

lemma tunnel_New_ok: "tunnel_New iface nft w opts = Inr t \<Longrightarrow> tunnel_ok t"
  by (auto simp: tunnel_New_def tunnel_ok_def peers_ok_def exit_ok_def no_exit_def split: if_splits)

lemma runDiscovery_ok [simp]: "tunnel_ok (runDiscovery disc t) = tunnel_ok t"
  by (simp add: runDiscovery_def split: option.split sum.split)

lemma Start_begin_ok: "tunnel_ok t \<Longrightarrow> Start_begin up now rpc disc t = (r, t') \<Longrightarrow> tunnel_ok t'"
  by (auto simp: Start_begin_def Let_def Register_def addPeers_ok split: if_splits sum.splits)

lemma tunnel_step_ok: "tunnel_step t t' \<Longrightarrow> tunnel_ok t \<Longrightarrow> tunnel_ok t'"
proof (induction rule: tunnel_step.induct)
  case (step_register rpc t r t')
  then show ?case by (auto simp: Register_def split: sum.splits)
next
  case (step_cached t up resp)
  then show ?case by (simp add: UseCachedRegistration_def addPeers_ok split: option.split)
next
  case (step_exit i snap ifaces opts t r t')
  then show ?case by (metis SetExitNode_ok snd_conv)
next
  case (step_clear t r t')
  then show ?case by (metis ClearExitNode_ok snd_conv)
next
  case (step_stop t now)
  then show ?case
    using ClearExitNode_ok [of t] by (simp add: Start_end_def shutdownPeers_def tunnel_ok_def peers_ok_def setState_def)
qed (simp_all add: Start_begin_ok applyPeerUpdate_ok monitorLoop_tick_ok negotiate_ok)


section \<open>Phases\<close>

text \<open>Without an exit node the monitor only ever moves a tunnel from handshaking to active.\<close>

lemma check_peer_frame [simp]:
  "tPhase (check_peer ep_ok tx now stats i t) = tPhase t" "tExit (check_peer ep_ok tx now stats i t) = tExit t"
  by (simp_all add: check_peer_def probeForDirectPath_def split: option.split)

lemma checkPeerHealth_frame [simp]:
  "tPhase (checkPeerHealth ep_ok tx now stats t) = tPhase t" "tExit (checkPeerHealth ep_ok tx now stats t) = tExit t"
proof -
  have "tPhase (fold (\<lambda>i. check_peer ep_ok (tx i) now stats i) is t) = tPhase t \<and>
        tExit (fold (\<lambda>i. check_peer ep_ok (tx i) now stats i) is t) = tExit t" for "is" t
    by (induction "is" arbitrary: t) simp_all
  then show "tPhase (checkPeerHealth ep_ok tx now stats t) = tPhase t" "tExit (checkPeerHealth ep_ok tx now stats t) = tExit t"
    by (simp_all add: checkPeerHealth_def)
qed

lemma observePeerModes_frame [simp]:
  "tPhase (observePeerModes now stats t) = tPhase t" "tExit (observePeerModes now stats t) = tExit t"
  by (simp_all add: observePeerModes_def)

lemma observeHealth_no_exit:
  "exDeviceID (tExit t) = uuid_Nil \<Longrightarrow>
     tPhase (observeHealth now t) = (if tPhase t = StateHandshaking then StateActive else tPhase t)"
  by (simp add: observeHealth_def ExitNode_def setState_def)

lemma tick_no_exit:
  "exDeviceID (tExit t) = uuid_Nil \<Longrightarrow>
     tPhase (monitorLoop_tick tick t) = (if tPhase t = StateHandshaking then StateActive else tPhase t) \<and>
     tExit (monitorLoop_tick tick t) = tExit t"
  by (simp add: monitorLoop_tick_def observeHealth_no_exit split: monitor_tick.split)

lemma ticks_no_exit:
  "exDeviceID (tExit t) = uuid_Nil \<Longrightarrow> tPhase t = StateDropped \<Longrightarrow> tPhase (fold monitorLoop_tick ms t) = StateDropped"
  by (induction ms arbitrary: t) (simp_all add: tick_no_exit)

text \<open>
  A drop outlives the exit node it was about. Once the tunnel is shown as dropped, giving up the exit node
  leaves it so: no tick of the monitor, whatever it observes, ever shows it as active again, although
  without an exit node the tunnel's health is documented not to depend on its peers.
\<close>
theorem dropped_survives_clear:
  assumes "tPhase t = StateDropped"
  shows "tPhase (fold monitorLoop_tick ms (snd (ClearExitNode t))) = StateDropped"
  using assms by (intro ticks_no_exit) simp_all

text \<open>Started, chosen an exit node before the path to it is there, and given it up again.\<close>

lemma sample_drops: "tPhase (observeHealth 2 (snd (sample_set False (sample_tunnel (\<lambda>n c. None))))) = StateDropped"
  by code_simp

lemma dropped_survives_clear_witness:
  "tPhase (fold monitorLoop_tick [ObserveTick 3 (\<lambda>_. None), ObserveTick 4 (\<lambda>_. None)]
     (snd (ClearExitNode (observeHealth 2 (snd (sample_set False (sample_tunnel (\<lambda>n c. None)))))))) = StateDropped"
  by (rule dropped_survives_clear) (rule sample_drops)


section \<open>Paths and configurations\<close>

text \<open>
  Falling back to a relay takes the exit node's traffic away. When the peer that is the exit node ends up
  on a relay, WireGuard's allowed addresses for it are back to its own single address, while the
  tunnel still names it as the exit node and the host still routes everything into the tunnel.
\<close>
theorem relay_fallback_narrows_exit:
  assumes "map_of (tPeers t) i = Some pr" "ExitNode t = (i, True)" "allowedIPsFor (tpVirtualIP pr) = Inr a" "tpMode pr \<noteq> ModeRelay"
    and "map_of (tPeers (fallBackToRelay up ng i t)) i = Some pr'" "tpMode pr' = ModeRelay"
  shows "ExitNode (fallBackToRelay up ng i t) = (i, True) \<and>
     host_routes (host (fallBackToRelay up ng i t)) = host_routes (host t) \<and>
     peer_allowed (tpPublicKey pr) (host (fallBackToRelay up ng i t)) = Some a"
proof -
  let ?cfg = "\<lambda>px. \<lparr>pcPublicKey = tpPublicKey pr, pcEndpoint = Some (LocalEndpoint px), pcAllowedIPs = a, pcKeepalive = keepaliveSeconds\<rparr>"
  have off: "\<not> (map_of (tPeers (setMode i ModeOffline u)) i = Some pr' \<and> tpMode pr' = ModeRelay)" if "tPeers u = tPeers t" for u
    using that assms(1) by (auto simp: setMode_def get_put)
  obtain px where px: "fallBackToRelay up ng i t =
       (case on_host (UpsertPeer (?cfg px)) t of
          (Some _, t) \<Rightarrow> setMode i ModeOffline t
        | (None, t) \<Rightarrow> set_peer i (pr\<lparr>tpProxy := Some px, tpMode := ModeRelay\<rparr>) t)"
    using assms off [of t]
    by (auto simp: fallBackToRelay_def split: option.splits sum.splits if_splits)
  obtain r u where u: "on_host (UpsertPeer (?cfg px)) t = (r, u)"
    by fastforce
  have "tPeers u = tPeers t"
    using on_hostD [OF u] by auto
  then have r: "r = None"
    using px u off [of u] assms(5,6) by (cases r) auto
  then have log: "wlog (host u) = wlog (host t) @ [(DevUpsert (?cfg px), True)]" "tExit u = tExit t"
    using u by (auto simp: on_host_def UpsertPeer_def exec_def Let_def)
  show ?thesis
    using px u r log assms(2) allowedIPsFor_nonempty [OF assms(3)]
    by (auto simp: ExitNode_def host_routes_def peer_allowed_def allowed_step_def)
qed

text \<open>
  A direct peer that moves loses its keepalive. When a peer on a direct path is announced at a new
  endpoint and WireGuard accepts the change, the peer's keepalive is off afterwards, although every
  other configuration the tunnel writes sets it and \<open>UpdateEndpoint\<close> is documented to change just the
  endpoint.
\<close>
lemma moved_peer_loses_keepalive:
  assumes "map_of (tPeers t) i = Some pr" "tpMode pr = ModeDirect" "endpointFromProto (ppEndpoint p) = Some ep"
    and "tpRemote pr = Some old" "UDPAddr_String old \<noteq> UDPAddr_String ep"
    and "\<And>n cfg. outcome (host t) n (DevUpsert cfg) = None"
  shows "tpMode (the (map_of (tPeers (handleEndpointChange up i p t)) i)) = ModeDirect \<and>
     peer_keepalive (tpPublicKey pr) (host (handleEndpointChange up i p t)) = 0"
  using assms
  by (simp add: handleEndpointChange_def UpdateEndpoint_def UpsertPeer_def on_host_def exec_def get_put
      peer_keepalive_def keepalive_step_def Let_def)

section \<open>Registration\<close>

text \<open>
  C37. A tunnel registered before it is started installs none of its peers. \<open>Start\<close> installs the
  peers of the registration it performs itself; after a separate \<open>Register\<close>, which is how the agent
  brings a tunnel up, it installs none, whatever peers the control plane answered with: the peer table, the
  host and the negotiations are as before. \<open>Register\<close> is documented to install them.
\<close>
theorem registered_start_installs_no_peer:
  assumes "tDeviceID t = []" "\<not> tStarted t" "rpc (registration_request t) = Inr resp" "rpDeviceId resp \<noteq> []"
  shows "fst (Register rpc t) = Inr resp \<and>
     (let t' = snd (Start_begin up now rpc' disc (snd (Register rpc t))) in
        tPeers t' = tPeers t \<and> spawned t' = spawned t \<and> host t' = host t) \<and>
     (\<exists>u. tPeers u = tPeers t \<and> host u = host t \<and> Start_begin up now rpc disc t = (None, addPeers up (rpExistingPeers resp) u))"
proof -
  have req: "registration_request (setState now st (t\<lparr>tStarted := True\<rparr>)) = registration_request t" for st
    by (simp add: registration_request_def setState_def)
  have frame: "tPeers (runDiscovery disc u) = tPeers u" "spawned (runDiscovery disc u) = spawned u" "host (runDiscovery disc u) = host u"
    "tPeers (setState now st u) = tPeers u" "spawned (setState now st u) = spawned u" "host (setState now st u) = host u"
    "tDeviceID (setState now st u) = tDeviceID u" "tStarted (setState now st u) = tStarted u" for u st
    by (simp_all add: runDiscovery_def setState_def split: option.split sum.split)
  let ?u = "runDiscovery disc (adopt_registration resp (setState now StateHandshaking (t\<lparr>tStarted := True\<rparr>)))"
  have "tPeers ?u = tPeers t \<and> host ?u = host t \<and> Start_begin up now rpc disc t = (None, addPeers up (rpExistingPeers resp) ?u)"
    using assms by (simp add: Start_begin_def Register_def req frame Let_def) (simp add: adopt_registration_def frame)
  moreover have "fst (Register rpc t) = Inr resp \<and>
     (let t' = snd (Start_begin up now rpc' disc (snd (Register rpc t))) in
        tPeers t' = tPeers t \<and> spawned t' = spawned t \<and> host t' = host t)"
    using assms by (simp add: Start_begin_def Register_def frame Let_def addPeers_def adopt_registration_def)
  ultimately show ?thesis
    by blast
qed

lemma registered_start_installs_no_peer_witness:
  "let t = projr (tunnel_New ''nexus0'' True \<lparr>outcome = \<lambda>n c. None, wlog = []\<rparr> sample_options);
       rpc = (\<lambda>_. Inr sample_response);
       t' = snd (Start_begin sample_uuid 1 rpc None (snd (Register rpc t)))
   in tPeers t' = [] \<and> host t' = host t \<and> map fst (tPeers (snd (Start_begin sample_uuid 1 rpc None t))) = [sample_exit_id]"
proof -
  define t where "t = projr (tunnel_New ''nexus0'' True \<lparr>outcome = \<lambda>n c. None, wlog = []\<rparr> sample_options)"
  have t: "tDeviceID t = []" "\<not> tStarted t" "tPeers t = []" "rpDeviceId sample_response \<noteq> []"
    by (simp_all add: t_def tunnel_New_def sample_options_def sample_response_def)
  have "map fst (tPeers (snd (Start_begin sample_uuid 1 (\<lambda>_. Inr sample_response) None t))) = [sample_exit_id]"
    unfolding t_def by code_simp
  then show ?thesis
    using registered_start_installs_no_peer [of t "\<lambda>_. Inr sample_response" sample_response sample_uuid 1 "\<lambda>_. Inr sample_response" None] t
    by (simp add: t_def [symmetric] Let_def)
qed

definition sample_relay :: negotiation where
  "sample_relay = \<lparr>ngExchange = (\<lambda>_. None), ngBefore = 0, ngPolls = [None], ngCancelled = False,
     ngRelay = Some \<lparr>rrRelayId = ''r'', rrHostname = ''relay'', rrRelayPort = 51821, rrRelayPublicKey = [], rrSessionToken = ''token''\<rparr>,
     ngRelayAddr = Some \<lparr>IP = [192, 0, 2, 9], Port = 51821, Zone = []\<rparr>,
     ngLocal = Some \<lparr>IP = [127, 0, 0, 1], Port = 40000, Zone = []\<rparr>, ngRemoteOk = True, ngStartOk = True\<rparr>"

abbreviation sample_up :: tunnel where
  "sample_up \<equiv> snd (sample_set False (sample_tunnel (\<lambda>n c. None)))"

lemma relay_fallback_narrows_exit_witness:
  "ExitNode (fallBackToRelay sample_uuid sample_relay sample_exit_id sample_up) = (sample_exit_id, True) \<and>
   peer_allowed ''kb'' (host sample_up) = Some everything \<and>
   peer_allowed ''kb'' (host (fallBackToRelay sample_uuid sample_relay sample_exit_id sample_up)) =
     Some [\<lparr>NetIP = [10, 77, 0, 2], Mask = [255, 255, 255, 255]\<rparr>]"
proof -
  let ?pr = "new_peer sample_exit_id sample_exit"
  have up: "map_of (tPeers sample_up) sample_exit_id = Some ?pr" "ExitNode sample_up = (sample_exit_id, True)"
    "allowedIPsFor (tpVirtualIP ?pr) = Inr [\<lparr>NetIP = [10, 77, 0, 2], Mask = [255, 255, 255, 255]\<rparr>]"
    "tpMode ?pr \<noteq> ModeRelay" "tpPublicKey ?pr = ''kb''" "peer_allowed ''kb'' (host sample_up) = Some everything"
    by code_simp+
  have "map_option tpMode (map_of (tPeers (fallBackToRelay sample_uuid sample_relay sample_exit_id sample_up)) sample_exit_id) = Some ModeRelay"
    by code_simp
  then obtain pr' where "map_of (tPeers (fallBackToRelay sample_uuid sample_relay sample_exit_id sample_up)) sample_exit_id = Some pr'"
    "tpMode pr' = ModeRelay"
    by auto
  from relay_fallback_narrows_exit [OF up(1-4) this] show ?thesis
    using up(5,6) by simp
qed

definition sample_moved :: proto_peer where
  "sample_moved = sample_exit\<lparr>ppEndpoint := Some \<lparr>epIp = ''198.51.100.8'', epPort = 51820, epProtocol = ''udp''\<rparr>\<rparr>"

lemma moved_peer_loses_keepalive_witness:
  "let t = setMode sample_exit_id ModeDirect (sample_tunnel (\<lambda>n c. None))
   in peer_keepalive ''kb'' (host t) = 25 \<and>
      peer_keepalive ''kb'' (host (handleEndpointChange sample_uuid sample_exit_id sample_moved t)) = 0"
proof -
  define t where "t = setMode sample_exit_id ModeDirect (sample_tunnel (\<lambda>n c. None))"
  let ?pr = "(new_peer sample_exit_id sample_exit)\<lparr>tpMode := ModeDirect\<rparr>"
  have pr: "map_of (tPeers t) sample_exit_id = Some ?pr" "tpMode ?pr = ModeDirect" "tpPublicKey ?pr = ''kb''"
    "endpointFromProto (ppEndpoint sample_moved) = Some \<lparr>IP = v4InV6Prefix @ [198, 51, 100, 8], Port = 51820, Zone = []\<rparr>"
    "tpRemote ?pr = Some \<lparr>IP = v4InV6Prefix @ [198, 51, 100, 7], Port = 51820, Zone = []\<rparr>"
    "UDPAddr_String \<lparr>IP = v4InV6Prefix @ [198, 51, 100, 7], Port = 51820, Zone = []\<rparr> \<noteq>
     UDPAddr_String \<lparr>IP = v4InV6Prefix @ [198, 51, 100, 8], Port = 51820, Zone = []\<rparr>"
    "peer_keepalive ''kb'' (host t) = 25"
    unfolding t_def by code_simp+
  have "outcome (host t) n (DevUpsert cfg) = None" for n cfg
    using sample_outcome [of "\<lambda>n c. None"] by (simp add: t_def setMode_def split: option.split)
  from moved_peer_loses_keepalive [OF pr(1,2,4,5,6) this] show ?thesis
    using pr(3,7) by (simp add: t_def [symmetric] Let_def)
qed

end
