(* ===== verification/Client_Kill_Switch.thy ===== *)
theory Client_Kill_Switch
  imports Client_Host
begin

text \<open>
  What the rules of the kill switch let through. The chain is evaluated by nftables, rule after rule, the
  first match decides, and the policy of the chain drops what no rule matches; \<open>verdict\<close> is that
  evaluation on an outgoing packet. The theorems say exactly which packets leave the machine while the
  switch is engaged.
\<close>

section \<open>Packets and verdicts\<close>

datatype l4proto = TCP | UDP | OtherProto

record packet =
  pkOif :: string
  pkEstablished :: bool
  pkProto :: l4proto
  pkDst :: bytes
  pkDport :: nat

definition addr_bits :: "bytes \<Rightarrow> bool list" where
  "addr_bits ip = concat (map byte_bits ip)"

definition in_prefix :: "bytes \<Rightarrow> bytes \<times> nat \<Rightarrow> bool" where
  "in_prefix ip n \<longleftrightarrow> length ip = length (fst n) \<and> take (snd n) (addr_bits ip) = take (snd n) (addr_bits (fst n))"

fun nft_matches :: "nft_match \<Rightarrow> packet \<Rightarrow> bool" where
  "nft_matches MEstablished pk = pkEstablished pk"
| "nft_matches (MOif name) pk = (pkOif pk = name)"
| "nft_matches (MUdpPorts ns) pk = (pkProto pk = UDP \<and> pkDport pk \<in> set ns)"
| "nft_matches (MDaddrUdp ip port) pk = (pkProto pk = UDP \<and> pkDst pk = ip \<and> pkDport pk = port)"
| "nft_matches (MDaddr ip None) pk = (pkDst pk = ip)"
| "nft_matches (MDaddr ip (Some n)) pk = in_prefix (pkDst pk) (ip, n)"
| "nft_matches MTcpUdp pk = (pkProto pk \<noteq> OtherProto)"

fun verdict :: "nft_rule list \<Rightarrow> packet \<Rightarrow> nft_verdict" where
  "verdict [] pk = Drop"
| "verdict ((m, v) # rs) pk = (if nft_matches m pk then v else verdict rs pk)"

lemma verdict_append:
  "verdict (rs @ rs') pk = (if list_ex (\<lambda>r. nft_matches (fst r) pk) rs then verdict rs pk else verdict rs' pk)"
  by (induction rs) auto

lemma verdict_accepting:
  "list_all (\<lambda>r. snd r = Accept) rs \<Longrightarrow> list_ex (\<lambda>r. nft_matches (fst r) pk) rs \<Longrightarrow> verdict rs pk = Accept"
  by (induction rs) auto

text \<open>The fixed lines of the chain as the source writes them.\<close>

lemma fixed_lines:
  "rule_text (MEstablished, Accept) = ''ct state established,related accept''"
  "rule_text (MUdpPorts [67, 68], Accept) = ''udp dport { 67, 68 } accept''"
  "rule_text (MUdpPorts [546], Accept) = ''udp dport 546 accept''"
  "rule_text (MDaddr [224, 0, 0, 0] (Some 4), Accept) = ''ip daddr 224.0.0.0/4 accept''"
  "rule_text (MDaddr [255, 255, 255, 255] None, Accept) = ''ip daddr 255.255.255.255 accept''"
  "rule_text (MDaddr (255 # replicate 15 0) (Some 8), Accept) = ''ip6 daddr ff00::/8 accept''"
  "rule_text (MTcpUdp, Reject) = ''meta l4proto { tcp, udp } reject''"
  by code_simp+

section \<open>What leaves a locked machine\<close>

definition is_dhcp :: "packet \<Rightarrow> bool" where
  "is_dhcp pk \<longleftrightarrow> pkProto pk = UDP \<and> pkDport pk \<in> {67, 68, 546}"

definition to_endpoint :: "policy \<Rightarrow> packet \<Rightarrow> bool" where
  "to_endpoint p pk \<longleftrightarrow> pkProto pk = UDP \<and>
     (\<exists>ep \<in> set (plEndpoints p). addr_valid (fst ep) \<and> pkDst pk = Unmap (fst ep) \<and> pkDport pk = snd ep)"

definition to_lan :: "policy \<Rightarrow> packet \<Rightarrow> bool" where
  "to_lan p pk \<longleftrightarrow>
     (\<exists>n \<in> set (plLocalNetworks p). prefix_valid n \<and> in_prefix (pkDst pk) n) \<or>
     in_prefix (pkDst pk) ([224, 0, 0, 0], 4) \<or> pkDst pk = [255, 255, 255, 255] \<or>
     in_prefix (pkDst pk) (255 # replicate 15 0, 8)"

definition permitted :: "policy \<Rightarrow> packet \<Rightarrow> bool" where
  "permitted p pk \<longleftrightarrow>
     pkEstablished pk \<or> pkOif pk = ''lo'' \<or> pkOif pk = plInterface p \<or> is_dhcp pk \<or> to_endpoint p pk \<or>
     AllowLAN p \<and> to_lan p pk"

lemma list_ex_map_filter: "list_ex P (map f (filter Q xs)) \<longleftrightarrow> (\<exists>x \<in> set xs. Q x \<and> P (f x))"
  by (auto simp: list_ex_iff)

lemma endpoint_rules_match:
  "list_ex (\<lambda>r. nft_matches (fst r) pk)
     (map endpoint_rule (filter (\<lambda>ep. length (Unmap (fst ep)) = 4) (filter (\<lambda>ep. addr_valid (fst ep)) (plEndpoints p))) @
      map endpoint_rule (filter (\<lambda>ep. length (Unmap (fst ep)) \<noteq> 4) (filter (\<lambda>ep. addr_valid (fst ep)) (plEndpoints p))))
   \<longleftrightarrow> to_endpoint p pk"
  unfolding list_ex_append list_ex_map_filter set_filter mem_Collect_eq to_endpoint_def endpoint_rule_def fst_conv
    nft_matches.simps by blast

lemma lan_rules_match:
  "list_ex (\<lambda>r. nft_matches (fst r) pk)
     (map lan_rule (filter prefix_valid (plLocalNetworks p)) @
      [(MDaddr [224, 0, 0, 0] (Some 4), Accept), (MDaddr [255, 255, 255, 255] None, Accept),
       (MDaddr (255 # replicate 15 0) (Some 8), Accept)])
   \<longleftrightarrow> to_lan p pk"
  unfolding list_ex_append list_ex_map_filter by (simp add: lan_rule_def to_lan_def)

lemma chain_rules_split:
  "\<exists>rs. chain_rules p = rs @ [(MTcpUdp, Reject)] \<and> list_all (\<lambda>r. snd r = Accept) rs \<and>
    (list_ex (\<lambda>r. nft_matches (fst r) pk) rs \<longleftrightarrow> permitted p pk)"
proof (intro exI conjI)
  let ?fixed = "[(MEstablished, Accept), (MOif ''lo'', Accept), (MOif (plInterface p), Accept),
    (MUdpPorts [67, 68], Accept), (MUdpPorts [546], Accept)]"
  let ?eps = "filter (\<lambda>ep. addr_valid (fst ep)) (plEndpoints p)"
  let ?ends = "map endpoint_rule (filter (\<lambda>ep. length (Unmap (fst ep)) = 4) ?eps) @
    map endpoint_rule (filter (\<lambda>ep. length (Unmap (fst ep)) \<noteq> 4) ?eps)"
  let ?lan = "map lan_rule (filter prefix_valid (plLocalNetworks p)) @
    [(MDaddr [224, 0, 0, 0] (Some 4), Accept), (MDaddr [255, 255, 255, 255] None, Accept),
     (MDaddr (255 # replicate 15 0) (Some 8), Accept)]"
  let ?rs = "?fixed @ ?ends @ (if AllowLAN p then ?lan else [])"
  show "chain_rules p = ?rs @ [(MTcpUdp, Reject)]" by (simp add: chain_rules_def Let_def)
  show "list_all (\<lambda>r. snd r = Accept) ?rs" by (auto simp: list_all_iff endpoint_rule_def lan_rule_def)
  have "list_ex (\<lambda>r. nft_matches (fst r) pk) ?fixed \<longleftrightarrow>
      pkEstablished pk \<or> pkOif pk = ''lo'' \<or> pkOif pk = plInterface p \<or> is_dhcp pk"
    by (auto simp: is_dhcp_def)
  then show "list_ex (\<lambda>r. nft_matches (fst r) pk) ?rs \<longleftrightarrow> permitted p pk"
    unfolding list_ex_append using endpoint_rules_match [of pk p] lan_rules_match [of pk p]
    unfolding list_ex_append permitted_def by (cases "AllowLAN p") simp_all
qed

lemma chain_verdict:
  "verdict (chain_rules p) pk =
     (if permitted p pk then Accept else if pkProto pk \<noteq> OtherProto then Reject else Drop)"
proof -
  obtain rs where rs: "chain_rules p = rs @ [(MTcpUdp, Reject)]" "list_all (\<lambda>r. snd r = Accept) rs"
    "list_ex (\<lambda>r. nft_matches (fst r) pk) rs \<longleftrightarrow> permitted p pk"
    using chain_rules_split by blast
  show ?thesis using verdict_accepting [OF rs(2)] rs(3) by (simp add: rs(1) verdict_append)
qed


text \<open>A UDP packet to a valid endpoint of the policy passes, on any interface, whether the endpoint is given as an
  IPv4, an IPv6 or an IPv4-mapped address: the lock can be left.\<close>

lemma transport_stays_reachable:
  assumes "(ip, port) \<in> set (plEndpoints p)" "addr_valid ip"
  shows "verdict (chain_rules p) \<lparr>pkOif = oif, pkEstablished = False, pkProto = UDP, pkDst = Unmap ip, pkDport = port\<rparr> = Accept"
proof -
  have "to_endpoint p \<lparr>pkOif = oif, pkEstablished = False, pkProto = UDP, pkDst = Unmap ip, pkDport = port\<rparr>"
    using assms by (force simp: to_endpoint_def)
  then show ?thesis by (simp add: chain_verdict permitted_def)
qed

text \<open>Without the LAN, nothing but DHCP and the transport leaves through a physical interface unless its flow is
  established.\<close>

lemma locked_down:
  assumes "\<not> AllowLAN p" "pkOif pk \<notin> {''lo'', plInterface p}" "\<not> pkEstablished pk" "verdict (chain_rules p) pk = Accept"
  shows "pkProto pk = UDP \<and> (pkDport pk \<in> {67, 68, 546} \<or>
    (\<exists>ep \<in> set (plEndpoints p). pkDst pk = Unmap (fst ep) \<and> pkDport pk = snd ep))"
  using assms by (auto simp: chain_verdict permitted_def is_dhcp_def to_endpoint_def split: if_splits)

text \<open>A successful \<open>Engage\<close> has loaded the rules of exactly this policy, as the last command.\<close>

lemma Engage_loads:
  assumes "Engage found p w = (None, w')"
  shows "\<exists>pre txt. wlog w' = pre @ [(NftLoad txt, True)] \<and>
    (\<exists>del. txt = del @ ''table inet '' @ tableName @ '' {'' @ newline @ buildChains p @ ''}'' @ newline)"
proof -
  let ?rs = "''table inet '' @ tableName @ '' {'' @ newline @ buildChains p @ ''}'' @ newline"
  let ?del = "''delete table inet '' @ tableName @ newline"
  have "wlog w' = wlog w @ [(NftLoad (?del @ ?rs), True)] \<or>
    wlog w' = (wlog w @ [(NftLoad (?del @ ?rs), False)]) @ [(NftLoad ?rs, True)]"
    using assms by (simp add: Engage_def exec_def Let_def split: if_splits option.splits) (auto split: option.splits)
  then show ?thesis by (elim disjE) (blast intro: append_Nil [symmetric])+
qed

end
