(* ===== verification/Spec2Isabelle.thy ===== *)
theory Spec2Isabelle
  imports Http_Properties Client_Tunnel_Properties Client_Kill_Switch
begin

text \<open>
  A verification development of NexusVPN.
\<close>

end
